(* ===== verification/Prelude.thy ===== *)
theory Prelude
  imports Main "HOL-Library.Word"
begin

text \<open>
  Shared material of the OxiTLS development: the machine types of the Rust
  sources, Rust's \<open>Result\<close>, slices, big-endian integers, the decimal and
  hexadecimal formatting used in messages, and the collections of rules that
  carry the component proofs.

  A \<open>usize\<close> that only counts bytes of a buffer in memory is a \<^typ>\<open>nat\<close>;
  integers whose width matters are words.
\<close>

section \<open>Types\<close>

type_synonym byte = "8 word"
type_synonym bytes = "8 word list"
type_synonym u16 = "16 word"
type_synonym u32 = "32 word"
type_synonym u64 = "64 word"

named_theorems result_simps \<open>rewriting of chained fallible steps\<close>
named_theorems codec_simps \<open>lengths and inverses of the byte encodings\<close>

section \<open>Rust's Result\<close>

datatype ('a, 'e) result = Ok 'a | Err 'e

text \<open>The \<open>?\<close> operator, \<open>map_err\<close>, \<open>ok()\<close>, \<open>is_ok\<close> and \<open>ok_or\<close>.\<close>

fun rbind :: "('a, 'e) result \<Rightarrow> ('a \<Rightarrow> ('b, 'e) result) \<Rightarrow> ('b, 'e) result" where
  "rbind (Ok a) f = f a"
| "rbind (Err e) f = Err e"

fun rmap_err :: "('e \<Rightarrow> 'f) \<Rightarrow> ('a, 'e) result \<Rightarrow> ('a, 'f) result" where
  "rmap_err g (Ok a) = Ok a"
| "rmap_err g (Err e) = Err (g e)"

fun rok :: "('a, 'e) result \<Rightarrow> 'a option" where
  "rok (Ok a) = Some a"
| "rok (Err e) = None"

fun is_ok :: "('a, 'e) result \<Rightarrow> bool" where
  "is_ok (Ok a) = True"
| "is_ok (Err e) = False"

fun ok_or :: "'a option \<Rightarrow> 'e \<Rightarrow> ('a, 'e) result" where
  "ok_or (Some a) e = Ok a"
| "ok_or None e = Err e"

lemma rbind_Ok_iff [result_simps]: "rbind r f = Ok b \<longleftrightarrow> (\<exists>a. r = Ok a \<and> f a = Ok b)"
  by (cases r) auto

lemma rbind_Err_iff [result_simps]:
  "rbind r f = Err e \<longleftrightarrow> r = Err e \<or> (\<exists>a. r = Ok a \<and> f a = Err e)"
  by (cases r) auto

lemma rmap_err_Ok_iff [result_simps]: "rmap_err g r = Ok a \<longleftrightarrow> r = Ok a"
  by (cases r) auto

lemma rmap_err_Err_iff [result_simps]: "rmap_err g r = Err e \<longleftrightarrow> (\<exists>x. r = Err x \<and> e = g x)"
  by (cases r) auto

lemma rok_Some_iff [result_simps]: "rok r = Some a \<longleftrightarrow> r = Ok a"
  by (cases r) auto

lemma rok_None_iff [result_simps]: "rok r = None \<longleftrightarrow> \<not> is_ok r"
  by (cases r) auto

lemma is_ok_iff [result_simps]: "is_ok r \<longleftrightarrow> (\<exists>a. r = Ok a)"
  by (cases r) auto

lemma ok_or_Ok_iff [result_simps]: "ok_or x e = Ok a \<longleftrightarrow> x = Some a"
  by (cases x) auto

lemma ok_or_Err_iff [result_simps]: "ok_or x e = Err d \<longleftrightarrow> x = None \<and> d = e"
  by (cases x) auto

section \<open>Slices\<close>

text \<open>\<open>&bs[i..j]\<close>. Every use is guarded by \<open>i \<le> j \<and> j \<le> length bs\<close>, as in the source.\<close>

definition slice :: "'a list \<Rightarrow> nat \<Rightarrow> nat \<Rightarrow> 'a list" where
  "slice bs i j = take (j - i) (drop i bs)"

lemma length_slice [simp]: "length (slice bs i j) = min (j - i) (length bs - i)"
  by (simp add: slice_def)

lemma slice_append_mid [simp]:
  "i = length xs \<Longrightarrow> j = length xs + length ys \<Longrightarrow> slice (xs @ ys @ zs) i j = ys"
  by (simp add: slice_def)

lemma nth_drop_hd: "i < length bs \<Longrightarrow> hd (drop i bs) = bs ! i"
  by (rule hd_drop_conv_nth)

section \<open>Big-endian integers\<close>

text \<open>\<open>to_be_bytes\<close> of a \<open>k\<close>-byte integer, and \<open>from_be_bytes\<close>.\<close>

fun be_encode :: "nat \<Rightarrow> nat \<Rightarrow> bytes" where
  "be_encode 0 n = []"
| "be_encode (Suc k) n = be_encode k (n div 256) @ [of_nat n]"

definition be_decode :: "bytes \<Rightarrow> nat" where
  "be_decode bs = foldl (\<lambda>n b. n * 256 + unat b) 0 bs"

lemma be_decode_Nil [simp]: "be_decode [] = 0"
  by (simp add: be_decode_def)

lemma be_decode_snoc [simp]: "be_decode (bs @ [b]) = be_decode bs * 256 + unat b"
  by (simp add: be_decode_def)

lemma unat_byte_less [simp]: "unat (b :: byte) < 256"
  using unsigned_less [of b] by simp

lemma unat_of_nat_byte [simp]: "unat (of_nat n :: byte) = n mod 256"
  by (simp add: unat_of_nat)

lemma length_be_encode [simp, codec_simps]: "length (be_encode k n) = k"
  by (induction k arbitrary: n) auto

lemma be_decode_less: "be_decode bs < 256 ^ length bs"
proof (induction bs rule: rev_induct)
  case Nil
  then show ?case by simp
next
  case (snoc b bs)
  have "be_decode bs + 1 \<le> 256 ^ length bs" using snoc by simp
  then have "(be_decode bs + 1) * 256 \<le> 256 ^ length bs * 256"
    by (rule mult_le_mono1)
  then have "be_decode bs * 256 + 256 \<le> 256 ^ length (bs @ [b])"
    by simp
  moreover have "unat b < 256" by simp
  ultimately show ?case
    unfolding be_decode_snoc by linarith
qed

lemma be_decode_encode [codec_simps]: "be_decode (be_encode k n) = n mod 256 ^ k"
proof (induction k arbitrary: n)
  case 0
  then show ?case by simp
next
  case (Suc k)
  have "n mod (256 * 256 ^ k) = 256 * (n div 256 mod 256 ^ k) + n mod 256"
    by (rule mod_mult2_eq)
  with Suc show ?case
    by (simp add: mult.commute)
qed

lemma be_encode_decode [codec_simps]: "be_encode (length bs) (be_decode bs) = bs"
proof (induction bs rule: rev_induct)
  case Nil
  then show ?case by simp
next
  case (snoc b bs)
  have "(be_decode bs * 256 + unat b) div 256 = be_decode bs"
    using unat_byte_less [of b] by simp
  moreover have "(of_nat (be_decode bs * 256 + unat b) :: byte) = b"
    by (simp add: word_unat_eq_iff unat_of_nat_byte del: of_nat_add of_nat_mult)
  ultimately show ?case using snoc by simp
qed

lemma be_decode_inj: "length xs = length ys \<Longrightarrow> be_decode xs = be_decode ys \<Longrightarrow> xs = ys"
  by (metis be_encode_decode)

lemma be_encode_inj:
  "be_encode k m = be_encode k n \<Longrightarrow> m < 256 ^ k \<Longrightarrow> n < 256 ^ k \<Longrightarrow> m = n"
  by (metis be_decode_encode mod_less)

text \<open>\<open>u16::from_be_bytes([a, b]) as usize\<close>.\<close>

definition be16 :: "byte \<Rightarrow> byte \<Rightarrow> nat" where
  "be16 a b = unat a * 256 + unat b"

lemma be16_decode: "be16 a b = be_decode [a, b]"
  by (simp add: be16_def be_decode_def)

lemma be16_less [simp]: "be16 a b < 65536"
  using be_decode_less [of "[a, b]"] by (simp add: be16_decode)

lemma be_encode_2: "be_encode 2 n = [of_nat (n div 256), of_nat n]"
  by (simp add: numeral_2_eq_2)

lemma be16_be_encode: "be16 (of_nat (n div 256)) (of_nat n) = n mod 65536"
  using be_decode_encode [of 2 n] by (simp add: be16_decode be_encode_2)

lemma be_encode_3: "be_encode 3 n = [of_nat (n div 65536), of_nat (n div 256), of_nat n]"
  by (simp add: numeral_3_eq_3 div_mult2_eq [symmetric])

lemma of_nat_mod_byte [simp]: "(of_nat (n mod 256) :: byte) = of_nat n"
  by (simp add: word_unat_eq_iff)

lemma slice_middle: "i = length xs \<Longrightarrow> bs = xs @ ys @ zs \<Longrightarrow> j = i + length ys \<Longrightarrow> slice bs i j = ys"
  by (simp add: slice_def)

lemma be_encode_mod [simp]: "be_encode k (n mod 256 ^ k) = be_encode k n"
  by (rule be_decode_inj) (simp_all add: be_decode_encode)

lemma be_encode_mod_16: "be_encode 2 (n mod 65536) = be_encode 2 n"
  using be_encode_mod [of 2 n] by simp

text \<open>A length prefix of \<open>k\<close> bytes makes a concatenation uniquely readable.\<close>

lemma framed_append_inj:
  assumes "be_encode k (length xs) @ xs @ ys = be_encode k (length xs') @ xs' @ ys'"
    and "length xs < 256 ^ k" "length xs' < 256 ^ k"
  shows "xs = xs' \<and> ys = ys'"
proof -
  have "be_encode k (length xs) = be_encode k (length xs')" and rest: "xs @ ys = xs' @ ys'"
    using assms(1) by simp_all
  then have "length xs = length xs'"
    using assms(2,3) by (blast intro: be_encode_inj)
  with rest show ?thesis by simp
qed

text \<open>\<open>u64::to_be_bytes\<close> and \<open>u64::from_be_bytes\<close>.\<close>

definition u64_to_be :: "u64 \<Rightarrow> bytes" where
  "u64_to_be w = be_encode 8 (unat w)"

definition u64_from_be :: "bytes \<Rightarrow> u64" where
  "u64_from_be bs = of_nat (be_decode bs)"

lemma length_u64_to_be [simp, codec_simps]: "length (u64_to_be w) = 8"
  by (simp add: u64_to_be_def)

lemma u64_from_to_be [simp, codec_simps]: "u64_from_be (u64_to_be w) = w"
proof -
  have "unat w < 2 ^ 64" using unsigned_less [of w] by simp
  then show ?thesis
    by (simp add: u64_from_be_def u64_to_be_def be_decode_encode)
qed

lemma u64_to_be_inj [simp]: "u64_to_be a = u64_to_be b \<longleftrightarrow> a = b"
  by (metis u64_from_to_be)

section \<open>Calls that may not return\<close>

text \<open>A function that loops until the random generator gives a usable value may not return: its result is
  then \<open>None\<close>.\<close>

fun dbind :: "('a, 'e) result option \<Rightarrow> ('a \<Rightarrow> ('b, 'e) result option) \<Rightarrow> ('b, 'e) result option" where
  "dbind None f = None"
| "dbind (Some (Err e)) f = Some (Err e)"
| "dbind (Some (Ok a)) f = f a"

lemma dbind_Ok_iff [result_simps]:
  "dbind r f = Some (Ok b) \<longleftrightarrow> (\<exists>a. r = Some (Ok a) \<and> f a = Some (Ok b))"
  by (cases "(r, f)" rule: dbind.cases) auto

lemma dbind_Some_iff: "dbind r f = Some y \<Longrightarrow> \<exists>x. r = Some x"
  by (cases "(r, f)" rule: dbind.cases) auto

text \<open>The i-th call of \<open>getrandom::fill\<close>.\<close>

type_synonym draws = "nat \<Rightarrow> (bytes, string) result"

text \<open>\<open>as_bytes\<close> of a string.\<close>

definition ascii :: "string \<Rightarrow> bytes" where
  "ascii s = map of_char s"

lemma length_ascii [simp]: "length (ascii s) = length s"
  by (simp add: ascii_def)

section \<open>Formatting of numbers in messages\<close>

text \<open>Rust's \<open>{n}\<close> of an unsigned integer.\<close>

fun show_nat :: "nat \<Rightarrow> string" where
  "show_nat n =
     (if n < 10 then [char_of (48 + n)] else show_nat (n div 10) @ [char_of (48 + n mod 10)])"

declare show_nat.simps [simp del]

text \<open>\<open>{b:02x}\<close> of a byte.\<close>

definition hex_digit_lower :: "nat \<Rightarrow> char" where
  "hex_digit_lower d = (if d < 10 then char_of (48 + d) else char_of (87 + d))"

definition hex2 :: "byte \<Rightarrow> string" where
  "hex2 b = [hex_digit_lower (unat b div 16), hex_digit_lower (unat b mod 16)]"

lemma length_hex2 [simp]: "length (hex2 b) = 2"
  by (simp add: hex2_def)

section \<open>Saturating arithmetic\<close>

text \<open>\<open>a.saturating_sub(b)\<close> on words.\<close>

definition saturating_sub :: "'a::len word \<Rightarrow> 'a word \<Rightarrow> 'a word" where
  "saturating_sub a b = (if a < b then 0 else a - b)"

lemma unat_saturating_sub [simp]: "unat (saturating_sub a b) = unat a - unat b"
  by (simp add: saturating_sub_def unat_sub_if' word_less_nat_alt)

section \<open>Lists\<close>

lemma append_eq_prefix:
  "length xs = length xs' \<Longrightarrow> xs @ ys = xs' @ ys' \<Longrightarrow> xs = xs' \<and> ys = ys'"
  by simp

lemma find_Some_iff_in: "find P xs = Some x \<Longrightarrow> P x \<and> x \<in> set xs"
  by (induction xs) (auto split: if_splits)

end
