(* ===== verification/External.thy ===== *)
theory External
  imports Prelude
begin

text \<open>
  The third-party crates the verifiers call (x509-parser, x509-cert, x509-ocsp,
  spki, sha1, sha2, rsa, p256, p384, ed25519-dalek). Their code is not part of the
  repository, so every function of theirs is a field of the record \<open>ext_lib\<close>,
  which the definitions of the components take as an argument. The data the
  crates hand back is given by the records below, with the fields the sources
  read. A decoded key or signature is represented by bytes chosen by the decoder.
  Errors of the crates are their rendered message.
\<close>

section \<open>Data of the X.509 and OCSP crates\<close>

record eku_syntax =
  eku_any :: bool
  eku_ocsp_signing :: bool
  eku_other :: "string list"

text \<open>An extension as x509-parser gives it; \<open>xe_eku\<close> is the
  \<open>ParsedExtension::ExtendedKeyUsage\<close> view.\<close>

record xp_extension =
  xe_oid :: string
  xe_value :: bytes
  xe_eku :: "eku_syntax option"

record xp_certificate =
  xc_spki_raw :: bytes
  xc_extensions :: "xp_extension list"

text \<open>A certificate as x509-cert gives it.\<close>

record x509_extension =
  extn_id :: string
  extn_value :: bytes

record spki_info =
  spki_algorithm :: bytes
  subject_public_key :: bytes

record tbs_certificate =
  serial_number :: bytes
  cert_issuer :: bytes
  cert_subject :: bytes
  subject_public_key_info :: spki_info
  tbs_extensions :: "x509_extension list option"

record x509_certificate =
  tbs :: tbs_certificate
  cert_signature_algorithm :: string
  cert_signature :: bytes

datatype ocsp_response_status = Successful | NotSuccessful nat

datatype responder_id = ByName bytes | ByKey bytes

datatype cert_status = CertGood | CertRevoked | CertUnknown

record cert_id =
  ci_hash_algorithm :: string
  ci_issuer_name_hash :: bytes
  ci_issuer_key_hash :: bytes
  ci_serial_number :: bytes

record single_response =
  sr_cert_id :: cert_id
  sr_cert_status :: cert_status
  this_update :: u64
  next_update :: "u64 option"

record response_data =
  rd_responder_id :: responder_id
  rd_responses :: "single_response list"

record basic_ocsp_response =
  tbs_response_data :: response_data
  bor_signature_algorithm :: string
  bor_signature :: bytes
  bor_certs :: "x509_certificate list option"

record ocsp_envelope =
  response_status :: ocsp_response_status
  response_bytes :: "bytes option"

section \<open>The functions of the crates\<close>

record ext_lib =
  xp_from_der :: "bytes \<Rightarrow> (xp_certificate, string) result"
  cert_from_der :: "bytes \<Rightarrow> (x509_certificate, string) result"
  cert_encode :: "x509_certificate \<Rightarrow> (bytes, string) result"
  tbs_encode :: "tbs_certificate \<Rightarrow> (bytes, string) result"
  name_encode :: "bytes \<Rightarrow> (bytes, string) result"
  spki_encode :: "spki_info \<Rightarrow> (bytes, string) result"
  ocsp_from_der :: "bytes \<Rightarrow> (ocsp_envelope, string) result"
  basic_from_der :: "bytes \<Rightarrow> (basic_ocsp_response, string) result"
  response_data_encode :: "response_data \<Rightarrow> (bytes, string) result"
  sha1 :: "bytes \<Rightarrow> bytes"
  sha256 :: "bytes \<Rightarrow> bytes"
  sha384 :: "bytes \<Rightarrow> bytes"
  sha512 :: "bytes \<Rightarrow> bytes"
  spki_ref :: "bytes \<Rightarrow> (bytes, string) result"
  p256_from_sec1 :: "bytes \<Rightarrow> (bytes, string) result"
  p256_sig_from_der :: "bytes \<Rightarrow> (bytes, string) result"
  p256_verify :: "bytes \<Rightarrow> bytes \<Rightarrow> bytes \<Rightarrow> bool"
  p384_from_sec1 :: "bytes \<Rightarrow> (bytes, string) result"
  p384_sig_from_der :: "bytes \<Rightarrow> (bytes, string) result"
  p384_verify :: "bytes \<Rightarrow> bytes \<Rightarrow> bytes \<Rightarrow> bool"
  ed25519_from_bytes :: "bytes \<Rightarrow> (bytes, string) result"
  ed25519_sig_from_slice :: "bytes \<Rightarrow> (bytes, string) result"
  ed25519_verify_strict :: "bytes \<Rightarrow> bytes \<Rightarrow> bytes \<Rightarrow> bool"
  rsa_pkcs1_from_der :: "bytes \<Rightarrow> (bytes \<times> bytes, string) result"
  rsa_public_key_new :: "bytes \<Rightarrow> bytes \<Rightarrow> (bytes, string) result"
  rsa_sig_from_bytes :: "bytes \<Rightarrow> (bytes, string) result"
  rsa_pkcs1_sha256_verify :: "bytes \<Rightarrow> bytes \<Rightarrow> bytes \<Rightarrow> bool"

section \<open>A concrete instance\<close>

text \<open>A crate interface in which no certificate parses and every signature verifies: the base of the concrete instances in the witnesses.\<close>

definition lib_no_certs :: ext_lib where
  "lib_no_certs =
     \<lparr> xp_from_der = (\<lambda>_. Err ''bad''), cert_from_der = (\<lambda>_. Err ''bad''),
       cert_encode = (\<lambda>_. Err ''bad''), tbs_encode = (\<lambda>_. Err ''bad''), name_encode = Ok,
       spki_encode = (\<lambda>k. Ok (subject_public_key k)), ocsp_from_der = (\<lambda>_. Err ''bad''),
       basic_from_der = (\<lambda>_. Err ''bad''), response_data_encode = (\<lambda>_. Err ''bad''),
       sha1 = id, sha256 = id, sha384 = id, sha512 = id, spki_ref = Ok,
       p256_from_sec1 = Ok, p256_sig_from_der = Ok, p256_verify = (\<lambda>_ _ _. True),
       p384_from_sec1 = Ok, p384_sig_from_der = Ok, p384_verify = (\<lambda>_ _ _. True),
       ed25519_from_bytes = Ok, ed25519_sig_from_slice = Ok, ed25519_verify_strict = (\<lambda>_ _ _. True),
       rsa_pkcs1_from_der = (\<lambda>b. Ok (b, b)), rsa_public_key_new = (\<lambda>n e. Ok n),
       rsa_sig_from_bytes = Ok, rsa_pkcs1_sha256_verify = (\<lambda>_ _ _. True) \<rparr>"

end
