(* ===== verification/Verifier.thy ===== *)
theory Verifier
  imports External
begin

text \<open>
  The \<open>ServerCertVerifier\<close> trait of rustls as a record of its methods, the
  verifiers that only wrap an inner one (\<open>verifier/pin.rs\<close>,
  \<open>verifier/custom.rs\<close>, \<open>verifier/crl.rs\<close>), the hostname-ignoring verifier of
  \<open>oxitls/src/danger.rs\<close> and the raw-public-key verifiers of
  \<open>verifier/raw_public_key.rs\<close>. The locale \<open>verifier_layer\<close> states what every
  wrapper promises: it may reject more than the inner verifier and never less.
\<close>

section \<open>The trait\<close>

text \<open>The errors of rustls the sources build or inspect; the others by a name.\<close>

datatype certificate_error =
    Revoked
  | ApplicationVerificationFailure
  | NotValidForName
  | NotValidForNameContext string
  | OtherCertificateError string

datatype rustls_error =
    InvalidCertificate certificate_error
  | General string
  | PeerIncompatibleTls12NotOffered
  | OtherRustlsError string

record verify_args =
  end_entity :: bytes
  intermediates :: "bytes list"
  server_name :: string
  ocsp_response :: bytes
  now :: u64

record digitally_signed_struct =
  dss_scheme :: u16
  dss_sig :: bytes

record server_cert_verifier =
  verify_server_cert :: "verify_args \<Rightarrow> (unit, rustls_error) result"
  verify_tls12_signature :: "bytes \<Rightarrow> bytes \<Rightarrow> digitally_signed_struct \<Rightarrow> (unit, rustls_error) result"
  verify_tls13_signature :: "bytes \<Rightarrow> bytes \<Rightarrow> digitally_signed_struct \<Rightarrow> (unit, rustls_error) result"
  supported_verify_schemes :: "u16 list"

section \<open>Wrapping verifiers\<close>

text \<open>\<open>CertPinVerifier\<close>: the SHA-256 of the leaf must be pinned.\<close>

definition cert_pin_verify ::
    "ext_lib \<Rightarrow> bytes list \<Rightarrow> server_cert_verifier \<Rightarrow> verify_args \<Rightarrow> (unit, rustls_error) result" where
  "cert_pin_verify L pinned inner a =
     (let fingerprint = sha256 L (end_entity a) in
      if fingerprint \<notin> set pinned
      then Err (InvalidCertificate ApplicationVerificationFailure)
      else verify_server_cert inner a)"

definition cert_pin_verifier :: "ext_lib \<times> bytes list \<Rightarrow> server_cert_verifier \<Rightarrow> server_cert_verifier" where
  "cert_pin_verifier c inner =
     \<lparr> verify_server_cert = cert_pin_verify (fst c) (snd c) inner,
       verify_tls12_signature = verify_tls12_signature inner,
       verify_tls13_signature = verify_tls13_signature inner,
       supported_verify_schemes = supported_verify_schemes inner \<rparr>"

text \<open>\<open>CustomServerVerifier\<close>: a caller predicate after the inner verifier.\<close>

definition custom_verify ::
    "(bytes \<Rightarrow> bytes list \<Rightarrow> (unit, rustls_error) result) \<Rightarrow> server_cert_verifier \<Rightarrow> verify_args
      \<Rightarrow> (unit, rustls_error) result" where
  "custom_verify predicate inner a =
     rbind (verify_server_cert inner a) (\<lambda>_. predicate (end_entity a) (intermediates a))"

definition custom_verifier ::
    "(bytes \<Rightarrow> bytes list \<Rightarrow> (unit, rustls_error) result) \<Rightarrow> server_cert_verifier \<Rightarrow> server_cert_verifier" where
  "custom_verifier predicate inner =
     \<lparr> verify_server_cert = custom_verify predicate inner,
       verify_tls12_signature = verify_tls12_signature inner,
       verify_tls13_signature = verify_tls13_signature inner,
       supported_verify_schemes = supported_verify_schemes inner \<rparr>"

text \<open>\<open>CrlAwareServerVerifier\<close> forwards every call to the web-PKI verifier that was
  built with the CRLs.\<close>

definition crl_verifier :: "unit \<Rightarrow> server_cert_verifier \<Rightarrow> server_cert_verifier" where
  "crl_verifier c inner =
     \<lparr> verify_server_cert = verify_server_cert inner,
       verify_tls12_signature = verify_tls12_signature inner,
       verify_tls13_signature = verify_tls13_signature inner,
       supported_verify_schemes = supported_verify_schemes inner \<rparr>"

section \<open>The hostname-ignoring verifier\<close>

definition danger_hostname_ignore_verify ::
    "server_cert_verifier \<Rightarrow> verify_args \<Rightarrow> (unit, rustls_error) result" where
  "danger_hostname_ignore_verify inner a =
     (case verify_server_cert inner a of
        Ok v \<Rightarrow> Ok v
      | Err (InvalidCertificate NotValidForName) \<Rightarrow> Ok ()
      | Err (InvalidCertificate (NotValidForNameContext _)) \<Rightarrow> Ok ()
      | Err other \<Rightarrow> Err other)"

definition danger_hostname_ignore_verifier :: "server_cert_verifier \<Rightarrow> server_cert_verifier" where
  "danger_hostname_ignore_verifier inner =
     \<lparr> verify_server_cert = danger_hostname_ignore_verify inner,
       verify_tls12_signature = verify_tls12_signature inner,
       verify_tls13_signature = verify_tls13_signature inner,
       supported_verify_schemes = supported_verify_schemes inner \<rparr>"

section \<open>Raw public keys\<close>

text \<open>\<open>verify_raw\<close> is rustls' \<open>verify_tls13_signature_with_raw_key\<close> over the
  provider's algorithms and \<open>schemes\<close> their list.\<close>

definition rpk_match :: "bytes list \<Rightarrow> bytes \<Rightarrow> (unit, rustls_error) result" where
  "rpk_match trusted_spki presented =
     (if list_ex (\<lambda>pin. pin = presented) trusted_spki then Ok ()
      else Err (InvalidCertificate ApplicationVerificationFailure))"

definition raw_public_key_server_verifier ::
    "bytes list \<Rightarrow> (bytes \<Rightarrow> bytes \<Rightarrow> digitally_signed_struct \<Rightarrow> (unit, rustls_error) result) \<Rightarrow> u16 list
      \<Rightarrow> server_cert_verifier" where
  "raw_public_key_server_verifier trusted_spki verify_raw schemes =
     \<lparr> verify_server_cert = (\<lambda>a. rpk_match trusted_spki (end_entity a)),
       verify_tls12_signature = (\<lambda>_ _ _. Err PeerIncompatibleTls12NotOffered),
       verify_tls13_signature = verify_raw,
       supported_verify_schemes = schemes \<rparr>"

record client_cert_verifier =
  offer_client_auth :: bool
  client_auth_mandatory :: bool
  root_hint_subjects :: "bytes list"
  verify_client_cert :: "bytes \<Rightarrow> bytes list \<Rightarrow> u64 \<Rightarrow> (unit, rustls_error) result"
  verify_client_tls12 :: "bytes \<Rightarrow> bytes \<Rightarrow> digitally_signed_struct \<Rightarrow> (unit, rustls_error) result"
  verify_client_tls13 :: "bytes \<Rightarrow> bytes \<Rightarrow> digitally_signed_struct \<Rightarrow> (unit, rustls_error) result"
  client_schemes :: "u16 list"

definition raw_public_key_client_verifier ::
    "bytes list \<Rightarrow> (bytes \<Rightarrow> bytes \<Rightarrow> digitally_signed_struct \<Rightarrow> (unit, rustls_error) result) \<Rightarrow> u16 list
      \<Rightarrow> client_cert_verifier" where
  "raw_public_key_client_verifier trusted_spki verify_raw schemes =
     \<lparr> offer_client_auth = True,
       client_auth_mandatory = True,
       root_hint_subjects = [],
       verify_client_cert = (\<lambda>ee _ _. rpk_match trusted_spki ee),
       verify_client_tls12 = (\<lambda>_ _ _. Err PeerIncompatibleTls12NotOffered),
       verify_client_tls13 = verify_raw,
       client_schemes = schemes \<rparr>"

section \<open>The contract of a wrapping verifier\<close>

locale verifier_layer =
  fixes layer :: "'c \<Rightarrow> server_cert_verifier \<Rightarrow> server_cert_verifier"
  assumes accepts_only_if_inner:
      "verify_server_cert (layer c inner) a = Ok () \<Longrightarrow> verify_server_cert inner a = Ok ()"
    and same_tls12: "verify_tls12_signature (layer c inner) = verify_tls12_signature inner"
    and same_tls13: "verify_tls13_signature (layer c inner) = verify_tls13_signature inner"
    and same_schemes: "supported_verify_schemes (layer c inner) = supported_verify_schemes inner"
begin

text \<open>Any number of configurations stacked on one verifier.\<close>

lemma stack_accepts:
  "verify_server_cert (foldr layer cs inner) a = Ok () \<Longrightarrow> verify_server_cert inner a = Ok ()"
  by (induction cs) (auto dest: accepts_only_if_inner)

lemma rejects:
  assumes "verify_server_cert inner a = Err e"
  shows "\<exists>e'. verify_server_cert (layer c inner) a = Err e'"
  using assms accepts_only_if_inner [of c inner a]
  by (cases "verify_server_cert (layer c inner) a") auto

end

text \<open>Two layers composed form a layer.\<close>

locale verifier_layers =
  outer_layer: verifier_layer outer + inner_layer: verifier_layer inner
  for outer :: "'c \<Rightarrow> server_cert_verifier \<Rightarrow> server_cert_verifier"
    and inner :: "'d \<Rightarrow> server_cert_verifier \<Rightarrow> server_cert_verifier"
begin

lemma composed_accepts:
  "verify_server_cert (outer c (inner d v)) a = Ok () \<Longrightarrow> verify_server_cert v a = Ok ()"
  by (blast dest: outer_layer.accepts_only_if_inner inner_layer.accepts_only_if_inner)

lemma composed_same:
  "verify_tls12_signature (outer c (inner d v)) = verify_tls12_signature v"
  "verify_tls13_signature (outer c (inner d v)) = verify_tls13_signature v"
  "supported_verify_schemes (outer c (inner d v)) = supported_verify_schemes v"
  by (simp_all add: outer_layer.same_tls12 outer_layer.same_tls13 outer_layer.same_schemes
      inner_layer.same_tls12 inner_layer.same_tls13 inner_layer.same_schemes)

end

sublocale verifier_layers \<subseteq> composed: verifier_layer "\<lambda>p v. outer (fst p) (inner (snd p) v)"
  by unfold_locales (auto simp: composed_same dest: composed_accepts)

interpretation pin: verifier_layer cert_pin_verifier
  by unfold_locales (auto simp: cert_pin_verifier_def cert_pin_verify_def Let_def split: if_splits)

interpretation custom: verifier_layer custom_verifier
  by unfold_locales (auto simp: custom_verifier_def custom_verify_def rbind_Ok_iff)

interpretation crl: verifier_layer crl_verifier
  by unfold_locales (auto simp: crl_verifier_def)

section \<open>What each verifier accepts\<close>

lemma cert_pin_accepts_iff:
  "verify_server_cert (cert_pin_verifier (L, pins) inner) a = Ok () \<longleftrightarrow>
     sha256 L (end_entity a) \<in> set pins \<and> verify_server_cert inner a = Ok ()"
  by (simp add: cert_pin_verifier_def cert_pin_verify_def Let_def)

lemma custom_accepts_iff:
  "verify_server_cert (custom_verifier P inner) a = Ok () \<longleftrightarrow>
     verify_server_cert inner a = Ok () \<and> P (end_entity a) (intermediates a) = Ok ()"
  by (auto simp: custom_verifier_def custom_verify_def rbind_Ok_iff)

lemma rpk_match_iff: "rpk_match trusted s = Ok () \<longleftrightarrow> s \<in> set trusted"
  by (auto simp: rpk_match_def list_ex_iff)

end
