(* ===== verification/Hpke_Kem.thy ===== *)
theory Hpke_Kem
  imports Verifier
begin

text \<open>
  The key derivation and the two key encapsulation mechanisms of the HPKE module of
  \<open>oxitls-adapter-rustls-rustcrypto\<close> (\<open>hpke/kdf.rs\<close>, \<open>hpke/kem.rs\<close>) and its AEAD suites (\<open>hpke/aead.rs\<close>).
  HKDF, the curves and the ciphers are crates of their own: the record \<open>hpke_lib\<close> holds their functions and
  \<open>hpke_lib_ok\<close> what their documentation promises. The traits \<open>DhKem\<close> and \<open>AeadSuite\<close> are records of their
  constants and functions; the locales \<open>dh_kem_contract\<close> and \<open>aead_suite_contract\<close> are what the HPKE
  contexts rely on, interpreted for both implementations of each trait.

  The P-256 key generation loops until a draw of randomness is a valid scalar, so it may not return:
  results of functions that call it are \<open>None\<close> when the loop does not end.
\<close>

section \<open>The crates\<close>

text \<open>Keys of the curve crates are represented by bytes chosen by the crate.\<close>

record hpke_lib =
  hkdf_extract :: "bytes \<Rightarrow> bytes \<Rightarrow> bytes"
  hkdf_from_prk :: "bytes \<Rightarrow> bool"
  hkdf_expand :: "bytes \<Rightarrow> bytes \<Rightarrow> nat \<Rightarrow> bytes option"
  x25519_public :: "bytes \<Rightarrow> bytes"
  x25519_dh :: "bytes \<Rightarrow> bytes \<Rightarrow> bytes"
  x25519_contributory :: "bytes \<Rightarrow> bool"
  p256_pk_from_sec1 :: "bytes \<Rightarrow> bytes option"
  p256_sk_from_slice :: "bytes \<Rightarrow> bytes option"
  p256_sk_to_bytes :: "bytes \<Rightarrow> bytes"
  p256_public_key :: "bytes \<Rightarrow> bytes"
  p256_uncompressed :: "bytes \<Rightarrow> bytes"
  p256_dh :: "bytes \<Rightarrow> bytes \<Rightarrow> bytes"
  aes128gcm_new :: "bytes \<Rightarrow> bool"
  aes128gcm_encrypt :: "bytes \<Rightarrow> bytes \<Rightarrow> bytes \<Rightarrow> bytes \<Rightarrow> bytes option"
  aes128gcm_decrypt :: "bytes \<Rightarrow> bytes \<Rightarrow> bytes \<Rightarrow> bytes \<Rightarrow> bytes option"
  chacha_new :: "bytes \<Rightarrow> bool"
  chacha_encrypt :: "bytes \<Rightarrow> bytes \<Rightarrow> bytes \<Rightarrow> bytes \<Rightarrow> bytes option"
  chacha_decrypt :: "bytes \<Rightarrow> bytes \<Rightarrow> bytes \<Rightarrow> bytes \<Rightarrow> bytes option"

text \<open>HKDF-SHA256: a PRK has 32 bytes, keys of at least 32 bytes are accepted, and up to 255 blocks of 32
  bytes can be expanded into a buffer of the requested length.\<close>

definition hkdf_ok :: "hpke_lib \<Rightarrow> bool" where
  "hkdf_ok L \<longleftrightarrow>
     (\<forall>salt ikm. length (hkdf_extract L salt ikm) = 32) \<and>
     (\<forall>prk. hkdf_from_prk L prk \<longleftrightarrow> 32 \<le> length prk) \<and>
     (\<forall>prk i l. hkdf_from_prk L prk \<longrightarrow> l \<le> 255 * 32 \<longrightarrow> (\<exists>okm. hkdf_expand L prk i l = Some okm \<and> length okm = l))"

text \<open>X25519: public keys have 32 bytes and both sides of an exchange compute the same secret.\<close>

definition x25519_ok :: "hpke_lib \<Rightarrow> bool" where
  "x25519_ok L \<longleftrightarrow>
     (\<forall>sk. length (x25519_public L sk) = 32) \<and>
     (\<forall>a b. x25519_dh L a (x25519_public L b) = x25519_dh L b (x25519_public L a))"

text \<open>P-256: the same, and the serialisations of public and secret keys are read back; a serialised
  uncompressed point has 65 bytes.\<close>

definition p256_ok :: "hpke_lib \<Rightarrow> bool" where
  "p256_ok L \<longleftrightarrow>
     (\<forall>sk. p256_pk_from_sec1 L (p256_uncompressed L (p256_public_key L sk)) = Some (p256_public_key L sk)) \<and>
     (\<forall>sk. length (p256_uncompressed L (p256_public_key L sk)) = 65) \<and>
     (\<forall>sk b. p256_sk_from_slice L b = Some sk \<longrightarrow> p256_sk_from_slice L (p256_sk_to_bytes L sk) = Some sk) \<and>
     (\<forall>a b. p256_dh L a (p256_public_key L b) = p256_dh L b (p256_public_key L a))"

text \<open>The ciphers: keys of 16 or 32 bytes are accepted; decryption inverts encryption.\<close>

definition aead_crates_ok :: "hpke_lib \<Rightarrow> bool" where
  "aead_crates_ok L \<longleftrightarrow>
     (\<forall>k. aes128gcm_new L k \<longleftrightarrow> length k = 16) \<and>
     (\<forall>k n aad pt ct. aes128gcm_encrypt L k n aad pt = Some ct \<longrightarrow> aes128gcm_decrypt L k n aad ct = Some pt) \<and>
     (\<forall>k. chacha_new L k \<longleftrightarrow> length k = 32) \<and>
     (\<forall>k n aad pt ct. chacha_encrypt L k n aad pt = Some ct \<longrightarrow> chacha_decrypt L k n aad ct = Some pt)"

definition hpke_lib_ok :: "hpke_lib \<Rightarrow> bool" where
  "hpke_lib_ok L \<longleftrightarrow> hkdf_ok L \<and> x25519_ok L \<and> p256_ok L \<and> aead_crates_ok L"

section \<open>Key derivation\<close>

definition HPKE_V1 :: bytes where
  "HPKE_V1 = ascii ''HPKE-v1''"

definition i2osp2 :: "u16 \<Rightarrow> bytes" where
  "i2osp2 n = be_encode 2 (unat n)"

definition labeled_extract :: "hpke_lib \<Rightarrow> bytes \<Rightarrow> bytes \<Rightarrow> bytes \<Rightarrow> bytes \<Rightarrow> bytes" where
  "labeled_extract L suite_id salt label ikm = hkdf_extract L salt (HPKE_V1 @ suite_id @ label @ ikm)"

definition MAX_L :: nat where
  "MAX_L = 255 * 32"

definition labeled_info :: "u16 \<Rightarrow> bytes \<Rightarrow> bytes \<Rightarrow> bytes \<Rightarrow> bytes" where
  "labeled_info l suite_id label info = i2osp2 l @ HPKE_V1 @ suite_id @ label @ info"

definition labeled_expand_checked ::
    "hpke_lib \<Rightarrow> bytes \<Rightarrow> bytes \<Rightarrow> bytes \<Rightarrow> bytes \<Rightarrow> nat \<Rightarrow> (bytes, rustls_error) result" where
  "labeled_expand_checked L suite_id prk label info l =
     (if l > MAX_L then
        Err (General (''HPKE Export: requested length '' @ show_nat l @ '' exceeds maximum '' @ show_nat MAX_L @ '' bytes''))
      else if l \<ge> 2 ^ 16 then Err (General ''HPKE Export: length does not fit in u16'')
      else if \<not> hkdf_from_prk L prk then
        Err (General ''HPKE Export: invalid PRK (must be at least 32 bytes)'')
      else ok_or (hkdf_expand L prk (labeled_info (of_nat l) suite_id label info) l)
             (General ''HPKE Export: HKDF expand failed''))"

definition labeled_expand ::
    "hpke_lib \<Rightarrow> bytes \<Rightarrow> bytes \<Rightarrow> bytes \<Rightarrow> bytes \<Rightarrow> nat \<Rightarrow> (bytes, rustls_error) result" where
  "labeled_expand L suite_id prk label info l = labeled_expand_checked L suite_id prk label info l"

record hpke_key_material =
  km_key :: bytes
  km_base_nonce :: bytes
  km_exporter_secret :: bytes

definition key_schedule_base ::
    "hpke_lib \<Rightarrow> bytes \<Rightarrow> bytes \<Rightarrow> bytes \<Rightarrow> nat \<Rightarrow> (hpke_key_material, rustls_error) result" where
  "key_schedule_base L suite_id shared_secret info nk =
     (let mode_base = (0 :: byte);
          default_psk = [];
          default_psk_id = [];
          psk_id_hash = labeled_extract L suite_id [] (ascii ''psk_id_hash'') default_psk_id;
          info_hash = labeled_extract L suite_id [] (ascii ''info_hash'') info;
          ks_context = [mode_base] @ psk_id_hash @ info_hash;
          secret = labeled_extract L suite_id shared_secret (ascii ''secret'') default_psk in
      rbind (labeled_expand L suite_id secret (ascii ''key'') ks_context nk) (\<lambda>key.
      rbind (labeled_expand L suite_id secret (ascii ''base_nonce'') ks_context 12) (\<lambda>base_nonce.
      rbind (labeled_expand L suite_id secret (ascii ''exp'') ks_context 32) (\<lambda>exporter_secret.
      Ok \<lparr> km_key = key, km_base_nonce = base_nonce, km_exporter_secret = exporter_secret \<rparr>))))"

lemma labeled_expand_total:
  assumes "hpke_lib_ok L" "l \<le> MAX_L" "32 \<le> length prk"
  shows "\<exists>okm. labeled_expand L s prk lab i l = Ok okm \<and> length okm = l"
  using assms
  by (auto simp: hpke_lib_ok_def hkdf_ok_def labeled_expand_def labeled_expand_checked_def MAX_L_def ok_or_Ok_iff)

lemma length_labeled_extract [simp]: "hpke_lib_ok L \<Longrightarrow> length (labeled_extract L s salt lab ikm) = 32"
  by (simp add: hpke_lib_ok_def hkdf_ok_def labeled_extract_def)

lemma key_schedule_total:
  assumes "hpke_lib_ok L" "nk \<le> MAX_L"
  shows "\<exists>km. key_schedule_base L s ss info nk = Ok km \<and>
           length (km_key km) = nk \<and> length (km_base_nonce km) = 12 \<and> length (km_exporter_secret km) = 32"
proof -
  define secret where "secret = labeled_extract L s ss (ascii ''secret'') []"
  define ctx where "ctx = [0 :: byte] @ labeled_extract L s [] (ascii ''psk_id_hash'') []
                            @ labeled_extract L s [] (ascii ''info_hash'') info"
  have sec: "32 \<le> length secret" using assms by (simp add: secret_def)
  have "12 \<le> MAX_L" "32 \<le> MAX_L" by (simp_all add: MAX_L_def)
  with assms sec obtain k n e where
    k: "labeled_expand L s secret (ascii ''key'') ctx nk = Ok k" "length k = nk" and
    n: "labeled_expand L s secret (ascii ''base_nonce'') ctx 12 = Ok n" "length n = 12" and
    e: "labeled_expand L s secret (ascii ''exp'') ctx 32 = Ok e" "length e = 32"
    by (meson labeled_expand_total)
  have "key_schedule_base L s ss info nk =
     Ok \<lparr> km_key = k, km_base_nonce = n, km_exporter_secret = e \<rparr>"
    using k(1) n(1) e(1) unfolding key_schedule_base_def Let_def secret_def ctx_def by simp
  then show ?thesis using k(2) n(2) e(2) by simp
qed

section \<open>The trait DhKem\<close>

record kem_consts =
  KEM_ID :: u16
  NENC :: nat
  NPK :: nat
  NSK :: nat
  NSECRET :: nat

record dh_kem = kem_consts +
  kem_generate :: "hpke_lib \<Rightarrow> draws \<Rightarrow> (bytes \<times> bytes, rustls_error) result option"
  kem_encap :: "hpke_lib \<Rightarrow> draws \<Rightarrow> bytes \<Rightarrow> (bytes \<times> bytes, rustls_error) result option"
  kem_decap :: "hpke_lib \<Rightarrow> bytes \<Rightarrow> bytes \<Rightarrow> (bytes, rustls_error) result"

definition kem_suite_id :: "'a kem_consts_scheme \<Rightarrow> bytes" where
  "kem_suite_id K = ascii ''KEM'' @ be_encode 2 (unat (KEM_ID K))"

definition extract_and_expand ::
    "'a kem_consts_scheme \<Rightarrow> hpke_lib \<Rightarrow> bytes \<Rightarrow> bytes \<Rightarrow> (bytes, rustls_error) result" where
  "extract_and_expand K L dh kem_context =
     (let suite_id = kem_suite_id K;
          eae_prk = labeled_extract L suite_id [] (ascii ''eae_prk'') dh in
      rbind (labeled_expand L suite_id eae_prk (ascii ''shared_secret'') kem_context (NSECRET K)) (\<lambda>out.
      if length out < 32 then
        Err (General ''DHKEM ExtractAndExpand: shared secret shorter than 32 bytes'')
      else Ok (take 32 out)))"

lemma extract_and_expand_total:
  assumes "hpke_lib_ok L" "32 \<le> NSECRET K" "NSECRET K \<le> MAX_L"
  shows "\<exists>ss. extract_and_expand K L dh c = Ok ss \<and> length ss = 32"
proof -
  obtain out where
    "labeled_expand L (kem_suite_id K) (labeled_extract L (kem_suite_id K) [] (ascii ''eae_prk'') dh)
       (ascii ''shared_secret'') c (NSECRET K) = Ok out" "length out = NSECRET K"
    using labeled_expand_total [OF assms(1) assms(3)] assms(1) by (metis length_labeled_extract order_refl)
  then show ?thesis
    using assms(2) unfolding extract_and_expand_def Let_def by simp
qed

section \<open>DHKEM over X25519\<close>

definition x25519_consts :: kem_consts where
  "x25519_consts = \<lparr> KEM_ID = 0x0020, NENC = 32, NPK = 32, NSK = 32, NSECRET = 32 \<rparr>"

definition x25519_generate :: "hpke_lib \<Rightarrow> draws \<Rightarrow> (bytes \<times> bytes, rustls_error) result option" where
  "x25519_generate L rnd =
     Some (rbind (rmap_err (\<lambda>e. General (''X25519 keygen: getrandom failed: '' @ e)) (rnd 0)) (\<lambda>sk.
           Ok (x25519_public L sk, sk)))"

definition x25519_encap ::
    "hpke_lib \<Rightarrow> draws \<Rightarrow> bytes \<Rightarrow> (bytes \<times> bytes, rustls_error) result option" where
  "x25519_encap L rnd pk_r = Some (
     if length pk_r \<noteq> 32 then Err (General ''X25519 Encap: recipient pk must be 32 bytes'')
     else rbind (rmap_err (\<lambda>e. General (''X25519 Encap: getrandom failed: '' @ e)) (rnd 0)) (\<lambda>sk_em.
     let pk_em = x25519_public L sk_em;
         dh = x25519_dh L sk_em pk_r in
     if \<not> x25519_contributory L dh then
       Err (General ''X25519 Encap: non-contributory DH (small-order recipient key)'')
     else let kem_context = pk_em @ pk_r in
     rbind (extract_and_expand x25519_consts L dh kem_context) (\<lambda>shared_secret.
     Ok (shared_secret, pk_em))))"

definition x25519_decap :: "hpke_lib \<Rightarrow> bytes \<Rightarrow> bytes \<Rightarrow> (bytes, rustls_error) result" where
  "x25519_decap L sk_r enc =
     (if length enc \<noteq> 32 then Err (General ''X25519 Decap: enc must be 32 bytes'')
      else if length sk_r \<noteq> 32 then Err (General ''X25519 Decap: secret key must be 32 bytes'')
      else let pk_r = x25519_public L sk_r;
               dh = x25519_dh L sk_r enc in
      if \<not> x25519_contributory L dh then
        Err (General ''X25519 Decap: non-contributory DH (small-order sender key)'')
      else let kem_context = enc @ pk_r in
      extract_and_expand x25519_consts L dh kem_context)"

definition KemX25519 :: dh_kem where
  "KemX25519 = \<lparr> KEM_ID = 0x0020, NENC = 32, NPK = 32, NSK = 32, NSECRET = 32,
     kem_generate = x25519_generate, kem_encap = x25519_encap, kem_decap = x25519_decap \<rparr>"

section \<open>DHKEM over P-256\<close>

definition p256_consts :: kem_consts where
  "p256_consts = \<lparr> KEM_ID = 0x0010, NENC = 65, NPK = 65, NSK = 32, NSECRET = 32 \<rparr>"

text \<open>The loop from its i-th draw on.\<close>

partial_function (option) p256_rejection_loop ::
    "hpke_lib \<Rightarrow> draws \<Rightarrow> nat \<Rightarrow> (bytes, rustls_error) result option" where
  "p256_rejection_loop L rnd i =
     (case rnd i of
        Err e \<Rightarrow> Some (Err (General (''P-256 keygen: getrandom failed: '' @ e)))
      | Ok buf \<Rightarrow>
          (case p256_sk_from_slice L buf of
             Some sk \<Rightarrow> Some (Ok sk)
           | None \<Rightarrow> p256_rejection_loop L rnd (Suc i)))"

definition p256_rejection_sample :: "hpke_lib \<Rightarrow> draws \<Rightarrow> (bytes, rustls_error) result option" where
  "p256_rejection_sample L rnd = p256_rejection_loop L rnd 0"

definition p256_generate :: "hpke_lib \<Rightarrow> draws \<Rightarrow> (bytes \<times> bytes, rustls_error) result option" where
  "p256_generate L rnd =
     dbind (p256_rejection_sample L rnd) (\<lambda>sk.
     let pk = p256_public_key L sk in
     Some (Ok (p256_uncompressed L pk, p256_sk_to_bytes L sk)))"

definition p256_encap ::
    "hpke_lib \<Rightarrow> draws \<Rightarrow> bytes \<Rightarrow> (bytes \<times> bytes, rustls_error) result option" where
  "p256_encap L rnd pk_r_bytes =
     (case p256_pk_from_sec1 L pk_r_bytes of
        None \<Rightarrow> Some (Err (General ''P-256 Encap: invalid recipient public key''))
      | Some pk_r \<Rightarrow>
          dbind (p256_rejection_sample L rnd) (\<lambda>sk_em.
          let pk_em = p256_public_key L sk_em;
              dh = p256_dh L sk_em pk_r;
              enc = p256_uncompressed L pk_em;
              kem_context = enc @ p256_uncompressed L pk_r in
          Some (rbind (extract_and_expand p256_consts L dh kem_context) (\<lambda>shared_secret.
                Ok (shared_secret, enc)))))"

definition p256_decap :: "hpke_lib \<Rightarrow> bytes \<Rightarrow> bytes \<Rightarrow> (bytes, rustls_error) result" where
  "p256_decap L sk_r_bytes enc =
     rbind (ok_or (p256_pk_from_sec1 L enc)
              (General ''P-256 Decap: invalid enc (sender ephemeral public key)'')) (\<lambda>pk_em.
     rbind (ok_or (p256_sk_from_slice L sk_r_bytes)
              (General ''P-256 Decap: invalid recipient secret key'')) (\<lambda>sk_r.
     let dh = p256_dh L sk_r pk_em;
         pk_r = p256_public_key L sk_r;
         kem_context = enc @ p256_uncompressed L pk_r in
     extract_and_expand p256_consts L dh kem_context))"

definition KemP256 :: dh_kem where
  "KemP256 = \<lparr> KEM_ID = 0x0010, NENC = 65, NPK = 65, NSK = 32, NSECRET = 32,
     kem_generate = p256_generate, kem_encap = p256_encap, kem_decap = p256_decap \<rparr>"

section \<open>The trait AeadSuite\<close>

record aead_suite =
  AEAD_ID :: u16
  NK :: nat
  NN :: nat
  NT :: nat
  suite_seal :: "hpke_lib \<Rightarrow> bytes \<Rightarrow> bytes \<Rightarrow> bytes \<Rightarrow> bytes \<Rightarrow> (bytes, rustls_error) result"
  suite_open :: "hpke_lib \<Rightarrow> bytes \<Rightarrow> bytes \<Rightarrow> bytes \<Rightarrow> bytes \<Rightarrow> (bytes, rustls_error) result"

definition aes128_seal ::
    "hpke_lib \<Rightarrow> bytes \<Rightarrow> bytes \<Rightarrow> bytes \<Rightarrow> bytes \<Rightarrow> (bytes, rustls_error) result" where
  "aes128_seal L key nonce aad pt =
     (if \<not> aes128gcm_new L key then Err (General ''HPKE AES-128-GCM: invalid key length'')
      else ok_or (aes128gcm_encrypt L key nonce aad pt) (General ''HPKE AES-128-GCM: encryption failed''))"

definition aes128_open ::
    "hpke_lib \<Rightarrow> bytes \<Rightarrow> bytes \<Rightarrow> bytes \<Rightarrow> bytes \<Rightarrow> (bytes, rustls_error) result" where
  "aes128_open L key nonce aad ct =
     (if \<not> aes128gcm_new L key then Err (General ''HPKE AES-128-GCM: invalid key length'')
      else ok_or (aes128gcm_decrypt L key nonce aad ct)
             (General ''HPKE AES-128-GCM: decryption failed (bad tag or data)''))"

definition AeadAes128Gcm :: aead_suite where
  "AeadAes128Gcm = \<lparr> AEAD_ID = 0x0001, NK = 16, NN = 12, NT = 16,
     suite_seal = aes128_seal, suite_open = aes128_open \<rparr>"

definition chacha20_seal ::
    "hpke_lib \<Rightarrow> bytes \<Rightarrow> bytes \<Rightarrow> bytes \<Rightarrow> bytes \<Rightarrow> (bytes, rustls_error) result" where
  "chacha20_seal L key nonce aad pt =
     (if \<not> chacha_new L key then Err (General ''HPKE ChaCha20Poly1305: invalid key length'')
      else ok_or (chacha_encrypt L key nonce aad pt) (General ''HPKE ChaCha20Poly1305: encryption failed''))"

definition chacha20_open ::
    "hpke_lib \<Rightarrow> bytes \<Rightarrow> bytes \<Rightarrow> bytes \<Rightarrow> bytes \<Rightarrow> (bytes, rustls_error) result" where
  "chacha20_open L key nonce aad ct =
     (if \<not> chacha_new L key then Err (General ''HPKE ChaCha20Poly1305: invalid key length'')
      else ok_or (chacha_decrypt L key nonce aad ct)
             (General ''HPKE ChaCha20Poly1305: decryption failed (bad tag or data)''))"

definition AeadChacha20 :: aead_suite where
  "AeadChacha20 = \<lparr> AEAD_ID = 0x0003, NK = 32, NN = 12, NT = 16,
     suite_seal = chacha20_seal, suite_open = chacha20_open \<rparr>"

lemmas kem_consts_defs = x25519_consts_def p256_consts_def

section \<open>The rejection sampling\<close>

text \<open>A draw that ends the loop: a failure of the generator or a valid scalar.\<close>

definition draw_ends :: "hpke_lib \<Rightarrow> (bytes, string) result \<Rightarrow> bool" where
  "draw_ends L d = (case d of Err e \<Rightarrow> True | Ok buf \<Rightarrow> p256_sk_from_slice L buf \<noteq> None)"

lemma rejection_loop_skips:
  "(\<And>j. i \<le> j \<Longrightarrow> j < n \<Longrightarrow> \<not> draw_ends L (rnd j)) \<Longrightarrow> i \<le> n \<Longrightarrow>
     p256_rejection_loop L rnd i = p256_rejection_loop L rnd n"
proof (induction "n - i" arbitrary: i)
  case 0
  then show ?case by simp
next
  case (Suc k)
  then have "\<not> draw_ends L (rnd i)" by simp
  then have "p256_rejection_loop L rnd i = p256_rejection_loop L rnd (Suc i)"
    by (subst p256_rejection_loop.simps)
      (auto simp: draw_ends_def split: result.splits)
  also have "\<dots> = p256_rejection_loop L rnd n"
    using Suc by simp
  finally show ?case .
qed

lemma rejection_sample_at:
  assumes "draw_ends L (rnd n)" "\<And>j. j < n \<Longrightarrow> \<not> draw_ends L (rnd j)"
  shows "p256_rejection_sample L rnd =
    Some (case rnd n of Err e \<Rightarrow> Err (General (''P-256 keygen: getrandom failed: '' @ e))
          | Ok buf \<Rightarrow> Ok (the (p256_sk_from_slice L buf)))"
proof -
  have "p256_rejection_sample L rnd = p256_rejection_loop L rnd n"
    using assms(2) by (simp add: p256_rejection_sample_def rejection_loop_skips)
  then show ?thesis
    using assms(1) by (subst (asm) p256_rejection_loop.simps)
      (auto simp: draw_ends_def split: result.splits option.splits)
qed

text \<open>When the loop returns, some draw ended it, by fixpoint induction.\<close>

lemma rejection_loop_returned:
  "p256_rejection_loop L rnd i = Some y \<Longrightarrow> \<exists>n. draw_ends L (rnd n)"
proof (induction arbitrary: i y rule: p256_rejection_loop.raw_induct [rotated, consumes 1])
  case (1 loop L rnd i y)
  show ?case
  proof (cases "draw_ends L (rnd i)")
    case True
    then show ?thesis by blast
  next
    case False
    then have "loop L rnd (Suc i) = Some y"
      using 1 by (auto simp: draw_ends_def split: result.splits)
    then show ?thesis using 1 by blast
  qed
qed

lemma rejection_sample_Ok:
  assumes "p256_rejection_sample L rnd = Some (Ok sk)"
  shows "\<exists>n buf. rnd n = Ok buf \<and> p256_sk_from_slice L buf = Some sk"
proof -
  have "\<exists>n. draw_ends L (rnd n)"
    using assms rejection_loop_returned unfolding p256_rejection_sample_def by blast
  then obtain n where n: "draw_ends L (rnd n)" "\<And>j. j < n \<Longrightarrow> \<not> draw_ends L (rnd j)"
    using exists_least_iff [of "\<lambda>n. draw_ends L (rnd n)"] by blast
  from rejection_sample_at [of L rnd n, OF n] assms n(1) show ?thesis
    by (auto simp: draw_ends_def split: result.splits)
qed

section \<open>Contracts of the traits\<close>

text \<open>The buffers that \<open>getrandom\<close> fills have 32 bytes.\<close>

definition draws32 :: "draws \<Rightarrow> bool" where
  "draws32 rnd \<longleftrightarrow> (\<forall>i b. rnd i = Ok b \<longrightarrow> length b = 32)"

locale dh_kem_contract =
  fixes K :: dh_kem
  assumes encap_decap: "hpke_lib_ok L \<Longrightarrow> draws32 rg \<Longrightarrow> kem_generate K L rg = Some (Ok (pk, sk)) \<Longrightarrow>
            kem_encap K L re pk = Some (Ok (ss, enc)) \<Longrightarrow> kem_decap K L sk enc = Ok ss"
    and encap_lengths: "hpke_lib_ok L \<Longrightarrow> kem_encap K L re pk = Some (Ok (ss, enc)) \<Longrightarrow>
            length ss = 32 \<and> length enc = NENC K"
    and generate_length: "hpke_lib_ok L \<Longrightarrow> kem_generate K L rg = Some (Ok (pk, sk)) \<Longrightarrow> length pk = NPK K"

locale aead_suite_contract =
  fixes A :: aead_suite
  assumes seal_open: "hpke_lib_ok L \<Longrightarrow> suite_seal A L key n aad pt = Ok ct \<Longrightarrow>
            suite_open A L key n aad ct = Ok pt"
    and key_fits: "NK A \<le> MAX_L"

lemma x25519_encap_decap:
  assumes L: "hpke_lib_ok L" and d: "draws32 rg"
    and g: "x25519_generate L rg = Some (Ok (pk, sk))"
    and e: "x25519_encap L re pk = Some (Ok (ss, enc))"
  shows "x25519_decap L sk enc = Ok ss"
proof -
  have pk: "pk = x25519_public L sk" and sk: "length sk = 32"
    using g d by (auto simp: x25519_generate_def draws32_def result_simps)
  from e obtain sk_em where
    enc: "enc = x25519_public L sk_em" and
    con: "x25519_contributory L (x25519_dh L sk_em pk)" and
    ss: "extract_and_expand x25519_consts L (x25519_dh L sk_em pk) (enc @ pk) = Ok ss"
    by (auto simp: x25519_encap_def Let_def result_simps split: if_splits)
  have "x25519_dh L sk enc = x25519_dh L sk_em pk" and "length enc = 32"
    using L pk enc by (simp_all add: hpke_lib_ok_def x25519_ok_def)
  with sk con ss pk show ?thesis by (simp add: x25519_decap_def Let_def)
qed

lemma extract_and_expand_length:
  assumes "hpke_lib_ok L" "extract_and_expand K L dh c = Ok ss"
  shows "length ss = 32"
  using assms by (auto simp: extract_and_expand_def Let_def result_simps split: if_splits)

interpretation kem_x25519: dh_kem_contract KemX25519
proof
  fix L rg pk sk re ss enc
  assume L: "hpke_lib_ok L"
  show "draws32 rg \<Longrightarrow> kem_generate KemX25519 L rg = Some (Ok (pk, sk)) \<Longrightarrow>
     kem_encap KemX25519 L re pk = Some (Ok (ss, enc)) \<Longrightarrow> kem_decap KemX25519 L sk enc = Ok ss"
    using L by (simp add: KemX25519_def x25519_encap_decap)
  show "kem_encap KemX25519 L re pk = Some (Ok (ss, enc)) \<Longrightarrow> length ss = 32 \<and> length enc = NENC KemX25519"
    using L by (auto simp: KemX25519_def x25519_encap_def Let_def result_simps hpke_lib_ok_def x25519_ok_def
        dest: extract_and_expand_length [OF L] split: if_splits)
  show "kem_generate KemX25519 L rg = Some (Ok (pk, sk)) \<Longrightarrow> length pk = NPK KemX25519"
    using L by (auto simp: KemX25519_def x25519_generate_def result_simps hpke_lib_ok_def x25519_ok_def)
qed

lemma p256_encap_decap:
  assumes L: "hpke_lib_ok L"
    and g: "p256_generate L rg = Some (Ok (pk, sk))"
    and e: "p256_encap L re pk = Some (Ok (ss, enc))"
  shows "p256_decap L sk enc = Ok ss"
proof -
  from L have p: "p256_ok L" by (simp add: hpke_lib_ok_def)
  from g obtain s where
    s: "p256_rejection_sample L rg = Some (Ok s)" and
    pk: "pk = p256_uncompressed L (p256_public_key L s)" and sk: "sk = p256_sk_to_bytes L s"
    by (auto simp: p256_generate_def result_simps)
  have sk_read: "p256_sk_from_slice L sk = Some s"
    using rejection_sample_Ok [OF s] p sk by (auto simp: p256_ok_def)
  have pk_read: "p256_pk_from_sec1 L pk = Some (p256_public_key L s)"
    using p pk by (simp add: p256_ok_def)
  from e pk_read obtain t where
    enc: "enc = p256_uncompressed L (p256_public_key L t)" and
    ss: "extract_and_expand p256_consts L (p256_dh L t (p256_public_key L s)) (enc @ pk) = Ok ss"
    by (auto simp: p256_encap_def Let_def result_simps pk)
  have "p256_pk_from_sec1 L enc = Some (p256_public_key L t)"
    "p256_dh L s (p256_public_key L t) = p256_dh L t (p256_public_key L s)"
    using p enc by (simp_all add: p256_ok_def)
  with sk_read ss pk show ?thesis by (simp add: p256_decap_def)
qed

interpretation kem_p256: dh_kem_contract KemP256
proof
  fix L rg pk sk re ss enc
  assume L: "hpke_lib_ok L"
  show "draws32 rg \<Longrightarrow> kem_generate KemP256 L rg = Some (Ok (pk, sk)) \<Longrightarrow>
     kem_encap KemP256 L re pk = Some (Ok (ss, enc)) \<Longrightarrow> kem_decap KemP256 L sk enc = Ok ss"
    using L by (simp add: KemP256_def p256_encap_decap)
  show "kem_encap KemP256 L re pk = Some (Ok (ss, enc)) \<Longrightarrow> length ss = 32 \<and> length enc = NENC KemP256"
    using L by (auto simp: KemP256_def p256_encap_def Let_def result_simps hpke_lib_ok_def p256_ok_def
        dest: extract_and_expand_length [OF L] split: option.splits)
  show "kem_generate KemP256 L rg = Some (Ok (pk, sk)) \<Longrightarrow> length pk = NPK KemP256"
    using L by (auto simp: KemP256_def p256_generate_def result_simps hpke_lib_ok_def p256_ok_def)
qed

interpretation aead_aes128: aead_suite_contract AeadAes128Gcm
  by unfold_locales
    (auto simp: AeadAes128Gcm_def aes128_seal_def aes128_open_def hpke_lib_ok_def aead_crates_ok_def
      MAX_L_def result_simps split: if_splits)

interpretation aead_chacha: aead_suite_contract AeadChacha20
  by unfold_locales
    (auto simp: AeadChacha20_def chacha20_seal_def chacha20_open_def hpke_lib_ok_def aead_crates_ok_def
      MAX_L_def result_simps split: if_splits)

end
