(* ===== verification/Hpke.thy ===== *)
theory Hpke
  imports Hpke_Kem
begin

text \<open>
  The HPKE suites of \<open>hpke/mod.rs\<close>: the generic suite over a \<open>DhKem\<close> and an \<open>AeadSuite\<close>, one-shot sealing
  and opening, and the stateful sealer and opener contexts with their sequence numbers. The locale
  \<open>hpke_suite\<close> joins the contracts of the two traits; it is interpreted for the four suites the module
  exports. The properties: messages sealed by a sender are opened in order by the receiver, no nonce is used
  twice by a context, a failed call leaves its context as it was.
\<close>

unbundle bit_operations_syntax

section \<open>The suite\<close>

definition hpke_suite_id :: "dh_kem \<Rightarrow> aead_suite \<Rightarrow> bytes" where
  "hpke_suite_id K A =
     (let kem = be_encode 2 (unat (KEM_ID K));
          kdf = be_encode 2 0x0001;
          aead = be_encode 2 (unat (AEAD_ID A)) in
      ascii ''HPKE'' @ [kem ! 0, kem ! 1, kdf ! 0, kdf ! 1, aead ! 0, aead ! 1])"

definition compute_nonce :: "bytes \<Rightarrow> u64 \<Rightarrow> bytes" where
  "compute_nonce base seq =
     (let seq_bytes = u64_to_be seq in
      foldl (\<lambda>nonce i. nonce[4 + i := nonce ! (4 + i) XOR seq_bytes ! i]) base [0..<8])"

record hpke_sealer_ctx =
  s_key :: bytes
  s_base_nonce :: bytes
  s_seq :: u64
  s_suite_id :: bytes
  s_exporter_secret :: bytes

record hpke_opener_ctx =
  o_key :: bytes
  o_base_nonce :: bytes
  o_seq :: u64
  o_suite_id :: bytes
  o_exporter_secret :: bytes

definition setup_sender ::
    "dh_kem \<Rightarrow> aead_suite \<Rightarrow> hpke_lib \<Rightarrow> draws \<Rightarrow> bytes \<Rightarrow> bytes \<Rightarrow>
      (bytes \<times> hpke_sealer_ctx, rustls_error) result option" where
  "setup_sender K A L rnd info pub_key =
     (let suite_id = hpke_suite_id K A in
      dbind (kem_encap K L rnd pub_key) (\<lambda>(shared_secret, enc).
      Some (rbind (key_schedule_base L suite_id shared_secret info (NK A)) (\<lambda>km.
      Ok (enc, \<lparr> s_key = km_key km, s_base_nonce = km_base_nonce km, s_seq = 0,
                 s_suite_id = suite_id, s_exporter_secret = km_exporter_secret km \<rparr>)))))"

definition setup_receiver ::
    "dh_kem \<Rightarrow> aead_suite \<Rightarrow> hpke_lib \<Rightarrow> bytes \<Rightarrow> bytes \<Rightarrow> bytes \<Rightarrow>
      (hpke_opener_ctx, rustls_error) result" where
  "setup_receiver K A L enc info secret_key =
     (let suite_id = hpke_suite_id K A in
      rbind (kem_decap K L secret_key enc) (\<lambda>shared_secret.
      rbind (key_schedule_base L suite_id shared_secret info (NK A)) (\<lambda>km.
      Ok \<lparr> o_key = km_key km, o_base_nonce = km_base_nonce km, o_seq = 0,
           o_suite_id = suite_id, o_exporter_secret = km_exporter_secret km \<rparr>)))"

text \<open>\<open>setup_sealer\<close> and \<open>setup_opener\<close> box the contexts.\<close>

definition setup_sealer ::
    "dh_kem \<Rightarrow> aead_suite \<Rightarrow> hpke_lib \<Rightarrow> draws \<Rightarrow> bytes \<Rightarrow> bytes \<Rightarrow>
      (bytes \<times> hpke_sealer_ctx, rustls_error) result option" where
  "setup_sealer K A L rnd info pub_key =
     dbind (setup_sender K A L rnd info pub_key) (\<lambda>(enc, ctx). Some (Ok (enc, ctx)))"

definition setup_opener ::
    "dh_kem \<Rightarrow> aead_suite \<Rightarrow> hpke_lib \<Rightarrow> bytes \<Rightarrow> bytes \<Rightarrow> bytes \<Rightarrow> (hpke_opener_ctx, rustls_error) result" where
  "setup_opener K A L enc info secret_key = rbind (setup_receiver K A L enc info secret_key) Ok"

definition hpke_seal ::
    "dh_kem \<Rightarrow> aead_suite \<Rightarrow> hpke_lib \<Rightarrow> draws \<Rightarrow> bytes \<Rightarrow> bytes \<Rightarrow> bytes \<Rightarrow> bytes \<Rightarrow>
      (bytes \<times> bytes, rustls_error) result option" where
  "hpke_seal K A L rnd info aad plaintext pub_key =
     (let suite_id = hpke_suite_id K A in
      dbind (kem_encap K L rnd pub_key) (\<lambda>(shared_secret, enc).
      Some (rbind (key_schedule_base L suite_id shared_secret info (NK A)) (\<lambda>km.
      let nonce = compute_nonce (km_base_nonce km) 0 in
      rbind (suite_seal A L (km_key km) nonce aad plaintext) (\<lambda>ct.
      Ok (enc, ct)))))) "

definition hpke_open ::
    "dh_kem \<Rightarrow> aead_suite \<Rightarrow> hpke_lib \<Rightarrow> bytes \<Rightarrow> bytes \<Rightarrow> bytes \<Rightarrow> bytes \<Rightarrow> bytes \<Rightarrow>
      (bytes, rustls_error) result" where
  "hpke_open K A L enc info aad ciphertext secret_key =
     (let suite_id = hpke_suite_id K A in
      rbind (kem_decap K L secret_key enc) (\<lambda>shared_secret.
      rbind (key_schedule_base L suite_id shared_secret info (NK A)) (\<lambda>km.
      let nonce = compute_nonce (km_base_nonce km) 0 in
      suite_open A L (km_key km) nonce aad ciphertext)))"

definition generate_key_pair ::
    "dh_kem \<Rightarrow> hpke_lib \<Rightarrow> draws \<Rightarrow> (bytes \<times> bytes, rustls_error) result option" where
  "generate_key_pair K L rnd = kem_generate K L rnd"

text \<open>\<open>suite\<close>: the code points of rustls' enums, \<open>None\<close> for the panic on an unknown identifier.\<close>

datatype hpke_kem_name = DHKEM_X25519_HKDF_SHA256 | DHKEM_P256_HKDF_SHA256
datatype hpke_aead_name = AES_128_GCM | CHACHA20_POLY_1305

definition hpke_suite_names :: "dh_kem \<Rightarrow> aead_suite \<Rightarrow> (hpke_kem_name \<times> hpke_aead_name) option" where
  "hpke_suite_names K A =
     (case (if KEM_ID K = 0x0020 then Some DHKEM_X25519_HKDF_SHA256
            else if KEM_ID K = 0x0010 then Some DHKEM_P256_HKDF_SHA256 else None) of
        None \<Rightarrow> None
      | Some kem \<Rightarrow>
          (case (if AEAD_ID A = 0x0001 then Some AES_128_GCM
                 else if AEAD_ID A = 0x0003 then Some CHACHA20_POLY_1305 else None) of
             None \<Rightarrow> None
           | Some aead \<Rightarrow> Some (kem, aead)))"

section \<open>Contexts\<close>

definition sealer_export ::
    "hpke_lib \<Rightarrow> hpke_sealer_ctx \<Rightarrow> bytes \<Rightarrow> nat \<Rightarrow> (bytes, rustls_error) result" where
  "sealer_export L c exporter_context len =
     labeled_expand_checked L (s_suite_id c) (s_exporter_secret c) (ascii ''sec'') exporter_context len"

definition opener_export ::
    "hpke_lib \<Rightarrow> hpke_opener_ctx \<Rightarrow> bytes \<Rightarrow> nat \<Rightarrow> (bytes, rustls_error) result" where
  "opener_export L c exporter_context len =
     labeled_expand_checked L (o_suite_id c) (o_exporter_secret c) (ascii ''sec'') exporter_context len"

text \<open>\<open>u64::checked_add(1)\<close>.\<close>

definition checked_inc :: "u64 \<Rightarrow> u64 option" where
  "checked_inc s = (if s = - 1 then None else Some (s + 1))"

definition seq_limit :: rustls_error where
  "seq_limit = General ''HPKE: message sequence number limit reached''"

text \<open>A call returns its result and the context after it.\<close>

definition sealer_seal ::
    "aead_suite \<Rightarrow> hpke_lib \<Rightarrow> hpke_sealer_ctx \<Rightarrow> bytes \<Rightarrow> bytes \<Rightarrow>
      (bytes, rustls_error) result \<times> hpke_sealer_ctx" where
  "sealer_seal A L c aad plaintext =
     (let nonce = compute_nonce (s_base_nonce c) (s_seq c) in
      case suite_seal A L (s_key c) nonce aad plaintext of
        Err e \<Rightarrow> (Err e, c)
      | Ok ct \<Rightarrow>
          (case checked_inc (s_seq c) of
             None \<Rightarrow> (Err seq_limit, c)
           | Some n \<Rightarrow> (Ok ct, c\<lparr> s_seq := n \<rparr>)))"

definition opener_open ::
    "aead_suite \<Rightarrow> hpke_lib \<Rightarrow> hpke_opener_ctx \<Rightarrow> bytes \<Rightarrow> bytes \<Rightarrow>
      (bytes, rustls_error) result \<times> hpke_opener_ctx" where
  "opener_open A L c aad ciphertext =
     (let nonce = compute_nonce (o_base_nonce c) (o_seq c) in
      case suite_open A L (o_key c) nonce aad ciphertext of
        Err e \<Rightarrow> (Err e, c)
      | Ok pt \<Rightarrow>
          (case checked_inc (o_seq c) of
             None \<Rightarrow> (Err seq_limit, c)
           | Some n \<Rightarrow> (Ok pt, c\<lparr> o_seq := n \<rparr>)))"

text \<open>Sequences of calls and what each returns: \<open>seal_all\<close> takes pairs of associated data and plaintext,
  \<open>open_all\<close> pairs of associated data and ciphertext.\<close>

fun seal_all ::
    "aead_suite \<Rightarrow> hpke_lib \<Rightarrow> hpke_sealer_ctx \<Rightarrow> (bytes \<times> bytes) list \<Rightarrow>
      (bytes, rustls_error) result list" where
  "seal_all A L c [] = []"
| "seal_all A L c ((aad, pt) # ms) =
     (let (r, c') = sealer_seal A L c aad pt in r # seal_all A L c' ms)"

fun open_all ::
    "aead_suite \<Rightarrow> hpke_lib \<Rightarrow> hpke_opener_ctx \<Rightarrow> (bytes \<times> bytes) list \<Rightarrow>
      (bytes, rustls_error) result list" where
  "open_all A L c [] = []"
| "open_all A L c ((aad, ct) # ms) =
     (let (r, c') = opener_open A L c aad ct in r # open_all A L c' ms)"

section \<open>The suites of the module\<close>

definition pure_hpke_suites :: "(dh_kem \<times> aead_suite) list" where
  "pure_hpke_suites =
     [(KemX25519, AeadAes128Gcm), (KemX25519, AeadChacha20), (KemP256, AeadAes128Gcm), (KemP256, AeadChacha20)]"

section \<open>Nonces\<close>

lemma xor_fold_eq:
  "n \<le> length ys \<Longrightarrow> length xs = k + length ys \<Longrightarrow>
   foldl (\<lambda>b i. b[k + i := b ! (k + i) XOR ys ! i]) xs [0..<n] =
     take k xs @ map2 (XOR) (take n (drop k xs)) (take n ys) @ drop (k + n) xs" for xs :: bytes
proof (induction n)
  case 0
  then show ?case by simp
next
  case (Suc n)
  let ?p = "take k xs @ map2 (XOR) (take n (drop k xs)) (take n ys)"
  have len: "length ?p = k + n" using Suc by simp
  have d: "drop (k + n) xs = xs ! (k + n) # drop (k + Suc n) xs"
    using Suc by (simp add: Cons_nth_drop_Suc)
  have "foldl (\<lambda>b i. b[k + i := b ! (k + i) XOR ys ! i]) xs [0..<Suc n] =
     (let b = ?p @ drop (k + n) xs in b[k + n := b ! (k + n) XOR ys ! n])"
    using Suc by (simp add: Let_def)
  also have "\<dots> = ?p @ (xs ! (k + n) XOR ys ! n) # drop (k + Suc n) xs"
    unfolding Let_def d using len by (simp add: nth_append list_update_append)
  also have "\<dots> = take k xs @ map2 (XOR) (take (Suc n) (drop k xs)) (take (Suc n) ys) @ drop (k + Suc n) xs"
    using Suc by (simp add: take_Suc_conv_app_nth)
  finally show ?case .
qed

lemma compute_nonce_eq:
  "length b = 12 \<Longrightarrow> compute_nonce b s = take 4 b @ map2 (XOR) (drop 4 b) (u64_to_be s)"
  unfolding compute_nonce_def Let_def by (subst xor_fold_eq) simp_all

lemma map2_xor_inj:
  "length xs = length as \<Longrightarrow> length bs = length as \<Longrightarrow> map2 (XOR) xs as = map2 (XOR) xs bs \<Longrightarrow> as = bs"
  for xs :: bytes
proof (induction xs as arbitrary: bs rule: list_induct2)
  case Nil
  then show ?case by simp
next
  case (Cons x xs a as)
  then obtain b bs' where bs: "bs = b # bs'" by (cases bs) auto
  have "x XOR (x XOR a) = x XOR (x XOR b)" using Cons bs by simp
  then have "a = b" by (simp flip: xor.assoc)
  with Cons bs show ?case by simp
qed

lemma compute_nonce_inj:
  assumes "length b = 12" "compute_nonce b s = compute_nonce b t"
  shows "s = t"
proof -
  have "map2 (XOR) (drop 4 b) (u64_to_be s) = map2 (XOR) (drop 4 b) (u64_to_be t)"
    using assms by (simp add: compute_nonce_eq)
  then have "u64_to_be s = u64_to_be t"
    by (rule map2_xor_inj [rotated 2]) (simp_all add: assms)
  then show ?thesis by simp
qed

lemma checked_inc_Some: "checked_inc s = Some t \<Longrightarrow> t = s + 1 \<and> unat t = Suc (unat s)"
  using unatSuc [of s] by (auto simp: checked_inc_def eq_neg_iff_add_eq_0 add.commute split: if_splits)

lemma checked_inc_None: "checked_inc s = None \<longleftrightarrow> s = - 1"
  by (simp add: checked_inc_def)

lemma checked_inc_not_max: "checked_inc s = Some t \<Longrightarrow> s \<noteq> - 1"
  by (auto simp: checked_inc_def)

lemma show_MAX_L: "show_nat MAX_L = ''8160''"
  by (simp add: MAX_L_def show_nat.simps char_of_def bit_iff_odd)

lemma sealer_seal_Ok:
  assumes "sealer_seal A L c aad pt = (Ok ct, c')"
  shows "suite_seal A L (s_key c) (compute_nonce (s_base_nonce c) (s_seq c)) aad pt = Ok ct"
    and "c' = c\<lparr> s_seq := s_seq c + 1 \<rparr>" and "unat (s_seq c + 1) = Suc (unat (s_seq c))"
  using assms
  by (auto simp: sealer_seal_def Let_def dest!: checked_inc_Some split: result.splits option.splits)

lemma sealer_seal_Err: "sealer_seal A L c aad pt = (Err e, c') \<Longrightarrow> c' = c"
  by (auto simp: sealer_seal_def Let_def split: result.splits option.splits)

text \<open>The messages of a sequence of calls whose sealing succeeded, with their ciphertext.\<close>

fun delivered :: "(bytes \<times> bytes) list \<Rightarrow> (bytes, rustls_error) result list \<Rightarrow>
    (bytes \<times> bytes \<times> bytes) list" where
  "delivered ((aad, pt) # ms) (Ok ct # rs) = (aad, pt, ct) # delivered ms rs"
| "delivered (m # ms) (r # rs) = delivered ms rs"
| "delivered ms rs = []"

text \<open>The ciphertexts of a run are the sealings of their messages under the nonces of consecutive sequence
  numbers, from the one the context started with, and the counter never wraps.\<close>

definition seq_nonces :: "bytes \<Rightarrow> nat \<Rightarrow> nat \<Rightarrow> bytes list" where
  "seq_nonces base from n = map (\<lambda>i. compute_nonce base (of_nat i)) [from..<from + n]"

lemma seq_nonces_Suc:
  "seq_nonces base (unat s) (Suc n) = compute_nonce base s # seq_nonces base (Suc (unat s)) n"
  by (simp add: seq_nonces_def upt_conv_Cons del: upt_Suc)

lemma length_seq_nonces [simp]: "length (seq_nonces base from n) = n"
  by (simp add: seq_nonces_def)

lemma seq_nonces_12: "length base = 12 \<Longrightarrow> n \<in> set (seq_nonces base from k) \<Longrightarrow> length n = 12"
  by (auto simp: seq_nonces_def compute_nonce_eq)

lemma seq_nonces_distinct:
  assumes "length base = 12" "from + n < 2 ^ 64"
  shows "distinct (seq_nonces base from n)"
  unfolding seq_nonces_def distinct_map
proof (intro conjI inj_onI)
  fix i j assume ij: "i \<in> set [from..<from + n]" "j \<in> set [from..<from + n]"
    and eq: "compute_nonce base (of_nat i) = compute_nonce base (of_nat j)"
  have "(of_nat i :: u64) = of_nat j" using assms(1) eq by (rule compute_nonce_inj)
  then have "unat (of_nat i :: u64) = unat (of_nat j :: u64)" by simp
  with ij assms(2) show "i = j" by (simp add: unat_of_nat)
qed simp

definition sealed_under ::
    "aead_suite \<Rightarrow> hpke_lib \<Rightarrow> bytes \<Rightarrow> bytes \<Rightarrow> bytes \<times> bytes \<times> bytes \<Rightarrow> bool" where
  "sealed_under A L key n = (\<lambda>(aad, pt, ct). suite_seal A L key n aad pt = Ok ct)"

text \<open>Distinct nonces give distinct ciphertexts for a cipher that never gives the same ciphertext under
  two nonces.\<close>

lemma committing_distinct:
  assumes "list_all2 (sealed_under A L key) ns ds" "distinct ns"
    and "\<forall>n n' aad aad' pt pt' ct. suite_seal A L key n aad pt = Ok ct \<and>
        suite_seal A L key n' aad' pt' = Ok ct \<longrightarrow> n = n'"
  shows "distinct (map (\<lambda>(aad, pt, ct). ct) ds)"
  unfolding distinct_conv_nth
proof (intro allI impI)
  fix i j assume ij: "i < length (map (\<lambda>(aad, pt, ct). ct) ds)" "j < length (map (\<lambda>(aad, pt, ct). ct) ds)" "i \<noteq> j"
  obtain a p t a' p' t' where d: "ds ! i = (a, p, t)" "ds ! j = (a', p', t')"
    by (metis prod_cases3)
  have "suite_seal A L key (ns ! i) a p = Ok t" "suite_seal A L key (ns ! j) a' p' = Ok t'"
    using assms(1) ij d by (auto simp: sealed_under_def list_all2_conv_all_nth)
  moreover have "ns ! i \<noteq> ns ! j"
    using assms(1,2) ij by (simp add: list_all2_conv_all_nth nth_eq_iff_index_eq)
  ultimately have "t \<noteq> t'" using assms(3) by blast
  with ij d show "map (\<lambda>(aad, pt, ct). ct) ds ! i \<noteq> map (\<lambda>(aad, pt, ct). ct) ds ! j" by simp
qed

lemma seal_all_nonces:
  "list_all2 (sealed_under A L (s_key c))
     (seq_nonces (s_base_nonce c) (unat (s_seq c)) (length (delivered ms (seal_all A L c ms))))
     (delivered ms (seal_all A L c ms)) \<and>
   unat (s_seq c) + length (delivered ms (seal_all A L c ms)) < 2 ^ 64"
proof (induction ms arbitrary: c)
  case Nil
  then show ?case using unsigned_less [of "s_seq c"] by (simp add: seq_nonces_def)
next
  case (Cons m ms)
  obtain aad pt where m: "m = (aad, pt)" by fastforce
  obtain r c' where r: "sealer_seal A L c aad pt = (r, c')" by fastforce
  show ?case
  proof (cases r)
    case E: (Err e)
    with r have "c' = c" by (auto dest: sealer_seal_Err)
    with Cons.IH [of c] m r E show ?thesis by simp
  next
    case O: (Ok ct)
    note ok = sealer_seal_Ok [OF r [unfolded O]]
    from ok(1) Cons.IH [of c', unfolded ok(2)] m r O show ?thesis
      by (simp add: seq_nonces_Suc sealed_under_def ok(2,3))
  qed
qed

section \<open>Sender and receiver in step\<close>

text \<open>The two contexts of a session hold the same material and the same sequence number.\<close>

definition ctx_match :: "hpke_sealer_ctx \<Rightarrow> hpke_opener_ctx \<Rightarrow> bool" where
  "ctx_match c d \<longleftrightarrow> o_key d = s_key c \<and> o_base_nonce d = s_base_nonce c \<and> o_seq d = s_seq c \<and>
     o_suite_id d = s_suite_id c \<and> o_exporter_secret d = s_exporter_secret c"

locale hpke_suite = dh_kem_contract K + aead_suite_contract A for K A
begin

lemma step_in_sync:
  assumes L: "hpke_lib_ok L" and m: "ctx_match c d" and s: "sealer_seal A L c aad pt = (Ok ct, c')"
  shows "\<exists>d'. opener_open A L d aad ct = (Ok pt, d') \<and> ctx_match c' d'"
proof -
  have "suite_open A L (o_key d) (compute_nonce (o_base_nonce d) (o_seq d)) aad ct = Ok pt"
    using seal_open [OF L sealer_seal_Ok(1) [OF s]] m by (simp add: ctx_match_def)
  moreover have "checked_inc (o_seq d) = Some (s_seq c + 1)"
    using sealer_seal_Ok(3) [OF s] m by (auto simp: checked_inc_def ctx_match_def)
  ultimately show ?thesis
    using m sealer_seal_Ok(2) [OF s] by (simp add: opener_open_def ctx_match_def)
qed

lemma run_in_sync:
  assumes "hpke_lib_ok L" "ctx_match c d"
  shows "open_all A L d (map (\<lambda>(aad, pt, ct). (aad, ct)) (delivered ms (seal_all A L c ms))) =
         map (\<lambda>(aad, pt, ct). Ok pt) (delivered ms (seal_all A L c ms))"
  using assms(2)
proof (induction ms arbitrary: c d)
  case Nil
  then show ?case by simp
next
  case (Cons m ms)
  obtain aad pt where m: "m = (aad, pt)" by fastforce
  obtain r c' where r: "sealer_seal A L c aad pt = (r, c')" by fastforce
  show ?case
  proof (cases r)
    case E: (Err e)
    then have "c' = c" using E r sealer_seal_Err by blast
    with Cons m r E show ?thesis by simp
  next
    case O: (Ok ct)
    with r step_in_sync [OF assms(1) Cons.prems] obtain d'
      where "opener_open A L d aad ct = (result.Ok pt, d')" "ctx_match c' d'" by blast
    with Cons.IH m r O show ?thesis by simp
  qed
qed

lemma key_schedule_ok:
  "hpke_lib_ok L \<Longrightarrow> \<exists>km. key_schedule_base L s ss info (NK A) = Ok km \<and> length (km_base_nonce km) = 12 \<and>
      length (km_exporter_secret km) = 32"
  using key_schedule_total key_fits by blast

lemma session_setup:
  assumes L: "hpke_lib_ok L" "draws32 rg" "generate_key_pair K L rg = Some (Ok (pk, sk))"
    and s: "setup_sender K A L re info pk = Some (Ok (enc, c))"
  shows "\<exists>d. setup_receiver K A L enc info sk = Ok d \<and> ctx_match c d"
    and "length (s_base_nonce c) = 12" and "length (s_exporter_secret c) = 32" and "s_seq c = 0"
proof -
  from s obtain ss km where
    e: "kem_encap K L re pk = Some (Ok (ss, enc))" and
    km: "key_schedule_base L (hpke_suite_id K A) ss info (NK A) = Ok km" and
    c: "c = \<lparr> s_key = km_key km, s_base_nonce = km_base_nonce km, s_seq = 0,
             s_suite_id = hpke_suite_id K A, s_exporter_secret = km_exporter_secret km \<rparr>"
    by (auto simp: setup_sender_def Let_def result_simps)
  have "kem_decap K L sk enc = Ok ss"
    using encap_decap [OF L(1,2) _ e] L(3) by (simp add: generate_key_pair_def)
  then show "\<exists>d. setup_receiver K A L enc info sk = Ok d \<and> ctx_match c d"
    using km c by (simp add: setup_receiver_def ctx_match_def)
  show "length (s_base_nonce c) = 12" "length (s_exporter_secret c) = 32" "s_seq c = 0"
    using key_schedule_ok [OF L(1), of "hpke_suite_id K A" ss info] km c by auto
qed

lemma one_shot:
  assumes L: "hpke_lib_ok L" "draws32 rg" "generate_key_pair K L rg = Some (Ok (pk, sk))"
    and s: "hpke_seal K A L re info aad pt pk = Some (Ok (enc, ct))"
  shows "hpke_open K A L enc info aad ct sk = Ok pt"
proof -
  from s obtain ss km where
    e: "kem_encap K L re pk = Some (Ok (ss, enc))" and
    km: "key_schedule_base L (hpke_suite_id K A) ss info (NK A) = Ok km" and
    ct: "suite_seal A L (km_key km) (compute_nonce (km_base_nonce km) 0) aad pt = Ok ct"
    by (auto simp: hpke_seal_def Let_def result_simps)
  have "kem_decap K L sk enc = Ok ss"
    using encap_decap [OF L(1,2) _ e] L(3) by (simp add: generate_key_pair_def)
  with km seal_open [OF L(1) ct] show ?thesis by (simp add: hpke_open_def)
qed

end

interpretation x25519_aes128gcm: hpke_suite KemX25519 AeadAes128Gcm ..
interpretation x25519_chacha20: hpke_suite KemX25519 AeadChacha20 ..
interpretation p256_aes128gcm: hpke_suite KemP256 AeadAes128Gcm ..
interpretation p256_chacha20: hpke_suite KemP256 AeadChacha20 ..

lemma pure_suites_contract: "(K, A) \<in> set pure_hpke_suites \<Longrightarrow> hpke_suite K A"
  using x25519_aes128gcm.hpke_suite_axioms x25519_chacha20.hpke_suite_axioms
    p256_aes128gcm.hpke_suite_axioms p256_chacha20.hpke_suite_axioms
  by (auto simp: pure_hpke_suites_def)

section \<open>Properties\<close>

text \<open>C6: For each of the four suites, a key pair of the suite and a sender set up for its public key: the
  receiver set up from the encapsulated key and the private key succeeds, opens in order every message the
  sender sealed (whatever calls of the sender failed in between) to its plaintext, and exports the same
  secrets for every exporter context and length.\<close>

theorem hpke_session:
  assumes "(K, A) \<in> set pure_hpke_suites" "hpke_lib_ok L" "draws32 rg"
    and "generate_key_pair K L rg = Some (Ok (pk, sk))"
    and "setup_sender K A L re info pk = Some (Ok (enc, c))"
  shows "\<exists>d. setup_receiver K A L enc info sk = Ok d \<and>
      (\<forall>ms. open_all A L d (map (\<lambda>(aad, pt, ct). (aad, ct)) (delivered ms (seal_all A L c ms))) =
            map (\<lambda>(aad, pt, ct). Ok pt) (delivered ms (seal_all A L c ms))) \<and>
      (\<forall>ectx len. opener_export L d ectx len = sealer_export L c ectx len)"
proof -
  note suite = pure_suites_contract [OF assms(1)]
  obtain d where d: "setup_receiver K A L enc info sk = Ok d" "ctx_match c d"
    using hpke_suite.session_setup(1) [OF suite assms(2-5)] by blast
  have "opener_export L d ectx len = sealer_export L c ectx len" for ectx len
    using d(2) by (simp add: opener_export_def sealer_export_def ctx_match_def)
  with d hpke_suite.run_in_sync [OF suite assms(2) d(2)] show ?thesis by blast
qed

text \<open>What the one-shot \<open>seal\<close> produces for a public key, the one-shot \<open>open\<close> with the private key, the
  same info and associated data turns back into the plaintext.\<close>

theorem hpke_seal_open:
  assumes "(K, A) \<in> set pure_hpke_suites" "hpke_lib_ok L" "draws32 rg"
    and "generate_key_pair K L rg = Some (Ok (pk, sk))"
    and "hpke_seal K A L re info aad pt pk = Some (Ok (enc, ct))"
  shows "hpke_open K A L enc info aad ct sk = Ok pt"
  using hpke_suite.one_shot [OF pure_suites_contract [OF assms(1)] assms(2-5)] .

text \<open>C10: In any sequence of calls on a sender context, failed ones included, the i-th ciphertext handed
  out is the encryption of its message under the nonce of sequence number i; these nonces have 12 bytes and
  are pairwise distinct, and there are fewer than 2^64 of them. So where a cipher never gives the same
  ciphertext under two nonces, no ciphertext is handed out twice, not even for the same message.\<close>

theorem hpke_nonces_distinct:
  assumes "(K, A) \<in> set pure_hpke_suites" "hpke_lib_ok L" "draws32 rg"
    and "generate_key_pair K L rg = Some (Ok (pk, sk))"
    and "setup_sender K A L re info pk = Some (Ok (enc, c))"
    and "ds = delivered ms (seal_all A L c ms)"
    and "ns = map (\<lambda>i. compute_nonce (s_base_nonce c) (of_nat i)) [0..<length ds]"
  shows "list_all2 (\<lambda>n (aad, pt, ct). suite_seal A L (s_key c) n aad pt = Ok ct) ns ds \<and>
    distinct ns \<and> (\<forall>n \<in> set ns. length n = 12) \<and> length ds < 2 ^ 64 \<and>
    ((\<forall>n n' aad aad' pt pt' ct. suite_seal A L (s_key c) n aad pt = Ok ct \<and>
        suite_seal A L (s_key c) n' aad' pt' = Ok ct \<longrightarrow> n = n') \<longrightarrow>
     distinct (map (\<lambda>(aad, pt, ct). ct) ds))"
proof -
  have c: "length (s_base_nonce c) = 12" "s_seq c = 0"
    using hpke_suite.session_setup(2,4) [OF pure_suites_contract [OF assms(1)] assms(2-5)] by simp_all
  have ns: "ns = seq_nonces (s_base_nonce c) 0 (length ds)"
    by (simp add: assms(7) seq_nonces_def)
  have all: "list_all2 (sealed_under A L (s_key c)) ns ds" and len: "length ds < 2 ^ 64"
    using seal_all_nonces [of A L c ms] c(2) by (simp_all add: ns assms(6))
  have dist: "distinct ns"
    unfolding ns using len by (intro seq_nonces_distinct [OF c(1)]) simp
  then show ?thesis
    using all len seq_nonces_12 [OF c(1)] committing_distinct [OF all dist]
    by (simp add: ns sealed_under_def [abs_def])
qed

text \<open>A successful call of a sender or receiver context advances the sequence number by one without
  wrapping and changes nothing else; a failed call leaves the context as it was; at the last sequence number
  no call succeeds: it fails with the limit error, or with the error of the cipher.\<close>

theorem hpke_seq_discipline:
  "(case sealer_seal A L c aad pt of
      (Ok ct, c') \<Rightarrow> unat (s_seq c') = unat (s_seq c) + 1 \<and> c'\<lparr> s_seq := s_seq c \<rparr> = c \<and> s_seq c \<noteq> - 1
    | (Err e, c') \<Rightarrow> c' = c \<and>
        (e = seq_limit \<and> s_seq c = - 1 \<or>
         suite_seal A L (s_key c) (compute_nonce (s_base_nonce c) (s_seq c)) aad pt = Err e)) \<and>
   (case opener_open A L d aad ct of
      (Ok p, d') \<Rightarrow> unat (o_seq d') = unat (o_seq d) + 1 \<and> d'\<lparr> o_seq := o_seq d \<rparr> = d \<and> o_seq d \<noteq> - 1
    | (Err e, d') \<Rightarrow> d' = d \<and>
        (e = seq_limit \<and> o_seq d = - 1 \<or>
         suite_open A L (o_key d) (compute_nonce (o_base_nonce d) (o_seq d)) aad ct = Err e))"
  by (auto simp: sealer_seal_def opener_open_def Let_def checked_inc_None
      dest: checked_inc_Some checked_inc_not_max split: result.splits option.splits)

text \<open>C18: Key generation over P-256 returns exactly when some draw of randomness fails or is a valid scalar;
  it then returns what the first such draw gives.\<close>

theorem p256_sampling_returns:
  "p256_rejection_sample L rnd =
     (if \<exists>n. draw_ends L (rnd n)
      then Some (case rnd (LEAST n. draw_ends L (rnd n)) of
                   Err e \<Rightarrow> Err (General (''P-256 keygen: getrandom failed: '' @ e))
                 | Ok buf \<Rightarrow> Ok (the (p256_sk_from_slice L buf)))
      else None)"
proof (cases "\<exists>n. draw_ends L (rnd n)")
  case True
  then have "draw_ends L (rnd (LEAST n. draw_ends L (rnd n)))" by (rule LeastI_ex)
  then have "p256_rejection_sample L rnd =
      Some (case rnd (LEAST n. draw_ends L (rnd n)) of
              Err e \<Rightarrow> Err (General (''P-256 keygen: getrandom failed: '' @ e))
            | Ok buf \<Rightarrow> Ok (the (p256_sk_from_slice L buf)))"
    by (rule rejection_sample_at) (rule not_less_Least)
  with True show ?thesis by simp
next
  case False
  then show ?thesis
    using rejection_loop_returned [of L rnd 0] by (cases "p256_rejection_sample L rnd") (auto simp: p256_rejection_sample_def)
qed

text \<open>Exporting from the context of a sender gives exactly the requested number of bytes up to 8160, and
  the length error above.\<close>

theorem hpke_export_bounds:
  assumes "(K, A) \<in> set pure_hpke_suites" "hpke_lib_ok L" "draws32 rg"
    and "generate_key_pair K L rg = Some (Ok (pk, sk))"
    and "setup_sender K A L re info pk = Some (Ok (enc, c))"
  shows "if len \<le> 8160 then \<exists>out. sealer_export L c ectx len = Ok out \<and> length out = len
         else sealer_export L c ectx len =
           Err (General (''HPKE Export: requested length '' @ show_nat len @ '' exceeds maximum 8160 bytes''))"
proof -
  have "length (s_exporter_secret c) = 32"
    using hpke_suite.session_setup(3) [OF pure_suites_contract [OF assms(1)] assms(2-5)] .
  then have "\<exists>out. sealer_export L c ectx len = Ok out \<and> length out = len" if "len \<le> 8160"
    using labeled_expand_total [OF assms(2), of len "s_exporter_secret c"] that
    by (simp add: sealer_export_def labeled_expand_def MAX_L_def)
  moreover have "sealer_export L c ectx len =
      Err (General (''HPKE Export: requested length '' @ show_nat len @ '' exceeds maximum 8160 bytes''))" if "\<not> len \<le> 8160"
  proof -
    have "MAX_L < len" using that by (simp add: MAX_L_def)
    then show ?thesis by (simp add: sealer_export_def labeled_expand_checked_def show_MAX_L)
  qed
  ultimately show ?thesis by simp
qed

text \<open>The four suites have pairwise different suite identifiers, none of which is a prefix-compatible KEM
  identifier, and name themselves with the code points rustls uses.\<close>

lemma hpke_suite_ids:
  "distinct (map (\<lambda>(K, A). hpke_suite_id K A) pure_hpke_suites) \<and>
   list_all (\<lambda>(K, A). length (hpke_suite_id K A) = 10 \<and> length (kem_suite_id K) = 5 \<and>
     take 3 (hpke_suite_id K A) \<noteq> take 3 (kem_suite_id K)) pure_hpke_suites \<and>
   map (\<lambda>(K, A). hpke_suite_names K A) pure_hpke_suites =
     [Some (DHKEM_X25519_HKDF_SHA256, AES_128_GCM), Some (DHKEM_X25519_HKDF_SHA256, CHACHA20_POLY_1305),
      Some (DHKEM_P256_HKDF_SHA256, AES_128_GCM), Some (DHKEM_P256_HKDF_SHA256, CHACHA20_POLY_1305)]"
  by (simp add: pure_hpke_suites_def hpke_suite_id_def kem_suite_id_def hpke_suite_names_def
      KemX25519_def KemP256_def AeadAes128Gcm_def AeadChacha20_def be_encode_2 ascii_def Let_def)

section \<open>Witnesses\<close>

text \<open>A concrete interface of the crates that keeps every law.\<close>

definition example_hpke_lib :: hpke_lib where
  "example_hpke_lib =
     \<lparr> hkdf_extract = (\<lambda>_ _. replicate 32 1), hkdf_from_prk = (\<lambda>k. 32 \<le> length k),
       hkdf_expand = (\<lambda>_ _ l. Some (replicate l 2)),
       x25519_public = (\<lambda>_. replicate 32 3), x25519_dh = (\<lambda>_ _. replicate 32 4), x25519_contributory = (\<lambda>_. True),
       p256_pk_from_sec1 = (\<lambda>b. if length b = 65 then Some [5] else None),
       p256_sk_from_slice = (\<lambda>b. if length b = 32 then Some b else None), p256_sk_to_bytes = id,
       p256_public_key = (\<lambda>_. [5]), p256_uncompressed = (\<lambda>_. replicate 65 6), p256_dh = (\<lambda>_ _. replicate 32 7),
       aes128gcm_new = (\<lambda>k. length k = 16), aes128gcm_encrypt = (\<lambda>_ _ _ pt. Some (pt @ [8])),
       aes128gcm_decrypt = (\<lambda>_ _ _ ct. Some (butlast ct)),
       chacha_new = (\<lambda>k. length k = 32), chacha_encrypt = (\<lambda>_ _ _ pt. Some (pt @ [9])),
       chacha_decrypt = (\<lambda>_ _ _ ct. Some (butlast ct)) \<rparr>"

definition example_draws :: draws where
  "example_draws i = Ok (replicate 32 0)"

lemma example_hpke_lib_ok: "hpke_lib_ok example_hpke_lib"
  by (auto simp: hpke_lib_ok_def hkdf_ok_def x25519_ok_def p256_ok_def aead_crates_ok_def
      example_hpke_lib_def split: if_splits)

lemma example_draws32: "draws32 example_draws"
  by (simp add: draws32_def example_draws_def)

definition example_sealer :: hpke_sealer_ctx where
  "example_sealer = \<lparr> s_key = replicate 16 2, s_base_nonce = replicate 12 2, s_seq = 0,
     s_suite_id = hpke_suite_id KemX25519 AeadAes128Gcm, s_exporter_secret = replicate 32 2 \<rparr>"

lemma example_generate:
  "generate_key_pair KemX25519 example_hpke_lib example_draws = Some (Ok (replicate 32 3, replicate 32 0))"
  by (simp add: generate_key_pair_def KemX25519_def x25519_generate_def example_draws_def example_hpke_lib_def)

lemma example_encap:
  "kem_encap KemX25519 example_hpke_lib example_draws (replicate 32 3) = Some (Ok (replicate 32 2, replicate 32 3))"
  by (simp add: KemX25519_def x25519_encap_def example_draws_def example_hpke_lib_def x25519_consts_def
      extract_and_expand_def labeled_expand_def labeled_expand_checked_def labeled_extract_def MAX_L_def)

lemma example_schedule:
  "key_schedule_base example_hpke_lib s ss info 16 =
     Ok \<lparr> km_key = replicate 16 2, km_base_nonce = replicate 12 2, km_exporter_secret = replicate 32 2 \<rparr>"
  by (simp add: key_schedule_base_def example_hpke_lib_def labeled_expand_def labeled_expand_checked_def
      labeled_extract_def MAX_L_def Let_def)

lemma example_setup:
  "setup_sender KemX25519 AeadAes128Gcm example_hpke_lib example_draws [1] (replicate 32 3) =
     Some (Ok (replicate 32 3, example_sealer))"
  using example_encap example_schedule
  by (simp add: setup_sender_def example_sealer_def AeadAes128Gcm_def)

lemma example_one_shot:
  "hpke_seal KemX25519 AeadAes128Gcm example_hpke_lib example_draws [1] [2] [3] (replicate 32 3) =
     Some (Ok (replicate 32 3, [3, 8]))"
  using example_encap example_schedule
  by (simp add: hpke_seal_def AeadAes128Gcm_def aes128_seal_def example_hpke_lib_def)

lemma example_suite: "(KemX25519, AeadAes128Gcm) \<in> set pure_hpke_suites"
  by (simp add: pure_hpke_suites_def)

lemmas example_session =
  example_suite example_hpke_lib_ok example_draws32 example_generate example_setup

theorem hpke_session_witness:
  "\<exists>d. setup_receiver KemX25519 AeadAes128Gcm example_hpke_lib (replicate 32 3) [1] (replicate 32 0) = Ok d \<and>
     opener_export example_hpke_lib d [7] 9 = sealer_export example_hpke_lib example_sealer [7] 9"
  using hpke_session [OF example_session] by blast

theorem hpke_seal_open_witness:
  "hpke_open KemX25519 AeadAes128Gcm example_hpke_lib (replicate 32 3) [1] [2] [3, 8] (replicate 32 0) = Ok [3]"
  by (rule hpke_seal_open [OF example_suite example_hpke_lib_ok example_draws32 example_generate example_one_shot])

text \<open>A cipher that writes its nonce behind the plaintext: the same message sealed twice gives two
  ciphertexts, which show the nonces of sequence numbers 0 and 1.\<close>

definition revealing_hpke_lib :: hpke_lib where
  "revealing_hpke_lib = example_hpke_lib
     \<lparr> aes128gcm_encrypt := (\<lambda>_ n _ pt. Some (pt @ n)),
       aes128gcm_decrypt := (\<lambda>_ n _ ct. Some (take (length ct - length n) ct)) \<rparr>"

lemma revealing_hpke_lib_ok: "hpke_lib_ok revealing_hpke_lib"
  by (auto simp: hpke_lib_ok_def hkdf_ok_def x25519_ok_def p256_ok_def aead_crates_ok_def
      example_hpke_lib_def revealing_hpke_lib_def split: if_splits)

lemma revealing_setup:
  "generate_key_pair KemX25519 revealing_hpke_lib example_draws = Some (Ok (replicate 32 3, replicate 32 0))"
  "setup_sender KemX25519 AeadAes128Gcm revealing_hpke_lib example_draws [1] (replicate 32 3) =
     Some (Ok (replicate 32 3, example_sealer))"
  by (simp_all add: setup_sender_def generate_key_pair_def KemX25519_def x25519_generate_def example_draws_def
      example_hpke_lib_def revealing_hpke_lib_def x25519_encap_def x25519_consts_def
      extract_and_expand_def labeled_expand_def labeled_expand_checked_def labeled_extract_def MAX_L_def
      key_schedule_base_def example_sealer_def AeadAes128Gcm_def Let_def)

lemma example_nonces:
  "compute_nonce (replicate 12 2) 0 = replicate 12 2" "compute_nonce (replicate 12 2) 1 = replicate 11 2 @ [3]"
  by code_simp+

lemma revealing_delivered:
  "delivered [([1], [2]), ([1], [2])]
     (seal_all AeadAes128Gcm revealing_hpke_lib example_sealer [([1], [2]), ([1], [2])]) =
   [([1], [2], 2 # replicate 12 2), ([1], [2], 2 # replicate 11 2 @ [3])]"
  by (simp add: sealer_seal_def AeadAes128Gcm_def aes128_seal_def example_hpke_lib_def revealing_hpke_lib_def
      example_sealer_def checked_inc_def example_nonces Let_def)

theorem hpke_nonces_distinct_witness:
  "distinct (map (\<lambda>i. compute_nonce (s_base_nonce example_sealer) (of_nat i)) [0..<2]) \<and>
   suite_seal AeadAes128Gcm revealing_hpke_lib (s_key example_sealer)
     (compute_nonce (s_base_nonce example_sealer) 1) [1] [2] = Ok (2 # replicate 11 2 @ [3])"
  using hpke_nonces_distinct [OF example_suite revealing_hpke_lib_ok example_draws32 revealing_setup
      revealing_delivered [symmetric] refl]
  by (simp add: upt_conv_Cons)

theorem hpke_export_bounds_witness:
  "\<exists>out. sealer_export example_hpke_lib example_sealer [7] 9 = Ok out \<and> length out = 9"
  using hpke_export_bounds [OF example_session, of 9 "[7]"] by simp

end
