(* ===== verification/Ech_Config.thy ===== *)
theory Ech_Config
  imports Hpke
begin

text \<open>
  The generator of ECHConfigList values (\<open>hpke/ech_config.rs\<close>). The parser of rustls that the generator calls
  on its own output belongs to rustls and is an argument. As specification the theory has a decoder of the
  layout that the source documents (draft-ietf-tls-esni-18, section 4), written without reference to the
  encoder.
\<close>

section \<open>The generator\<close>

record generated_ech_config =
  ech_config_list :: bytes
  ech_private_key :: bytes
  ech_public_key :: bytes
  ech_config_id :: byte

record suite_ids =
  kem_id :: u16
  kdf_id :: u16
  aead_id :: u16

text \<open>\<open>u16::try_from(n)\<close> and \<open>u8::try_from(n)\<close>.\<close>

definition try_u16 :: "nat \<Rightarrow> u16 option" where
  "try_u16 n = (if n < 2 ^ 16 then Some (of_nat n) else None)"

definition try_u8 :: "nat \<Rightarrow> byte option" where
  "try_u8 n = (if n < 2 ^ 8 then Some (of_nat n) else None)"

definition encode_contents ::
    "suite_ids \<Rightarrow> byte \<Rightarrow> bytes \<Rightarrow> bytes \<Rightarrow> byte \<Rightarrow> (bytes, rustls_error) result" where
  "encode_contents ids config_id pk_bytes public_name_bytes maximum_name_length =
     rbind (ok_or (try_u16 (length pk_bytes)) (General ''ECHConfig: public key length exceeds u16'')) (\<lambda>pk_len.
     rbind (ok_or (try_u8 (length public_name_bytes)) (General ''ECHConfig: public_name length exceeds u8'')) (\<lambda>pn_len.
     Ok ([config_id] @ i2osp2 (kem_id ids) @ i2osp2 pk_len @ pk_bytes
         @ i2osp2 4 @ i2osp2 (kdf_id ids) @ i2osp2 (aead_id ids)
         @ [maximum_name_length] @ [pn_len] @ public_name_bytes @ i2osp2 0)))"

definition wrap_config_list :: "bytes \<Rightarrow> (bytes, rustls_error) result" where
  "wrap_config_list contents =
     rbind (ok_or (try_u16 (length contents)) (General ''ECHConfig: contents length exceeds u16'')) (\<lambda>contents_len.
     let ech_config = i2osp2 0xfe0d @ i2osp2 contents_len @ contents in
     rbind (ok_or (try_u16 (length ech_config)) (General ''ECHConfigList: total length exceeds u16'')) (\<lambda>list_len.
     Ok (i2osp2 list_len @ ech_config)))"

definition kem_code :: "hpke_kem_name \<Rightarrow> u16" where
  "kem_code k = (case k of DHKEM_X25519_HKDF_SHA256 \<Rightarrow> 0x0020 | DHKEM_P256_HKDF_SHA256 \<Rightarrow> 0x0010)"

definition aead_code :: "hpke_aead_name \<Rightarrow> u16" where
  "aead_code a = (case a of AES_128_GCM \<Rightarrow> 0x0001 | CHACHA20_POLY_1305 \<Rightarrow> 0x0003)"

text \<open>\<open>generate_ech_config_list\<close>; \<open>ech_config_new\<close> is rustls' \<open>EchConfig::new\<close>. \<open>None\<close> when the key
  generation does not return (or \<open>suite\<close> panics, which no suite of the module does).\<close>

definition generate_ech_config_list ::
    "(bytes \<Rightarrow> (unit, string) result) \<Rightarrow> dh_kem \<Rightarrow> aead_suite \<Rightarrow> hpke_lib \<Rightarrow> draws \<Rightarrow> byte \<Rightarrow> bytes \<Rightarrow> byte \<Rightarrow>
      (generated_ech_config, rustls_error) result option" where
  "generate_ech_config_list ech_config_new K A L rnd config_id public_name maximum_name_length =
     dbind (generate_key_pair K L rnd) (\<lambda>(pk, sk).
     case hpke_suite_names K A of
       None \<Rightarrow> None
     | Some (kem, aead) \<Rightarrow>
         let ids = \<lparr> kem_id = kem_code kem, kdf_id = 0x0001, aead_id = aead_code aead \<rparr> in
         Some (rbind (encode_contents ids config_id pk public_name maximum_name_length) (\<lambda>contents.
               rbind (wrap_config_list contents) (\<lambda>config_list.
               rbind (rmap_err (\<lambda>e. General (''ECHConfig: self-validation failed (encoding bug): '' @ e))
                        (ech_config_new config_list)) (\<lambda>_.
               Ok \<lparr> ech_config_list = config_list, ech_private_key = sk, ech_public_key = pk,
                    ech_config_id = config_id \<rparr>)))))"

section \<open>The layout\<close>

record ech_fields =
  ef_config_id :: byte
  ef_kem_id :: nat
  ef_public_key :: bytes
  ef_cipher_suites :: "(nat \<times> nat) list"
  ef_maximum_name_length :: byte
  ef_public_name :: bytes
  ef_extensions :: bytes

definition take_int :: "nat \<Rightarrow> bytes \<Rightarrow> (nat \<times> bytes) option" where
  "take_int k bs = (if length bs < k then None else Some (be_decode (take k bs), drop k bs))"

definition take_vec :: "nat \<Rightarrow> bytes \<Rightarrow> (bytes \<times> bytes) option" where
  "take_vec k bs =
     (case take_int k bs of
        None \<Rightarrow> None
      | Some (n, r) \<Rightarrow> if length r < n then None else Some (take n r, drop n r))"

fun decode_suites :: "bytes \<Rightarrow> (nat \<times> nat) list option" where
  "decode_suites [] = Some []"
| "decode_suites (a # b # c # d # r) =
     (case decode_suites r of None \<Rightarrow> None | Some xs \<Rightarrow> Some ((be16 a b, be16 c d) # xs))"
| "decode_suites _ = None"

definition decode_contents :: "bytes \<Rightarrow> ech_fields option" where
  "decode_contents bs =
     Option.bind (take_int 1 bs) (\<lambda>(cid, bs).
     Option.bind (take_int 2 bs) (\<lambda>(kem, bs).
     Option.bind (take_vec 2 bs) (\<lambda>(pk, bs).
     Option.bind (take_vec 2 bs) (\<lambda>(cs, bs).
     Option.bind (decode_suites cs) (\<lambda>suites.
     Option.bind (take_int 1 bs) (\<lambda>(mnl, bs).
     Option.bind (take_vec 1 bs) (\<lambda>(pn, bs).
     Option.bind (take_vec 2 bs) (\<lambda>(exts, bs).
     if bs \<noteq> [] then None
     else Some \<lparr> ef_config_id = of_nat cid, ef_kem_id = kem, ef_public_key = pk, ef_cipher_suites = suites,
                 ef_maximum_name_length = of_nat mnl, ef_public_name = pn, ef_extensions = exts \<rparr>))))))))"

text \<open>A list with exactly one configuration of version \<open>0xfe0d\<close>.\<close>

definition decode_config_list :: "bytes \<Rightarrow> ech_fields option" where
  "decode_config_list bs =
     Option.bind (take_vec 2 bs) (\<lambda>(cfg, rest).
     Option.bind (take_int 2 cfg) (\<lambda>(version, cfg).
     Option.bind (take_vec 2 cfg) (\<lambda>(contents, after).
     if rest \<noteq> [] \<or> after \<noteq> [] \<or> version \<noteq> 0xfe0d then None else decode_contents contents)))"

lemma take_int_append [codec_simps]: "take_int k (be_encode k n @ r) = Some (n mod 256 ^ k, r)"
  by (simp add: take_int_def be_decode_encode)

lemma take_vec_append [codec_simps]:
  "n = length x \<Longrightarrow> n < 256 ^ k \<Longrightarrow> take_vec k (be_encode k n @ x @ r) = Some (x, r)"
  by (simp add: take_vec_def take_int_append)

lemma take_int_byte [codec_simps]: "take_int 1 (b # r) = Some (unat b, r)"
  by (simp add: take_int_def be_decode_def)

lemma take_vec_byte [codec_simps]: "unat b = length x \<Longrightarrow> take_vec 1 (b # x @ r) = Some (x, r)"
  unfolding take_vec_def take_int_byte by simp

lemma take_vec_2_end [codec_simps]: "take_vec 2 (be_encode 2 0) = Some ([], [])"
  using take_vec_append [of 0 "[]" 2 "[]"] by simp

lemma unat_u16_mod [simp]: "unat (w :: u16) mod 65536 = unat w"
  using unsigned_less [of w, where ?'a = nat] by simp

lemma unat_of_nat_u16: "n < 65536 \<Longrightarrow> unat (of_nat n :: u16) = n"
  by (simp add: unat_of_nat)

lemma decode_one_suite: "decode_suites (be_encode 2 (unat (a :: u16)) @ be_encode 2 (unat (b :: u16))) = Some [(unat a, unat b)]"
  by (simp add: be_encode_2 be16_be_encode del: of_nat_unat)

lemma length_i2osp2 [simp]: "length (i2osp2 w) = 2"
  by (simp add: i2osp2_def)

lemma decode_encode_contents:
  assumes "encode_contents ids cid pk pn mnl = Ok bs"
  shows "decode_contents bs = Some \<lparr> ef_config_id = cid, ef_kem_id = unat (kem_id ids), ef_public_key = pk,
           ef_cipher_suites = [(unat (kdf_id ids), unat (aead_id ids))], ef_maximum_name_length = mnl,
           ef_public_name = pn, ef_extensions = [] \<rparr>"
    and "length bs = 15 + length pk + length pn" "length pk < 65536" "length pn < 256"
proof -
  from assms have len: "length pk < 65536" "length pn < 256"
    by (auto simp: encode_contents_def result_simps try_u16_def try_u8_def split: if_splits)
  then show "length pk < 65536" "length pn < 256" by simp_all
  let ?suite = "i2osp2 (kdf_id ids) @ i2osp2 (aead_id ids)"
  from assms len have bs: "bs = cid # be_encode 2 (unat (kem_id ids)) @ be_encode 2 (length pk) @ pk
       @ be_encode 2 4 @ ?suite @ mnl # of_nat (length pn) # pn @ be_encode 2 0"
    by (simp add: encode_contents_def try_u16_def try_u8_def i2osp2_def unat_of_nat_u16)
  show "length bs = 15 + length pk + length pn" by (simp add: bs)
  have "take_vec 2 (be_encode 2 4 @ ?suite @ r) = Some (?suite, r)" for r
    using take_vec_append [of 4 ?suite 2 r] by simp
  moreover have "take_vec 2 (be_encode 2 (length pk) @ pk @ r) = Some (pk, r)" for r
    using take_vec_append [of "length pk" pk 2 r] len by simp
  moreover have "take_vec 1 (of_nat (length pn) # pn @ r) = Some (pn, r)" for r
    using take_vec_byte [of "of_nat (length pn)" pn r] len by simp
  moreover have "decode_suites ?suite = Some [(unat (kdf_id ids), unat (aead_id ids))]"
    by (simp add: i2osp2_def decode_one_suite)
  ultimately show "decode_contents bs = Some \<lparr> ef_config_id = cid, ef_kem_id = unat (kem_id ids), ef_public_key = pk,
           ef_cipher_suites = [(unat (kdf_id ids), unat (aead_id ids))], ef_maximum_name_length = mnl,
           ef_public_name = pn, ef_extensions = [] \<rparr>"
    by (simp add: bs decode_contents_def codec_simps del: One_nat_def)
qed

lemma i2osp2_of_nat: "n < 65536 \<Longrightarrow> i2osp2 (of_nat n) = be_encode 2 n"
  by (simp add: i2osp2_def unat_of_nat_u16)

lemma wrap_config_list_small:
  assumes "length contents \<le> 65531"
  shows "wrap_config_list contents =
    Ok (be_encode 2 (4 + length contents) @ be_encode 2 0xfe0d @ be_encode 2 (length contents) @ contents)"
proof -
  have "i2osp2 0xfe0d = be_encode 2 0xfe0d" by (simp add: i2osp2_def)
  then show ?thesis
    using assms i2osp2_of_nat [of "4 + length contents"] i2osp2_of_nat [of "length contents"]
    by (simp add: wrap_config_list_def try_u16_def)
qed

lemma wrap_config_list_big:
  "65531 < length contents \<Longrightarrow> \<exists>e. wrap_config_list contents = Err e"
  by (auto simp: wrap_config_list_def try_u16_def Let_def)

lemma decode_wrap:
  assumes "length contents \<le> 65531" "wrap_config_list contents = Ok bs"
  shows "decode_config_list bs = decode_contents contents"
proof -
  let ?cfg = "be_encode 2 0xfe0d @ be_encode 2 (length contents) @ contents"
  have "bs = be_encode 2 (4 + length contents) @ ?cfg @ []"
    using assms wrap_config_list_small [of contents] by simp
  then have "take_vec 2 bs = Some (?cfg, [])"
    using assms(1) take_vec_append [of "4 + length contents" ?cfg 2 "[]"] by simp
  moreover have "take_vec 2 (be_encode 2 (length contents) @ contents) = Some (contents, [])"
    using take_vec_append [of "length contents" contents 2 "[]"] assms(1) by simp
  ultimately show ?thesis
    by (simp add: decode_config_list_def take_int_append)
qed

section \<open>Properties\<close>

text \<open>The encoding of a configuration succeeds exactly when the public name has at most 255 bytes and the
  whole list fits its 16-bit length field; then decoding the list by the documented layout gives back the
  configuration id, the key and suite identifiers, the public key, the name and no extensions.\<close>

theorem ech_config_list_layout:
  "case rbind (encode_contents ids cid pk pn mnl) wrap_config_list of
     Ok bs \<Rightarrow> length pn \<le> 255 \<and> 19 + length pk + length pn \<le> 65535 \<and>
       length bs = 21 + length pk + length pn \<and>
       decode_config_list bs = Some \<lparr> ef_config_id = cid, ef_kem_id = unat (kem_id ids), ef_public_key = pk,
         ef_cipher_suites = [(unat (kdf_id ids), unat (aead_id ids))], ef_maximum_name_length = mnl,
         ef_public_name = pn, ef_extensions = [] \<rparr>
   | Err e \<Rightarrow> 255 < length pn \<or> 65535 < 19 + length pk + length pn"
proof (cases "encode_contents ids cid pk pn mnl")
  case E: (Err e)
  then show ?thesis
    by (auto simp: encode_contents_def result_simps try_u16_def try_u8_def split: if_splits)
next
  case O: (Ok contents)
  note c = decode_encode_contents [OF O]
  show ?thesis
  proof (cases "length contents \<le> 65531")
    case True
    note w = wrap_config_list_small [OF True]
    show ?thesis using O c w decode_wrap [OF True w] True by simp
  next
    case False
    then obtain e where "wrap_config_list contents = Err e"
      using wrap_config_list_big [of contents] by auto
    then show ?thesis using O c False by simp
  qed
qed

lemma pure_suite_codes:
  "(K, A) \<in> set pure_hpke_suites \<Longrightarrow>
     \<exists>k a. hpke_suite_names K A = Some (k, a) \<and> kem_code k = KEM_ID K \<and> aead_code a = AEAD_ID A"
  by (auto simp: pure_hpke_suites_def hpke_suite_names_def kem_code_def aead_code_def
      KemX25519_def KemP256_def AeadAes128Gcm_def AeadChacha20_def)

lemma pure_suite_npk: "(K, A) \<in> set pure_hpke_suites \<Longrightarrow> NPK K \<le> 65"
  by (auto simp: pure_hpke_suites_def KemX25519_def KemP256_def)

text \<open>With a suite of the module, a key pair that was drawn and a public name of at most 255 bytes, the
  generator returns exactly the drawn key pair and a list that decodes to it, provided rustls accepts the list;
  only the self-validation can make it fail.\<close>

theorem generate_ech_config_list_correct:
  assumes "(K, A) \<in> set pure_hpke_suites" "hpke_lib_ok L"
    and "generate_key_pair K L rnd = Some (Ok (pk, sk))" "length pn \<le> 255"
  shows "\<exists>bs. decode_config_list bs = Some \<lparr> ef_config_id = cid, ef_kem_id = unat (KEM_ID K),
             ef_public_key = pk, ef_cipher_suites = [(1, unat (AEAD_ID A))], ef_maximum_name_length = mnl,
             ef_public_name = pn, ef_extensions = [] \<rparr> \<and>
         generate_ech_config_list parse K A L rnd cid pn mnl =
           Some (case parse bs of
                   Ok u \<Rightarrow> Ok \<lparr> ech_config_list = bs, ech_private_key = sk, ech_public_key = pk, ech_config_id = cid \<rparr>
                 | Err e \<Rightarrow> Err (General (''ECHConfig: self-validation failed (encoding bug): '' @ e)))"
proof -
  obtain k a where names: "hpke_suite_names K A = Some (k, a)" "kem_code k = KEM_ID K" "aead_code a = AEAD_ID A"
    using pure_suite_codes [OF assms(1)] by blast
  let ?ids = "\<lparr> kem_id = KEM_ID K, kdf_id = 0x0001, aead_id = AEAD_ID A \<rparr>"
  have "dh_kem_contract K"
    using pure_suites_contract [OF assms(1)] by (simp add: hpke_suite_def)
  then have pk: "length pk \<le> 65"
    using dh_kem_contract.generate_length [of K, OF _ assms(2)] assms(3) pure_suite_npk [OF assms(1)] by (simp add: generate_key_pair_def)
  then obtain contents where contents: "encode_contents ?ids cid pk pn mnl = Ok contents"
    using assms(4) by (auto simp: encode_contents_def try_u16_def try_u8_def)
  note c = decode_encode_contents [OF contents]
  have small: "length contents \<le> 65531" using c pk assms(4) by simp
  then obtain bs where bs: "wrap_config_list contents = Ok bs"
    using wrap_config_list_small by blast
  have "generate_ech_config_list parse K A L rnd cid pn mnl =
     Some (case parse bs of
             Ok u \<Rightarrow> Ok \<lparr> ech_config_list = bs, ech_private_key = sk, ech_public_key = pk, ech_config_id = cid \<rparr>
           | Err e \<Rightarrow> Err (General (''ECHConfig: self-validation failed (encoding bug): '' @ e)))"
    using contents bs names by (simp add: generate_ech_config_list_def assms(3) split: result.splits)
  with c(1) decode_wrap [OF small bs] show ?thesis by auto
qed

theorem generate_ech_config_list_correct_witness:
  "\<exists>bs. generate_ech_config_list (\<lambda>_. Ok ()) KemX25519 AeadAes128Gcm example_hpke_lib example_draws 7 [97] 0 =
     Some (Ok \<lparr> ech_config_list = bs, ech_private_key = replicate 32 0, ech_public_key = replicate 32 3, ech_config_id = 7 \<rparr>)"
  using generate_ech_config_list_correct
    [OF example_suite example_hpke_lib_ok example_generate, of "[97]" 7 0 "\<lambda>_. Ok ()"] by auto

end
