(* ===== verification/Sct.thy ===== *)
theory Sct
  imports Verifier
begin

text \<open>
  Certificate Transparency, \<open>verifier/sct.rs\<close>: the parser of the SCT list
  extension, the signed payloads of RFC 6962, the signature check of one SCT, the
  count of distinct trusted logs, and the \<open>SctVerifier\<close>. Log output and the
  once-only warning flag do not influence any result and are left out.
\<close>

section \<open>Data\<close>

record parsed_sct =
  sct_version :: byte
  log_id :: bytes
  timestamp_ms :: u64
  sct_extensions :: bytes
  hash_alg :: byte
  sig_alg :: byte
  sct_signature :: bytes

datatype sct_parse_error = ListLenOverflow | EntryLenOverflow | EntryTooShort | UnknownVersion byte

definition sct_parse_error_display :: "sct_parse_error \<Rightarrow> string" where
  "sct_parse_error_display e =
     (case e of
        ListLenOverflow \<Rightarrow> ''SCT list length exceeds available bytes''
      | EntryLenOverflow \<Rightarrow> ''SCT entry length exceeds remaining list bytes''
      | EntryTooShort \<Rightarrow> ''SCT entry is too short''
      | UnknownVersion v \<Rightarrow> ''unknown SCT version 0x'' @ hex2 v)"

datatype sct_verify_error =
    UnsupportedKeyAlg
  | SctSignatureInvalid
  | KeyDecode string
  | SigDecode string
  | ParseError string

fun sct_verify_error_display :: "sct_verify_error \<Rightarrow> string" where
  "sct_verify_error_display UnsupportedKeyAlg = ''SCT log key algorithm not supported''"
| "sct_verify_error_display SctSignatureInvalid = ''SCT signature verification failed''"
| "sct_verify_error_display (KeyDecode msg) = ''SCT log key decode error: '' @ msg"
| "sct_verify_error_display (SigDecode msg) = ''SCT signature decode error: '' @ msg"
| "sct_verify_error_display (ParseError msg) = ''SCT precert parse/encode error: '' @ msg"

datatype ct_key_alg = EcdsaP256Sha256 | Ed25519

record ct_log =
  ct_id :: bytes
  public_key_der :: bytes
  key_alg :: ct_key_alg

type_synonym ct_log_list = "ct_log list"

datatype sct_policy = Disabled | Permissive byte | Strict byte

definition SCT_LIST_OID :: string where
  "SCT_LIST_OID = ''1.3.6.1.4.1.11129.2.4.2''"

section \<open>Parsing the list\<close>

text \<open>The body of the loop of \<open>parse_sct_list\<close>, on the bytes of one entry.\<close>

definition parse_sct_entry :: "bytes \<Rightarrow> (parsed_sct, sct_parse_error) result" where
  "parse_sct_entry sct_bytes =
     (if length sct_bytes < 43 then Err EntryTooShort
      else let version = sct_bytes ! 0 in
      if version \<noteq> 0 then Err (UnknownVersion version)
      else let lid = slice sct_bytes 1 33;
               timestamp = u64_from_be (slice sct_bytes 33 41);
               inner_pos = 41 in
      if inner_pos + 2 > length sct_bytes then Err EntryTooShort
      else let ext_len = be16 (sct_bytes ! inner_pos) (sct_bytes ! (inner_pos + 1));
               inner_pos = inner_pos + 2 in
      if inner_pos + ext_len > length sct_bytes then Err EntryTooShort
      else let exts = slice sct_bytes inner_pos (inner_pos + ext_len);
               inner_pos = inner_pos + ext_len in
      if inner_pos + 4 > length sct_bytes then Err EntryTooShort
      else let halg = sct_bytes ! inner_pos;
               salg = sct_bytes ! (inner_pos + 1);
               sig_len = be16 (sct_bytes ! (inner_pos + 2)) (sct_bytes ! (inner_pos + 3));
               inner_pos = inner_pos + 4 in
      if inner_pos + sig_len > length sct_bytes then Err EntryTooShort
      else Ok \<lparr> sct_version = version, log_id = lid, timestamp_ms = timestamp,
                sct_extensions = exts, hash_alg = halg, sig_alg = salg,
                sct_signature = slice sct_bytes inner_pos (inner_pos + sig_len) \<rparr>)"

text \<open>The \<open>while pos + 2 <= end\<close> loop; \<open>fin\<close> is the source's \<open>end\<close>.\<close>

function parse_sct_loop ::
    "bytes \<Rightarrow> nat \<Rightarrow> nat \<Rightarrow> parsed_sct list \<Rightarrow> (parsed_sct list, sct_parse_error) result" where
  "parse_sct_loop bs pos fin out =
     (if pos + 2 \<le> fin then
        let sct_len = be16 (bs ! pos) (bs ! (pos + 1)); pos' = pos + 2 in
        if pos' + sct_len > fin then Err EntryLenOverflow
        else (case parse_sct_entry (slice bs pos' (pos' + sct_len)) of
                Err e \<Rightarrow> Err e
              | Ok s \<Rightarrow> parse_sct_loop bs (pos' + sct_len) fin (out @ [s]))
      else Ok out)"
  by pat_completeness auto
termination
  by (relation "measure (\<lambda>(bs, pos, fin, out). fin - pos)") auto

declare parse_sct_loop.simps [simp del]

definition parse_sct_list :: "bytes \<Rightarrow> (parsed_sct list, sct_parse_error) result" where
  "parse_sct_list bs =
     (if length bs < 2 then Ok []
      else let list_len = be16 (bs ! 0) (bs ! 1); pos = 2; fin = pos + list_len in
      if fin > length bs then Err ListLenOverflow
      else parse_sct_loop bs pos fin [])"

section \<open>The signed payloads\<close>

definition build_sct_signed_data :: "parsed_sct \<Rightarrow> bytes \<Rightarrow> bytes" where
  "build_sct_signed_data sct cert_der =
     (let cert_len = length cert_der; ext_len = length (sct_extensions sct) in
      [0, 0] @ u64_to_be (timestamp_ms sct) @ [0, 0] @
      [of_nat (cert_len div 2 ^ 16 mod 256), of_nat (cert_len div 2 ^ 8 mod 256), of_nat (cert_len mod 256)] @
      cert_der @
      [of_nat (ext_len div 2 ^ 8 mod 256), of_nat (ext_len mod 256)] @
      sct_extensions sct)"

definition build_sct_signed_data_precert :: "parsed_sct \<Rightarrow> bytes \<Rightarrow> bytes \<Rightarrow> bytes" where
  "build_sct_signed_data_precert sct tbs_no_sct issuer_key_hash =
     (let tbs_len = length tbs_no_sct; ext_len = length (sct_extensions sct) in
      [sct_version sct, 0] @ u64_to_be (timestamp_ms sct) @ [0, 1] @
      issuer_key_hash @
      [of_nat (tbs_len div 2 ^ 16 mod 256), of_nat (tbs_len div 2 ^ 8 mod 256), of_nat (tbs_len mod 256)] @
      tbs_no_sct @
      be_encode 2 (ext_len mod 2 ^ 16) @
      sct_extensions sct)"

definition precert_tbs_and_issuer_hash ::
    "ext_lib \<Rightarrow> bytes \<Rightarrow> bytes \<Rightarrow> (bytes \<times> bytes, sct_verify_error) result" where
  "precert_tbs_and_issuer_hash L leaf_der issuer_der =
     rbind (rmap_err (\<lambda>e. ParseError (''issuer cert parse: '' @ e)) (xp_from_der L issuer_der)) (\<lambda>issuer_parsed.
     let issuer_key_hash = sha256 L (xc_spki_raw issuer_parsed) in
     rbind (rmap_err (\<lambda>e. ParseError (''leaf cert parse: '' @ e)) (cert_from_der L leaf_der)) (\<lambda>leaf_cert.
     let t = tbs leaf_cert;
         t' = t\<lparr> tbs_extensions :=
                  map_option (filter (\<lambda>ext. extn_id ext \<noteq> SCT_LIST_OID)) (tbs_extensions t) \<rparr> in
     rbind (rmap_err (\<lambda>e. ParseError (''tbs re-encode: '' @ e)) (tbs_encode L t')) (\<lambda>tbs_bytes.
     Ok (issuer_key_hash, tbs_bytes))))"

section \<open>Verifying one SCT\<close>

definition verify_sct_signature ::
    "ext_lib \<Rightarrow> ct_log \<Rightarrow> bytes \<Rightarrow> parsed_sct \<Rightarrow> (unit, sct_verify_error) result" where
  "verify_sct_signature L log signed_data sct =
     (case key_alg log of
        EcdsaP256Sha256 \<Rightarrow>
          rbind (rmap_err KeyDecode (spki_ref L (public_key_der log))) (\<lambda>raw.
          rbind (rmap_err KeyDecode (p256_from_sec1 L raw)) (\<lambda>vk.
          rbind (rmap_err SigDecode (p256_sig_from_der L (sct_signature sct))) (\<lambda>sig.
          if p256_verify L vk signed_data sig then Ok () else Err SctSignatureInvalid)))
      | Ed25519 \<Rightarrow>
          rbind (rmap_err KeyDecode (spki_ref L (public_key_der log))) (\<lambda>raw.
          if length raw \<noteq> 32 then Err (KeyDecode ''Ed25519 key must be 32 bytes'')
          else
          rbind (rmap_err KeyDecode (ed25519_from_bytes L raw)) (\<lambda>vk.
          rbind (rmap_err SigDecode (ed25519_sig_from_slice L (sct_signature sct))) (\<lambda>sig.
          if ed25519_verify_strict L vk signed_data sig then Ok () else Err SctSignatureInvalid))))"

section \<open>Counting distinct trusted logs\<close>

text \<open>The payload of one SCT, from the pre-computed precertificate inputs.\<close>

definition sct_payload :: "(bytes \<times> bytes) option \<Rightarrow> bytes \<Rightarrow> parsed_sct \<Rightarrow> bytes" where
  "sct_payload precert_inputs leaf_der sct =
     (case precert_inputs of
        Some (issuer_key_hash, tbs_no_sct) \<Rightarrow> build_sct_signed_data_precert sct tbs_no_sct issuer_key_hash
      | None \<Rightarrow> build_sct_signed_data sct leaf_der)"

fun count_loop ::
    "ext_lib \<Rightarrow> ct_log_list \<Rightarrow> (parsed_sct \<Rightarrow> bytes) \<Rightarrow> parsed_sct list \<Rightarrow> bytes set \<Rightarrow> bytes set" where
  "count_loop L logs payload [] seen = seen"
| "count_loop L logs payload (sct # scts) seen =
     (if log_id sct \<in> seen then count_loop L logs payload scts seen
      else case find (\<lambda>l. ct_id l = log_id sct) logs of
        None \<Rightarrow> count_loop L logs payload scts seen
      | Some log \<Rightarrow>
          (case verify_sct_signature L log (payload sct) sct of
             Ok _ \<Rightarrow> count_loop L logs payload scts (insert (log_id sct) seen)
           | Err _ \<Rightarrow> count_loop L logs payload scts seen))"

definition precert_inputs_of :: "ext_lib \<Rightarrow> bytes \<Rightarrow> bytes option \<Rightarrow> (bytes \<times> bytes) option" where
  "precert_inputs_of L leaf_der issuer_der =
     (case issuer_der of
        Some issuer \<Rightarrow> rok (precert_tbs_and_issuer_hash L leaf_der issuer)
      | None \<Rightarrow> None)"

definition count_trusted_verified ::
    "ext_lib \<Rightarrow> parsed_sct list \<Rightarrow> ct_log_list \<Rightarrow> bytes \<Rightarrow> bytes option \<Rightarrow> byte" where
  "count_trusted_verified L scts logs leaf_der issuer_der =
     (let precert_inputs = precert_inputs_of L leaf_der issuer_der;
          seen = count_loop L logs (sct_payload precert_inputs leaf_der) scts {} in
      of_nat (min (card seen) 255))"

section \<open>The extension value\<close>

definition strip_sct_octet_string :: "bytes \<Rightarrow> bytes option" where
  "strip_sct_octet_string bs =
     (case bs of
        tag # len_byte # rest \<Rightarrow>
          if tag \<noteq> 4 then None
          else
            let r = (if unat len_byte < 128 then Some (unat len_byte, rest)
                     else let num_bytes = unat len_byte mod 128 in
                       if num_bytes = 0 \<or> num_bytes > 2 \<or> length rest < num_bytes then None
                       else Some (foldl (\<lambda>len b. len * 256 + unat b) 0 (take num_bytes rest),
                                  drop num_bytes rest)) in
            (case r of
               None \<Rightarrow> None
             | Some (content_len, rest') \<Rightarrow>
                 if length rest' < content_len then None else Some (take content_len rest'))
      | _ \<Rightarrow> None)"

definition extract_sct_extension :: "ext_lib \<Rightarrow> bytes \<Rightarrow> bytes option" where
  "extract_sct_extension L cert_der =
     (case rok (xp_from_der L cert_der) of
        None \<Rightarrow> None
      | Some cert \<Rightarrow>
          (case find (\<lambda>e. xe_oid e = SCT_LIST_OID) (xc_extensions cert) of
             None \<Rightarrow> None
           | Some ext \<Rightarrow> strip_sct_octet_string (xe_value ext)))"

section \<open>The verifier\<close>

definition min_distinct_logs :: "sct_policy \<Rightarrow> byte" where
  "min_distinct_logs p = (case p of Permissive n \<Rightarrow> n | Strict n \<Rightarrow> n | Disabled \<Rightarrow> 0)"

definition is_strict :: "sct_policy \<Rightarrow> bool" where
  "is_strict p = (case p of Strict _ \<Rightarrow> True | _ \<Rightarrow> False)"

definition sct_verify ::
    "ext_lib \<Rightarrow> sct_policy \<Rightarrow> ct_log_list \<Rightarrow> server_cert_verifier \<Rightarrow> verify_args \<Rightarrow> (unit, rustls_error) result" where
  "sct_verify L policy logs inner a =
     (if policy = Disabled then verify_server_cert inner a
      else case extract_sct_extension L (end_entity a) of
        None \<Rightarrow>
          if is_strict policy
          then Err (General ''No SCT extension found in leaf certificate (strict SCT policy)'')
          else verify_server_cert inner a
      | Some val \<Rightarrow>
          (case parse_sct_list val of
             Err e \<Rightarrow>
               if is_strict policy
               then Err (General (''failed to parse SCT list: '' @ sct_parse_error_display e))
               else verify_server_cert inner a
           | Ok scts \<Rightarrow>
               let min_logs = min_distinct_logs policy;
                   issuer_der = (case intermediates a of [] \<Rightarrow> None | c # _ \<Rightarrow> Some c);
                   distinct_logs = count_trusted_verified L scts logs (end_entity a) issuer_der in
               if distinct_logs < min_logs \<and> is_strict policy
               then Err (General (''SCT policy requires '' @ show_nat (unat min_logs) @
                      '' distinct trusted log(s) with valid signatures, found '' @
                      show_nat (unat distinct_logs)))
               else verify_server_cert inner a))"

definition sct_verifier ::
    "ext_lib \<times> sct_policy \<times> ct_log_list \<Rightarrow> server_cert_verifier \<Rightarrow> server_cert_verifier" where
  "sct_verifier c inner =
     \<lparr> verify_server_cert = sct_verify (fst c) (fst (snd c)) (snd (snd c)) inner,
       verify_tls12_signature = verify_tls12_signature inner,
       verify_tls13_signature = verify_tls13_signature inner,
       supported_verify_schemes = supported_verify_schemes inner \<rparr>"

section \<open>The wire format of RFC 6962\<close>

text \<open>The encoder of an entry and of a list, as the comment at \<open>parse_sct_list\<close> lays them out.\<close>

definition encode_sct :: "parsed_sct \<Rightarrow> bytes" where
  "encode_sct s =
     [sct_version s] @ log_id s @ u64_to_be (timestamp_ms s) @
     be_encode 2 (length (sct_extensions s)) @ sct_extensions s @
     [hash_alg s, sig_alg s] @ be_encode 2 (length (sct_signature s)) @ sct_signature s"

definition frame_sct :: "parsed_sct \<Rightarrow> bytes" where
  "frame_sct s = be_encode 2 (length (encode_sct s)) @ encode_sct s"

definition encode_sct_list :: "parsed_sct list \<Rightarrow> bytes" where
  "encode_sct_list scts =
     (let body = concat (map frame_sct scts) in be_encode 2 (length body) @ body)"

text \<open>The entries the format can carry.\<close>

definition wf_sct :: "parsed_sct \<Rightarrow> bool" where
  "wf_sct s \<longleftrightarrow>
     sct_version s = 0 \<and> length (log_id s) = 32 \<and>
     length (sct_extensions s) < 65536 \<and> length (sct_signature s) < 65536"


section \<open>Parsing inverts encoding\<close>

lemma parse_sct_entry_layout:
  assumes "length lid = 32" "length ts = 8" "length ext = be16 e1 e2" "length sg = be16 s1 s2"
  shows "parse_sct_entry (0 # lid @ ts @ e1 # e2 # ext @ h # a # s1 # s2 # sg @ junk) =
    Ok \<lparr> sct_version = 0, log_id = lid, timestamp_ms = u64_from_be ts, sct_extensions = ext,
         hash_alg = h, sig_alg = a, sct_signature = sg \<rparr>"
proof -
  let ?bs = "0 # lid @ ts @ e1 # e2 # ext @ h # a # s1 # s2 # sg @ junk"
  have e: "?bs ! 41 = e1" "?bs ! 42 = e2"
    using assms by (simp_all add: nth_append)
  have s1: "slice ?bs 1 33 = lid" "slice ?bs 33 41 = ts"
    using assms by (simp_all add: slice_def)
  have s2: "slice ?bs 43 (43 + be16 e1 e2) = ext"
    using assms by (simp add: slice_def)
  have n: "?bs ! (43 + be16 e1 e2) = h" "?bs ! (43 + be16 e1 e2 + 1) = a"
    "?bs ! (43 + be16 e1 e2 + 2) = s1" "?bs ! (43 + be16 e1 e2 + 3) = s2"
    using assms by (simp_all add: nth_append)
  have s3: "slice ?bs (43 + be16 e1 e2 + 4) (43 + be16 e1 e2 + 4 + be16 s1 s2) = sg"
    by (rule slice_middle [of _ "0 # lid @ ts @ e1 # e2 # ext @ [h, a, s1, s2]" _ _ junk])
      (use assms in simp_all)
  have len: "length ?bs = 47 + be16 e1 e2 + be16 s1 s2 + length junk"
    using assms by simp
  show ?thesis
    unfolding parse_sct_entry_def Let_def
    using e s1 s2 n s3 len by simp
qed

lemma parse_sct_entry_encode:
  assumes "wf_sct s"
  shows "parse_sct_entry (encode_sct s @ junk) = Ok s"
proof -
  have "encode_sct s @ junk = 0 # log_id s @ u64_to_be (timestamp_ms s) @
      of_nat (length (sct_extensions s) div 256) # of_nat (length (sct_extensions s)) #
      sct_extensions s @ hash_alg s # sig_alg s # of_nat (length (sct_signature s) div 256) #
      of_nat (length (sct_signature s)) # sct_signature s @ junk"
    using assms by (simp add: encode_sct_def wf_sct_def be_encode_2)
  then show ?thesis
    using assms by (simp add: parse_sct_entry_layout wf_sct_def be16_be_encode)
qed

lemma length_encode_sct: "wf_sct s \<Longrightarrow> length (encode_sct s) = 47 + length (sct_extensions s) + length (sct_signature s)"
  by (simp add: encode_sct_def wf_sct_def)

lemma parse_sct_loop_frames:
  assumes "\<And>s. s \<in> set scts \<Longrightarrow> wf_sct s \<and> length (encode_sct s) < 65536"
  shows "parse_sct_loop (pre @ concat (map frame_sct scts) @ rest) (length pre)
           (length pre + length (concat (map frame_sct scts))) out = Ok (out @ scts)"
  using assms
proof (induction scts arbitrary: pre out)
  case Nil
  then show ?case by (simp add: parse_sct_loop.simps)
next
  case (Cons s scts)
  let ?n = "length (encode_sct s)"
  let ?tail = "concat (map frame_sct scts)"
  let ?bs = "pre @ frame_sct s @ ?tail @ rest"
  have wf: "wf_sct s" "?n < 65536" using Cons.prems by auto
  have frame: "frame_sct s = of_nat (?n div 256) # of_nat ?n # encode_sct s"
    by (simp add: frame_sct_def be_encode_2)
  have n: "be16 (?bs ! length pre) (?bs ! (length pre + 1)) = ?n"
    using wf by (simp add: frame nth_append be16_be_encode)
  have sl: "slice ?bs (length pre + 2) (length pre + 2 + ?n) = encode_sct s"
    by (rule slice_middle [of _ "pre @ [of_nat (?n div 256), of_nat ?n]" _ _ "?tail @ rest"])
      (simp_all add: frame)
  have entry: "parse_sct_entry (encode_sct s) = Ok s"
    using parse_sct_entry_encode [OF wf(1), of "[]"] by simp
  have "parse_sct_loop ((pre @ frame_sct s) @ ?tail @ rest) (length (pre @ frame_sct s))
          (length (pre @ frame_sct s) + length ?tail) (out @ [s]) = Ok ((out @ [s]) @ scts)"
    by (rule Cons.IH) (use Cons.prems in auto)
  then have IH: "parse_sct_loop ?bs (length pre + 2 + ?n) (length pre + 2 + ?n + length ?tail) (out @ [s])
      = Ok (out @ s # scts)"
    by (simp add: frame)
  show ?case
    by (subst parse_sct_loop.simps) (use n sl entry IH in \<open>simp add: frame Let_def add.assoc\<close>)
qed


lemma parse_sct_list_encode:
  assumes "\<And>s. s \<in> set scts \<Longrightarrow> wf_sct s \<and> length (encode_sct s) < 65536"
    and "length (concat (map frame_sct scts)) < 65536"
  shows "parse_sct_list (encode_sct_list scts @ rest) = Ok scts"
proof -
  let ?body = "concat (map frame_sct scts)"
  let ?n = "length ?body"
  let ?bs = "[of_nat (?n div 256), of_nat ?n] @ ?body @ rest"
  have bs: "encode_sct_list scts @ rest = ?bs"
    by (simp add: encode_sct_list_def be_encode_2 Let_def)
  have n: "be16 (?bs ! 0) (?bs ! 1) = ?n"
    using assms(2) by (simp add: be16_be_encode)
  have "parse_sct_loop ?bs 2 (2 + ?n) [] = Ok scts"
    using parse_sct_loop_frames [OF assms(1), of scts "[of_nat (?n div 256), of_nat ?n]" rest "[]"]
    by (simp add: numeral_2_eq_2)
  with n show ?thesis
    unfolding bs by (simp add: parse_sct_list_def Let_def)
qed

section \<open>What the parser returns\<close>

lemma parse_sct_entry_Ok:
  assumes "parse_sct_entry bs = Ok s"
  shows "wf_sct s" and "47 + length (sct_extensions s) + length (sct_signature s) \<le> length bs"
  using assms be16_less [of "bs ! 41" "bs ! 42"]
  by (auto simp: parse_sct_entry_def Let_def wf_sct_def split: if_splits)

lemma parse_sct_loop_Ok:
  assumes "parse_sct_loop bs pos fin out = Ok res" "fin \<le> length bs" "pos \<le> fin"
  shows "\<exists>new. res = out @ new \<and> (\<forall>s \<in> set new. wf_sct s) \<and> pos + 49 * length new \<le> fin"
  using assms
proof (induction bs pos fin out rule: parse_sct_loop.induct)
  case (1 bs pos fin out)
  show ?case
  proof (cases "pos + 2 \<le> fin")
    case False
    with "1.prems" show ?thesis by (auto simp: parse_sct_loop.simps [of bs pos fin out])
  next
    case True
    define n where "n = be16 (bs ! pos) (bs ! (pos + 1))"
    have step: "pos + 2 + n \<le> fin"
      and "\<exists>s. parse_sct_entry (slice bs (pos + 2) (pos + 2 + n)) = Ok s \<and>
        parse_sct_loop bs (pos + 2 + n) fin (out @ [s]) = Ok res"
      using "1.prems"(1) True
      by (auto simp: parse_sct_loop.simps [of bs pos fin out] n_def Let_def
          split: if_splits result.splits)
    then obtain s where s: "parse_sct_entry (slice bs (pos + 2) (pos + 2 + n)) = Ok s"
      and rec: "parse_sct_loop bs (pos + 2 + n) fin (out @ [s]) = Ok res"
      by blast
    have "\<exists>new. res = (out @ [s]) @ new \<and> (\<forall>x \<in> set new. wf_sct x) \<and> pos + 2 + n + 49 * length new \<le> fin"
      by (rule "1.IH" [OF True refl refl, folded n_def])
        (use s rec step "1.prems" in auto)
    then obtain new where new: "res = (out @ [s]) @ new" "\<forall>x \<in> set new. wf_sct x"
      "pos + 2 + n + 49 * length new \<le> fin"
      by blast
    have "47 \<le> n"
      using parse_sct_entry_Ok(2) [OF s] by simp
    with new parse_sct_entry_Ok(1) [OF s] show ?thesis
      by (intro exI [of _ "s # new"]) auto
  qed
qed

lemma parse_sct_list_Ok:
  assumes "parse_sct_list bs = Ok scts"
  shows "\<forall>s \<in> set scts. wf_sct s" and "49 * length scts \<le> length bs"
proof -
  have "(\<forall>s \<in> set scts. wf_sct s) \<and> 49 * length scts \<le> length bs"
  proof (cases "length bs < 2")
    case True
    with assms show ?thesis by (simp add: parse_sct_list_def)
  next
    case False
    then have loop: "parse_sct_loop bs 2 (2 + be16 (bs ! 0) (bs ! 1)) [] = Ok scts"
      and fin: "2 + be16 (bs ! 0) (bs ! 1) \<le> length bs"
      using assms by (auto simp: parse_sct_list_def Let_def split: if_splits)
    from parse_sct_loop_Ok [OF loop fin] fin show ?thesis by auto
  qed
  then show "\<forall>s \<in> set scts. wf_sct s" and "49 * length scts \<le> length bs" by auto
qed

section \<open>Counting\<close>

definition sct_trusted :: "ext_lib \<Rightarrow> ct_log_list \<Rightarrow> (parsed_sct \<Rightarrow> bytes) \<Rightarrow> parsed_sct \<Rightarrow> bool" where
  "sct_trusted L logs payload s \<longleftrightarrow>
     (\<exists>log. find (\<lambda>l. ct_id l = log_id s) logs = Some log \<and>
            verify_sct_signature L log (payload s) s = Ok ())"

lemma count_loop_eq:
  "count_loop L logs payload scts seen = seen \<union> log_id ` {s \<in> set scts. sct_trusted L logs payload s}"
proof (induction scts arbitrary: seen)
  case Nil
  then show ?case by simp
next
  case (Cons s scts)
  show ?case
  proof (cases "log_id s \<in> seen \<or> \<not> sct_trusted L logs payload s")
    case True
    then have "count_loop L logs payload (s # scts) seen = count_loop L logs payload scts seen"
      by (auto simp: sct_trusted_def split: option.splits result.splits)
    with True Cons show ?thesis by auto
  next
    case False
    then have "count_loop L logs payload (s # scts) seen =
        count_loop L logs payload scts (insert (log_id s) seen)"
      by (auto simp: sct_trusted_def split: option.splits result.splits)
    with False Cons show ?thesis by auto
  qed
qed

definition trusted_logs ::
    "ext_lib \<Rightarrow> parsed_sct list \<Rightarrow> ct_log_list \<Rightarrow> bytes \<Rightarrow> bytes option \<Rightarrow> bytes set" where
  "trusted_logs L scts logs leaf issuer =
     log_id ` {s \<in> set scts. sct_trusted L logs (sct_payload (precert_inputs_of L leaf issuer) leaf) s}"

lemma finite_trusted_logs [simp]: "finite (trusted_logs L scts logs leaf issuer)"
  by (simp add: trusted_logs_def)

lemma count_trusted_verified_eq:
  "unat (count_trusted_verified L scts logs leaf issuer) = min (card (trusted_logs L scts logs leaf issuer)) 255"
  by (simp add: count_trusted_verified_def count_loop_eq trusted_logs_def Let_def)

lemma trusted_logs_known: "trusted_logs L scts logs leaf issuer \<subseteq> ct_id ` set logs \<inter> log_id ` set scts"
proof
  fix i assume "i \<in> trusted_logs L scts logs leaf issuer"
  then obtain s l where "s \<in> set scts" "i = log_id s" "find (\<lambda>l. ct_id l = log_id s) logs = Some l"
    by (auto simp: trusted_logs_def sct_trusted_def)
  moreover from this have "ct_id l = log_id s \<and> l \<in> set logs"
    using find_Some_iff_in [of "\<lambda>l. ct_id l = log_id s" logs l] by simp
  ultimately show "i \<in> ct_id ` set logs \<inter> log_id ` set scts"
    by (auto intro: rev_image_eqI)
qed


section \<open>The payload determines what was signed\<close>

lemma precert_payload_layout:
  "build_sct_signed_data_precert s t h =
     [sct_version s, 0] @ u64_to_be (timestamp_ms s) @ [0, 1] @ h @ be_encode 3 (length t) @ t @
     be_encode 2 (length (sct_extensions s)) @ sct_extensions s"
  by (simp add: build_sct_signed_data_precert_def Let_def be_encode_mod_16 be_encode_3)

lemma x509_payload_layout:
  "build_sct_signed_data s c =
     [0, 0] @ u64_to_be (timestamp_ms s) @ [0, 0] @ be_encode 3 (length c) @ c @
     be_encode 2 (length (sct_extensions s)) @ sct_extensions s"
  by (simp add: build_sct_signed_data_def Let_def be_encode_3 be_encode_2)

lemma entry_types_differ: "build_sct_signed_data s c \<noteq> build_sct_signed_data_precert s' t h"
proof
  assume eq: "build_sct_signed_data s c = build_sct_signed_data_precert s' t h"
  have "build_sct_signed_data s c ! 11 = 0" "build_sct_signed_data_precert s' t h ! 11 = 1"
    by (simp_all add: x509_payload_layout precert_payload_layout nth_append)
  with eq show False by simp
qed

section \<open>The verifier as a layer\<close>

lemmas sct_verify_splits = if_splits option.splits result.splits

interpretation sct_layer: verifier_layer sct_verifier
  by unfold_locales (auto simp: sct_verifier_def sct_verify_def Let_def split: sct_verify_splits)

definition issuer_of :: "verify_args \<Rightarrow> bytes option" where
  "issuer_of a = (case intermediates a of [] \<Rightarrow> None | c # _ \<Rightarrow> Some c)"

lemma strict_accepts_iff:
  "verify_server_cert (sct_verifier (L, Strict n, logs) inner) a = Ok () \<longleftrightarrow>
     (\<exists>val scts. extract_sct_extension L (end_entity a) = Some val \<and> parse_sct_list val = Ok scts \<and>
        unat n \<le> card (trusted_logs L scts logs (end_entity a) (issuer_of a))) \<and>
     verify_server_cert inner a = Ok ()"
proof -
  have lt: "count_trusted_verified L scts logs leaf i < n \<longleftrightarrow> card (trusted_logs L scts logs leaf i) < unat n"
    for scts leaf i
    using unat_byte_less [of n]
    by (simp add: word_less_nat_alt count_trusted_verified_eq del: unat_byte_less) arith
  show ?thesis
    by (auto simp: sct_verifier_def sct_verify_def is_strict_def min_distinct_logs_def Let_def lt
        issuer_of_def not_less split: sct_verify_splits)
qed

section \<open>The nested octet string\<close>

lemma strip_short:
  "length c < 128 \<Longrightarrow> strip_sct_octet_string (4 # of_nat (length c) # c @ rest) = Some c"
  by (simp add: strip_sct_octet_string_def)

lemma strip_long1:
  "length c < 256 \<Longrightarrow> strip_sct_octet_string (4 # 129 # of_nat (length c) # c @ rest) = Some c"
  by (simp add: strip_sct_octet_string_def)

lemma strip_long2:
  "length c < 65536 \<Longrightarrow>
     strip_sct_octet_string (4 # 130 # of_nat (length c div 256) # of_nat (length c) # c @ rest) = Some c"
  by (simp add: strip_sct_octet_string_def)

text \<open>The DER encoding of an \<open>OCTET STRING\<close> of less than 64 KiB.\<close>

definition der_octet_string :: "bytes \<Rightarrow> bytes" where
  "der_octet_string c =
     (let n = length c in
      if n < 128 then [4, of_nat n] @ c
      else if n < 256 then [4, 129, of_nat n] @ c
      else [4, 130, of_nat (n div 256), of_nat n] @ c)"

section \<open>Properties\<close>

text \<open>A concrete entry for the witnesses: log \<open>07..07\<close>, time 5, no extensions.\<close>

definition sct_example :: parsed_sct where
  "sct_example = \<lparr> sct_version = 0, log_id = replicate 32 7, timestamp_ms = 5, sct_extensions = [],
     hash_alg = 4, sig_alg = 3, sct_signature = [1, 2] \<rparr>"

lemma sct_example_wf: "wf_sct sct_example" "length (encode_sct sct_example) = 49"
  "length (frame_sct sct_example) = 51"
  by (simp_all add: sct_example_def wf_sct_def encode_sct_def frame_sct_def)

text \<open>C11: parsing is a left inverse of the RFC 6962 encoding. Every list of version-1 SCTs whose
  entries and whose body fit their 16-bit length fields is read back unchanged, whatever bytes
  follow the list.\<close>

theorem parse_sct_list_roundtrip:
  assumes "\<forall>s \<in> set scts. wf_sct s \<and> length (encode_sct s) < 65536"
    and "length (concat (map frame_sct scts)) < 65536"
  shows "parse_sct_list (encode_sct_list scts @ rest) = Ok scts"
  by (rule parse_sct_list_encode) (use assms in auto)

theorem parse_sct_list_roundtrip_witness:
  "parse_sct_list (encode_sct_list [sct_example, sct_example] @ [9]) = Ok [sct_example, sct_example]"
  by (rule parse_sct_list_roundtrip) (simp_all add: sct_example_wf)

text \<open>whatever bytes a server sends, a list that parses holds only well-formed version-1
  entries, and each of them took at least 49 bytes of input, so the number of entries is bounded by
  the size of the extension.\<close>

theorem parse_sct_list_sound:
  assumes "parse_sct_list bs = Ok scts"
  shows "(\<forall>s \<in> set scts. wf_sct s) \<and> 49 * length scts \<le> length bs"
  using parse_sct_list_Ok [OF assms] by simp

theorem parse_sct_list_sound_witness:
  "wf_sct sct_example \<and> 49 * length [sct_example] \<le> length (encode_sct_list [sct_example])"
  using parse_sct_list_sound [of "encode_sct_list [sct_example]" "[sct_example]"]
    parse_sct_list_encode [of "[sct_example]" "[]"]
  by (simp add: sct_example_wf)

text \<open>the count of verified SCTs is exact. It is the number of distinct log identifiers among
  the entries whose log is trusted and whose signature verifies under that log's key, capped at 255;
  repeating an SCT never raises it and a failing SCT never lowers it.\<close>

theorem count_trusted_verified_exact:
  "unat (count_trusted_verified L scts logs leaf issuer) =
     min (card (log_id ` {s \<in> set scts. \<exists>log. find (\<lambda>l. ct_id l = log_id s) logs = Some log \<and>
        verify_sct_signature L log (sct_payload (precert_inputs_of L leaf issuer) leaf s) s = Ok ()})) 255"
  by (simp add: count_trusted_verified_eq trusted_logs_def sct_trusted_def)

text \<open>C7: under the strict policy a certificate is accepted exactly when the extension is present
  and parses, at least the configured number of distinct trusted logs verify, and the inner verifier
  accepts.\<close>

theorem sct_strict_accepts:
  "verify_server_cert (sct_verifier (L, Strict n, logs) inner) a = Ok () \<longleftrightarrow>
     (\<exists>val scts. extract_sct_extension L (end_entity a) = Some val \<and> parse_sct_list val = Ok scts \<and>
        unat n \<le> card (trusted_logs L scts logs (end_entity a) (issuer_of a))) \<and>
     verify_server_cert inner a = Ok ()"
  by (rule strict_accepts_iff)

text \<open>C16: the precertificate payload is unambiguous. Two payloads over 32-byte issuer key hashes,
  certificates below 16 MiB and extensions below 64 KiB are equal only when version, timestamp,
  issuer key hash, certificate and extensions are equal, so a log signature over one certificate
  cannot be presented for another; and no precertificate payload equals a certificate payload.\<close>

theorem precert_payload_injective:
  assumes eq: "build_sct_signed_data_precert s t h = build_sct_signed_data_precert s' t' h'"
    and h: "length h = 32" "length h' = 32"
    and t: "length t < 2 ^ 24" "length t' < 2 ^ 24"
    and e: "length (sct_extensions s) < 2 ^ 16" "length (sct_extensions s') < 2 ^ 16"
  shows "sct_version s = sct_version s' \<and> timestamp_ms s = timestamp_ms s' \<and> h = h' \<and> t = t' \<and>
    sct_extensions s = sct_extensions s' \<and> build_sct_signed_data r c \<noteq> build_sct_signed_data_precert s t h"
proof -
  have head: "sct_version s = sct_version s'" "timestamp_ms s = timestamp_ms s'" "h = h'"
    and tail: "be_encode 3 (length t) @ t @ be_encode 2 (length (sct_extensions s)) @ sct_extensions s @ [] =
      be_encode 3 (length t') @ t' @ be_encode 2 (length (sct_extensions s')) @ sct_extensions s' @ []"
    using eq h by (simp_all add: precert_payload_layout append_eq_append_conv)
  from framed_append_inj [OF tail] t
  have "t = t'" and ext: "be_encode 2 (length (sct_extensions s)) @ sct_extensions s @ [] =
      be_encode 2 (length (sct_extensions s')) @ sct_extensions s' @ []"
    by auto
  moreover from framed_append_inj [OF ext] e have "sct_extensions s = sct_extensions s'" by simp
  ultimately show ?thesis using head entry_types_differ by simp
qed

theorem precert_payload_injective_witness:
  "build_sct_signed_data sct_example [1] \<noteq> build_sct_signed_data_precert sct_example [1, 2] (replicate 32 0)"
  using precert_payload_injective [of sct_example "[1, 2]" "replicate 32 0" sct_example "[1, 2]" "replicate 32 0"
      sct_example "[1]"]
  by (simp add: sct_example_def)

text \<open>when the precertificate cannot be rebuilt, the count is the one for SCTs signed over the
  final certificate. The comment at the match and the logged warning say that the embedded SCTs then
  count zero; the witness is a certificate for which one counts.\<close>

theorem precert_failure_falls_back:
  assumes "precert_tbs_and_issuer_hash L leaf issuer = Err e"
  shows "count_trusted_verified L scts logs leaf (Some issuer) = count_trusted_verified L scts logs leaf None"
  using assms by (simp add: count_trusted_verified_def precert_inputs_of_def)

theorem precert_failure_falls_back_witness:
  "count_trusted_verified lib_no_certs [sct_example]
     [\<lparr> ct_id = replicate 32 7, public_key_der = [], key_alg = EcdsaP256Sha256 \<rparr>] [1] (Some [2]) = 1"
  by (subst precert_failure_falls_back [where e = "ParseError (''issuer cert parse: '' @ ''bad'')"])
    (simp_all add: precert_tbs_and_issuer_hash_def lib_no_certs_def count_trusted_verified_def
      precert_inputs_of_def verify_sct_signature_def sct_example_def)

text \<open>unwrapping a DER octet string of less than 64 KiB in definite-length form, in any of the
  three length forms, returns exactly its content, also when other bytes follow.\<close>

theorem strip_sct_octet_string_roundtrip:
  assumes "length c < 65536"
  shows "strip_sct_octet_string (der_octet_string c @ rest) = Some c"
  using assms
  by (simp add: der_octet_string_def Let_def strip_short strip_long1 strip_long2)

theorem strip_sct_octet_string_roundtrip_witness:
  "strip_sct_octet_string (der_octet_string [1, 2, 3] @ [9]) = Some [1, 2, 3]"
  by (rule strip_sct_octet_string_roundtrip) simp

end
