(* ===== verification/Ocsp_Crypto.thy ===== *)
theory Ocsp_Crypto
  imports Verifier
begin

text \<open>
  \<open>verifier/ocsp_crypto.rs\<close>: the signature check of an OCSP response, dispatched on
  the algorithm identifier, and the extended-key-usage check of a delegated signer.
\<close>

section \<open>Errors and algorithm identifiers\<close>

datatype ocsp_verify_error =
    UnsupportedAlgorithm string
  | OcspSignatureInvalid
  | DelegatedSignerNotTrusted string
  | MissingOcspSigningEku
  | SpkiParse string
  | ResponseUnparseable string

definition ocsp_verify_error_display :: "ocsp_verify_error \<Rightarrow> string" where
  "ocsp_verify_error_display e =
     (case e of
        UnsupportedAlgorithm oid \<Rightarrow> ''OCSP signer algorithm OID '' @ oid @ '' is not supported''
      | OcspSignatureInvalid \<Rightarrow> ''OCSP response signature verification failed''
      | DelegatedSignerNotTrusted reason \<Rightarrow> ''delegated OCSP signer not trusted: '' @ reason
      | MissingOcspSigningEku \<Rightarrow> ''delegated OCSP signer certificate missing id-kp-OCSPSigning EKU''
      | SpkiParse msg \<Rightarrow> ''failed to parse SubjectPublicKeyInfo: '' @ msg
      | ResponseUnparseable msg \<Rightarrow> ''OCSP response could not be decoded: '' @ msg)"

definition OID_SHA256_WITH_RSA :: string where "OID_SHA256_WITH_RSA = ''1.2.840.113549.1.1.11''"
definition OID_ECDSA_WITH_SHA256 :: string where "OID_ECDSA_WITH_SHA256 = ''1.2.840.10045.4.3.2''"
definition OID_ECDSA_WITH_SHA384 :: string where "OID_ECDSA_WITH_SHA384 = ''1.2.840.10045.4.3.3''"
definition OID_ED25519 :: string where "OID_ED25519 = ''1.3.101.112''"

lemmas ocsp_oid_defs =
  OID_SHA256_WITH_RSA_def OID_ECDSA_WITH_SHA256_def OID_ECDSA_WITH_SHA384_def OID_ED25519_def

section \<open>The algorithms\<close>

definition spki_raw_bytes :: "ext_lib \<Rightarrow> bytes \<Rightarrow> (bytes, ocsp_verify_error) result" where
  "spki_raw_bytes L spki_der = rmap_err SpkiParse (spki_ref L spki_der)"

definition verify_rsa_pkcs1_sha256 ::
    "ext_lib \<Rightarrow> bytes \<Rightarrow> bytes \<Rightarrow> bytes \<Rightarrow> (unit, ocsp_verify_error) result" where
  "verify_rsa_pkcs1_sha256 L spki_der tbs_der sig_bytes =
     rbind (rmap_err SpkiParse (spki_ref L spki_der)) (\<lambda>inner_bytes.
     rbind (rmap_err (\<lambda>e. SpkiParse (''RSAPublicKey parse: '' @ e)) (rsa_pkcs1_from_der L inner_bytes)) (\<lambda>(n, e).
     rbind (rmap_err (\<lambda>e. SpkiParse (''RsaPublicKey::new: '' @ e)) (rsa_public_key_new L n e)) (\<lambda>vk.
     rbind (rmap_err (\<lambda>_. OcspSignatureInvalid) (rsa_sig_from_bytes L sig_bytes)) (\<lambda>sig.
     if rsa_pkcs1_sha256_verify L vk tbs_der sig then Ok () else Err OcspSignatureInvalid))))"

definition verify_ecdsa_p256_sha256 ::
    "ext_lib \<Rightarrow> bytes \<Rightarrow> bytes \<Rightarrow> bytes \<Rightarrow> (unit, ocsp_verify_error) result" where
  "verify_ecdsa_p256_sha256 L spki_der tbs_der sig_bytes =
     rbind (spki_raw_bytes L spki_der) (\<lambda>raw.
     rbind (rmap_err SpkiParse (p256_from_sec1 L raw)) (\<lambda>vk.
     rbind (rmap_err (\<lambda>_. OcspSignatureInvalid) (p256_sig_from_der L sig_bytes)) (\<lambda>sig.
     if p256_verify L vk tbs_der sig then Ok () else Err OcspSignatureInvalid)))"

definition verify_ecdsa_p384_sha384 ::
    "ext_lib \<Rightarrow> bytes \<Rightarrow> bytes \<Rightarrow> bytes \<Rightarrow> (unit, ocsp_verify_error) result" where
  "verify_ecdsa_p384_sha384 L spki_der tbs_der sig_bytes =
     rbind (spki_raw_bytes L spki_der) (\<lambda>raw.
     rbind (rmap_err SpkiParse (p384_from_sec1 L raw)) (\<lambda>vk.
     rbind (rmap_err (\<lambda>_. OcspSignatureInvalid) (p384_sig_from_der L sig_bytes)) (\<lambda>sig.
     if p384_verify L vk tbs_der sig then Ok () else Err OcspSignatureInvalid)))"

definition verify_ed25519 ::
    "ext_lib \<Rightarrow> bytes \<Rightarrow> bytes \<Rightarrow> bytes \<Rightarrow> (unit, ocsp_verify_error) result" where
  "verify_ed25519 L spki_der tbs_der sig_bytes =
     rbind (spki_raw_bytes L spki_der) (\<lambda>raw_bytes.
     if length raw_bytes \<noteq> 32 then Err (SpkiParse ''Ed25519 public key must be 32 bytes'')
     else
     rbind (rmap_err SpkiParse (ed25519_from_bytes L raw_bytes)) (\<lambda>vk.
     rbind (rmap_err (\<lambda>_. OcspSignatureInvalid) (ed25519_sig_from_slice L sig_bytes)) (\<lambda>sig.
     if ed25519_verify_strict L vk tbs_der sig then Ok () else Err OcspSignatureInvalid)))"

definition verify_ocsp_signature ::
    "ext_lib \<Rightarrow> bytes \<Rightarrow> bytes \<Rightarrow> string \<Rightarrow> bytes \<Rightarrow> (unit, ocsp_verify_error) result" where
  "verify_ocsp_signature L spki_der tbs_der oid_str sig_bytes =
     (if oid_str = OID_SHA256_WITH_RSA then verify_rsa_pkcs1_sha256 L spki_der tbs_der sig_bytes
      else if oid_str = OID_ECDSA_WITH_SHA256 then verify_ecdsa_p256_sha256 L spki_der tbs_der sig_bytes
      else if oid_str = OID_ECDSA_WITH_SHA384 then verify_ecdsa_p384_sha384 L spki_der tbs_der sig_bytes
      else if oid_str = OID_ED25519 then verify_ed25519 L spki_der tbs_der sig_bytes
      else Err (UnsupportedAlgorithm oid_str))"

section \<open>The extended key usage of a delegated signer\<close>

definition EKU_OID :: string where "EKU_OID = ''2.5.29.37''"
definition OCSP_SIGNING_OID :: string where "OCSP_SIGNING_OID = ''1.3.6.1.5.5.7.3.9''"

text \<open>The loop returns at the first extension with the EKU identifier.\<close>

fun eku_loop :: "xp_extension list \<Rightarrow> (unit, ocsp_verify_error) result" where
  "eku_loop [] = Err MissingOcspSigningEku"
| "eku_loop (ext # exts) =
     (if xe_oid ext = EKU_OID then
        (case xe_eku ext of
           Some eku \<Rightarrow>
             if eku_any eku \<or> list_ex (\<lambda>oid. oid = OCSP_SIGNING_OID) (eku_other eku) \<or> eku_ocsp_signing eku
             then Ok () else Err MissingOcspSigningEku
         | None \<Rightarrow> Err MissingOcspSigningEku)
      else eku_loop exts)"

definition verify_eku_ocsp_signing :: "ext_lib \<Rightarrow> bytes \<Rightarrow> (unit, ocsp_verify_error) result" where
  "verify_eku_ocsp_signing L cert_der =
     rbind (rmap_err (\<lambda>e. ResponseUnparseable (''failed to parse delegated cert: '' @ e)) (xp_from_der L cert_der))
       (\<lambda>cert. eku_loop (xc_extensions cert))"

text \<open>The loop is a search for the first extended-key-usage extension.\<close>

lemma eku_loop_find:
  "eku_loop exts =
     (case find (\<lambda>e. xe_oid e = EKU_OID) exts of
        Some e \<Rightarrow> (case xe_eku e of
           Some k \<Rightarrow> if eku_any k \<or> OCSP_SIGNING_OID \<in> set (eku_other k) \<or> eku_ocsp_signing k
                    then Ok () else Err MissingOcspSigningEku
         | None \<Rightarrow> Err MissingOcspSigningEku)
      | None \<Rightarrow> Err MissingOcspSigningEku)"
  by (induction exts) (auto simp: list_ex_iff split: option.splits)

text \<open>What an extended key usage says of OCSP signing, written on the extension alone: it names
  \<open>id-kp-OCSPSigning\<close>, under the parser's flag or among the unrecognised identifiers.\<close>

definition names_ocsp_signing :: "eku_syntax \<Rightarrow> bool" where
  "names_ocsp_signing k \<longleftrightarrow> eku_ocsp_signing k \<or> OCSP_SIGNING_OID \<in> set (eku_other k)"

text \<open>A certificate whose (first) extended key usage extension allows OCSP signing, by naming that
  usage or as \<open>anyExtendedKeyUsage\<close>.\<close>

definition eku_allows_ocsp :: "ext_lib \<Rightarrow> bytes \<Rightarrow> bool" where
  "eku_allows_ocsp L der \<longleftrightarrow>
     (\<exists>cert e k. xp_from_der L der = Ok cert \<and>
        find (\<lambda>e. xe_oid e = EKU_OID) (xc_extensions cert) = Some e \<and> xe_eku e = Some k \<and>
        (names_ocsp_signing k \<or> eku_any k))"

lemma eku_loop_Ok_iff:
  "eku_loop exts = Ok () \<longleftrightarrow>
     (\<exists>e k. find (\<lambda>e. xe_oid e = EKU_OID) exts = Some e \<and> xe_eku e = Some k \<and>
        (names_ocsp_signing k \<or> eku_any k))"
  by (induction exts) (auto simp: names_ocsp_signing_def list_ex_iff split: option.splits)

lemma verify_eku_ocsp_signing_iff: "verify_eku_ocsp_signing L der = Ok () \<longleftrightarrow> eku_allows_ocsp L der"
  unfolding verify_eku_ocsp_signing_def eku_allows_ocsp_def
  by (cases "xp_from_der L der") (simp_all add: eku_loop_Ok_iff)

text \<open>The check is wider than its documentation: an extended key usage that does not name OCSP signing
  passes when it is \<open>anyExtendedKeyUsage\<close>.\<close>

lemma any_usage_passes_eku_check:
  assumes "xp_from_der L der = Ok cert" "find (\<lambda>e. xe_oid e = EKU_OID) (xc_extensions cert) = Some e"
    "xe_eku e = Some k" "\<not> names_ocsp_signing k"
  shows "verify_eku_ocsp_signing L der = (if eku_any k then Ok () else Err MissingOcspSigningEku)"
  using assms
  by (auto simp: verify_eku_ocsp_signing_def eku_loop_find names_ocsp_signing_def result_simps)

lemma verify_ocsp_signature_unsupported:
  "verify_ocsp_signature L spki d oid sig = Ok () \<Longrightarrow>
     oid \<in> {OID_SHA256_WITH_RSA, OID_ECDSA_WITH_SHA256, OID_ECDSA_WITH_SHA384, OID_ED25519}"
  by (auto simp: verify_ocsp_signature_def split: if_splits)

end
