(* ===== verification/Ocsp.thy ===== *)
theory Ocsp
  imports Ocsp_Crypto
begin

text \<open>
  \<open>verifier/ocsp_client.rs\<close>: the check of a stapled OCSP response. A response is bound
  to the certificate under verification by its CertID, its signer is resolved to
  the issuer or to a delegate the issuer signed, its window is compared with the
  current time, and the configured policy decides about responses that prove nothing.
\<close>

section \<open>Digests and policy\<close>

definition OID_SHA1 :: string where "OID_SHA1 = ''1.3.14.3.2.26''"
definition OID_SHA256 :: string where "OID_SHA256 = ''2.16.840.1.101.3.4.2.1''"
definition OID_SHA384 :: string where "OID_SHA384 = ''2.16.840.1.101.3.4.2.2''"
definition OID_SHA512 :: string where "OID_SHA512 = ''2.16.840.1.101.3.4.2.3''"

definition ocsp_digest :: "ext_lib \<Rightarrow> string \<Rightarrow> bytes \<Rightarrow> bytes option" where
  "ocsp_digest L hash_oid data =
     (if hash_oid = OID_SHA1 then Some (sha1 L data)
      else if hash_oid = OID_SHA256 then Some (sha256 L data)
      else if hash_oid = OID_SHA384 then Some (sha384 L data)
      else if hash_oid = OID_SHA512 then Some (sha512 L data)
      else None)"

datatype ocsp_client_policy = OcspDisabled | SoftFail | HardRequire

datatype ocsp_check_result =
    ResAbsent | ResUnparseable | ResRevoked | ResUnknown | ResBadSignature string | ResGood

section \<open>Resolving the signer\<close>

definition spki_der_from_cert :: "ext_lib \<Rightarrow> x509_certificate \<Rightarrow> bytes option" where
  "spki_der_from_cert L cert = rok (spki_encode L (subject_public_key_info (tbs cert)))"

definition responder_is_issuer :: "responder_id \<Rightarrow> x509_certificate \<Rightarrow> bool" where
  "responder_is_issuer rid issuer =
     (case rid of
        ByName name \<Rightarrow> name = cert_subject (tbs issuer)
      | ByKey key_hash \<Rightarrow> False)"

definition end_entity_is_self_signed :: "ext_lib \<Rightarrow> bytes \<Rightarrow> bool" where
  "end_entity_is_self_signed L end_entity_der =
     (case cert_from_der L end_entity_der of
        Ok cert \<Rightarrow> cert_subject (tbs cert) = cert_issuer (tbs cert)
      | Err _ \<Rightarrow> False)"

definition cert_to_der :: "ext_lib \<Rightarrow> x509_certificate \<Rightarrow> (bytes, ocsp_verify_error) result" where
  "cert_to_der L cert = rmap_err (\<lambda>e. ResponseUnparseable (''re-encode cert DER: '' @ e)) (cert_encode L cert)"

text \<open>The delegated-signer branch of \<open>determine_signer_spki\<close>.\<close>

definition delegated_signer_spki ::
    "ext_lib \<Rightarrow> x509_certificate option \<Rightarrow> x509_certificate \<Rightarrow> (bytes, ocsp_verify_error) result" where
  "delegated_signer_spki L issuer_opt signer_cert =
     rbind (cert_to_der L signer_cert) (\<lambda>signer_cert_der.
     rbind (verify_eku_ocsp_signing L signer_cert_der) (\<lambda>_.
     rbind (case issuer_opt of
              None \<Rightarrow> Ok ()
            | Some iss \<Rightarrow>
                rbind (ok_or (spki_der_from_cert L iss) (SpkiParse ''issuer SPKI re-encode failed'')) (\<lambda>issuer_spki.
                rbind (rmap_err (\<lambda>e. ResponseUnparseable (''re-encode signer TBS: '' @ e))
                         (tbs_encode L (tbs signer_cert))) (\<lambda>signer_tbs_der.
                rmap_err (\<lambda>e. DelegatedSignerNotTrusted
                            (''issuer did not sign the delegated OCSP cert: '' @ ocsp_verify_error_display e))
                  (verify_ocsp_signature L issuer_spki signer_tbs_der
                     (cert_signature_algorithm signer_cert) (cert_signature signer_cert))))) (\<lambda>_.
     ok_or (spki_der_from_cert L signer_cert) (SpkiParse ''signer cert SPKI encode failed''))))"

definition determine_signer_spki ::
    "ext_lib \<Rightarrow> basic_ocsp_response \<Rightarrow> bytes option \<Rightarrow> (bytes, ocsp_verify_error) result" where
  "determine_signer_spki L basic issuer_cert_der =
     (let issuer_opt = Option.bind issuer_cert_der (\<lambda>der. rok (cert_from_der L der));
          responder_is_iss = (case issuer_opt of
             Some iss \<Rightarrow> responder_is_issuer (rd_responder_id (tbs_response_data basic)) iss
           | None \<Rightarrow> False) in
      if responder_is_iss then
        ok_or (Option.bind issuer_opt (spki_der_from_cert L)) (SpkiParse ''issuer SPKI re-encode failed'')
      else
        (case bor_certs basic of
           Some (signer_cert # _) \<Rightarrow> delegated_signer_spki L issuer_opt signer_cert
         | _ \<Rightarrow>
           (case issuer_opt of
              Some iss \<Rightarrow> ok_or (spki_der_from_cert L iss) (SpkiParse ''issuer SPKI re-encode failed'')
            | None \<Rightarrow> Err (ResponseUnparseable
                ''no issuer cert provided and no delegated signer in OCSP response''))))"

section \<open>Binding and freshness\<close>

definition cert_id_matches :: "ext_lib \<Rightarrow> cert_id \<Rightarrow> x509_certificate \<Rightarrow> bytes \<Rightarrow> bool" where
  "cert_id_matches L cid issuer end_entity_serial =
     (if ci_serial_number cid \<noteq> end_entity_serial then False
      else case name_encode L (cert_subject (tbs issuer)) of
        Err _ \<Rightarrow> False
      | Ok issuer_name_der \<Rightarrow>
          (case ocsp_digest L (ci_hash_algorithm cid) issuer_name_der of
             None \<Rightarrow> False
           | Some expected_name_hash \<Rightarrow>
               (case ocsp_digest L (ci_hash_algorithm cid)
                       (subject_public_key (subject_public_key_info (tbs issuer))) of
                  None \<Rightarrow> False
                | Some expected_key_hash \<Rightarrow>
                    ci_issuer_name_hash cid = expected_name_hash \<and>
                    ci_issuer_key_hash cid = expected_key_hash)))"

definition single_response_is_current :: "single_response \<Rightarrow> u64 \<Rightarrow> bool" where
  "single_response_is_current sr now_secs =
     (if now_secs < this_update sr then False
      else case next_update sr of
        Some next \<Rightarrow> \<not> now_secs > next
      | None \<Rightarrow> True)"

text \<open>The loop of \<open>evaluate_responses\<close> over \<open>(matched_any, has_unknown, good_current)\<close>;
  \<open>None\<close> is the early return of \<open>Revoked\<close>.\<close>

fun evaluate_loop ::
    "ext_lib \<Rightarrow> x509_certificate \<Rightarrow> bytes \<Rightarrow> u64 \<Rightarrow> single_response list \<Rightarrow> bool \<times> bool \<times> bool
      \<Rightarrow> (bool \<times> bool \<times> bool) option" where
  "evaluate_loop L issuer serial t [] flags = Some flags"
| "evaluate_loop L issuer serial t (sr # srs) (matched, unknown, good) =
     (if \<not> cert_id_matches L (sr_cert_id sr) issuer serial
      then evaluate_loop L issuer serial t srs (matched, unknown, good)
      else if sr_cert_status sr = CertRevoked then None
      else if \<not> single_response_is_current sr t
      then evaluate_loop L issuer serial t srs (True, unknown, good)
      else evaluate_loop L issuer serial t srs
             (case sr_cert_status sr of
                CertUnknown \<Rightarrow> (True, True, good)
              | CertGood \<Rightarrow> (True, unknown, True)
              | CertRevoked \<Rightarrow> (True, unknown, good)))"

definition evaluate_responses ::
    "ext_lib \<Rightarrow> single_response list \<Rightarrow> bytes \<Rightarrow> x509_certificate option \<Rightarrow> u64 \<Rightarrow> ocsp_check_result" where
  "evaluate_responses L responses end_entity_der issuer t =
     (case cert_from_der L end_entity_der of
        Err _ \<Rightarrow> ResUnparseable
      | Ok ee \<Rightarrow>
          (case issuer of
             None \<Rightarrow> ResUnparseable
           | Some iss \<Rightarrow>
               (case evaluate_loop L iss (serial_number (tbs ee)) t responses (False, False, False) of
                  None \<Rightarrow> ResRevoked
                | Some (matched_any, has_unknown, good_current) \<Rightarrow>
                    if \<not> matched_any then ResUnparseable
                    else if good_current then ResGood
                    else if has_unknown then ResUnknown
                    else ResUnparseable)))"

section \<open>The staple\<close>

definition check_ocsp_staple :: "ext_lib \<Rightarrow> bytes \<Rightarrow> bytes \<Rightarrow> bytes option \<Rightarrow> u64 \<Rightarrow> ocsp_check_result" where
  "check_ocsp_staple L staple end_entity_der issuer_cert_der t =
     (if staple = [] then ResAbsent
      else case ocsp_from_der L staple of
        Err _ \<Rightarrow> ResUnparseable
      | Ok parsed \<Rightarrow>
        if response_status parsed \<noteq> Successful then ResAbsent
        else case response_bytes parsed of
          None \<Rightarrow> ResUnparseable
        | Some resp_bytes \<Rightarrow>
          (case basic_from_der L resp_bytes of
             Err _ \<Rightarrow> ResUnparseable
           | Ok basic \<Rightarrow>
             (case response_data_encode L (tbs_response_data basic) of
                Err _ \<Rightarrow> ResUnparseable
              | Ok tbs_der \<Rightarrow>
                (case determine_signer_spki L basic issuer_cert_der of
                   Err (ResponseUnparseable _) \<Rightarrow> ResUnparseable
                 | Err e \<Rightarrow> ResBadSignature (ocsp_verify_error_display e)
                 | Ok spki_der \<Rightarrow>
                   (case verify_ocsp_signature L spki_der tbs_der (bor_signature_algorithm basic) (bor_signature basic) of
                      Err e \<Rightarrow> ResBadSignature (ocsp_verify_error_display e)
                    | Ok _ \<Rightarrow>
                      evaluate_responses L (rd_responses (tbs_response_data basic)) end_entity_der
                        (Option.bind issuer_cert_der (\<lambda>der. rok (cert_from_der L der))) t)))))"

section \<open>The verifier\<close>

text \<open>The certificate taken as issuer: the first intermediate, or a self-signed leaf.\<close>

definition ocsp_issuer_der :: "ext_lib \<Rightarrow> verify_args \<Rightarrow> bytes option" where
  "ocsp_issuer_der L a =
     (case intermediates a of
        first # _ \<Rightarrow> Some first
      | [] \<Rightarrow> if end_entity_is_self_signed L (end_entity a) then Some (end_entity a) else None)"

definition ocsp_client_verify ::
    "ext_lib \<Rightarrow> ocsp_client_policy \<Rightarrow> server_cert_verifier \<Rightarrow> verify_args \<Rightarrow> (unit, rustls_error) result" where
  "ocsp_client_verify L policy inner a =
     (if policy = OcspDisabled then verify_server_cert inner a
      else case check_ocsp_staple L (ocsp_response a) (end_entity a) (ocsp_issuer_der L a) (now a) of
        ResRevoked \<Rightarrow> Err (InvalidCertificate Revoked)
      | ResBadSignature msg \<Rightarrow> Err (General (''OCSP response cryptographic signature invalid: '' @ msg))
      | ResUnknown \<Rightarrow>
          if policy = HardRequire then Err (General ''OCSP CertStatus::Unknown with HardRequire policy'')
          else verify_server_cert inner a
      | ResAbsent \<Rightarrow>
          if policy = HardRequire then Err (General ''OCSP staple required but absent or unparseable'')
          else verify_server_cert inner a
      | ResUnparseable \<Rightarrow>
          if policy = HardRequire then Err (General ''OCSP staple required but absent or unparseable'')
          else verify_server_cert inner a
      | ResGood \<Rightarrow> verify_server_cert inner a)"

definition ocsp_client_verifier ::
    "ext_lib \<times> ocsp_client_policy \<Rightarrow> server_cert_verifier \<Rightarrow> server_cert_verifier" where
  "ocsp_client_verifier c inner =
     \<lparr> verify_server_cert = ocsp_client_verify (fst c) (snd c) inner,
       verify_tls12_signature = verify_tls12_signature inner,
       verify_tls13_signature = verify_tls13_signature inner,
       supported_verify_schemes = supported_verify_schemes inner \<rparr>"

interpretation ocsp_layer: verifier_layer ocsp_client_verifier
  by unfold_locales
    (auto simp: ocsp_client_verifier_def ocsp_client_verify_def split: if_splits ocsp_check_result.splits)

section \<open>The verdict over the responses\<close>

text \<open>The responses that are about the certificate.\<close>

definition covering :: "ext_lib \<Rightarrow> x509_certificate \<Rightarrow> bytes \<Rightarrow> single_response list \<Rightarrow> single_response set" where
  "covering L issuer serial srs = {sr \<in> set srs. cert_id_matches L (sr_cert_id sr) issuer serial}"

lemma covering_Nil [simp]: "covering L issuer serial [] = {}"
  by (simp add: covering_def)

lemma covering_Cons:
  "covering L issuer serial (sr # srs) =
     (if cert_id_matches L (sr_cert_id sr) issuer serial then insert sr (covering L issuer serial srs)
      else covering L issuer serial srs)"
  by (auto simp: covering_def)

lemma evaluate_loop_eq:
  "evaluate_loop L issuer serial t srs (m, u, g) =
     (let C = covering L issuer serial srs in
      if \<exists>sr \<in> C. sr_cert_status sr = CertRevoked then None
      else Some (m \<or> C \<noteq> {},
                 u \<or> (\<exists>sr \<in> C. sr_cert_status sr = CertUnknown \<and> single_response_is_current sr t),
                 g \<or> (\<exists>sr \<in> C. sr_cert_status sr = CertGood \<and> single_response_is_current sr t)))"
proof (induction srs arbitrary: m u g)
  case Nil
  then show ?case by simp
next
  case (Cons sr srs)
  then show ?case
    by (cases "sr_cert_status sr") (auto simp: covering_Cons Let_def)
qed

lemma evaluate_responses_Good_iff:
  "evaluate_responses L srs ee_der iss t = ResGood \<longleftrightarrow>
     (\<exists>ee issuer. cert_from_der L ee_der = Ok ee \<and> iss = Some issuer \<and>
        (\<forall>sr \<in> covering L issuer (serial_number (tbs ee)) srs. sr_cert_status sr \<noteq> CertRevoked) \<and>
        (\<exists>sr \<in> covering L issuer (serial_number (tbs ee)) srs.
           sr_cert_status sr = CertGood \<and> single_response_is_current sr t))"
  by (auto simp: evaluate_responses_def evaluate_loop_eq Let_def split: result.splits option.splits if_splits)

lemma evaluate_responses_Revoked_iff:
  "evaluate_responses L srs ee_der iss t = ResRevoked \<longleftrightarrow>
     (\<exists>ee issuer. cert_from_der L ee_der = Ok ee \<and> iss = Some issuer \<and>
        (\<exists>sr \<in> covering L issuer (serial_number (tbs ee)) srs. sr_cert_status sr = CertRevoked))"
  by (auto simp: evaluate_responses_def evaluate_loop_eq Let_def split: result.splits option.splits if_splits)

lemma evaluate_responses_not_other: "evaluate_responses L srs ee iss t \<noteq> ResBadSignature m"
  "evaluate_responses L srs ee iss t \<noteq> ResAbsent"
  by (auto simp: evaluate_responses_def split: result.splits option.splits if_splits)

lemma current_iff:
  "single_response_is_current sr t \<longleftrightarrow> this_update sr \<le> t \<and> (\<forall>n. next_update sr = Some n \<longrightarrow> t \<le> n)"
  by (auto simp: single_response_is_current_def split: option.splits)

section \<open>The signer\<close>

text \<open>The keys whose signature on a response counts, for a known issuer: the issuer's own, or that of
  the first certificate in the response when its extended key usage allows OCSP signing
  (\<open>id-kp-OCSPSigning\<close> or \<open>anyExtendedKeyUsage\<close>) and the issuer's key signed it.\<close>

definition authorised_signer :: "ext_lib \<Rightarrow> basic_ocsp_response \<Rightarrow> x509_certificate \<Rightarrow> bytes \<Rightarrow> bool" where
  "authorised_signer L basic issuer spki \<longleftrightarrow>
     spki_der_from_cert L issuer = Some spki \<or>
     (\<exists>c rest der ispki ctbs.
        bor_certs basic = Some (c # rest) \<and> cert_encode L c = Ok der \<and>
        eku_allows_ocsp L der \<and>
        spki_der_from_cert L issuer = Some ispki \<and> tbs_encode L (tbs c) = Ok ctbs \<and>
        verify_ocsp_signature L ispki ctbs (cert_signature_algorithm c) (cert_signature c) = Ok () \<and>
        spki_der_from_cert L c = Some spki)"

lemma delegated_signer_authorised:
  assumes "bor_certs basic = Some (c # rest)" "delegated_signer_spki L (Some issuer) c = Ok spki"
  shows "authorised_signer L basic issuer spki"
  using assms
  by (auto simp: delegated_signer_spki_def authorised_signer_def cert_to_der_def result_simps
      verify_eku_ocsp_signing_iff)

lemma determine_signer_authorised:
  assumes "determine_signer_spki L basic (Some der) = Ok spki" "cert_from_der L der = Ok issuer"
  shows "authorised_signer L basic issuer spki"
  using assms delegated_signer_authorised
  by (auto simp: determine_signer_spki_def Let_def authorised_signer_def ok_or_Ok_iff
      split: if_splits option.splits list.splits)

section \<open>The staple\<close>

lemma check_ocsp_staple_evaluated:
  assumes "check_ocsp_staple L staple ee iss t = r" "r = ResGood \<or> r = ResRevoked"
  shows "\<exists>env rb basic tbs_der spki.
    ocsp_from_der L staple = Ok env \<and> response_status env = Successful \<and> response_bytes env = Some rb \<and>
    basic_from_der L rb = Ok basic \<and> response_data_encode L (tbs_response_data basic) = Ok tbs_der \<and>
    determine_signer_spki L basic iss = Ok spki \<and>
    verify_ocsp_signature L spki tbs_der (bor_signature_algorithm basic) (bor_signature basic) = Ok () \<and>
    evaluate_responses L (rd_responses (tbs_response_data basic)) ee
      (Option.bind iss (\<lambda>der. rok (cert_from_der L der))) t = r"
  using assms
  by (auto simp: check_ocsp_staple_def
      split: if_splits result.splits option.splits ocsp_verify_error.splits)

lemma bind_issuer_Some:
  "Option.bind iss (\<lambda>der. rok (cert_from_der L der)) = Some issuer \<longleftrightarrow>
     (\<exists>der. iss = Some der \<and> cert_from_der L der = Ok issuer)"
  by (cases iss) (auto simp: result_simps)

text \<open>A response the client may rely on: well-formed, signed over its own data by the issuer or by a
  delegate of the issuer.\<close>

definition authentic_response ::
    "ext_lib \<Rightarrow> bytes \<Rightarrow> x509_certificate \<Rightarrow> basic_ocsp_response \<Rightarrow> bool" where
  "authentic_response L staple issuer basic \<longleftrightarrow>
     (\<exists>env rb tbs_der spki.
        ocsp_from_der L staple = Ok env \<and> response_status env = Successful \<and> response_bytes env = Some rb \<and>
        basic_from_der L rb = Ok basic \<and> response_data_encode L (tbs_response_data basic) = Ok tbs_der \<and>
        authorised_signer L basic issuer spki \<and>
        verify_ocsp_signature L spki tbs_der (bor_signature_algorithm basic) (bor_signature basic) = Ok ())"

lemma check_ocsp_staple_authentic:
  assumes "check_ocsp_staple L staple ee iss t = r" "r = ResGood \<or> r = ResRevoked"
  shows "\<exists>der issuer basic.
    iss = Some der \<and> cert_from_der L der = Ok issuer \<and> authentic_response L staple issuer basic \<and>
    evaluate_responses L (rd_responses (tbs_response_data basic)) ee (Some issuer) t = r"
proof -
  obtain env rb basic tbs_der spki where
    parsed: "ocsp_from_der L staple = Ok env" "response_status env = Successful" "response_bytes env = Some rb"
      "basic_from_der L rb = Ok basic" "response_data_encode L (tbs_response_data basic) = Ok tbs_der"
    and signer: "determine_signer_spki L basic iss = Ok spki"
    and sig: "verify_ocsp_signature L spki tbs_der (bor_signature_algorithm basic) (bor_signature basic) = Ok ()"
    and eval: "evaluate_responses L (rd_responses (tbs_response_data basic)) ee
      (Option.bind iss (\<lambda>der. rok (cert_from_der L der))) t = r"
    using check_ocsp_staple_evaluated [OF assms] by blast
  from eval assms(2) obtain issuer where
    "Option.bind iss (\<lambda>der. rok (cert_from_der L der)) = Some issuer"
    by (auto simp: evaluate_responses_Good_iff evaluate_responses_Revoked_iff)
  moreover from this obtain der where "iss = Some der" "cert_from_der L der = Ok issuer"
    by (auto simp: bind_issuer_Some)
  moreover from this signer have "authorised_signer L basic issuer spki"
    by (auto intro: determine_signer_authorised)
  with parsed sig have "authentic_response L staple issuer basic"
    unfolding authentic_response_def by blast
  ultimately show ?thesis
    using eval by auto
qed

section \<open>Properties\<close>

text \<open>A concrete setting for the witnesses: the leaf \<open>[1]\<close> was issued by the certificate \<open>[2]\<close>, the
  staple \<open>[3]\<close> decodes to one response for serial 9 with the given status and a window from 10 to 20,
  and every signature verifies.\<close>

definition example_cert :: "bytes \<Rightarrow> bytes \<Rightarrow> bytes \<Rightarrow> x509_certificate" where
  "example_cert serial iss subj =
     \<lparr> tbs = \<lparr> serial_number = serial, cert_issuer = iss, cert_subject = subj,
         subject_public_key_info = \<lparr> spki_algorithm = [], subject_public_key = subj \<rparr>, tbs_extensions = None \<rparr>,
       cert_signature_algorithm = OID_ED25519, cert_signature = [] \<rparr>"

definition example_basic :: "cert_status \<Rightarrow> basic_ocsp_response" where
  "example_basic st =
     \<lparr> tbs_response_data = \<lparr> rd_responder_id = ByName [7],
         rd_responses = [\<lparr> sr_cert_id = \<lparr> ci_hash_algorithm = OID_SHA256, ci_issuer_name_hash = [7],
             ci_issuer_key_hash = [7], ci_serial_number = [9] \<rparr>,
           sr_cert_status = st, this_update = 10, next_update = Some 20 \<rparr>] \<rparr>,
       bor_signature_algorithm = OID_ECDSA_WITH_SHA256, bor_signature = [5], bor_certs = None \<rparr>"

definition example_ocsp_lib :: "cert_status \<Rightarrow> ext_lib" where
  "example_ocsp_lib st = lib_no_certs
     \<lparr> cert_from_der := (\<lambda>b. if b = [1] then Ok (example_cert [9] [7] [8])
                            else if b = [2] then Ok (example_cert [4] [6] [7]) else Err ''bad''),
       ocsp_from_der := (\<lambda>b. if b = [3] then Ok \<lparr> response_status = Successful, response_bytes = Some [0] \<rparr>
                            else Err ''bad''),
       basic_from_der := (\<lambda>_. Ok (example_basic st)),
       response_data_encode := (\<lambda>_. Ok [0]) \<rparr>"

definition example_args :: verify_args where
  "example_args = \<lparr> end_entity = [1], intermediates = [[2]], server_name = ''a'', ocsp_response = [3], now = 15 \<rparr>"

definition accept_all :: server_cert_verifier where
  "accept_all = \<lparr> verify_server_cert = (\<lambda>_. Ok ()), verify_tls12_signature = (\<lambda>_ _ _. Ok ()),
     verify_tls13_signature = (\<lambda>_ _ _. Ok ()), supported_verify_schemes = [] \<rparr>"

lemmas ocsp_example_defs =
  example_ocsp_lib_def example_basic_def example_cert_def lib_no_certs_def ocsp_oid_defs
  OID_SHA1_def OID_SHA256_def OID_SHA384_def OID_SHA512_def

lemma example_check:
  "check_ocsp_staple (example_ocsp_lib CertGood) [3] [1] (Some [2]) 15 = ResGood"
  "check_ocsp_staple (example_ocsp_lib CertRevoked) [3] [1] (Some [2]) 15 = ResRevoked"
  by (simp_all add: check_ocsp_staple_def determine_signer_spki_def responder_is_issuer_def spki_der_from_cert_def
      verify_ocsp_signature_def verify_ecdsa_p256_sha256_def spki_raw_bytes_def evaluate_responses_def
      cert_id_matches_def ocsp_digest_def single_response_is_current_def ocsp_example_defs Let_def)

text \<open>A CertID names the issuer: its hashes are those of the issuer's name and key.\<close>

definition names_issuer :: "ext_lib \<Rightarrow> cert_id \<Rightarrow> x509_certificate \<Rightarrow> bool" where
  "names_issuer L cid issuer \<longleftrightarrow>
     (\<exists>name. name_encode L (cert_subject (tbs issuer)) = Ok name \<and>
        ocsp_digest L (ci_hash_algorithm cid) name = Some (ci_issuer_name_hash cid)) \<and>
     ocsp_digest L (ci_hash_algorithm cid) (subject_public_key (subject_public_key_info (tbs issuer))) =
       Some (ci_issuer_key_hash cid)"

lemma cert_id_matches_binds:
  "cert_id_matches L cid issuer serial \<Longrightarrow> ci_serial_number cid = serial \<and> names_issuer L cid issuer"
  by (auto simp: cert_id_matches_def names_issuer_def split: if_splits result.splits option.splits)

text \<open>C1: a staple counts as good only when an issuer certificate is known, the response is signed by
  that issuer or by a delegate whose certificate the issuer signed and whose extended key usage names
  OCSP signing or is anyExtendedKeyUsage, some response carries the issuer's name and key hashes and the serial number of the certificate under
  verification with status good inside its window, and no response for that certificate says revoked.
  In particular a delegate that nobody vouches for never yields good.\<close>

theorem ocsp_good_sound:
  assumes "check_ocsp_staple L staple ee iss t = ResGood"
  shows "\<exists>der issuer basic leaf sr.
    iss = Some der \<and> cert_from_der L der = Ok issuer \<and> cert_from_der L ee = Ok leaf \<and>
    authentic_response L staple issuer basic \<and>
    sr \<in> set (rd_responses (tbs_response_data basic)) \<and>
    ci_serial_number (sr_cert_id sr) = serial_number (tbs leaf) \<and>
    names_issuer L (sr_cert_id sr) issuer \<and>
    sr_cert_status sr = CertGood \<and> this_update sr \<le> t \<and> (\<forall>n. next_update sr = Some n \<longrightarrow> t \<le> n) \<and>
    (\<forall>sr' \<in> set (rd_responses (tbs_response_data basic)).
       cert_id_matches L (sr_cert_id sr') issuer (serial_number (tbs leaf)) \<longrightarrow> sr_cert_status sr' \<noteq> CertRevoked)"
proof -
  obtain der issuer basic where *: "iss = Some der" "cert_from_der L der = Ok issuer"
    "authentic_response L staple issuer basic"
    "evaluate_responses L (rd_responses (tbs_response_data basic)) ee (Some issuer) t = ResGood"
    using check_ocsp_staple_authentic [OF assms] by blast
  from *(4) obtain leaf sr where sr:
    "cert_from_der L ee = Ok leaf"
    "sr \<in> covering L issuer (serial_number (tbs leaf)) (rd_responses (tbs_response_data basic))"
    "sr_cert_status sr = CertGood" "single_response_is_current sr t"
    "\<forall>sr \<in> covering L issuer (serial_number (tbs leaf)) (rd_responses (tbs_response_data basic)).
       sr_cert_status sr \<noteq> CertRevoked"
    by (auto simp: evaluate_responses_Good_iff)
  then have "ci_serial_number (sr_cert_id sr) = serial_number (tbs leaf) \<and> names_issuer L (sr_cert_id sr) issuer"
    by (intro cert_id_matches_binds) (simp add: covering_def)
  with *(1-3) sr show ?thesis
    by (auto simp: covering_def current_iff)
qed

theorem ocsp_good_sound_witness:
  "\<exists>issuer. cert_from_der (example_ocsp_lib CertGood) [2] = Ok issuer \<and>
     (\<exists>basic. authentic_response (example_ocsp_lib CertGood) [3] issuer basic)"
  using ocsp_good_sound [OF example_check(1)] by auto

text \<open>with the strict policy the staple must prove the certificate good: the verifier accepts
  exactly when the staple check yields good and the inner verifier accepts.\<close>

theorem ocsp_hard_require_accepts:
  "verify_server_cert (ocsp_client_verifier (L, HardRequire) inner) a = Ok () \<longleftrightarrow>
     check_ocsp_staple L (ocsp_response a) (end_entity a) (ocsp_issuer_der L a) (now a) = ResGood \<and>
     verify_server_cert inner a = Ok ()"
  by (auto simp: ocsp_client_verifier_def ocsp_client_verify_def split: ocsp_check_result.splits)

text \<open>C17: revocation is final. When an authentic response for the certificate says revoked, wherever
  it stands in the list and whether or not its window is over, every policy but the disabled one
  rejects the certificate as revoked.\<close>

theorem ocsp_revoked_rejected:
  assumes "policy \<noteq> OcspDisabled"
    and staple: "ocsp_response a \<noteq> []" "ocsp_from_der L (ocsp_response a) = Ok env"
      "response_status env = Successful" "response_bytes env = Some rb" "basic_from_der L rb = Ok basic"
      "response_data_encode L (tbs_response_data basic) = Ok tbs_der"
      "determine_signer_spki L basic (ocsp_issuer_der L a) = Ok spki"
      "verify_ocsp_signature L spki tbs_der (bor_signature_algorithm basic) (bor_signature basic) = Ok ()"
    and "ocsp_issuer_der L a = Some der" "cert_from_der L der = Ok issuer" "cert_from_der L (end_entity a) = Ok leaf"
    and "sr \<in> set (rd_responses (tbs_response_data basic))"
      "cert_id_matches L (sr_cert_id sr) issuer (serial_number (tbs leaf))" "sr_cert_status sr = CertRevoked"
  shows "verify_server_cert (ocsp_client_verifier (L, policy) inner) a = Err (InvalidCertificate Revoked)"
proof -
  have "evaluate_responses L (rd_responses (tbs_response_data basic)) (end_entity a) (Some issuer) (now a) = ResRevoked"
    using assms by (auto simp: evaluate_responses_Revoked_iff covering_def)
  with assms show ?thesis
    by (simp add: ocsp_client_verifier_def ocsp_client_verify_def check_ocsp_staple_def)
qed

theorem ocsp_revoked_rejected_witness:
  "verify_server_cert (ocsp_client_verifier (example_ocsp_lib CertRevoked, SoftFail) accept_all) example_args =
     Err (InvalidCertificate Revoked)"
  by (rule ocsp_revoked_rejected [where env = "\<lparr> response_status = Successful, response_bytes = Some [0] \<rparr>"
        and rb = "[0]" and basic = "example_basic CertRevoked" and tbs_der = "[0]" and spki = "[7]" and der = "[2]"
        and issuer = "example_cert [4] [6] [7]" and leaf = "example_cert [9] [7] [8]"
        and sr = "hd (rd_responses (tbs_response_data (example_basic CertRevoked)))"])
    (simp_all add: example_args_def ocsp_issuer_der_def determine_signer_spki_def responder_is_issuer_def
      spki_der_from_cert_def verify_ocsp_signature_def verify_ecdsa_p256_sha256_def spki_raw_bytes_def
      cert_id_matches_def ocsp_digest_def ocsp_example_defs Let_def)

text \<open>an unverifiable staple is not a forged one. For a leaf-only chain whose leaf is not
  self-signed, and a response that carries no delegate certificate, the soft-fail policy answers
  exactly as the inner verifier does.\<close>

theorem ocsp_soft_fail_leaf_only:
  assumes "intermediates a = []" "\<not> end_entity_is_self_signed L (end_entity a)"
    and no_delegate: "\<And>env rb basic. ocsp_from_der L (ocsp_response a) = Ok env \<Longrightarrow> response_bytes env = Some rb \<Longrightarrow>
      basic_from_der L rb = Ok basic \<Longrightarrow> bor_certs basic = None \<or> bor_certs basic = Some []"
  shows "verify_server_cert (ocsp_client_verifier (L, SoftFail) inner) a = verify_server_cert inner a"
proof -
  have "determine_signer_spki L basic None = Err (ResponseUnparseable
      ''no issuer cert provided and no delegated signer in OCSP response'')"
    if "bor_certs basic = None \<or> bor_certs basic = Some []" for basic
    using that by (auto simp: determine_signer_spki_def)
  then have "check_ocsp_staple L (ocsp_response a) (end_entity a) None (now a) \<in> {ResAbsent, ResUnparseable}"
    using no_delegate by (auto simp: check_ocsp_staple_def split: result.splits option.splits)
  then show ?thesis
    using assms(1,2) by (auto simp: ocsp_client_verifier_def ocsp_client_verify_def ocsp_issuer_der_def)
qed

theorem ocsp_soft_fail_leaf_only_witness:
  "verify_server_cert (ocsp_client_verifier (example_ocsp_lib CertGood, SoftFail) accept_all)
     (example_args\<lparr> intermediates := [] \<rparr>) = Ok ()"
  by (subst ocsp_soft_fail_leaf_only)
    (auto simp: example_args_def accept_all_def end_entity_is_self_signed_def ocsp_example_defs)

end
