(* ===== verification/Core_Types.thy ===== *)
theory Core_Types
  imports Prelude
begin

text \<open>
  The vocabulary of \<open>oxitls-core\<close>: protocol versions, cipher suites with their IANA code
  points and names, alert descriptions, the error type with its conversions, the
  connection information record and its builder, and the mappings from rustls values
  in \<open>stream_info.rs\<close> and in the adapter's \<open>lib.rs\<close>.
\<close>

section \<open>Alerts\<close>

datatype alert_description =
    CloseNotify
  | UnexpectedMessage
  | BadRecordMac
  | RecordOverflow
  | HandshakeFailure
  | BadCertificate
  | UnsupportedCertificate
  | CertificateRevoked
  | CertificateExpired
  | CertificateUnknown
  | IllegalParameter
  | UnknownCa
  | AccessDenied
  | DecodeError
  | DecryptError
  | ProtocolVersion
  | InsufficientSecurity
  | InternalError
  | InappropriateFallback
  | UserCanceled
  | MissingExtension
  | UnsupportedExtension
  | UnrecognizedName
  | BadCertificateStatusResponse
  | UnknownPskIdentity
  | CertificateRequired
  | NoApplicationProtocol
  | UnknownAlert byte

fun alert_to_u8 :: "alert_description \<Rightarrow> byte" where
  "alert_to_u8 CloseNotify = 0"
| "alert_to_u8 UnexpectedMessage = 10"
| "alert_to_u8 BadRecordMac = 20"
| "alert_to_u8 RecordOverflow = 22"
| "alert_to_u8 HandshakeFailure = 40"
| "alert_to_u8 BadCertificate = 42"
| "alert_to_u8 UnsupportedCertificate = 43"
| "alert_to_u8 CertificateRevoked = 44"
| "alert_to_u8 CertificateExpired = 45"
| "alert_to_u8 CertificateUnknown = 46"
| "alert_to_u8 IllegalParameter = 47"
| "alert_to_u8 UnknownCa = 48"
| "alert_to_u8 AccessDenied = 49"
| "alert_to_u8 DecodeError = 50"
| "alert_to_u8 DecryptError = 51"
| "alert_to_u8 ProtocolVersion = 70"
| "alert_to_u8 InsufficientSecurity = 71"
| "alert_to_u8 InternalError = 80"
| "alert_to_u8 InappropriateFallback = 86"
| "alert_to_u8 UserCanceled = 90"
| "alert_to_u8 MissingExtension = 109"
| "alert_to_u8 UnsupportedExtension = 110"
| "alert_to_u8 UnrecognizedName = 112"
| "alert_to_u8 BadCertificateStatusResponse = 113"
| "alert_to_u8 UnknownPskIdentity = 115"
| "alert_to_u8 CertificateRequired = 116"
| "alert_to_u8 NoApplicationProtocol = 120"
| "alert_to_u8 (UnknownAlert code) = code"

definition alert_from_u8 :: "byte \<Rightarrow> alert_description" where
  "alert_from_u8 code =
     (if code = 0 then CloseNotify
      else if code = 10 then UnexpectedMessage
      else if code = 20 then BadRecordMac
      else if code = 22 then RecordOverflow
      else if code = 40 then HandshakeFailure
      else if code = 42 then BadCertificate
      else if code = 43 then UnsupportedCertificate
      else if code = 44 then CertificateRevoked
      else if code = 45 then CertificateExpired
      else if code = 46 then CertificateUnknown
      else if code = 47 then IllegalParameter
      else if code = 48 then UnknownCa
      else if code = 49 then AccessDenied
      else if code = 50 then DecodeError
      else if code = 51 then DecryptError
      else if code = 70 then ProtocolVersion
      else if code = 71 then InsufficientSecurity
      else if code = 80 then InternalError
      else if code = 86 then InappropriateFallback
      else if code = 90 then UserCanceled
      else if code = 109 then MissingExtension
      else if code = 110 then UnsupportedExtension
      else if code = 112 then UnrecognizedName
      else if code = 113 then BadCertificateStatusResponse
      else if code = 115 then UnknownPskIdentity
      else if code = 116 then CertificateRequired
      else if code = 120 then NoApplicationProtocol
      else UnknownAlert code)"

fun alert_display :: "alert_description \<Rightarrow> string" where
  "alert_display CloseNotify = ''close_notify''"
| "alert_display UnexpectedMessage = ''unexpected_message''"
| "alert_display BadRecordMac = ''bad_record_mac''"
| "alert_display RecordOverflow = ''record_overflow''"
| "alert_display HandshakeFailure = ''handshake_failure''"
| "alert_display BadCertificate = ''bad_certificate''"
| "alert_display UnsupportedCertificate = ''unsupported_certificate''"
| "alert_display CertificateRevoked = ''certificate_revoked''"
| "alert_display CertificateExpired = ''certificate_expired''"
| "alert_display CertificateUnknown = ''certificate_unknown''"
| "alert_display IllegalParameter = ''illegal_parameter''"
| "alert_display UnknownCa = ''unknown_ca''"
| "alert_display AccessDenied = ''access_denied''"
| "alert_display DecodeError = ''decode_error''"
| "alert_display DecryptError = ''decrypt_error''"
| "alert_display ProtocolVersion = ''protocol_version''"
| "alert_display InsufficientSecurity = ''insufficient_security''"
| "alert_display InternalError = ''internal_error''"
| "alert_display InappropriateFallback = ''inappropriate_fallback''"
| "alert_display UserCanceled = ''user_canceled''"
| "alert_display MissingExtension = ''missing_extension''"
| "alert_display UnsupportedExtension = ''unsupported_extension''"
| "alert_display UnrecognizedName = ''unrecognized_name''"
| "alert_display BadCertificateStatusResponse = ''bad_certificate_status_response''"
| "alert_display UnknownPskIdentity = ''unknown_psk_identity''"
| "alert_display CertificateRequired = ''certificate_required''"
| "alert_display NoApplicationProtocol = ''no_application_protocol''"
| "alert_display (UnknownAlert code) = ''unknown_alert('' @ show_nat (unat code) @ '')''"

section \<open>Errors\<close>

text \<open>\<open>std::io::ErrorKind\<close>: the kinds the conversions produce, the others by name.\<close>

datatype io_error_kind =
    ConnectionAborted | InvalidData | InvalidInput | PermissionDenied | OtherIo | NamedIoKind string

datatype tls_error =
    Io io_error_kind
  | Handshake string
  | BadCert string
  | InvalidConfig string
  | CertRevokedErr string
  | CertInvalid string
  | ProtocolViolation string
  | AlertReceived alert_description
  | Other string

definition is_handshake :: "tls_error \<Rightarrow> bool" where
  "is_handshake e = (case e of Handshake _ \<Rightarrow> True | _ \<Rightarrow> False)"

definition is_io :: "tls_error \<Rightarrow> bool" where
  "is_io e = (case e of Io _ \<Rightarrow> True | _ \<Rightarrow> False)"

definition is_cert :: "tls_error \<Rightarrow> bool" where
  "is_cert e = (case e of BadCert _ \<Rightarrow> True | CertRevokedErr _ \<Rightarrow> True | CertInvalid _ \<Rightarrow> True | _ \<Rightarrow> False)"

definition is_config :: "tls_error \<Rightarrow> bool" where
  "is_config e = (case e of InvalidConfig _ \<Rightarrow> True | _ \<Rightarrow> False)"

definition is_protocol_violation :: "tls_error \<Rightarrow> bool" where
  "is_protocol_violation e = (case e of ProtocolViolation _ \<Rightarrow> True | _ \<Rightarrow> False)"

text \<open>\<open>From<TlsError> for io::Error\<close>: the kind and the message.\<close>

fun tls_error_to_io :: "tls_error \<Rightarrow> io_error_kind \<times> string" where
  "tls_error_to_io (Io kind) = (kind, ''TLS I/O error'')"
| "tls_error_to_io (Handshake s) = (ConnectionAborted, s)"
| "tls_error_to_io (BadCert s) = (InvalidData, s)"
| "tls_error_to_io (InvalidConfig s) = (InvalidInput, s)"
| "tls_error_to_io (CertRevokedErr s) = (PermissionDenied, s)"
| "tls_error_to_io (CertInvalid s) = (InvalidData, s)"
| "tls_error_to_io (ProtocolViolation s) = (InvalidData, s)"
| "tls_error_to_io (AlertReceived d) = (ConnectionAborted, ''TLS alert: '' @ alert_display d)"
| "tls_error_to_io (Other s) = (OtherIo, s)"

definition tls_error_from_io :: "io_error_kind \<Rightarrow> tls_error" where
  "tls_error_from_io kind = Io kind"

section \<open>Versions\<close>

datatype tls_version = Tls12 | Tls13

definition all_tls_versions :: "tls_version list" where
  "all_tls_versions = [Tls12, Tls13]"

fun tls_version_display :: "tls_version \<Rightarrow> string" where
  "tls_version_display Tls12 = ''TLS 1.2''"
| "tls_version_display Tls13 = ''TLS 1.3''"

definition tls_version_from_str :: "string \<Rightarrow> (tls_version, tls_error) result" where
  "tls_version_from_str s =
     (if s \<in> {''TLS 1.2'', ''tls1.2'', ''TLSv1.2'', ''1.2''} then Ok Tls12
      else if s \<in> {''TLS 1.3'', ''tls1.3'', ''TLSv1.3'', ''1.3''} then Ok Tls13
      else Err (Other (''unknown TLS version: '' @ s)))"

section \<open>Cipher suites\<close>

datatype cipher_suite =
    Tls13Aes128GcmSha256
  | Tls13Aes256GcmSha384
  | Tls13Chacha20Poly1305Sha256
  | Tls12EcdheEcdsaAes128GcmSha256
  | Tls12EcdheEcdsaAes256GcmSha384
  | Tls12EcdheRsaAes128GcmSha256
  | Tls12EcdheRsaAes256GcmSha384
  | Tls12EcdheEcdsaChacha20Poly1305Sha256
  | Tls12EcdheRsaChacha20Poly1305Sha256
  | UnknownSuite

fun iana_value :: "cipher_suite \<Rightarrow> byte \<times> byte" where
  "iana_value Tls13Aes128GcmSha256 = (0x13, 0x01)"
| "iana_value Tls13Aes256GcmSha384 = (0x13, 0x02)"
| "iana_value Tls13Chacha20Poly1305Sha256 = (0x13, 0x03)"
| "iana_value Tls12EcdheEcdsaAes128GcmSha256 = (0xC0, 0x2B)"
| "iana_value Tls12EcdheEcdsaAes256GcmSha384 = (0xC0, 0x2C)"
| "iana_value Tls12EcdheRsaAes128GcmSha256 = (0xC0, 0x2F)"
| "iana_value Tls12EcdheRsaAes256GcmSha384 = (0xC0, 0x30)"
| "iana_value Tls12EcdheEcdsaChacha20Poly1305Sha256 = (0xCC, 0xA9)"
| "iana_value Tls12EcdheRsaChacha20Poly1305Sha256 = (0xCC, 0xA8)"
| "iana_value UnknownSuite = (0xFF, 0xFF)"

definition from_iana :: "byte \<times> byte \<Rightarrow> cipher_suite option" where
  "from_iana b =
     (if b = (0x13, 0x01) then Some Tls13Aes128GcmSha256
      else if b = (0x13, 0x02) then Some Tls13Aes256GcmSha384
      else if b = (0x13, 0x03) then Some Tls13Chacha20Poly1305Sha256
      else if b = (0xC0, 0x2B) then Some Tls12EcdheEcdsaAes128GcmSha256
      else if b = (0xC0, 0x2C) then Some Tls12EcdheEcdsaAes256GcmSha384
      else if b = (0xC0, 0x2F) then Some Tls12EcdheRsaAes128GcmSha256
      else if b = (0xC0, 0x30) then Some Tls12EcdheRsaAes256GcmSha384
      else if b = (0xCC, 0xA9) then Some Tls12EcdheEcdsaChacha20Poly1305Sha256
      else if b = (0xCC, 0xA8) then Some Tls12EcdheRsaChacha20Poly1305Sha256
      else None)"

definition all_cipher_suites :: "cipher_suite list" where
  "all_cipher_suites =
     [Tls13Aes128GcmSha256,
      Tls13Aes256GcmSha384,
      Tls13Chacha20Poly1305Sha256,
      Tls12EcdheEcdsaAes128GcmSha256,
      Tls12EcdheEcdsaAes256GcmSha384,
      Tls12EcdheRsaAes128GcmSha256,
      Tls12EcdheRsaAes256GcmSha384,
      Tls12EcdheEcdsaChacha20Poly1305Sha256,
      Tls12EcdheRsaChacha20Poly1305Sha256]"

definition is_tls13 :: "cipher_suite \<Rightarrow> bool" where
  "is_tls13 s \<longleftrightarrow> s \<in> {Tls13Aes128GcmSha256, Tls13Aes256GcmSha384, Tls13Chacha20Poly1305Sha256}"

definition is_tls12 :: "cipher_suite \<Rightarrow> bool" where
  "is_tls12 s \<longleftrightarrow>
     s \<in> {Tls12EcdheEcdsaAes128GcmSha256,
          Tls12EcdheEcdsaAes256GcmSha384,
          Tls12EcdheRsaAes128GcmSha256,
          Tls12EcdheRsaAes256GcmSha384,
          Tls12EcdheEcdsaChacha20Poly1305Sha256,
          Tls12EcdheRsaChacha20Poly1305Sha256}"

definition is_unknown :: "cipher_suite \<Rightarrow> bool" where
  "is_unknown s \<longleftrightarrow> s = UnknownSuite"

fun suite_display :: "cipher_suite \<Rightarrow> string" where
  "suite_display Tls13Aes128GcmSha256 = ''TLS_AES_128_GCM_SHA256''"
| "suite_display Tls13Aes256GcmSha384 = ''TLS_AES_256_GCM_SHA384''"
| "suite_display Tls13Chacha20Poly1305Sha256 = ''TLS_CHACHA20_POLY1305_SHA256''"
| "suite_display Tls12EcdheEcdsaAes128GcmSha256 = ''TLS_ECDHE_ECDSA_WITH_AES_128_GCM_SHA256''"
| "suite_display Tls12EcdheEcdsaAes256GcmSha384 = ''TLS_ECDHE_ECDSA_WITH_AES_256_GCM_SHA384''"
| "suite_display Tls12EcdheRsaAes128GcmSha256 = ''TLS_ECDHE_RSA_WITH_AES_128_GCM_SHA256''"
| "suite_display Tls12EcdheRsaAes256GcmSha384 = ''TLS_ECDHE_RSA_WITH_AES_256_GCM_SHA384''"
| "suite_display Tls12EcdheEcdsaChacha20Poly1305Sha256 = ''TLS_ECDHE_ECDSA_WITH_CHACHA20_POLY1305_SHA256''"
| "suite_display Tls12EcdheRsaChacha20Poly1305Sha256 = ''TLS_ECDHE_RSA_WITH_CHACHA20_POLY1305_SHA256''"
| "suite_display UnknownSuite = ''UNKNOWN''"

definition suite_from_str :: "string \<Rightarrow> (cipher_suite, tls_error) result" where
  "suite_from_str s =
     (if s = ''TLS_AES_128_GCM_SHA256'' then Ok Tls13Aes128GcmSha256
      else if s = ''TLS_AES_256_GCM_SHA384'' then Ok Tls13Aes256GcmSha384
      else if s = ''TLS_CHACHA20_POLY1305_SHA256'' then Ok Tls13Chacha20Poly1305Sha256
      else if s = ''TLS_ECDHE_ECDSA_WITH_AES_128_GCM_SHA256'' then Ok Tls12EcdheEcdsaAes128GcmSha256
      else if s = ''TLS_ECDHE_ECDSA_WITH_AES_256_GCM_SHA384'' then Ok Tls12EcdheEcdsaAes256GcmSha384
      else if s = ''TLS_ECDHE_RSA_WITH_AES_128_GCM_SHA256'' then Ok Tls12EcdheRsaAes128GcmSha256
      else if s = ''TLS_ECDHE_RSA_WITH_AES_256_GCM_SHA384'' then Ok Tls12EcdheRsaAes256GcmSha384
      else if s = ''TLS_ECDHE_ECDSA_WITH_CHACHA20_POLY1305_SHA256'' then Ok Tls12EcdheEcdsaChacha20Poly1305Sha256
      else if s = ''TLS_ECDHE_RSA_WITH_CHACHA20_POLY1305_SHA256'' then Ok Tls12EcdheRsaChacha20Poly1305Sha256
      else if s = ''UNKNOWN'' then Ok UnknownSuite
      else Err (Other (''unknown cipher suite: '' @ s)))"

section \<open>Values of rustls\<close>

text \<open>\<open>rustls::ProtocolVersion\<close> and \<open>rustls::CipherSuite\<close>, the variants the mappings name.\<close>

datatype rustls_version = TLSv1_2 | TLSv1_3 | OtherVersion u16

datatype rustls_suite =
    RS_TLS13_AES_128_GCM_SHA256
  | RS_TLS13_AES_256_GCM_SHA384
  | RS_TLS13_CHACHA20_POLY1305_SHA256
  | RS_TLS_ECDHE_ECDSA_WITH_AES_128_GCM_SHA256
  | RS_TLS_ECDHE_ECDSA_WITH_AES_256_GCM_SHA384
  | RS_TLS_ECDHE_RSA_WITH_AES_128_GCM_SHA256
  | RS_TLS_ECDHE_RSA_WITH_AES_256_GCM_SHA384
  | RS_TLS_ECDHE_ECDSA_WITH_CHACHA20_POLY1305_SHA256
  | RS_TLS_ECDHE_RSA_WITH_CHACHA20_POLY1305_SHA256
  | OtherRustlsSuite u16

definition tls_version_from_rustls :: "rustls_version \<Rightarrow> tls_version" where
  "tls_version_from_rustls v = (case v of TLSv1_3 \<Rightarrow> Tls13 | TLSv1_2 \<Rightarrow> Tls12 | _ \<Rightarrow> Tls12)"

fun cipher_suite_from_rustls :: "rustls_suite \<Rightarrow> cipher_suite" where
  "cipher_suite_from_rustls RS_TLS13_AES_128_GCM_SHA256 = Tls13Aes128GcmSha256"
| "cipher_suite_from_rustls RS_TLS13_AES_256_GCM_SHA384 = Tls13Aes256GcmSha384"
| "cipher_suite_from_rustls RS_TLS13_CHACHA20_POLY1305_SHA256 = Tls13Chacha20Poly1305Sha256"
| "cipher_suite_from_rustls RS_TLS_ECDHE_ECDSA_WITH_AES_128_GCM_SHA256 = Tls12EcdheEcdsaAes128GcmSha256"
| "cipher_suite_from_rustls RS_TLS_ECDHE_ECDSA_WITH_AES_256_GCM_SHA384 = Tls12EcdheEcdsaAes256GcmSha384"
| "cipher_suite_from_rustls RS_TLS_ECDHE_RSA_WITH_AES_128_GCM_SHA256 = Tls12EcdheRsaAes128GcmSha256"
| "cipher_suite_from_rustls RS_TLS_ECDHE_RSA_WITH_AES_256_GCM_SHA384 = Tls12EcdheRsaAes256GcmSha384"
| "cipher_suite_from_rustls RS_TLS_ECDHE_ECDSA_WITH_CHACHA20_POLY1305_SHA256 = Tls12EcdheEcdsaChacha20Poly1305Sha256"
| "cipher_suite_from_rustls RS_TLS_ECDHE_RSA_WITH_CHACHA20_POLY1305_SHA256 = Tls12EcdheRsaChacha20Poly1305Sha256"
| "cipher_suite_from_rustls (OtherRustlsSuite c) = UnknownSuite"

fun map_cipher_suite :: "rustls_suite \<Rightarrow> cipher_suite option" where
  "map_cipher_suite RS_TLS13_AES_128_GCM_SHA256 = Some Tls13Aes128GcmSha256"
| "map_cipher_suite RS_TLS13_AES_256_GCM_SHA384 = Some Tls13Aes256GcmSha384"
| "map_cipher_suite RS_TLS13_CHACHA20_POLY1305_SHA256 = Some Tls13Chacha20Poly1305Sha256"
| "map_cipher_suite RS_TLS_ECDHE_ECDSA_WITH_AES_128_GCM_SHA256 = Some Tls12EcdheEcdsaAes128GcmSha256"
| "map_cipher_suite RS_TLS_ECDHE_ECDSA_WITH_AES_256_GCM_SHA384 = Some Tls12EcdheEcdsaAes256GcmSha384"
| "map_cipher_suite RS_TLS_ECDHE_RSA_WITH_AES_128_GCM_SHA256 = Some Tls12EcdheRsaAes128GcmSha256"
| "map_cipher_suite RS_TLS_ECDHE_RSA_WITH_AES_256_GCM_SHA384 = Some Tls12EcdheRsaAes256GcmSha384"
| "map_cipher_suite RS_TLS_ECDHE_ECDSA_WITH_CHACHA20_POLY1305_SHA256 = Some Tls12EcdheEcdsaChacha20Poly1305Sha256"
| "map_cipher_suite RS_TLS_ECDHE_RSA_WITH_CHACHA20_POLY1305_SHA256 = Some Tls12EcdheRsaChacha20Poly1305Sha256"
| "map_cipher_suite (OtherRustlsSuite c) = None"

section \<open>Connection information\<close>

record connection_info =
  ci_version :: "tls_version option"
  ci_cipher_suite :: "cipher_suite option"
  ci_alpn_protocol :: "bytes option"
  ci_sni :: "string option"
  ci_peer_certificates :: "bytes list"

definition connection_info_new :: connection_info where
  "connection_info_new = \<lparr> ci_version = None, ci_cipher_suite = None, ci_alpn_protocol = None,
     ci_sni = None, ci_peer_certificates = [] \<rparr>"

definition with_version :: "tls_version \<Rightarrow> connection_info \<Rightarrow> connection_info" where
  "with_version v i = i\<lparr> ci_version := Some v \<rparr>"

definition with_cipher_suite :: "cipher_suite \<Rightarrow> connection_info \<Rightarrow> connection_info" where
  "with_cipher_suite s i = i\<lparr> ci_cipher_suite := Some s \<rparr>"

definition with_alpn_protocol :: "bytes \<Rightarrow> connection_info \<Rightarrow> connection_info" where
  "with_alpn_protocol p i = i\<lparr> ci_alpn_protocol := Some p \<rparr>"

definition with_sni :: "string \<Rightarrow> connection_info \<Rightarrow> connection_info" where
  "with_sni s i = i\<lparr> ci_sni := Some s \<rparr>"

definition with_peer_certificates :: "bytes list \<Rightarrow> connection_info \<Rightarrow> connection_info" where
  "with_peer_certificates cs i = i\<lparr> ci_peer_certificates := cs \<rparr>"

text \<open>What \<open>rustls::CommonState\<close> reports about a connection.\<close>

record common_state =
  protocol_version :: "rustls_version option"
  negotiated_cipher_suite :: "rustls_suite option"
  alpn_protocol :: "bytes option"

definition connection_info_from :: "common_state \<Rightarrow> connection_info option" where
  "connection_info_from conn =
     (case map_option tls_version_from_rustls (protocol_version conn) of
        None \<Rightarrow> None
      | Some v \<Rightarrow>
          let cipher = map_option cipher_suite_from_rustls (negotiated_cipher_suite conn);
              info = with_version v connection_info_new;
              info = (case cipher of Some c \<Rightarrow> with_cipher_suite c info | None \<Rightarrow> info);
              info = (case alpn_protocol conn of Some a \<Rightarrow> with_alpn_protocol a info | None \<Rightarrow> info) in
          Some info)"

definition connection_info_from_state :: "common_state \<Rightarrow> connection_info" where
  "connection_info_from_state st =
     (let version = Option.bind (protocol_version st)
            (\<lambda>pv. case pv of TLSv1_2 \<Rightarrow> Some Tls12 | TLSv1_3 \<Rightarrow> Some Tls13 | _ \<Rightarrow> None);
          cs = Option.bind (negotiated_cipher_suite st) map_cipher_suite;
          info = connection_info_new;
          info = (case version of Some v \<Rightarrow> with_version v info | None \<Rightarrow> info);
          info = (case cs of Some c \<Rightarrow> with_cipher_suite c info | None \<Rightarrow> info) in
      (case alpn_protocol st of Some a \<Rightarrow> with_alpn_protocol a info | None \<Rightarrow> info))"

lemmas connection_info_defs = connection_info_from_def connection_info_from_state_def connection_info_new_def
  with_version_def with_cipher_suite_def with_alpn_protocol_def

section \<open>Properties\<close>

text \<open>the alert codes are a faithful numbering. Every byte survives being read as an alert and
  written back, and every alert survives being written and read back unless it is an unknown-alert
  value that carries a code with a name of its own.\<close>

theorem alert_code_roundtrip:
  "alert_to_u8 (alert_from_u8 c) = c \<and>
   (alert_from_u8 (alert_to_u8 a) = a \<longleftrightarrow>
      (\<forall>code. a = UnknownAlert code \<longrightarrow> alert_from_u8 code = UnknownAlert code))"
proof
  show "alert_to_u8 (alert_from_u8 c) = c"
    by (simp add: alert_from_u8_def)
  show "alert_from_u8 (alert_to_u8 a) = a \<longleftrightarrow>
      (\<forall>code. a = UnknownAlert code \<longrightarrow> alert_from_u8 code = UnknownAlert code)"
    by (cases a) (simp_all add: alert_from_u8_def)
qed

theorem alert_code_roundtrip_witness:
  "alert_to_u8 (alert_from_u8 48) = 48 \<and> alert_from_u8 (alert_to_u8 UnknownCa) = UnknownCa"
  using alert_code_roundtrip [of 48 UnknownCa] by simp

text \<open>the IANA code points and the names of cipher suites are read back unchanged. A code decodes
  to a suite exactly when it is the code of a suite other than the placeholder, names determine
  suites, and every suite other than the placeholder belongs to exactly one protocol version.\<close>

theorem cipher_suite_codes:
  "(from_iana b = Some s \<longleftrightarrow> b = iana_value s \<and> s \<noteq> UnknownSuite) \<and>
   suite_from_str (suite_display s) = Ok s \<and>
   (is_tls13 s \<noteq> is_tls12 s \<longleftrightarrow> \<not> is_unknown s) \<and>
   (s \<in> set all_cipher_suites \<longleftrightarrow> \<not> is_unknown s)"
proof (intro conjI)
  show "from_iana b = Some s \<longleftrightarrow> b = iana_value s \<and> s \<noteq> UnknownSuite"
    by (cases s) (auto simp: from_iana_def split: if_splits)
  show "suite_from_str (suite_display s) = Ok s"
    by (cases s) (simp_all add: suite_from_str_def)
  show "is_tls13 s \<noteq> is_tls12 s \<longleftrightarrow> \<not> is_unknown s"
    by (cases s) (simp_all add: is_tls13_def is_tls12_def is_unknown_def)
  show "s \<in> set all_cipher_suites \<longleftrightarrow> \<not> is_unknown s"
    by (cases s) (simp_all add: all_cipher_suites_def is_unknown_def)
qed

text \<open>the two extractions of connection information agree on every connection that negotiated
  TLS 1.2 or 1.3 and a named suite; for any other version \<open>connection_info_from\<close> reports
  TLS 1.2 where \<open>connection_info_from_state\<close> reports none.\<close>

theorem connection_info_agree:
  "(protocol_version st \<in> {Some TLSv1_2, Some TLSv1_3} \<and>
    (\<forall>c. negotiated_cipher_suite st \<noteq> Some (OtherRustlsSuite c)) \<longrightarrow>
      connection_info_from st = Some (connection_info_from_state st)) \<and>
   (protocol_version st = Some (OtherVersion v) \<longrightarrow>
      map_option ci_version (connection_info_from st) = Some (Some Tls12) \<and>
      ci_version (connection_info_from_state st) = None)"
proof
  have suite: "map_cipher_suite s = Some (cipher_suite_from_rustls s)" if "\<forall>c. s \<noteq> OtherRustlsSuite c" for s
    using that by (cases s) simp_all
  show "protocol_version st \<in> {Some TLSv1_2, Some TLSv1_3} \<and>
      (\<forall>c. negotiated_cipher_suite st \<noteq> Some (OtherRustlsSuite c)) \<longrightarrow>
      connection_info_from st = Some (connection_info_from_state st)"
    by (auto simp: connection_info_defs tls_version_from_rustls_def suite Let_def split: option.splits)
  show "protocol_version st = Some (OtherVersion v) \<longrightarrow>
      map_option ci_version (connection_info_from st) = Some (Some Tls12) \<and>
      ci_version (connection_info_from_state st) = None"
    by (auto simp: connection_info_defs tls_version_from_rustls_def Let_def split: option.splits)
qed

theorem connection_info_agree_witness:
  "connection_info_from \<lparr> protocol_version = Some TLSv1_3,
       negotiated_cipher_suite = Some RS_TLS13_AES_128_GCM_SHA256, alpn_protocol = None \<rparr> =
     Some (connection_info_from_state \<lparr> protocol_version = Some TLSv1_3,
       negotiated_cipher_suite = Some RS_TLS13_AES_128_GCM_SHA256, alpn_protocol = None \<rparr>)"
  using connection_info_agree [of "\<lparr> protocol_version = Some TLSv1_3,
       negotiated_cipher_suite = Some RS_TLS13_AES_128_GCM_SHA256, alpn_protocol = None \<rparr>" 0]
  by simp

end
