(* ===== verification/Roots.thy ===== *)
theory Roots
  imports Core_Types
begin

text \<open>
  The crate \<open>oxitls-webpki-roots\<close>: the cached Mozilla root store, the builder of custom root stores,
  the summary of trust anchors, the query for expiring certificates (\<open>lib.rs\<close>, \<open>expiring.rs\<close>) and the
  cache of intermediate certificates (\<open>intermediate_cache.rs\<close>). The bundle of webpki-roots, the conversion of
  a certificate to a trust anchor (rustls), the PEM reader (rustls-pemfile), the certificate parser
  (x509-parser), SHA-256 and the LRU map (lru) are other crates: they are the records \<open>root_lib\<close> and \<open>lru_ops\<close>.
  Times are seconds of the Unix epoch.
\<close>

section \<open>Root stores\<close>

record trust_anchor =
  ta_subject :: bytes
  ta_spki :: bytes

type_synonym root_store = "trust_anchor list"

record cert_view =
  cv_subject_raw :: bytes
  cv_spki_raw :: bytes
  cv_not_after :: int

record root_lib =
  tls_server_roots :: "trust_anchor list"
  anchor_from_der :: "bytes \<Rightarrow> (trust_anchor, string) result"
  pem_certs :: "bytes \<Rightarrow> (bytes list, string) result"
  view_from_der :: "bytes \<Rightarrow> cert_view option"
  digest_sha256 :: "bytes \<Rightarrow> bytes"
  max_time :: int

text \<open>\<open>RootCertStore::add\<close>: the anchor of the certificate goes to the end; on an error nothing changes.\<close>

definition store_add :: "root_lib \<Rightarrow> root_store \<Rightarrow> bytes \<Rightarrow> (unit, string) result \<times> root_store" where
  "store_add R store cert =
     (case anchor_from_der R cert of
        Err e \<Rightarrow> (Err e, store)
      | Ok ta \<Rightarrow> (Ok (), store @ [ta]))"

text \<open>\<open>webpki_root_certs\<close> and \<open>webpki_root_certs_arc\<close> with the \<open>OnceLock\<close> they share: the store and the cell
  after the call.\<close>

definition webpki_root_certs :: "root_lib \<Rightarrow> root_store option \<Rightarrow> root_store \<times> root_store option" where
  "webpki_root_certs R cell =
     (let cached = (case cell of Some s \<Rightarrow> s | None \<Rightarrow> [] @ tls_server_roots R) in (cached, Some cached))"

definition webpki_root_certs_arc :: "root_lib \<Rightarrow> root_store option \<Rightarrow> root_store \<times> root_store option" where
  "webpki_root_certs_arc R cell =
     (let cached = (case cell of Some s \<Rightarrow> s | None \<Rightarrow> [] @ tls_server_roots R) in (cached, Some cached))"

definition root_cert_count :: "root_lib \<Rightarrow> nat" where
  "root_cert_count R = length (tls_server_roots R)"

definition webpki_root_certs_filtered :: "root_lib \<Rightarrow> (trust_anchor \<Rightarrow> bool) \<Rightarrow> root_store" where
  "webpki_root_certs_filtered R f = [] @ filter f (tls_server_roots R)"

definition root_store_from_anchors :: "trust_anchor list \<Rightarrow> root_store" where
  "root_store_from_anchors anchors = [] @ anchors"

definition merge_root_stores :: "root_store list \<Rightarrow> root_store" where
  "merge_root_stores stores = foldl (\<lambda>merged store. merged @ store) [] stores"

section \<open>Trust anchor summaries\<close>

record trust_anchor_info =
  subject_der :: bytes
  spki_sha256 :: bytes
  not_after :: "int option"

definition from_trust_anchor :: "root_lib \<Rightarrow> trust_anchor \<Rightarrow> trust_anchor_info" where
  "from_trust_anchor R ta =
     \<lparr> subject_der = ta_subject ta, spki_sha256 = digest_sha256 R (ta_spki ta), not_after = None \<rparr>"

definition from_cert_der :: "root_lib \<Rightarrow> bytes \<Rightarrow> trust_anchor_info option" where
  "from_cert_der R der =
     (case view_from_der R der of
        None \<Rightarrow> None
      | Some cert \<Rightarrow>
          Some \<lparr> subject_der = cv_subject_raw cert, spki_sha256 = digest_sha256 R (cv_spki_raw cert), not_after = None \<rparr>)"

definition with_not_after :: "int \<Rightarrow> trust_anchor_info \<Rightarrow> trust_anchor_info" where
  "with_not_after t i = i\<lparr> not_after := Some t \<rparr>"

definition list_trust_anchors :: "root_lib \<Rightarrow> trust_anchor_info list" where
  "list_trust_anchors R = map (from_trust_anchor R) (tls_server_roots R)"

section \<open>Expiring certificates\<close>

definition expiring_roots :: "u32 \<Rightarrow> trust_anchor_info list" where
  "expiring_roots within_days = []"

definition info_if_expiring_within :: "root_lib \<Rightarrow> bytes \<Rightarrow> int \<Rightarrow> trust_anchor_info option" where
  "info_if_expiring_within R der deadline =
     (case view_from_der R der of
        None \<Rightarrow> None
      | Some cert \<Rightarrow>
          if cv_not_after cert \<le> deadline then
            (case from_cert_der R der of
               None \<Rightarrow> None
             | Some info \<Rightarrow> Some (with_not_after (cv_not_after cert) info))
          else None)"

fun expiring_loop :: "root_lib \<Rightarrow> int \<Rightarrow> bytes list \<Rightarrow> trust_anchor_info list \<Rightarrow> trust_anchor_info list" where
  "expiring_loop R deadline [] result = result"
| "expiring_loop R deadline (der # ders) result =
     (case info_if_expiring_within R der deadline of
        Some info \<Rightarrow> expiring_loop R deadline ders (result @ [info])
      | None \<Rightarrow> expiring_loop R deadline ders result)"

definition expiring_roots_from_ders :: "root_lib \<Rightarrow> int \<Rightarrow> bytes list \<Rightarrow> u32 \<Rightarrow> trust_anchor_info list" where
  "expiring_roots_from_ders R now_utc ders within_days =
     (let deadline = min (max_time R) (now_utc + 86400 * uint within_days) in
      expiring_loop R deadline ders [])"

definition parse_not_after :: "root_lib \<Rightarrow> bytes \<Rightarrow> int option" where
  "parse_not_after R der = map_option cv_not_after (view_from_der R der)"

section \<open>The builder of root stores\<close>

record root_store_builder =
  include_webpki :: bool
  additional_der :: "bytes list"
  additional_pem :: "bytes list"
  excluded_spki_sha256 :: "bytes list"

definition root_store_builder_new :: root_store_builder where
  "root_store_builder_new =
     \<lparr> include_webpki = False, additional_der = [], additional_pem = [], excluded_spki_sha256 = [] \<rparr>"

definition rsb_with_webpki_roots :: "root_store_builder \<Rightarrow> root_store_builder" where
  "rsb_with_webpki_roots b = b\<lparr> include_webpki := True \<rparr>"

definition add_der :: "bytes \<Rightarrow> root_store_builder \<Rightarrow> root_store_builder" where
  "add_der cert_der b = b\<lparr> additional_der := additional_der b @ [cert_der] \<rparr>"

definition add_pem :: "bytes \<Rightarrow> root_store_builder \<Rightarrow> root_store_builder" where
  "add_pem pem_data b = b\<lparr> additional_pem := additional_pem b @ [pem_data] \<rparr>"

definition exclude_fingerprint :: "bytes \<Rightarrow> root_store_builder \<Rightarrow> root_store_builder" where
  "exclude_fingerprint f b = b\<lparr> excluded_spki_sha256 := excluded_spki_sha256 b @ [f] \<rparr>"

fun add_certs :: "root_lib \<Rightarrow> bytes list \<Rightarrow> root_store \<Rightarrow> root_store" where
  "add_certs R [] store = store"
| "add_certs R (c # cs) store = add_certs R cs (snd (store_add R store c))"

fun add_pems :: "root_lib \<Rightarrow> bytes list \<Rightarrow> root_store \<Rightarrow> root_store" where
  "add_pems R [] store = store"
| "add_pems R (p # ps) store =
     (case pem_certs R p of
        Ok certs \<Rightarrow> add_pems R ps (add_certs R certs store)
      | Err e \<Rightarrow> add_pems R ps store)"

definition root_store_build :: "root_lib \<Rightarrow> root_store_builder \<Rightarrow> root_store" where
  "root_store_build R b =
     (let store = [];
          store = (if include_webpki b
                   then store @ filter (\<lambda>ta. digest_sha256 R (ta_spki ta) \<notin> set (excluded_spki_sha256 b)) (tls_server_roots R)
                   else store);
          store = add_certs R (additional_der b) store in
      add_pems R (additional_pem b) store)"

section \<open>The cache of intermediate certificates\<close>

text \<open>The map of the lru crate, with its entries from the most to the least recently used as \<open>lru_view\<close>.\<close>

record 'c lru_ops =
  lru_new :: "nat \<Rightarrow> 'c"
  lru_put :: "bytes \<Rightarrow> bytes \<Rightarrow> 'c \<Rightarrow> 'c"
  lru_peek :: "bytes \<Rightarrow> 'c \<Rightarrow> bytes option"
  lru_get :: "bytes \<Rightarrow> 'c \<Rightarrow> bytes option \<times> 'c"
  lru_len :: "'c \<Rightarrow> nat"
  lru_cap :: "'c \<Rightarrow> nat"
  lru_clear :: "'c \<Rightarrow> 'c"
  lru_view :: "'c \<Rightarrow> (bytes \<times> bytes) list"

text \<open>What the crate documents: \<open>put\<close> makes the key the most recently used one and evicts the least recently
  used entry beyond the capacity; \<open>peek\<close> reads without changing the order; \<open>get\<close> also makes the key the most
  recently used one.\<close>

definition move_front :: "bytes \<Rightarrow> (bytes \<times> bytes) list \<Rightarrow> (bytes \<times> bytes) list" where
  "move_front k xs = (case map_of xs k of None \<Rightarrow> xs | Some v \<Rightarrow> (k, v) # filter (\<lambda>e. fst e \<noteq> k) xs)"

definition lru_correct :: "'c lru_ops \<Rightarrow> bool" where
  "lru_correct U \<longleftrightarrow>
     (\<forall>n. lru_view U (lru_new U n) = [] \<and> lru_cap U (lru_new U n) = n) \<and>
     (\<forall>k v c. lru_view U (lru_put U k v c) = take (lru_cap U c) ((k, v) # filter (\<lambda>e. fst e \<noteq> k) (lru_view U c)) \<and>
        lru_cap U (lru_put U k v c) = lru_cap U c) \<and>
     (\<forall>k c. lru_peek U k c = map_of (lru_view U c) k) \<and>
     (\<forall>k c. fst (lru_get U k c) = map_of (lru_view U c) k \<and> lru_view U (snd (lru_get U k c)) = move_front k (lru_view U c) \<and>
        lru_cap U (snd (lru_get U k c)) = lru_cap U c) \<and>
     (\<forall>c. lru_len U c = length (lru_view U c)) \<and>
     (\<forall>c. lru_view U (lru_clear U c) = [] \<and> lru_cap U (lru_clear U c) = lru_cap U c)"

text \<open>The \<open>RwLock\<close> is the message of its poisoning, if a holder panicked.\<close>

record 'c cert_cache =
  cache_inner :: 'c
  cache_poison :: "string option"

definition cache_lock :: "'c cert_cache \<Rightarrow> ('c, tls_error) result" where
  "cache_lock c =
     (case cache_poison c of
        Some e \<Rightarrow> Err (Other (''intermediate cache lock poisoned: '' @ e))
      | None \<Rightarrow> Ok (cache_inner c))"

definition fingerprint_sha256 :: "root_lib \<Rightarrow> bytes \<Rightarrow> bytes" where
  "fingerprint_sha256 R der = digest_sha256 R der"

definition cache_new :: "'c lru_ops \<Rightarrow> nat \<Rightarrow> 'c cert_cache" where
  "cache_new U capacity = \<lparr> cache_inner = lru_new U capacity, cache_poison = None \<rparr>"

definition cache_insert ::
    "root_lib \<Rightarrow> 'c lru_ops \<Rightarrow> bytes \<Rightarrow> 'c cert_cache \<Rightarrow> (bytes, tls_error) result \<times> 'c cert_cache" where
  "cache_insert R U cert c =
     (let fingerprint = fingerprint_sha256 R cert in
      case cache_lock c of
        Err e \<Rightarrow> (Err e, c)
      | Ok g \<Rightarrow> (Ok fingerprint, c\<lparr> cache_inner := lru_put U fingerprint cert g \<rparr>))"

definition cache_get :: "'c lru_ops \<Rightarrow> bytes \<Rightarrow> 'c cert_cache \<Rightarrow> (bytes option, tls_error) result" where
  "cache_get U fp c = rbind (cache_lock c) (\<lambda>g. Ok (lru_peek U fp g))"

definition cache_touch ::
    "'c lru_ops \<Rightarrow> bytes \<Rightarrow> 'c cert_cache \<Rightarrow> (bytes option, tls_error) result \<times> 'c cert_cache" where
  "cache_touch U fp c =
     (case cache_lock c of
        Err e \<Rightarrow> (Err e, c)
      | Ok g \<Rightarrow> (Ok (fst (lru_get U fp g)), c\<lparr> cache_inner := snd (lru_get U fp g) \<rparr>))"

definition cache_len :: "'c lru_ops \<Rightarrow> 'c cert_cache \<Rightarrow> (nat, tls_error) result" where
  "cache_len U c = rbind (cache_lock c) (\<lambda>g. Ok (lru_len U g))"

definition cache_is_empty :: "'c lru_ops \<Rightarrow> 'c cert_cache \<Rightarrow> (bool, tls_error) result" where
  "cache_is_empty U c = rbind (cache_len U c) (\<lambda>n. Ok (n = 0))"

definition cache_capacity :: "'c lru_ops \<Rightarrow> 'c cert_cache \<Rightarrow> (nat, tls_error) result" where
  "cache_capacity U c = rbind (cache_lock c) (\<lambda>g. Ok (lru_cap U g))"

definition cache_contains :: "'c lru_ops \<Rightarrow> bytes \<Rightarrow> 'c cert_cache \<Rightarrow> (bool, tls_error) result" where
  "cache_contains U fp c = rbind (cache_lock c) (\<lambda>g. Ok (lru_peek U fp g \<noteq> None))"

definition cache_clear :: "'c lru_ops \<Rightarrow> 'c cert_cache \<Rightarrow> (unit, tls_error) result \<times> 'c cert_cache" where
  "cache_clear U c =
     (case cache_lock c of
        Err e \<Rightarrow> (Err e, c)
      | Ok g \<Rightarrow> (Ok (), c\<lparr> cache_inner := lru_clear U g \<rparr>))"

section \<open>Contents of a built store\<close>

definition anchors_of :: "root_lib \<Rightarrow> bytes list \<Rightarrow> trust_anchor list" where
  "anchors_of R cs = List.map_filter (\<lambda>c. rok (anchor_from_der R c)) cs"

lemma anchors_of_simps [simp]:
  "anchors_of R [] = []"
  "anchors_of R (c # cs) = (case anchor_from_der R c of Ok ta \<Rightarrow> ta # anchors_of R cs | Err e \<Rightarrow> anchors_of R cs)"
  by (simp_all add: anchors_of_def map_filter_simps split: result.splits)

lemma anchors_of_append [simp]: "anchors_of R (xs @ ys) = anchors_of R xs @ anchors_of R ys"
  by (induction xs) (simp_all split: result.splits)

lemma add_certs_eq: "add_certs R cs store = store @ anchors_of R cs"
  by (induction cs arbitrary: store) (simp_all add: store_add_def split: result.splits)

lemma add_pems_eq:
  "add_pems R ps store = store @ anchors_of R (concat (map (\<lambda>p. case pem_certs R p of Ok cs \<Rightarrow> cs | Err e \<Rightarrow> []) ps))"
  by (induction ps arbitrary: store) (simp_all add: add_certs_eq split: result.splits)

lemma expiring_loop_eq:
  "expiring_loop R t ders acc = acc @ List.map_filter (\<lambda>d. info_if_expiring_within R d t) ders"
  by (induction ders arbitrary: acc) (simp_all add: map_filter_simps split: option.splits)

section \<open>The cache as an LRU list\<close>

datatype cache_op = CInsert bytes | CTouch bytes

fun cache_step :: "root_lib \<Rightarrow> 'c lru_ops \<Rightarrow> cache_op \<Rightarrow> 'c cert_cache \<Rightarrow> 'c cert_cache" where
  "cache_step R U (CInsert cert) c = snd (cache_insert R U cert c)"
| "cache_step R U (CTouch fp) c = snd (cache_touch U fp c)"

fun op_key :: "root_lib \<Rightarrow> cache_op \<Rightarrow> bytes" where
  "op_key R (CInsert cert) = fingerprint_sha256 R cert"
| "op_key R (CTouch fp) = fp"

definition cache_run :: "root_lib \<Rightarrow> 'c lru_ops \<Rightarrow> cache_op list \<Rightarrow> 'c cert_cache \<Rightarrow> 'c cert_cache" where
  "cache_run R U ops c = fold (cache_step R U) ops c"

abbreviation cview :: "'c lru_ops \<Rightarrow> 'c cert_cache \<Rightarrow> (bytes \<times> bytes) list" where
  "cview U c \<equiv> lru_view U (cache_inner c)"

abbreviation ccap :: "'c lru_ops \<Rightarrow> 'c cert_cache \<Rightarrow> nat" where
  "ccap U c \<equiv> lru_cap U (cache_inner c)"

definition cache_wf :: "'c lru_ops \<Rightarrow> 'c cert_cache \<Rightarrow> bool" where
  "cache_wf U c \<longleftrightarrow> cache_poison c = None \<and> distinct (map fst (cview U c)) \<and> length (cview U c) \<le> ccap U c"

lemma lru_laws:
  assumes "lru_correct U"
  shows "lru_view U (lru_put U k v c) = take (lru_cap U c) ((k, v) # filter (\<lambda>e. fst e \<noteq> k) (lru_view U c))"
    and "lru_cap U (lru_put U k v c) = lru_cap U c"
    and "lru_view U (snd (lru_get U k c)) = move_front k (lru_view U c)"
    and "lru_cap U (snd (lru_get U k c)) = lru_cap U c"
    and "lru_peek U k c = map_of (lru_view U c) k"
    and "lru_len U c = length (lru_view U c)"
    and "lru_view U (lru_new U n) = []" and "lru_cap U (lru_new U n) = n"
  using assms unfolding lru_correct_def by blast+

text \<open>The view after a step: the key moves or is put in front.\<close>

lemma cache_step_inner:
  assumes "cache_poison c = None"
  shows "cache_inner (cache_step R U op c) =
      (case op of CInsert cert \<Rightarrow> lru_put U (op_key R op) cert (cache_inner c)
       | CTouch fp \<Rightarrow> snd (lru_get U fp (cache_inner c)))"
    and "cache_poison (cache_step R U op c) = None"
proof -
  show "cache_inner (cache_step R U op c) =
      (case op of CInsert cert \<Rightarrow> lru_put U (op_key R op) cert (cache_inner c)
       | CTouch fp \<Rightarrow> snd (lru_get U fp (cache_inner c)))"
    using assms by (cases op) (simp_all add: cache_insert_def cache_touch_def cache_lock_def Let_def)
  show "cache_poison (cache_step R U op c) = None"
    using assms by (cases op) (simp_all add: cache_insert_def cache_touch_def cache_lock_def Let_def)
qed

declare cache_step.simps [simp del]

lemma cache_step_view:
  assumes "lru_correct U" "cache_poison c = None"
  shows "cview U (cache_step R U op c) =
      (case op of CInsert cert \<Rightarrow>
           take (ccap U c) ((op_key R op, cert) # filter (\<lambda>e. fst e \<noteq> op_key R op) (cview U c))
       | CTouch fp \<Rightarrow> move_front fp (cview U c))"
    and "ccap U (cache_step R U op c) = ccap U c" and "cache_poison (cache_step R U op c) = None"
proof -
  show "cview U (cache_step R U op c) =
      (case op of CInsert cert \<Rightarrow>
           take (ccap U c) ((op_key R op, cert) # filter (\<lambda>e. fst e \<noteq> op_key R op) (cview U c))
       | CTouch fp \<Rightarrow> move_front fp (cview U c))"
    unfolding cache_step_inner(1) [OF assms(2)] by (cases op) (simp_all only: cache_op.case lru_laws(1,3) [OF assms(1)])
  show "ccap U (cache_step R U op c) = ccap U c"
    unfolding cache_step_inner(1) [OF assms(2)] by (cases op) (simp_all only: cache_op.case lru_laws(2,4) [OF assms(1)])
  show "cache_poison (cache_step R U op c) = None"
    by (rule cache_step_inner(2) [OF assms(2)])
qed

lemma move_front_keys: "distinct (map fst xs) \<Longrightarrow>
    distinct (map fst (move_front k xs)) \<and> length (move_front k xs) = length xs"
proof (cases "map_of xs k")
  case None
  then show "distinct (map fst xs) \<Longrightarrow> ?thesis" by (simp add: move_front_def)
next
  case (Some v)
  assume d: "distinct (map fst xs)"
  from Some have "(k, v) \<in> set xs" by (rule map_of_SomeD)
  then obtain ys zs where xs: "xs = ys @ (k, v) # zs" by (auto dest: split_list)
  with d have "filter (\<lambda>e. fst e \<noteq> k) ys = ys" "filter (\<lambda>e. fst e \<noteq> k) zs = zs"
    by (auto simp: filter_id_conv rev_image_eqI)
  with Some d xs show ?thesis by (auto simp: move_front_def)
qed

lemma distinct_map_filter_fst: "distinct (map fst xs) \<Longrightarrow> distinct (map fst (filter P xs))"
  by (induction xs) auto

lemma distinct_map_take_fst: "distinct (map fst xs) \<Longrightarrow> distinct (map fst (take n xs))"
  by (simp add: distinct_take flip: take_map)

lemma cache_step_wf:
  assumes U: "lru_correct U" and wf: "cache_wf U c"
  shows "cache_wf U (cache_step R U op c) \<and> ccap U (cache_step R U op c) = ccap U c"
proof -
  have p: "cache_poison c = None" and d: "distinct (map fst (cview U c))"
    using wf by (simp_all add: cache_wf_def)
  note v = cache_step_view [OF U p]
  show ?thesis
  proof (cases op)
    case (CInsert cert)
    have "distinct (map fst ((op_key R op, cert) # filter (\<lambda>e. fst e \<noteq> op_key R op) (cview U c)))"
      using d by (auto simp: distinct_map_filter_fst)
    then have "distinct (map fst (cview U (cache_step R U op c)))"
      unfolding v(1) CInsert cache_op.case by (rule distinct_map_take_fst)
    moreover have "length (cview U (cache_step R U op c)) \<le> ccap U c"
      unfolding v(1) CInsert by simp
    ultimately show ?thesis using v(2,3) by (simp add: cache_wf_def)
  next
    case (CTouch fp)
    with v move_front_keys [OF d] wf show ?thesis by (simp add: cache_wf_def)
  qed
qed

lemma cache_run_wf:
  "lru_correct U \<Longrightarrow> cache_wf U c \<Longrightarrow> cache_wf U (cache_run R U ops c) \<and> ccap U (cache_run R U ops c) = ccap U c"
  by (induction ops arbitrary: c) (simp_all add: cache_run_def cache_step_wf)

text \<open>An entry stays while fewer than capacity other keys were used: all entries in front of it have such keys.\<close>

definition front_in :: "bytes \<Rightarrow> bytes \<Rightarrow> bytes set \<Rightarrow> (bytes \<times> bytes) list \<Rightarrow> bool" where
  "front_in k v S xs \<longleftrightarrow> (\<exists>pre post. xs = pre @ (k, v) # post \<and> fst ` set pre \<subseteq> S)"

lemma front_in_lookup: "distinct (map fst xs) \<Longrightarrow> front_in k v S xs \<Longrightarrow> map_of xs k = Some v"
  by (auto simp: front_in_def)

lemma take_length_add: "take (length p + m) (p @ q) = p @ take m q"
  by simp

lemma front_in_insert:
  assumes d: "distinct (map fst xs)" and f: "front_in k v S xs"
    and S: "finite S" "k \<notin> S" "card (insert j S - {k}) < n" and j: "j = k \<Longrightarrow> w = v"
  shows "front_in k v (insert j S - {k}) (take n ((j, w) # filter (\<lambda>e. fst e \<noteq> j) xs))"
proof (cases "j = k")
  case True
  moreover obtain m where "n = Suc m" using S(3) by (cases n) auto
  ultimately have "take n ((j, w) # filter (\<lambda>e. fst e \<noteq> j) xs) = [] @ (k, v) # take m (filter (\<lambda>e. fst e \<noteq> j) xs)"
    using j by simp
  then show ?thesis unfolding front_in_def by fastforce
next
  case False
  from f obtain pre post where xs: "xs = pre @ (k, v) # post" and pre: "fst ` set pre \<subseteq> S"
    by (auto simp: front_in_def)
  let ?pre = "(j, w) # filter (\<lambda>e. fst e \<noteq> j) pre"
  have sub: "fst ` set ?pre \<subseteq> insert j S - {k}" using pre S(2) False by auto
  have "distinct (map fst ?pre)" using d xs by (auto simp: distinct_map_filter_fst)
  then have "length ?pre = card (fst ` set ?pre)" using distinct_card [of "map fst ?pre"] by simp
  also have "\<dots> \<le> card (insert j S - {k})" using sub S(1) by (intro card_mono) auto
  finally have "length ?pre < n" using S(3) by simp
  moreover define m where "m = n - length ?pre - 1"
  ultimately have n: "n = length ?pre + Suc m" by simp
  let ?post = "filter (\<lambda>e. fst e \<noteq> j) post"
  have eq: "(j, w) # filter (\<lambda>e. fst e \<noteq> j) xs = ?pre @ (k, v) # ?post"
    using False xs by simp
  have "take n ((j, w) # filter (\<lambda>e. fst e \<noteq> j) xs) = take (length ?pre + Suc m) (?pre @ (k, v) # ?post)"
    by (rule arg_cong2 [OF n eq])
  also have "\<dots> = ?pre @ take (Suc m) ((k, v) # ?post)" by (rule take_length_add)
  finally have "take n ((j, w) # filter (\<lambda>e. fst e \<noteq> j) xs) = ?pre @ (k, v) # take m ?post"
    unfolding take_Suc_Cons .
  with sub show ?thesis unfolding front_in_def by blast
qed

lemma front_in_touch:
  assumes d: "distinct (map fst xs)" and f: "front_in k v S xs" and S: "k \<notin> S"
  shows "front_in k v (insert j S - {k}) (move_front j xs)"
proof -
  from f obtain pre post where xs: "xs = pre @ (k, v) # post" and pre: "fst ` set pre \<subseteq> S"
    by (auto simp: front_in_def)
  show ?thesis
  proof (cases "map_of xs j")
    case None
    then have "move_front j xs = pre @ (k, v) # post" unfolding move_front_def None using xs by simp
    moreover have "fst ` set pre \<subseteq> insert j S - {k}" using pre S by auto
    ultimately show ?thesis unfolding front_in_def by blast
  next
    case (Some w)
    show ?thesis
    proof (cases "j = k")
      case True
      moreover have "map_of xs k = Some v" using front_in_lookup [OF d f] .
      ultimately have "move_front j xs = [] @ (k, v) # filter (\<lambda>e. fst e \<noteq> j) xs"
        using Some by (simp add: move_front_def)
      then show ?thesis unfolding front_in_def by fastforce
    next
      case False
      then have "move_front j xs = ((j, w) # filter (\<lambda>e. fst e \<noteq> j) pre) @ (k, v) # filter (\<lambda>e. fst e \<noteq> j) post"
        using Some xs by (simp add: move_front_def)
      moreover have "fst ` set ((j, w) # filter (\<lambda>e. fst e \<noteq> j) pre) \<subseteq> insert j S - {k}"
        using pre S False by auto
      ultimately show ?thesis unfolding front_in_def by blast
    qed
  qed
qed

lemma front_in_step:
  assumes U: "lru_correct U" and wf: "cache_wf U c" and f: "front_in k v S (cview U c)"
    and S: "finite S" "k \<notin> S" "card (insert (op_key R op) S - {k}) < ccap U c"
    and j: "\<And>w. op = CInsert w \<Longrightarrow> fingerprint_sha256 R w = k \<Longrightarrow> w = v"
  shows "front_in k v (insert (op_key R op) S - {k}) (cview U (cache_step R U op c))"
proof -
  have p: "cache_poison c = None" and d: "distinct (map fst (cview U c))"
    using wf by (simp_all add: cache_wf_def)
  show ?thesis
  proof (cases op)
    case (CInsert w)
    have "op_key R op = k \<Longrightarrow> w = v" using j CInsert by simp
    from front_in_insert [OF d f S this] show ?thesis
      unfolding cache_step_view(1) [OF U p] by (simp add: CInsert)
  next
    case (CTouch fp)
    from front_in_touch [OF d f S(2)] show ?thesis
      unfolding cache_step_view(1) [OF U p] by (simp add: CTouch)
  qed
qed

lemma front_in_run:
  assumes "lru_correct U"
  shows "cache_wf U c \<Longrightarrow> front_in k v S (cview U c) \<Longrightarrow> finite S \<Longrightarrow> k \<notin> S \<Longrightarrow>
    card (S \<union> (op_key R ` set ops - {k})) < ccap U c \<Longrightarrow>
    (\<And>w. CInsert w \<in> set ops \<Longrightarrow> fingerprint_sha256 R w = k \<Longrightarrow> w = v) \<Longrightarrow>
    front_in k v (S \<union> (op_key R ` set ops - {k})) (cview U (cache_run R U ops c))"
proof (induction ops arbitrary: c S)
  case Nil
  then show ?case by (simp add: cache_run_def)
next
  case (Cons op ops)
  let ?S = "insert (op_key R op) S - {k}"
  have S: "?S \<union> (op_key R ` set ops - {k}) = S \<union> (op_key R ` set (op # ops) - {k})"
    using Cons.prems(4) by auto
  have "card ?S \<le> card (S \<union> (op_key R ` set (op # ops) - {k}))"
    using Cons.prems(3) S by (intro card_mono) auto
  then have "card ?S < ccap U c" using Cons.prems(5) by simp
  then have "front_in k v ?S (cview U (cache_step R U op c))"
    using front_in_step [OF assms Cons.prems(1-4)] Cons.prems(6) by simp
  then have "front_in k v (?S \<union> (op_key R ` set ops - {k})) (cview U (cache_run R U ops (cache_step R U op c)))"
    using Cons.prems cache_step_wf [OF assms Cons.prems(1), of R op] S by (intro Cons.IH) auto
  then show ?case by (simp add: cache_run_def S)
qed

section \<open>Properties\<close>

text \<open>A built root store holds, in this order: the anchors of the Mozilla bundle without the excluded
  fingerprints when the bundle was asked for, the anchors of the added DER certificates, and those of the added
  PEM blocks that parse as a whole. Certificates without an anchor are skipped. The exclusion list does not apply
  to added certificates: an added certificate is a root even when its own fingerprint is excluded.\<close>

theorem root_store_contents:
  "root_store_build R b =
     (if include_webpki b
      then filter (\<lambda>ta. digest_sha256 R (ta_spki ta) \<notin> set (excluded_spki_sha256 b)) (tls_server_roots R) else [])
     @ anchors_of R (additional_der b)
     @ anchors_of R (concat (map (\<lambda>p. case pem_certs R p of Ok cs \<Rightarrow> cs | Err e \<Rightarrow> []) (additional_pem b))) \<and>
   (case anchor_from_der R d of
      Ok ta \<Rightarrow> ta \<in> set (root_store_build R (exclude_fingerprint (digest_sha256 R (ta_spki ta)) (add_der d b)))
    | Err e \<Rightarrow> root_store_build R (add_der d b) = root_store_build R b)"
  by (auto simp: root_store_build_def add_certs_eq add_pems_eq exclude_fingerprint_def add_der_def
      split: result.splits)


text \<open>An LRU map as a list, with the least recently used entry last.\<close>

definition list_lru :: "((bytes \<times> bytes) list \<times> nat) lru_ops" where
  "list_lru = \<lparr> lru_new = (\<lambda>n. ([], n)),
     lru_put = (\<lambda>k v c. (take (snd c) ((k, v) # filter (\<lambda>e. fst e \<noteq> k) (fst c)), snd c)),
     lru_peek = (\<lambda>k c. map_of (fst c) k),
     lru_get = (\<lambda>k c. (map_of (fst c) k, (move_front k (fst c), snd c))),
     lru_len = (\<lambda>c. length (fst c)), lru_cap = snd, lru_clear = (\<lambda>c. ([], snd c)), lru_view = fst \<rparr>"

lemma list_lru_correct: "lru_correct list_lru"
  by (simp add: lru_correct_def list_lru_def)

definition example_root_lib :: root_lib where
  "example_root_lib = \<lparr> tls_server_roots = [\<lparr> ta_subject = [1], ta_spki = [2] \<rparr>],
     anchor_from_der = (\<lambda>d. if d = [] then Err ''bad'' else Ok \<lparr> ta_subject = [hd d], ta_spki = d \<rparr>),
     pem_certs = (\<lambda>p. Ok [p]), view_from_der = (\<lambda>_. None), digest_sha256 = id, max_time = 253402300799 \<rparr>"


end
