(* ===== verification/Schemes.thy ===== *)
theory Schemes
  imports Prelude
begin

text \<open>The signature schemes and algorithms of rustls that the signers name, and the forms of a private key in DER.\<close>

datatype signature_scheme =
    RSA_PKCS1_SHA256 | RSA_PKCS1_SHA384 | RSA_PKCS1_SHA512
  | ECDSA_NISTP256_SHA256 | ECDSA_NISTP384_SHA384 | ECDSA_NISTP521_SHA512
  | RSA_PSS_SHA256 | RSA_PSS_SHA384 | RSA_PSS_SHA512
  | ED25519
  | UnknownScheme u16

datatype signature_algorithm = RSA | ECDSA | ED25519_ALG | OtherAlgorithm byte

datatype private_key_der = Pkcs1 bytes | Sec1 bytes | Pkcs8 bytes | OtherKeyDer bytes

text \<open>The first entry of a preference list that the peer offers.\<close>

definition first_offered :: "signature_scheme list \<Rightarrow> signature_scheme list \<Rightarrow> signature_scheme option" where
  "first_offered preferred offered = find (\<lambda>s. s \<in> set offered) preferred"

lemma first_offered_Some: "first_offered pref off = Some s \<Longrightarrow> s \<in> set pref \<and> s \<in> set off"
  unfolding first_offered_def by (blast dest: find_Some_iff_in)

lemma first_offered_None: "first_offered pref off = None \<longleftrightarrow> set pref \<inter> set off = {}"
  by (auto simp: first_offered_def find_None_iff)

end
