(* ===== verification/Client_Builder.thy ===== *)
theory Client_Builder
  imports Sct Ocsp Roots Hpke Schemes
begin

text \<open>
  The builders of client configurations: \<open>RustcryptoClientConfigBuilder\<close> of the adapter
  (\<open>client_builder.rs\<close>), which stacks the verifiers of the other theories, and \<open>ClientBuilder\<close> of the facade
  (\<open>tls13/client.rs\<close>), which chooses between five ways to verify the server. The functions of rustls they call
  are the record \<open>rustls_lib\<close>; a configuration is a record of what the builders set. The facade is modelled
  with all cargo features on; \<open>post-quantum\<close>, which changes a default, is an argument. Setting a builder field
  that a disabled feature would remove is then just never done.
\<close>

section \<open>Data of rustls\<close>

record crypto_provider =
  provider_name :: string
  cipher_suites :: "string list"
  kx_groups :: "string list"
  provider_schemes :: "u16 list"

datatype resumption = ResumptionDefault | ResumptionDisabled | InMemorySessions nat

datatype ech_mode = EchEnable bytes | EchGrease bytes

datatype client_auth = NoClientAuth | ClientAuthCert "bytes list" private_key_der | ClientCertResolver "bytes list" private_key_der

datatype key_log_policy = KlDisabled | KlFile string | KlCustom nat

record client_config =
  cc_provider :: crypto_provider
  cc_versions :: "tls_version list"
  cc_ech :: "ech_mode option"
  cc_verifier :: server_cert_verifier
  cc_client_auth :: client_auth
  cc_alpn :: "bytes list"
  cc_key_log :: "key_log_policy option"
  cc_resumption :: resumption
  cc_early_data :: bool
  cc_compression :: bool

record rustls_lib =
  rustcrypto_provider :: crypto_provider
  default_versions :: "tls_version list"
  versions_ok :: "crypto_provider \<Rightarrow> tls_version list \<Rightarrow> (unit, string) result"
  ech_ok :: "crypto_provider \<Rightarrow> ech_mode \<Rightarrow> (unit, string) result"
  webpki_verifier :: "root_store \<Rightarrow> crypto_provider \<Rightarrow> bytes list \<Rightarrow> (server_cert_verifier, string) result"
  roots_verifier :: "root_store \<Rightarrow> crypto_provider \<Rightarrow> server_cert_verifier"
  client_auth_cert :: "crypto_provider \<Rightarrow> bytes list \<Rightarrow> private_key_der \<Rightarrow> (unit, string) result"
  load_private_key :: "crypto_provider \<Rightarrow> private_key_der \<Rightarrow> (unit, string) result"
  raw_key_signature :: "crypto_provider \<Rightarrow> bytes \<Rightarrow> bytes \<Rightarrow> digitally_signed_struct \<Rightarrow> (unit, rustls_error) result"
  ech_config_new :: "bytes \<Rightarrow> (bytes, string) result"

text \<open>What the documentation of rustls says of the web-PKI verifier builder: without a root there is no verifier.\<close>

definition needs_roots :: "rustls_lib \<Rightarrow> bool" where
  "needs_roots S \<longleftrightarrow> (\<forall>p crls. \<exists>e. webpki_verifier S [] p crls = Err e)"

section \<open>Providers\<close>

definition pure_provider :: "rustls_lib \<Rightarrow> crypto_provider" where
  "pure_provider S = rustcrypto_provider S"

definition pure_provider_with_pq :: "rustls_lib \<Rightarrow> crypto_provider" where
  "pure_provider_with_pq S =
     (let provider = rustcrypto_provider S in provider\<lparr> kx_groups := ''X25519MLKEM768'' # kx_groups provider \<rparr>)"

definition new_config ::
    "crypto_provider \<Rightarrow> tls_version list \<Rightarrow> ech_mode option \<Rightarrow> server_cert_verifier \<Rightarrow> client_auth \<Rightarrow> client_config" where
  "new_config p vs ech v auth =
     \<lparr> cc_provider = p, cc_versions = vs, cc_ech = ech, cc_verifier = v, cc_client_auth = auth, cc_alpn = [],
       cc_key_log = None, cc_resumption = ResumptionDefault, cc_early_data = False, cc_compression = False \<rparr>"

section \<open>Key logging\<close>

definition hex_bytes :: "bytes \<Rightarrow> string" where
  "hex_bytes bs = foldl (\<lambda>acc b. acc @ hex2 b) [] bs"

definition key_log_line :: "string \<Rightarrow> bytes \<Rightarrow> bytes \<Rightarrow> string" where
  "key_log_line label client_random secret =
     label @ '' '' @ hex_bytes client_random @ '' '' @ hex_bytes secret @ [char_of (10 :: nat)]"

text \<open>What a call of \<open>log\<close> does: the line appended to the file when it opens, or the call of the custom logger.\<close>

datatype log_effect = LogNothing | LogAppend string string | LogForward nat string bytes bytes

definition key_log :: "(string \<Rightarrow> bool) \<Rightarrow> key_log_policy \<Rightarrow> string \<Rightarrow> bytes \<Rightarrow> bytes \<Rightarrow> log_effect" where
  "key_log opens policy label client_random secret =
     (case policy of
        KlDisabled \<Rightarrow> LogNothing
      | KlFile path \<Rightarrow>
          if opens path then LogAppend path (key_log_line label client_random secret) else LogNothing
      | KlCustom k \<Rightarrow> LogForward k label client_random secret)"

definition will_log :: "key_log_policy \<Rightarrow> bool" where
  "will_log policy = (policy \<noteq> KlDisabled)"

section \<open>The builder of the adapter\<close>

record rustcrypto_client_builder =
  rc_root_store :: root_store
  rc_pinned_certs :: "bytes list"
  rc_crls :: "bytes list"
  rc_keylog :: key_log_policy
  rc_alpn :: "bytes list"
  rc_intermediate_cache :: bool
  rc_resumption_disabled :: bool
  rc_ocsp_policy :: "ocsp_client_policy option"
  rc_sct_policy :: "(sct_policy \<times> ct_log_list) option"

definition rc_new :: rustcrypto_client_builder where
  "rc_new = \<lparr> rc_root_store = [], rc_pinned_certs = [], rc_crls = [], rc_keylog = KlDisabled, rc_alpn = [],
     rc_intermediate_cache = False, rc_resumption_disabled = False, rc_ocsp_policy = None, rc_sct_policy = None \<rparr>"

definition rc_with_roots :: "root_store \<Rightarrow> rustcrypto_client_builder \<Rightarrow> rustcrypto_client_builder" where
  "rc_with_roots store b = b\<lparr> rc_root_store := store \<rparr>"

definition rc_with_pinned_certs :: "bytes list \<Rightarrow> rustcrypto_client_builder \<Rightarrow> rustcrypto_client_builder" where
  "rc_with_pinned_certs fps b = b\<lparr> rc_pinned_certs := fps \<rparr>"

definition rc_with_crl :: "bytes list \<Rightarrow> rustcrypto_client_builder \<Rightarrow> rustcrypto_client_builder" where
  "rc_with_crl crls b = b\<lparr> rc_crls := crls \<rparr>"

definition rc_with_keylog :: "key_log_policy \<Rightarrow> rustcrypto_client_builder \<Rightarrow> rustcrypto_client_builder" where
  "rc_with_keylog policy b = b\<lparr> rc_keylog := policy \<rparr>"

definition rc_with_alpn :: "bytes list \<Rightarrow> rustcrypto_client_builder \<Rightarrow> rustcrypto_client_builder" where
  "rc_with_alpn protos b = b\<lparr> rc_alpn := protos \<rparr>"

definition rc_with_intermediate_cache :: "rustcrypto_client_builder \<Rightarrow> rustcrypto_client_builder" where
  "rc_with_intermediate_cache b = b\<lparr> rc_intermediate_cache := True \<rparr>"

definition rc_with_resumption_disabled :: "rustcrypto_client_builder \<Rightarrow> rustcrypto_client_builder" where
  "rc_with_resumption_disabled b = b\<lparr> rc_resumption_disabled := True \<rparr>"

definition rc_with_ocsp_policy :: "ocsp_client_policy \<Rightarrow> rustcrypto_client_builder \<Rightarrow> rustcrypto_client_builder" where
  "rc_with_ocsp_policy policy b = b\<lparr> rc_ocsp_policy := Some policy \<rparr>"

definition rc_with_sct_policy :: "sct_policy \<Rightarrow> ct_log_list \<Rightarrow> rustcrypto_client_builder \<Rightarrow> rustcrypto_client_builder" where
  "rc_with_sct_policy policy logs b = b\<lparr> rc_sct_policy := Some (policy, logs) \<rparr>"

text \<open>\<open>CrlAwareServerVerifier::new\<close>.\<close>

definition crl_aware_new :: "rustls_lib \<Rightarrow> root_store \<Rightarrow> bytes list \<Rightarrow> (server_cert_verifier, tls_error) result" where
  "crl_aware_new S roots crls =
     rbind (rmap_err (\<lambda>e. InvalidConfig (''CRL verifier: '' @ e)) (webpki_verifier S roots (pure_provider S) crls))
       (\<lambda>inner. Ok (crl_verifier () inner))"

definition rc_base_verifier ::
    "rustls_lib \<Rightarrow> ext_lib \<Rightarrow> rustcrypto_client_builder \<Rightarrow> (server_cert_verifier, tls_error) result" where
  "rc_base_verifier S L b =
     (let provider = pure_provider S in
      if rc_pinned_certs b \<noteq> [] then
        rbind (rmap_err (\<lambda>e. InvalidConfig (''verifier build: '' @ e)) (webpki_verifier S (rc_root_store b) provider []))
          (\<lambda>inner. Ok (cert_pin_verifier (L, rc_pinned_certs b) inner))
      else if rc_crls b \<noteq> [] then crl_aware_new S (rc_root_store b) (rc_crls b)
      else rmap_err (\<lambda>e. InvalidConfig (''verifier build: '' @ e)) (webpki_verifier S (rc_root_store b) provider []))"

text \<open>The closure that records the intermediates of an accepted handshake ignores the errors of the cache: the
  cache after it, and the verdict it gives.\<close>

definition record_intermediates ::
    "root_lib \<Rightarrow> 'c lru_ops \<Rightarrow> bytes list \<Rightarrow> 'c cert_cache \<Rightarrow> 'c cert_cache" where
  "record_intermediates R U certs cache = foldl (\<lambda>c cert. snd (cache_insert R U cert c)) cache certs"

definition cache_predicate :: "bytes \<Rightarrow> bytes list \<Rightarrow> (unit, rustls_error) result" where
  "cache_predicate leaf inters = Ok ()"

definition rc_verifier ::
    "rustls_lib \<Rightarrow> ext_lib \<Rightarrow> rustcrypto_client_builder \<Rightarrow> (server_cert_verifier, tls_error) result" where
  "rc_verifier S L b =
     rbind (rc_base_verifier S L b) (\<lambda>base_verifier.
     let cache_verifier =
           (if rc_intermediate_cache b then custom_verifier cache_predicate base_verifier else base_verifier);
         ocsp_verifier =
           (case rc_ocsp_policy b of
              Some policy \<Rightarrow>
                if policy \<noteq> OcspDisabled then ocsp_client_verifier (L, policy) cache_verifier else cache_verifier
            | None \<Rightarrow> cache_verifier);
         verifier =
           (case rc_sct_policy b of
              None \<Rightarrow> ocsp_verifier
            | Some (policy, logs) \<Rightarrow>
                if policy = Disabled then ocsp_verifier else sct_verifier (L, policy, logs) ocsp_verifier) in
     Ok verifier)"

definition rc_build ::
    "rustls_lib \<Rightarrow> ext_lib \<Rightarrow> rustcrypto_client_builder \<Rightarrow> (client_config, tls_error) result" where
  "rc_build S L b =
     (let provider = pure_provider S in
      rbind (rc_verifier S L b) (\<lambda>verifier.
      rbind (rmap_err InvalidConfig (versions_ok S provider (default_versions S))) (\<lambda>_.
      let config = new_config provider (default_versions S) None verifier NoClientAuth;
          config = (if rc_alpn b \<noteq> [] then config\<lparr> cc_alpn := rc_alpn b \<rparr> else config);
          config = (if rc_keylog b \<noteq> KlDisabled then config\<lparr> cc_key_log := Some (rc_keylog b) \<rparr> else config);
          config = (if rc_resumption_disabled b then config\<lparr> cc_resumption := ResumptionDisabled \<rparr> else config) in
      Ok config)))"

section \<open>What the stacked verifiers of the adapter accept\<close>

definition ocsp_pass :: "ext_lib \<Rightarrow> ocsp_client_policy option \<Rightarrow> verify_args \<Rightarrow> bool" where
  "ocsp_pass L policy a \<longleftrightarrow>
     (let verdict = check_ocsp_staple L (ocsp_response a) (end_entity a) (ocsp_issuer_der L a) (now a) in
      case policy of
        Some HardRequire \<Rightarrow> verdict = ResGood
      | Some SoftFail \<Rightarrow> verdict \<in> {ResGood, ResUnknown, ResAbsent, ResUnparseable}
      | _ \<Rightarrow> True)"

definition sct_pass :: "ext_lib \<Rightarrow> (sct_policy \<times> ct_log_list) option \<Rightarrow> verify_args \<Rightarrow> bool" where
  "sct_pass L policy a \<longleftrightarrow>
     (case policy of
        Some (Strict n, logs) \<Rightarrow>
          \<exists>val scts. extract_sct_extension L (end_entity a) = Some val \<and> parse_sct_list val = Ok scts \<and>
            unat n \<le> card (trusted_logs L scts logs (end_entity a) (issuer_of a))
      | _ \<Rightarrow> True)"

lemma ocsp_accepts_iff:
  "policy \<noteq> OcspDisabled \<Longrightarrow>
     verify_server_cert (ocsp_client_verifier (L, policy) inner) a = Ok () \<longleftrightarrow>
     ocsp_pass L (Some policy) a \<and> verify_server_cert inner a = Ok ()"
  by (cases policy)
    (auto simp: ocsp_client_verifier_def ocsp_client_verify_def ocsp_pass_def Let_def split: ocsp_check_result.splits)

lemma sct_accepts_iff:
  "verify_server_cert (sct_verifier (L, policy, logs) inner) a = Ok () \<longleftrightarrow>
     sct_pass L (Some (policy, logs)) a \<and> verify_server_cert inner a = Ok ()"
proof (cases policy)
  case (Strict n)
  then show ?thesis by (simp add: strict_accepts_iff sct_pass_def)
qed (auto simp: sct_verifier_def sct_verify_def sct_pass_def is_strict_def Let_def split: option.splits result.splits)

lemma rc_base_accepts:
  assumes "rc_base_verifier S L b = Ok v"
  shows "\<exists>w. webpki_verifier S (rc_root_store b) (pure_provider S) (if rc_pinned_certs b = [] then rc_crls b else []) = Ok w \<and>
     (verify_server_cert v a = Ok () \<longleftrightarrow>
        verify_server_cert w a = Ok () \<and>
        (rc_pinned_certs b \<noteq> [] \<longrightarrow> sha256 L (end_entity a) \<in> set (rc_pinned_certs b)))"
  using assms
  by (auto simp: rc_base_verifier_def crl_aware_new_def result_simps cert_pin_accepts_iff crl_verifier_def Let_def
      split: if_splits)

lemma rc_verifier_accepts:
  assumes "rc_verifier S L b = Ok v"
  shows "\<exists>w. webpki_verifier S (rc_root_store b) (pure_provider S) (if rc_pinned_certs b = [] then rc_crls b else []) = Ok w \<and>
     (verify_server_cert v a = Ok () \<longleftrightarrow>
        verify_server_cert w a = Ok () \<and>
        (rc_pinned_certs b \<noteq> [] \<longrightarrow> sha256 L (end_entity a) \<in> set (rc_pinned_certs b)) \<and>
        ocsp_pass L (rc_ocsp_policy b) a \<and> sct_pass L (rc_sct_policy b) a)"
proof -
  from assms obtain base where base: "rc_base_verifier S L b = Ok base"
    by (auto simp: rc_verifier_def result_simps)
  define cached where "cached = (if rc_intermediate_cache b then custom_verifier cache_predicate base else base)"
  define ocsp where "ocsp = (case rc_ocsp_policy b of
      Some policy \<Rightarrow> if policy \<noteq> OcspDisabled then ocsp_client_verifier (L, policy) cached else cached
    | None \<Rightarrow> cached)"
  have c: "verify_server_cert cached a = Ok () \<longleftrightarrow> verify_server_cert base a = Ok ()"
    by (simp add: cached_def custom_accepts_iff cache_predicate_def)
  have o: "verify_server_cert ocsp a = Ok () \<longleftrightarrow> ocsp_pass L (rc_ocsp_policy b) a \<and> verify_server_cert cached a = Ok ()"
    by (auto simp: ocsp_def ocsp_accepts_iff ocsp_pass_def split: option.split)
  have "v = (case rc_sct_policy b of
              None \<Rightarrow> ocsp
            | Some (policy, logs) \<Rightarrow> if policy = Disabled then ocsp else sct_verifier (L, policy, logs) ocsp)"
    using assms base unfolding rc_verifier_def Let_def ocsp_def cached_def by simp
  then have "verify_server_cert v a = Ok () \<longleftrightarrow> sct_pass L (rc_sct_policy b) a \<and> verify_server_cert ocsp a = Ok ()"
    by (auto simp: sct_accepts_iff sct_pass_def split: option.split)
  with rc_base_accepts [OF base, of a] c o show ?thesis by blast
qed

section \<open>The builder of the facade\<close>

text \<open>The client key is behind an \<open>Arc\<close>; the flag says that a clone of the builder shares it.\<close>

record client_builder =
  cb_protocol_versions :: "tls_version list option"
  cb_trusted_certs :: "bytes list"
  cb_use_webpki_roots :: bool
  cb_resumption_capacity :: nat
  cb_alpn :: "bytes list"
  cb_client_cert :: "(bytes list \<times> private_key_der \<times> bool) option"
  cb_danger_certs :: bool
  cb_danger_hostnames :: bool
  cb_cert_pins :: "bytes list"
  cb_crls :: "bytes list"
  cb_key_log_policy :: "key_log_policy option"
  cb_intermediate_cache :: bool
  cb_enable_early_data :: bool
  cb_quic_preview :: bool
  cb_extra_root_store :: "root_store option"
  cb_ct_logs :: "(ct_log_list \<times> sct_policy) option"
  cb_provider :: "crypto_provider option"
  cb_server_rpk :: "bytes list option"
  cb_ech_mode :: "ech_mode option"
  cb_cert_compression :: bool

definition cb_new :: client_builder where
  "cb_new = \<lparr> cb_protocol_versions = None, cb_trusted_certs = [], cb_use_webpki_roots = False,
     cb_resumption_capacity = 256, cb_alpn = [], cb_client_cert = None, cb_danger_certs = False,
     cb_danger_hostnames = False, cb_cert_pins = [], cb_crls = [], cb_key_log_policy = None,
     cb_intermediate_cache = False, cb_enable_early_data = False, cb_quic_preview = False,
     cb_extra_root_store = None, cb_ct_logs = None, cb_provider = None, cb_server_rpk = None,
     cb_ech_mode = None, cb_cert_compression = False \<rparr>"

definition cb_with_tls12_fallback :: "client_builder \<Rightarrow> client_builder" where
  "cb_with_tls12_fallback b = b\<lparr> cb_protocol_versions := Some [Tls13, Tls12] \<rparr>"

definition cb_with_protocol_versions :: "tls_version list \<Rightarrow> client_builder \<Rightarrow> client_builder" where
  "cb_with_protocol_versions vs b = b\<lparr> cb_protocol_versions := Some vs \<rparr>"

definition cb_with_trusted_cert_der :: "bytes \<Rightarrow> client_builder \<Rightarrow> (client_builder, tls_error) result" where
  "cb_with_trusted_cert_der cert b = Ok (b\<lparr> cb_trusted_certs := cb_trusted_certs b @ [cert] \<rparr>)"

definition cb_with_webpki_roots :: "client_builder \<Rightarrow> client_builder" where
  "cb_with_webpki_roots b = b\<lparr> cb_use_webpki_roots := True \<rparr>"

definition cb_with_resumption_capacity :: "nat \<Rightarrow> client_builder \<Rightarrow> client_builder" where
  "cb_with_resumption_capacity cap b = b\<lparr> cb_resumption_capacity := cap \<rparr>"

definition cb_with_alpn_protocols :: "bytes list \<Rightarrow> client_builder \<Rightarrow> client_builder" where
  "cb_with_alpn_protocols ps b = b\<lparr> cb_alpn := ps \<rparr>"

definition cb_with_client_cert :: "bytes list \<Rightarrow> private_key_der \<Rightarrow> client_builder \<Rightarrow> client_builder" where
  "cb_with_client_cert certs key b = b\<lparr> cb_client_cert := Some (certs, key, False) \<rparr>"

definition cb_with_danger_accept_invalid_certs :: "client_builder \<Rightarrow> client_builder" where
  "cb_with_danger_accept_invalid_certs b = b\<lparr> cb_danger_certs := True \<rparr>"

definition cb_with_danger_accept_invalid_hostnames :: "client_builder \<Rightarrow> client_builder" where
  "cb_with_danger_accept_invalid_hostnames b = b\<lparr> cb_danger_hostnames := True \<rparr>"

definition cb_with_cert_pinning :: "bytes list \<Rightarrow> client_builder \<Rightarrow> client_builder" where
  "cb_with_cert_pinning pins b = b\<lparr> cb_cert_pins := pins \<rparr>"

definition cb_with_crl :: "bytes list \<Rightarrow> client_builder \<Rightarrow> client_builder" where
  "cb_with_crl crls b = b\<lparr> cb_crls := crls \<rparr>"

definition cb_with_key_log_file :: "string \<Rightarrow> client_builder \<Rightarrow> client_builder" where
  "cb_with_key_log_file path b = b\<lparr> cb_key_log_policy := Some (KlFile path) \<rparr>"

definition cb_with_key_log_custom :: "nat \<Rightarrow> client_builder \<Rightarrow> client_builder" where
  "cb_with_key_log_custom k b = b\<lparr> cb_key_log_policy := Some (KlCustom k) \<rparr>"

definition cb_with_intermediate_cache :: "client_builder \<Rightarrow> client_builder" where
  "cb_with_intermediate_cache b = b\<lparr> cb_intermediate_cache := True \<rparr>"

definition cb_with_root_store_builder ::
    "root_lib \<Rightarrow> root_store_builder \<Rightarrow> client_builder \<Rightarrow> (client_builder, tls_error) result" where
  "cb_with_root_store_builder R rb b = Ok (b\<lparr> cb_extra_root_store := Some (root_store_build R rb) \<rparr>)"

definition cb_with_ct_logs :: "ct_log_list \<Rightarrow> sct_policy \<Rightarrow> client_builder \<Rightarrow> client_builder" where
  "cb_with_ct_logs logs policy b = b\<lparr> cb_ct_logs := Some (logs, policy) \<rparr>"

definition cb_with_early_data :: "client_builder \<Rightarrow> client_builder" where
  "cb_with_early_data b = b\<lparr> cb_enable_early_data := True \<rparr>"

definition cb_with_quic_preview :: "bool \<Rightarrow> client_builder \<Rightarrow> client_builder" where
  "cb_with_quic_preview enabled b = b\<lparr> cb_quic_preview := enabled \<rparr>"

definition cb_with_ticketer_rotation_interval :: "nat \<Rightarrow> client_builder \<Rightarrow> client_builder" where
  "cb_with_ticketer_rotation_interval interval b = b"

definition cb_with_provider :: "crypto_provider \<Rightarrow> client_builder \<Rightarrow> client_builder" where
  "cb_with_provider p b = b\<lparr> cb_provider := Some p \<rparr>"

definition cb_with_server_raw_public_keys :: "bytes list \<Rightarrow> client_builder \<Rightarrow> client_builder" where
  "cb_with_server_raw_public_keys spki b = b\<lparr> cb_server_rpk := Some spki \<rparr>"

definition cb_with_ech_config_list ::
    "rustls_lib \<Rightarrow> bytes \<Rightarrow> client_builder \<Rightarrow> (client_builder, tls_error) result" where
  "cb_with_ech_config_list S config_list b =
     rbind (rmap_err (\<lambda>e. InvalidConfig (''ECH config: '' @ e)) (ech_config_new S config_list)) (\<lambda>cfg.
     Ok (b\<lparr> cb_ech_mode := Some (EchEnable cfg) \<rparr>))"

text \<open>The first suite is one over X25519, whose key generation returns.\<close>

definition cb_with_ech_grease :: "hpke_lib \<Rightarrow> draws \<Rightarrow> client_builder \<Rightarrow> client_builder" where
  "cb_with_ech_grease H rnd b =
     (let placeholder_key =
        (case generate_key_pair (fst (pure_hpke_suites ! 0)) H rnd of
           Some (Ok (pk, sk)) \<Rightarrow> pk
         | _ \<Rightarrow> replicate 32 0) in
      b\<lparr> cb_ech_mode := Some (EchGrease placeholder_key) \<rparr>)"

definition cb_with_cert_compression :: "client_builder \<Rightarrow> client_builder" where
  "cb_with_cert_compression b = b\<lparr> cb_cert_compression := True \<rparr>"

section \<open>Building\<close>

fun clone_private_key_der :: "private_key_der \<Rightarrow> (private_key_der, tls_error) result" where
  "clone_private_key_der (Pkcs1 k) = Ok (Pkcs1 k)"
| "clone_private_key_der (Sec1 k) = Ok (Sec1 k)"
| "clone_private_key_der (Pkcs8 k) = Ok (Pkcs8 k)"
| "clone_private_key_der (OtherKeyDer k) = Err (InvalidConfig ''unsupported PrivateKeyDer variant for cloning'')"

text \<open>\<open>Arc::try_unwrap\<close>, with a clone when the key is shared.\<close>

definition unwrap_key :: "private_key_der \<Rightarrow> bool \<Rightarrow> (private_key_der, tls_error) result" where
  "unwrap_key key shared = (if shared then clone_private_key_der key else Ok key)"

definition dangerous_no_cert_verifier :: "rustls_lib \<Rightarrow> server_cert_verifier" where
  "dangerous_no_cert_verifier S =
     \<lparr> verify_server_cert = (\<lambda>_. Ok ()), verify_tls12_signature = (\<lambda>_ _ _. Ok ()),
       verify_tls13_signature = (\<lambda>_ _ _. Ok ()), supported_verify_schemes = provider_schemes (pure_provider S) \<rparr>"

text \<open>\<open>SingleClientCertResolver::new\<close>.\<close>

definition single_client_cert_resolver ::
    "rustls_lib \<Rightarrow> bytes list \<Rightarrow> private_key_der \<Rightarrow> (client_auth, tls_error) result" where
  "single_client_cert_resolver S certs key =
     rbind (rmap_err (\<lambda>e. InvalidConfig (''failed to load client key: '' @ e)) (load_private_key S (pure_provider S) key))
       (\<lambda>_. Ok (ClientCertResolver certs key))"

definition danger_client_auth :: "rustls_lib \<Rightarrow> client_builder \<Rightarrow> (client_auth, tls_error) result" where
  "danger_client_auth S b =
     (case cb_client_cert b of
        Some (certs, key, shared) \<Rightarrow>
          rbind (unwrap_key key shared) (\<lambda>key. single_client_cert_resolver S certs key)
      | None \<Rightarrow> Ok NoClientAuth)"

definition plain_client_auth ::
    "rustls_lib \<Rightarrow> crypto_provider \<Rightarrow> client_builder \<Rightarrow> (client_auth, tls_error) result" where
  "plain_client_auth S provider b =
     (case cb_client_cert b of
        Some (certs, key, shared) \<Rightarrow>
          rbind (unwrap_key key shared) (\<lambda>key.
          rbind (rmap_err InvalidConfig (client_auth_cert S provider certs key)) (\<lambda>_.
          Ok (ClientAuthCert certs key)))
      | None \<Rightarrow> Ok NoClientAuth)"

fun add_trusted :: "root_lib \<Rightarrow> bytes list \<Rightarrow> root_store \<Rightarrow> (root_store, tls_error) result" where
  "add_trusted R [] store = Ok store"
| "add_trusted R (cert # certs) store =
     (case store_add R store cert of
        (Err e, _) \<Rightarrow> Err (BadCert e)
      | (Ok _, store') \<Rightarrow> add_trusted R certs store')"

definition cb_root_store :: "root_lib \<Rightarrow> client_builder \<Rightarrow> (root_store, tls_error) result" where
  "cb_root_store R b =
     (let root_store = (if cb_use_webpki_roots b then fst (webpki_root_certs R None) else []) in
      rbind (add_trusted R (cb_trusted_certs b) root_store) (\<lambda>root_store.
      Ok (case cb_extra_root_store b of Some extra \<Rightarrow> root_store @ extra | None \<Rightarrow> root_store)))"

definition cb_resumption :: "client_builder \<Rightarrow> resumption" where
  "cb_resumption b =
     (if cb_resumption_capacity b = 0 then ResumptionDisabled else InMemorySessions (cb_resumption_capacity b))"

definition h3 :: bytes where
  "h3 = ascii ''h3''"

text \<open>The settings after the choice of the verifier, on the paths that do not return early.\<close>

definition cb_finish :: "client_builder \<Rightarrow> client_config \<Rightarrow> client_config" where
  "cb_finish b config =
     (let config = config\<lparr> cc_alpn := cb_alpn b \<rparr>;
          config = (if cb_quic_preview b \<and> h3 \<notin> set (cc_alpn config)
                    then config\<lparr> cc_alpn := cc_alpn config @ [h3] \<rparr> else config);
          config = (case cb_key_log_policy b of Some policy \<Rightarrow> config\<lparr> cc_key_log := Some policy \<rparr> | None \<Rightarrow> config);
          config = config\<lparr> cc_resumption := cb_resumption b \<rparr>;
          config = (if cb_enable_early_data b then config\<lparr> cc_early_data := True \<rparr> else config) in
      if cb_cert_compression b then config\<lparr> cc_compression := True \<rparr> else config)"

definition cb_has_roots :: "client_builder \<Rightarrow> bool" where
  "cb_has_roots b \<longleftrightarrow> cb_use_webpki_roots b \<or> cb_trusted_certs b \<noteq> [] \<or>
     (case cb_extra_root_store b of Some s \<Rightarrow> s \<noteq> [] | None \<Rightarrow> False)"

definition cb_use_adapter :: "client_builder \<Rightarrow> bool" where
  "cb_use_adapter b \<longleftrightarrow> cb_cert_pins b \<noteq> [] \<or> cb_crls b \<noteq> [] \<or> cb_ct_logs b \<noteq> None"

definition no_trust_error :: tls_error where
  "no_trust_error = InvalidConfig
     ''ClientBuilder: at least one root store, cert pinning, or RPK pinning must be configured''"

text \<open>The path over raw public keys.\<close>

definition cb_build_rpk ::
    "rustls_lib \<Rightarrow> client_builder \<Rightarrow> crypto_provider \<Rightarrow> tls_version list \<Rightarrow> bytes list \<Rightarrow> (client_config, tls_error) result" where
  "cb_build_rpk S b provider vs spki_list =
     rbind (plain_client_auth S provider b) (\<lambda>auth.
     let verifier = raw_public_key_server_verifier spki_list (raw_key_signature S provider) (provider_schemes provider);
         config = new_config provider vs (cb_ech_mode b) verifier auth;
         config = config\<lparr> cc_alpn := cb_alpn b \<rparr>;
         config = (case cb_key_log_policy b of Some policy \<Rightarrow> config\<lparr> cc_key_log := Some policy \<rparr> | None \<Rightarrow> config);
         config = config\<lparr> cc_resumption := cb_resumption b \<rparr>;
         config = (if cb_enable_early_data b then config\<lparr> cc_early_data := True \<rparr> else config) in
     Ok config)"

text \<open>The path through the builder of the adapter.\<close>

definition cb_adapter :: "root_store \<Rightarrow> client_builder \<Rightarrow> rustcrypto_client_builder" where
  "cb_adapter root_store b =
     (let adapter = rc_with_alpn (cb_alpn b) (rc_with_crl (cb_crls b)
            (rc_with_pinned_certs (cb_cert_pins b) (rc_with_roots root_store rc_new)));
          adapter = (case cb_key_log_policy b of Some policy \<Rightarrow> rc_with_keylog policy adapter | None \<Rightarrow> adapter);
          adapter = (if cb_intermediate_cache b then rc_with_intermediate_cache adapter else adapter) in
      case cb_ct_logs b of
        Some (logs, policy) \<Rightarrow> rc_with_sct_policy policy logs adapter
      | None \<Rightarrow> adapter)"

definition cb_build_adapter ::
    "rustls_lib \<Rightarrow> ext_lib \<Rightarrow> root_lib \<Rightarrow> client_builder \<Rightarrow> (client_config, tls_error) result" where
  "cb_build_adapter S L R b =
     rbind (cb_root_store R b) (\<lambda>root_store.
     rbind (rc_build S L (cb_adapter root_store b)) (\<lambda>cfg.
     let cfg = cfg\<lparr> cc_resumption := cb_resumption b \<rparr> in
     Ok (if cb_enable_early_data b then cfg\<lparr> cc_early_data := True \<rparr> else cfg)))"

definition cb_build ::
    "rustls_lib \<Rightarrow> ext_lib \<Rightarrow> root_lib \<Rightarrow> bool \<Rightarrow> client_builder \<Rightarrow> (client_config, tls_error) result" where
  "cb_build S L R post_quantum b =
     (if \<not> cb_has_roots b \<and> cb_cert_pins b = [] \<and> cb_server_rpk b = None \<and>
         \<not> (cb_danger_certs b \<or> cb_danger_hostnames b)
      then Err no_trust_error
      else
      let provider = (case cb_provider b of
                        Some p \<Rightarrow> p
                      | None \<Rightarrow> if post_quantum then pure_provider_with_pq S else pure_provider S);
          versions = (case cb_protocol_versions b of Some v \<Rightarrow> v | None \<Rightarrow> [Tls13]) in
      rbind (case cb_ech_mode b of
               Some mode \<Rightarrow> rbind (rmap_err InvalidConfig (ech_ok S provider mode)) (\<lambda>_. Ok [Tls13])
             | None \<Rightarrow> rbind (rmap_err InvalidConfig (versions_ok S provider versions)) (\<lambda>_. Ok versions)) (\<lambda>vs.
      case cb_server_rpk b of
        Some spki_list \<Rightarrow> cb_build_rpk S b provider vs spki_list
      | None \<Rightarrow>
          if cb_danger_certs b then
            rbind (danger_client_auth S b) (\<lambda>auth.
            Ok (cb_finish b (new_config provider vs (cb_ech_mode b) (dangerous_no_cert_verifier S) auth)))
          else if cb_danger_hostnames b then
            rbind (cb_root_store R b) (\<lambda>root_store.
            rbind (rmap_err (\<lambda>e. InvalidConfig (''verifier build: '' @ e)) (webpki_verifier S root_store provider [])) (\<lambda>inner.
            rbind (plain_client_auth S provider b) (\<lambda>auth.
            Ok (cb_finish b (new_config provider vs (cb_ech_mode b) (danger_hostname_ignore_verifier inner) auth)))))
          else if cb_use_adapter b then cb_build_adapter S L R b
          else
            rbind (cb_root_store R b) (\<lambda>root_store.
            rbind (plain_client_auth S provider b) (\<lambda>auth.
            Ok (cb_finish b (new_config provider vs (cb_ech_mode b) (roots_verifier S root_store provider) auth))))))"

section \<open>Properties\<close>

lemma hostname_ignore_accepts:
  "verify_server_cert (danger_hostname_ignore_verifier w) a = Ok () \<longleftrightarrow>
     verify_server_cert w a \<in> {Ok (), Err (InvalidCertificate NotValidForName)} \<union>
       range (\<lambda>s. Err (InvalidCertificate (NotValidForNameContext s)))"
  by (auto simp: danger_hostname_ignore_verifier_def danger_hostname_ignore_verify_def
      split: result.splits rustls_error.splits certificate_error.splits)

lemma rc_build_verifier:
  assumes "rc_build S L b = Ok cfg"
  shows "rc_verifier S L b = Ok (cc_verifier cfg)" "cc_versions cfg = default_versions S"
    "cc_client_auth cfg = NoClientAuth" "cc_ech cfg = None" "cc_provider cfg = pure_provider S"
    "cc_alpn cfg = rc_alpn b" "\<not> cc_compression cfg"
  using assms by (auto simp: rc_build_def result_simps Let_def new_config_def split: if_splits)

text \<open>C5: A configuration of the adapter accepts a server certificate exactly when the web-PKI verifier over the
  configured roots accepts it (with the CRLs unless pins are set), the leaf is pinned when there are pins, the OCSP
  staple satisfies the OCSP policy and the SCTs satisfy the transparency policy. The cache of intermediates never
  changes the verdict.\<close>

theorem adapter_accepts_exactly:
  assumes "rc_build S L b = Ok cfg"
  shows "\<exists>w. webpki_verifier S (rc_root_store b) (pure_provider S) (if rc_pinned_certs b = [] then rc_crls b else []) = Ok w \<and>
     (verify_server_cert (cc_verifier cfg) a = Ok () \<longleftrightarrow>
        verify_server_cert w a = Ok () \<and>
        (rc_pinned_certs b \<noteq> [] \<longrightarrow> sha256 L (end_entity a) \<in> set (rc_pinned_certs b)) \<and>
        ocsp_pass L (rc_ocsp_policy b) a \<and> sct_pass L (rc_sct_policy b) a)"
  by (rule rc_verifier_accepts [OF rc_build_verifier(1) [OF assms]])

lemma cb_adapter_fields:
  "rc_root_store (cb_adapter store b) = store" "rc_pinned_certs (cb_adapter store b) = cb_cert_pins b"
  "rc_crls (cb_adapter store b) = cb_crls b" "rc_ocsp_policy (cb_adapter store b) = None"
  "rc_alpn (cb_adapter store b) = cb_alpn b"
  "rc_sct_policy (cb_adapter store b) = map_option (\<lambda>(logs, policy). (policy, logs)) (cb_ct_logs b)"
  by (simp_all add: cb_adapter_def Let_def rc_with_alpn_def rc_with_crl_def rc_with_pinned_certs_def rc_with_roots_def
      rc_new_def rc_with_keylog_def rc_with_intermediate_cache_def rc_with_sct_policy_def split: option.split)

lemma cb_finish_keeps [simp]:
  "cc_verifier (cb_finish b c) = cc_verifier c" "cc_client_auth (cb_finish b c) = cc_client_auth c"
  "cc_versions (cb_finish b c) = cc_versions c" "cc_provider (cb_finish b c) = cc_provider c"
  "cc_ech (cb_finish b c) = cc_ech c"
  by (simp_all add: cb_finish_def Let_def split: option.split)

lemma new_config_fields [simp]:
  "cc_verifier (new_config p vs e v auth) = v" "cc_client_auth (new_config p vs e v auth) = auth"
  "cc_versions (new_config p vs e v auth) = vs" "cc_provider (new_config p vs e v auth) = p"
  "cc_ech (new_config p vs e v auth) = e"
  by (simp_all add: new_config_def)

lemma cb_build_adapter_Ok:
  assumes "cb_build_adapter S L R b = Ok cfg"
  shows "\<exists>store c. cb_root_store R b = Ok store \<and> rc_build S L (cb_adapter store b) = Ok c \<and>
    cc_verifier cfg = cc_verifier c \<and> cc_client_auth cfg = cc_client_auth c \<and> cc_versions cfg = cc_versions c \<and>
    cc_ech cfg = cc_ech c \<and> cc_provider cfg = cc_provider c \<and> cc_alpn cfg = cc_alpn c \<and> cc_compression cfg = cc_compression c"
  using assms by (auto simp: cb_build_adapter_def result_simps Let_def split: if_splits)

lemma cb_build_plain_verified:
  assumes "cb_server_rpk b = None" "\<not> cb_danger_certs b" "\<not> cb_danger_hostnames b" "\<not> cb_use_adapter b"
    and "cb_build S L R pq b = Ok cfg"
  shows "\<exists>store. cb_root_store R b = Ok store \<and> cc_verifier cfg = roots_verifier S store (cc_provider cfg)"
  using assms by (auto simp: cb_build_def result_simps Let_def split: if_splits)

lemma cb_build_adapter_path:
  assumes "cb_server_rpk b = None" "\<not> cb_danger_certs b" "\<not> cb_danger_hostnames b" "cb_use_adapter b"
    and "cb_build S L R pq b = Ok cfg"
  shows "cb_build_adapter S L R b = Ok cfg"
  using assms by (auto simp: cb_build_def result_simps Let_def split: if_splits)

lemma cb_build_accepts:
  assumes "cb_build S L R pq b = Ok cfg"
    and "cb_server_rpk b = None" "\<not> cb_danger_certs b" "\<not> cb_danger_hostnames b"
  shows "\<exists>store w. cb_root_store R b = Ok store \<and>
     (if cb_use_adapter b
      then webpki_verifier S store (pure_provider S) (if cb_cert_pins b = [] then cb_crls b else []) = Ok w
      else w = roots_verifier S store (cc_provider cfg)) \<and>
     (verify_server_cert (cc_verifier cfg) a = Ok () \<longleftrightarrow>
        verify_server_cert w a = Ok () \<and>
        (cb_cert_pins b \<noteq> [] \<longrightarrow> sha256 L (end_entity a) \<in> set (cb_cert_pins b)) \<and>
        sct_pass L (map_option (\<lambda>(logs, policy). (policy, logs)) (cb_ct_logs b)) a)"
proof (cases "cb_use_adapter b")
  case True
  then obtain store c where s: "cb_root_store R b = Ok store" "rc_build S L (cb_adapter store b) = Ok c"
    "cc_verifier cfg = cc_verifier c"
    using cb_build_adapter_Ok [OF cb_build_adapter_path] assms by blast
  obtain w where
    "webpki_verifier S store (pure_provider S) (if cb_cert_pins b = [] then cb_crls b else []) = Ok w"
    "verify_server_cert (cc_verifier c) a = Ok () \<longleftrightarrow> verify_server_cert w a = Ok () \<and>
       (cb_cert_pins b \<noteq> [] \<longrightarrow> sha256 L (end_entity a) \<in> set (cb_cert_pins b)) \<and>
       ocsp_pass L None a \<and> sct_pass L (map_option (\<lambda>(logs, policy). (policy, logs)) (cb_ct_logs b)) a"
    using rc_verifier_accepts [OF rc_build_verifier(1) [OF s(2)], of a] unfolding cb_adapter_fields by blast
  with s True show ?thesis by (auto simp: ocsp_pass_def)
next
  case False
  then have "cb_cert_pins b = []" "cb_ct_logs b = None" unfolding cb_use_adapter_def by blast+
  with cb_build_plain_verified [OF assms(2-4) False assms(1)] False show ?thesis
    by (auto simp: sct_pass_def)
qed

text \<open>C8: Without raw public keys and danger flags, a configuration of the facade accepts a server certificate exactly
  when the web-PKI verifier over the roots configured on the builder accepts it and, where pins or transparency logs
  were configured, the leaf is pinned and the SCT policy holds.\<close>

theorem client_build_enforces_checks:
  assumes "cb_build S L R pq b = Ok cfg"
    and "cb_server_rpk b = None" "\<not> cb_danger_certs b" "\<not> cb_danger_hostnames b"
  shows "\<exists>store w. cb_root_store R b = Ok store \<and>
     (if cb_use_adapter b
      then webpki_verifier S store (pure_provider S) (if cb_cert_pins b = [] then cb_crls b else []) = Ok w
      else w = roots_verifier S store (cc_provider cfg)) \<and>
     (verify_server_cert (cc_verifier cfg) a = Ok () \<longleftrightarrow>
        verify_server_cert w a = Ok () \<and>
        (cb_cert_pins b \<noteq> [] \<longrightarrow> sha256 L (end_entity a) \<in> set (cb_cert_pins b)) \<and>
        sct_pass L (map_option (\<lambda>(logs, policy). (policy, logs)) (cb_ct_logs b)) a)"
  using cb_build_accepts [OF assms] .

text \<open>C19: Without raw public keys and danger flags, pins, CRLs or transparency logs route the facade through the adapter, and then other settings of the
  builder have no effect on the configuration: no client certificate is installed, the protocol versions are the
  defaults of rustls, Encrypted Client Hello, an injected provider and certificate compression are dropped.\<close>

theorem client_build_adapter_drops:
  assumes "cb_build S L R pq b = Ok cfg"
    and "cb_server_rpk b = None" "\<not> cb_danger_certs b" "\<not> cb_danger_hostnames b" "cb_use_adapter b"
  shows "cc_client_auth cfg = NoClientAuth \<and> cc_versions cfg = default_versions S \<and> cc_ech cfg = None \<and>
     cc_provider cfg = pure_provider S \<and> \<not> cc_compression cfg \<and> cc_alpn cfg = cb_alpn b"
proof -
  obtain store c where "rc_build S L (cb_adapter store b) = Ok c"
    "cc_client_auth cfg = cc_client_auth c \<and> cc_versions cfg = cc_versions c \<and>
     cc_ech cfg = cc_ech c \<and> cc_provider cfg = cc_provider c \<and> cc_alpn cfg = cc_alpn c \<and> cc_compression cfg = cc_compression c"
    using cb_build_adapter_Ok [OF cb_build_adapter_path] assms by blast
  with rc_build_verifier [of S L "cb_adapter store b" c] show ?thesis by (simp add: cb_adapter_fields)
qed

text \<open>A builder with pins and no roots passes the check for trust anchors, but never builds: the verifier that the
  pins wrap needs a root.\<close>

theorem client_build_pins_need_roots:
  assumes "needs_roots S" "cb_cert_pins b \<noteq> []" "\<not> cb_has_roots b"
    and "cb_server_rpk b = None" "\<not> cb_danger_certs b"
  shows "\<not> is_ok (cb_build S L R pq b)"
proof -
  have store: "cb_root_store R b = Ok []"
    using assms(3) by (auto simp: cb_has_roots_def cb_root_store_def split: option.splits)
  have adapter: "cb_build_adapter S L R b \<noteq> Ok cfg" for cfg
  proof
    assume "cb_build_adapter S L R b = Ok cfg"
    then obtain c where "rc_build S L (cb_adapter [] b) = Ok c"
      using cb_build_adapter_Ok store by fastforce
    then obtain w where "webpki_verifier S [] (pure_provider S) (if cb_cert_pins b = [] then cb_crls b else []) = Ok w"
      using rc_verifier_accepts [OF rc_build_verifier(1), of S L "cb_adapter [] b" c] unfolding cb_adapter_fields by blast
    then show False using assms(1) unfolding needs_roots_def by (metis result.distinct(1))
  qed
  have hostnames: "webpki_verifier S [] p [] \<noteq> Ok w" for p w
    using assms(1) unfolding needs_roots_def by (metis result.distinct(1))
  show ?thesis
  proof
    assume "is_ok (cb_build S L R pq b)"
    then obtain cfg where "cb_build S L R pq b = Ok cfg" by (auto simp: is_ok_iff)
    then show False
      using adapter hostnames store assms(2,4,5)
      by (auto simp: cb_build_def cb_use_adapter_def result_simps Let_def split: if_splits)
  qed
qed

text \<open>Raw public keys and the danger flags decide alone, in this order, and pins, CRLs and transparency logs set on
  the same builder are not consulted: with raw public keys exactly the listed keys are accepted; with the first danger
  flag every certificate is; with the second exactly those that the web-PKI verifier accepts or rejects for the name
  only.\<close>

theorem client_build_bypasses:
  assumes "cb_build S L R pq b = Ok cfg"
  shows "case cb_server_rpk b of
      Some spki \<Rightarrow> verify_server_cert (cc_verifier cfg) a = Ok () \<longleftrightarrow> end_entity a \<in> set spki
    | None \<Rightarrow>
        if cb_danger_certs b then verify_server_cert (cc_verifier cfg) a = Ok ()
        else if cb_danger_hostnames b then
          \<exists>store w. cb_root_store R b = Ok store \<and> webpki_verifier S store (cc_provider cfg) [] = Ok w \<and>
            (verify_server_cert (cc_verifier cfg) a = Ok () \<longleftrightarrow>
               verify_server_cert w a \<in> {Ok (), Err (InvalidCertificate NotValidForName)} \<union>
                 range (\<lambda>s. Err (InvalidCertificate (NotValidForNameContext s))))
        else True"
proof (cases "cb_server_rpk b")
  case (Some spki)
  then obtain provider vs where "cb_build_rpk S b provider vs spki = Ok cfg"
    using assms by (auto simp: cb_build_def result_simps Let_def)
  then have "cc_verifier cfg =
      raw_public_key_server_verifier spki (raw_key_signature S provider) (provider_schemes provider)"
    by (auto simp: cb_build_rpk_def result_simps Let_def split: option.splits if_splits)
  with Some show ?thesis by (auto simp: raw_public_key_server_verifier_def rpk_match_iff)
next
  case None
  show ?thesis
  proof (cases "cb_danger_certs b")
    case True
    with None assms show ?thesis
      by (auto simp: cb_build_def dangerous_no_cert_verifier_def result_simps Let_def split: if_splits)
  next
    case False
    with None assms show ?thesis
      by (auto simp: cb_build_def hostname_ignore_accepts result_simps Let_def split: if_splits)
  qed
qed

section \<open>Witnesses\<close>

definition example_rustls :: rustls_lib where
  "example_rustls = \<lparr> rustcrypto_provider = \<lparr> provider_name = ''rustcrypto'', cipher_suites = [''TLS13_AES_128_GCM_SHA256''],
       kx_groups = [''X25519''], provider_schemes = [] \<rparr>,
     default_versions = [Tls13, Tls12], versions_ok = (\<lambda>_ _. Ok ()), ech_ok = (\<lambda>_ _. Ok ()),
     webpki_verifier = (\<lambda>roots _ _. if roots = [] then Err ''no root trust anchors'' else Ok accept_all),
     roots_verifier = (\<lambda>_ _. accept_all), client_auth_cert = (\<lambda>_ _ _. Ok ()), load_private_key = (\<lambda>_ _. Ok ()),
     raw_key_signature = (\<lambda>_ _ _ _. Ok ()), ech_config_new = Ok \<rparr>"

text \<open>A builder with the bundled roots, a pin and a client certificate, and the configuration it gives.\<close>

definition example_builder :: client_builder where
  "example_builder = cb_with_client_cert [[5]] (Pkcs8 [6]) (cb_with_cert_pinning [[1]] (cb_with_webpki_roots cb_new))"

definition example_config :: client_config where
  "example_config =
     (new_config (pure_provider example_rustls) [Tls13, Tls12] None
        (cert_pin_verifier (lib_no_certs, [[1]]) accept_all) NoClientAuth)\<lparr> cc_resumption := InMemorySessions 256 \<rparr>"

lemmas example_builder_defs =
  example_builder_def cb_with_client_cert_def cb_with_cert_pinning_def cb_with_webpki_roots_def cb_new_def

lemma example_build: "cb_build example_rustls lib_no_certs example_root_lib False example_builder = Ok example_config"
  by (simp add: cb_build_def example_builder_defs cb_has_roots_def cb_use_adapter_def cb_build_adapter_def cb_root_store_def
      webpki_root_certs_def rc_build_def rc_verifier_def rc_base_verifier_def cb_adapter_fields example_rustls_def
      example_root_lib_def example_config_def new_config_def pure_provider_def cb_resumption_def Let_def
      cb_adapter_def rc_with_alpn_def rc_with_crl_def rc_with_pinned_certs_def rc_with_roots_def rc_new_def)

definition example_rc :: rustcrypto_client_builder where
  "example_rc = rc_with_pinned_certs [[1]] (rc_with_roots [\<lparr> ta_subject = [1], ta_spki = [2] \<rparr>] rc_new)"

theorem adapter_accepts_exactly_witness:
  "\<exists>cfg. rc_build example_rustls lib_no_certs example_rc = Ok cfg \<and>
     verify_server_cert (cc_verifier cfg) (example_args\<lparr> end_entity := [1] \<rparr>) = Ok ()"
proof -
  obtain cfg where c: "rc_build example_rustls lib_no_certs example_rc = Ok cfg"
    by (simp add: rc_build_def rc_verifier_def rc_base_verifier_def example_rc_def rc_with_pinned_certs_def
        rc_with_roots_def rc_new_def example_rustls_def Let_def)
  moreover have "verify_server_cert (cc_verifier cfg) (example_args\<lparr> end_entity := [1] \<rparr>) = Ok ()"
    using adapter_accepts_exactly [OF c, of "example_args\<lparr> end_entity := [1] \<rparr>"]
    by (auto simp: example_rc_def rc_with_pinned_certs_def rc_with_roots_def rc_new_def ocsp_pass_def sct_pass_def
        example_rustls_def accept_all_def lib_no_certs_def Let_def)
  ultimately show ?thesis by blast
qed

theorem client_build_enforces_checks_witness:
  "verify_server_cert (cc_verifier example_config) (example_args\<lparr> end_entity := [2] \<rparr>) \<noteq> Ok ()"
  using client_build_enforces_checks [OF example_build, of "example_args\<lparr> end_entity := [2] \<rparr>"]
  by (auto simp: example_builder_defs lib_no_certs_def)

theorem client_build_adapter_drops_witness:
  "cb_client_cert example_builder \<noteq> None \<and> cb_protocol_versions example_builder = None \<and>
   cc_client_auth example_config = NoClientAuth \<and> cc_versions example_config = [Tls13, Tls12]"
  using client_build_adapter_drops [OF example_build]
  by (simp add: example_builder_defs cb_use_adapter_def example_rustls_def)

theorem client_build_pins_need_roots_witness:
  "\<not> is_ok (cb_build example_rustls lib_no_certs example_root_lib False (cb_with_cert_pinning [[1]] cb_new))"
  by (rule client_build_pins_need_roots)
    (simp_all add: needs_roots_def example_rustls_def cb_with_cert_pinning_def cb_new_def cb_has_roots_def)

theorem client_build_bypasses_witness:
  "\<exists>cfg. cb_build example_rustls lib_no_certs example_root_lib False (cb_with_danger_accept_invalid_certs example_builder) = Ok cfg \<and>
     verify_server_cert (cc_verifier cfg) (example_args\<lparr> end_entity := [2] \<rparr>) = Ok ()"
proof -
  let ?b = "cb_with_danger_accept_invalid_certs example_builder"
  obtain cfg where c: "cb_build example_rustls lib_no_certs example_root_lib False ?b = Ok cfg"
    by (simp add: cb_build_def example_builder_defs cb_with_danger_accept_invalid_certs_def danger_client_auth_def
        single_client_cert_resolver_def unwrap_key_def example_rustls_def cb_has_roots_def Let_def)
  with client_build_bypasses [OF c, of "example_args\<lparr> end_entity := [2] \<rparr>"] show ?thesis
    by (auto simp: cb_with_danger_accept_invalid_certs_def example_builder_defs)
qed

end
