(* ===== verification/Ticketer.thy ===== *)
theory Ticketer
  imports Core_Types
begin

text \<open>
  Session-ticket encryption with key rotation: \<open>OxiTicketer\<close> (\<open>oxitls/src/ticketer.rs\<close>, AES-256-GCM of
  RustCrypto) and \<open>AwsLcTicketRotator\<close> (\<open>oxitls-adapter-aws-lc/src/ticketer.rs\<close>). The AEAD and the random
  generator belong to other crates: they are arguments, a failed draw of randomness being \<open>None\<close> or
  \<open>Err\<close>. The locale \<open>rotating_ticketer\<close> is the contract both implement: at most two live keys,
  encryption under the newest, decryption by trying them in order.
\<close>

section \<open>The AEAD of the RustCrypto crates\<close>

record aead =
  aead_seal :: "bytes \<Rightarrow> bytes \<Rightarrow> bytes \<Rightarrow> bytes \<Rightarrow> (bytes \<times> bytes) option"
  aead_open :: "bytes \<Rightarrow> bytes \<Rightarrow> bytes \<Rightarrow> bytes \<Rightarrow> bytes \<Rightarrow> bytes option"

text \<open>What the documentation of the crate promises: the ciphertext has the length of the plaintext, the tag
  has 16 bytes, and opening what was sealed with the same key, nonce and associated data gives the
  plaintext back.\<close>

definition aead_correct :: "aead \<Rightarrow> bool" where
  "aead_correct A \<longleftrightarrow>
     (\<forall>k n aad p c t. aead_seal A k n aad p = Some (c, t) \<longrightarrow>
        length c = length p \<and> length t = 16 \<and> aead_open A k n aad c t = Some p)"

section \<open>OxiTicketer\<close>

definition NONCE_LEN :: nat where "NONCE_LEN = 12"
definition TAG_LEN :: nat where "TAG_LEN = 16"
definition KEY_LEN :: nat where "KEY_LEN = 32"
definition VERSION_BYTE :: byte where "VERSION_BYTE = 1"

text \<open>\<open>b"oxitls-ticket-v1"\<close>.\<close>

definition AAD :: bytes where
  "AAD = map of_char ''oxitls-ticket-v1''"

lemmas ticket_consts = NONCE_LEN_def TAG_LEN_def VERSION_BYTE_def

text \<open>The \<open>RwLock\<close> is the flag that says whether a holder panicked.\<close>

record oxi_ticketer =
  current :: bytes
  previous :: "bytes option"
  poisoned :: bool
  lifetime_secs :: u32

definition oxi_new_with_lifetime :: "(bytes, string) result \<Rightarrow> u32 \<Rightarrow> (oxi_ticketer, tls_error) result" where
  "oxi_new_with_lifetime rnd lifetime =
     rbind (rmap_err Other rnd) (\<lambda>key.
     Ok \<lparr> current = key, previous = None, poisoned = False, lifetime_secs = lifetime \<rparr>)"

definition oxi_new :: "(bytes, string) result \<Rightarrow> (oxi_ticketer, tls_error) result" where
  "oxi_new rnd = oxi_new_with_lifetime rnd (6 * 60 * 60)"

text \<open>\<open>rotate\<close>: the result and the state after the call.\<close>

definition oxi_rotate ::
    "(bytes, string) result \<Rightarrow> oxi_ticketer \<Rightarrow> (unit, tls_error) result \<times> oxi_ticketer" where
  "oxi_rotate rnd st =
     (case rnd of
        Err e \<Rightarrow> (Err (Other e), st)
      | Ok new_current \<Rightarrow>
          if poisoned st then (Err (Other ''RwLock poisoned''), st)
          else (Ok (), st\<lparr> current := new_current, previous := Some (current st) \<rparr>))"

definition encrypt_with_key :: "aead \<Rightarrow> bytes \<Rightarrow> bytes option \<Rightarrow> bytes \<Rightarrow> bytes option" where
  "encrypt_with_key A key_bytes nonce_rnd plain =
     (case nonce_rnd of
        None \<Rightarrow> None
      | Some nonce_bytes \<Rightarrow>
          (case aead_seal A key_bytes nonce_bytes AAD plain of
             None \<Rightarrow> None
           | Some (ct, tag) \<Rightarrow> Some ([VERSION_BYTE] @ nonce_bytes @ ct @ tag)))"

definition decrypt_with_key :: "aead \<Rightarrow> bytes \<Rightarrow> bytes \<Rightarrow> bytes option" where
  "decrypt_with_key A key_bytes ticket =
     (let min_len = 1 + NONCE_LEN + TAG_LEN in
      if length ticket < min_len then None
      else if ticket ! 0 \<noteq> VERSION_BYTE then None
      else let nonce_bytes = slice ticket 1 (1 + NONCE_LEN);
               ct_and_tag = drop (1 + NONCE_LEN) ticket in
      if length ct_and_tag < TAG_LEN then None
      else let pt_len = length ct_and_tag - TAG_LEN in
      aead_open A key_bytes nonce_bytes AAD (take pt_len ct_and_tag) (drop pt_len ct_and_tag))"

definition oxi_encrypt :: "aead \<Rightarrow> oxi_ticketer \<Rightarrow> bytes option \<Rightarrow> bytes \<Rightarrow> bytes option" where
  "oxi_encrypt A st nonce_rnd plain =
     (if poisoned st then None else encrypt_with_key A (current st) nonce_rnd plain)"

definition oxi_decrypt :: "aead \<Rightarrow> oxi_ticketer \<Rightarrow> bytes \<Rightarrow> bytes option" where
  "oxi_decrypt A st ticket =
     (if poisoned st then None
      else case decrypt_with_key A (current st) ticket of
        Some pt \<Rightarrow> Some pt
      | None \<Rightarrow>
          (case previous st of
             Some prev \<Rightarrow> decrypt_with_key A prev ticket
           | None \<Rightarrow> None))"

section \<open>AwsLcTicketRotator\<close>

text \<open>\<open>seal_in_place_append_tag\<close> and \<open>open_in_place\<close> of aws-lc-rs, and their contract.\<close>

record aws_aead =
  aws_seal :: "bytes \<Rightarrow> bytes \<Rightarrow> bytes \<Rightarrow> bytes \<Rightarrow> bytes option"
  aws_open :: "bytes \<Rightarrow> bytes \<Rightarrow> bytes \<Rightarrow> bytes \<Rightarrow> bytes option"

definition aws_aead_correct :: "aws_aead \<Rightarrow> bool" where
  "aws_aead_correct A \<longleftrightarrow>
     (\<forall>k n aad p c. aws_seal A k n aad p = Some c \<longrightarrow>
        length c = length p + 16 \<and> aws_open A k n aad c = Some p)"

record aws_rotator =
  current_key :: bytes
  previous_key :: "bytes option"
  generation :: u64
  aws_poisoned :: bool
  aws_lifetime :: u32

text \<open>The lifetime that \<open>new\<close> computes from the interval in seconds.\<close>

definition aws_lifetime_of :: "u64 \<Rightarrow> u32" where
  "aws_lifetime_of interval =
     (let interval_secs = max interval 1;
          doubled = (if 2 * unat interval_secs < 2 ^ 64 then 2 * unat interval_secs else 2 ^ 64 - 1);
          lifetime = (of_nat (min doubled (2 ^ 32 - 1)) :: u32) in
      max lifetime 1)"

definition aws_generate :: "(bytes, string) result \<Rightarrow> u64 \<Rightarrow> (aws_rotator, tls_error) result" where
  "aws_generate rnd interval =
     rbind (rmap_err (\<lambda>e. Other (''rng error: '' @ e)) rnd) (\<lambda>key.
     Ok \<lparr> current_key = key, previous_key = None, generation = 0, aws_poisoned = False,
          aws_lifetime = aws_lifetime_of interval \<rparr>)"

definition saturating_inc :: "u64 \<Rightarrow> u64" where
  "saturating_inc g = (if g = - 1 then g else g + 1)"

definition aws_rotate ::
    "(bytes, string) result \<Rightarrow> aws_rotator \<Rightarrow> (unit, tls_error) result \<times> aws_rotator" where
  "aws_rotate rnd st =
     (case rnd of
        Err e \<Rightarrow> (Err (Other (''rng error: '' @ e)), st)
      | Ok new_key \<Rightarrow>
          (Ok (), st\<lparr> previous_key := Some (current_key st), current_key := new_key,
                     generation := saturating_inc (generation st) \<rparr>))"

text \<open>One tick of the background task: a poisoned lock ends the task, an RNG error is ignored.\<close>

definition aws_tick :: "(bytes, string) result \<Rightarrow> aws_rotator \<Rightarrow> aws_rotator" where
  "aws_tick rnd st = (if aws_poisoned st then st else snd (aws_rotate rnd st))"

definition aws_generation :: "aws_rotator \<Rightarrow> u64" where
  "aws_generation st = (if aws_poisoned st then 0 else generation st)"

definition encrypt_ticket :: "aws_aead \<Rightarrow> bytes \<Rightarrow> bytes option \<Rightarrow> bytes \<Rightarrow> bytes option" where
  "encrypt_ticket A key_bytes nonce_rnd plain =
     (case nonce_rnd of
        None \<Rightarrow> None
      | Some nonce_bytes \<Rightarrow>
          (case aws_seal A key_bytes nonce_bytes [] plain of
             None \<Rightarrow> None
           | Some ct \<Rightarrow> Some (nonce_bytes @ ct)))"

definition decrypt_ticket :: "aws_aead \<Rightarrow> bytes \<Rightarrow> bytes \<Rightarrow> bytes option" where
  "decrypt_ticket A key_bytes ticket =
     (let min_len = NONCE_LEN + TAG_LEN in
      if length ticket < min_len then None
      else aws_open A key_bytes (take NONCE_LEN ticket) [] (drop NONCE_LEN ticket))"

definition aws_encrypt :: "aws_aead \<Rightarrow> aws_rotator \<Rightarrow> bytes option \<Rightarrow> bytes \<Rightarrow> bytes option" where
  "aws_encrypt A st nonce_rnd plain =
     (if aws_poisoned st then None else encrypt_ticket A (current_key st) nonce_rnd plain)"

definition aws_decrypt :: "aws_aead \<Rightarrow> aws_rotator \<Rightarrow> bytes \<Rightarrow> bytes option" where
  "aws_decrypt A st ticket =
     (if aws_poisoned st then None
      else case decrypt_ticket A (current_key st) ticket of
        Some pt \<Rightarrow> Some pt
      | None \<Rightarrow>
          (case previous_key st of
             Some prev \<Rightarrow> decrypt_ticket A prev ticket
           | None \<Rightarrow> None))"

section \<open>The contract of a rotating ticketer\<close>

text \<open>The first live key that opens the ticket.\<close>

fun first_open :: "('k \<Rightarrow> 'p option) \<Rightarrow> 'k list \<Rightarrow> 'p option" where
  "first_open f [] = None"
| "first_open f (k # ks) = (case f k of Some p \<Rightarrow> Some p | None \<Rightarrow> first_open f ks)"

lemma first_open_None_iff: "first_open f ks = None \<longleftrightarrow> (\<forall>k \<in> set ks. f k = None)"
  by (induction ks) (auto split: option.splits)

lemma first_open_Some: "first_open f ks = Some p \<Longrightarrow> \<exists>k \<in> set ks. f k = Some p"
  by (induction ks) (auto split: option.splits)

lemma first_open_skip: "(\<forall>k \<in> set xs. f k = None) \<Longrightarrow> first_open f (xs @ ys) = first_open f ys"
  by (induction xs) auto

locale rotating_ticketer =
  fixes good :: "'a \<Rightarrow> bool"
    and usable :: "'s \<Rightarrow> bool"
    and keys :: "'s \<Rightarrow> bytes list"
    and open_with :: "'a \<Rightarrow> bytes \<Rightarrow> bytes \<Rightarrow> bytes option"
    and encrypt :: "'a \<Rightarrow> 's \<Rightarrow> bytes option \<Rightarrow> bytes \<Rightarrow> bytes option"
    and decrypt :: "'a \<Rightarrow> 's \<Rightarrow> bytes \<Rightarrow> bytes option"
    and rotate :: "(bytes, string) result \<Rightarrow> 's \<Rightarrow> (unit, tls_error) result \<times> 's"
  assumes keys_nonempty: "keys s \<noteq> []"
    and keys_bound: "length (keys s) \<le> 2"
    and encrypt_newest: "good A \<Longrightarrow> encrypt A s (Some n) p = Some tk \<Longrightarrow> length n = 12 \<Longrightarrow>
      open_with A (hd (keys s)) tk = Some p"
    and decrypt_first: "usable s \<Longrightarrow> decrypt A s tk = first_open (\<lambda>k. open_with A k tk) (keys s)"
    and rotate_keys: "usable s \<Longrightarrow> rotate (Ok k) s = (r, s') \<Longrightarrow>
      r = Ok () \<and> keys s' = [k, hd (keys s)] \<and> usable s'"
    and rotate_rng_failure: "snd (rotate (Err e) s) = s"
begin

lemma fresh_ticket_opens:
  assumes "good A" "usable s" "encrypt A s (Some n) p = Some tk" "length n = 12"
  shows "decrypt A s tk = Some p"
proof -
  have "open_with A (hd (keys s)) tk = Some p"
    using assms by (auto intro: encrypt_newest)
  moreover obtain k ks where "keys s = k # ks"
    using keys_nonempty [of s] by (cases "keys s") auto
  ultimately show ?thesis
    using decrypt_first [OF assms(2)] by simp
qed

lemma ticket_survives_one_rotation:
  assumes "good A" "usable s" "encrypt A s (Some n) p = Some tk" "length n = 12"
    and "rotate (Ok k) s = (r, s')" "open_with A k tk = None"
  shows "decrypt A s' tk = Some p"
  using assms rotate_keys [OF assms(2,5)] encrypt_newest [OF assms(1,3,4)]
  by (simp add: decrypt_first)

lemma old_key_gone_after_two_rotations:
  assumes "usable s" "rotate (Ok k1) s = (r1, s1)" "rotate (Ok k2) s1 = (r2, s2)"
  shows "keys s2 = [k2, k1]"
  using rotate_keys [OF assms(1,2)] rotate_keys [OF _ assms(3)] by simp

lemma decrypts_only_with_live_key:
  assumes "usable s" "decrypt A s tk = Some p"
  shows "\<exists>k \<in> set (keys s). open_with A k tk = Some p"
  using assms by (auto simp: decrypt_first dest: first_open_Some)

end

section \<open>Both ticketers meet it\<close>

definition oxi_keys :: "oxi_ticketer \<Rightarrow> bytes list" where
  "oxi_keys st = current st # (case previous st of Some k \<Rightarrow> [k] | None \<Rightarrow> [])"

definition aws_keys :: "aws_rotator \<Rightarrow> bytes list" where
  "aws_keys st = current_key st # (case previous_key st of Some k \<Rightarrow> [k] | None \<Rightarrow> [])"

lemma decrypt_encrypt_with_key:
  assumes "aead_correct A" "encrypt_with_key A k (Some n) p = Some tk" "length n = 12"
  shows "decrypt_with_key A k tk = Some p"
proof -
  obtain c t where seal: "aead_seal A k n AAD p = Some (c, t)" and tk: "tk = [1] @ n @ c @ t"
    using assms(2) by (auto simp: encrypt_with_key_def ticket_consts split: option.splits)
  have "length t = 16" "aead_open A k n AAD c t = Some p"
    using seal assms(1) by (auto simp: aead_correct_def)
  moreover have "slice tk 1 13 = n"
    using tk assms(3) by (simp add: slice_def)
  ultimately show ?thesis
    using tk assms(3) by (simp add: decrypt_with_key_def ticket_consts Let_def)
qed

lemma decrypt_encrypt_ticket:
  assumes "aws_aead_correct A" "encrypt_ticket A k (Some n) p = Some tk" "length n = 12"
  shows "decrypt_ticket A k tk = Some p"
proof -
  obtain c where seal: "aws_seal A k n [] p = Some c" and tk: "tk = n @ c"
    using assms(2) by (auto simp: encrypt_ticket_def split: option.splits)
  have "length c = length p + 16" "aws_open A k n [] c = Some p"
    using seal assms(1) by (auto simp: aws_aead_correct_def)
  then show ?thesis
    using tk assms(3) by (simp add: decrypt_ticket_def ticket_consts Let_def)
qed

interpretation oxi: rotating_ticketer aead_correct "\<lambda>st. \<not> poisoned st" oxi_keys decrypt_with_key
  oxi_encrypt oxi_decrypt oxi_rotate
proof unfold_locales
  fix A s n p tk
  assume "aead_correct A" "oxi_encrypt A s (Some n) p = Some tk" "length n = 12"
  then show "decrypt_with_key A (hd (oxi_keys s)) tk = Some p"
    by (auto simp: oxi_encrypt_def oxi_keys_def intro: decrypt_encrypt_with_key split: if_splits)
qed (auto simp: oxi_keys_def oxi_decrypt_def oxi_rotate_def split: option.splits result.splits)

interpretation aws: rotating_ticketer aws_aead_correct "\<lambda>st. \<not> aws_poisoned st" aws_keys decrypt_ticket
  aws_encrypt aws_decrypt aws_rotate
proof unfold_locales
  fix A s n p tk
  assume "aws_aead_correct A" "aws_encrypt A s (Some n) p = Some tk" "length n = 12"
  then show "decrypt_ticket A (hd (aws_keys s)) tk = Some p"
    by (auto simp: aws_encrypt_def aws_keys_def intro: decrypt_encrypt_ticket split: if_splits)
qed (auto simp: aws_keys_def aws_decrypt_def aws_rotate_def split: option.splits result.splits)

section \<open>Properties\<close>

text \<open>A concrete AEAD for the witnesses: the plaintext in clear under a tag made from the key.\<close>

definition example_aead :: aead where
  "example_aead =
     \<lparr> aead_seal = (\<lambda>k n aad p. Some (p, replicate 16 (sum_list k))),
       aead_open = (\<lambda>k n aad c t. if t = replicate 16 (sum_list k) then Some c else None) \<rparr>"

definition example_aws_aead :: aws_aead where
  "example_aws_aead =
     \<lparr> aws_seal = (\<lambda>k n aad p. Some (p @ replicate 16 (sum_list k))),
       aws_open = (\<lambda>k n aad c. if drop (length c - 16) c = replicate 16 (sum_list k)
                              then Some (take (length c - 16) c) else None) \<rparr>"

definition example_ticketer :: oxi_ticketer where
  "example_ticketer = \<lparr> current = [3], previous = None, poisoned = False, lifetime_secs = 60 \<rparr>"

definition example_rotator :: aws_rotator where
  "example_rotator = \<lparr> current_key = [3], previous_key = None, generation = 0, aws_poisoned = False, aws_lifetime = 60 \<rparr>"

lemma example_aead_correct: "aead_correct example_aead" "aws_aead_correct example_aws_aead"
  by (simp_all add: aead_correct_def aws_aead_correct_def example_aead_def example_aws_aead_def)

definition example_ticket :: bytes where
  "example_ticket = [1] @ replicate 12 0 @ [5, 6] @ replicate 16 3"

lemma example_ticket_encrypted:
  "oxi_encrypt example_aead example_ticketer (Some (replicate 12 0)) [5, 6] = Some example_ticket"
  by (simp add: oxi_encrypt_def encrypt_with_key_def example_aead_def example_ticketer_def example_ticket_def
      ticket_consts)

text \<open>C12: a ticket that \<open>OxiTicketer\<close> issued decrypts to the session state it was issued for, right away
  and after one key rotation (the new key does not open a ticket it did not seal), and after a second
  rotation only the two new keys are consulted, so a ticket neither of them opens is rejected.\<close>

theorem oxi_ticket_lifecycle:
  assumes "aead_correct A" "\<not> poisoned st" "oxi_encrypt A st (Some n) p = Some tk" "length n = 12"
    and "oxi_rotate (Ok ka) st = (ra, sta)" "decrypt_with_key A ka tk = None"
    and "oxi_rotate (Ok kb) sta = (rb, stb)" "decrypt_with_key A kb tk = None"
  shows "oxi_decrypt A st tk = Some p \<and> oxi_decrypt A sta tk = Some p \<and> oxi_decrypt A stb tk = None"
proof (intro conjI)
  show "oxi_decrypt A st tk = Some p"
    using assms(1-4) by (rule oxi.fresh_ticket_opens)
  show "oxi_decrypt A sta tk = Some p"
    using assms(1-6) by (rule oxi.ticket_survives_one_rotation)
  have sta: "\<not> poisoned sta" and stb: "\<not> poisoned stb"
    using oxi.rotate_keys [OF assms(2,5)] oxi.rotate_keys [OF _ assms(7)] by auto
  have "oxi_keys stb = [kb, ka]"
    using assms(2,5,7) by (rule oxi.old_key_gone_after_two_rotations)
  with stb assms(6,8) show "oxi_decrypt A stb tk = None"
    by (simp add: oxi.decrypt_first)
qed

theorem oxi_ticket_lifecycle_witness:
  "oxi_decrypt example_aead example_ticketer example_ticket = Some [5, 6] \<and>
   oxi_decrypt example_aead (snd (oxi_rotate (Ok [4]) example_ticketer)) example_ticket = Some [5, 6] \<and>
   oxi_decrypt example_aead (snd (oxi_rotate (Ok [7]) (snd (oxi_rotate (Ok [4]) example_ticketer)))) example_ticket = None"
  by (rule oxi_ticket_lifecycle [where ra = "Ok ()" and ka = "[4]" and rb = "Ok ()" and kb = "[7]",
        OF example_aead_correct(1) _ example_ticket_encrypted])
    (simp_all add: example_ticketer_def oxi_rotate_def decrypt_with_key_def example_aead_def example_ticket_def
      ticket_consts slice_def Let_def)

text \<open>the aws-lc rotator keeps the same promise across ticks of its background task: a ticket
  survives the next tick whether or not the random generator fails, and a failed draw changes nothing.\<close>

theorem aws_ticket_survives_tick:
  assumes "aws_aead_correct A" "\<not> aws_poisoned st" "aws_encrypt A st (Some n) p = Some tk" "length n = 12"
    and "\<forall>k. rnd = Ok k \<longrightarrow> decrypt_ticket A k tk = None"
  shows "aws_decrypt A (aws_tick rnd st) tk = Some p \<and> (\<forall>e. rnd = Err e \<longrightarrow> aws_tick rnd st = st)"
proof (cases rnd)
  case (Ok k)
  have "aws_decrypt A (snd (aws_rotate (Ok k) st)) tk = Some p"
    by (rule aws.ticket_survives_one_rotation [OF assms(1-4) prod.collapse [symmetric]])
      (use assms(5) Ok in simp)
  with Ok assms(2) show ?thesis by (simp add: aws_tick_def)
next
  case (Err e)
  then show ?thesis
    using aws.fresh_ticket_opens [OF assms(1-4)] by (simp add: aws_tick_def aws.rotate_rng_failure)
qed

theorem aws_ticket_survives_tick_witness:
  "aws_decrypt example_aws_aead (aws_tick (Ok [4]) example_rotator)
     (replicate 12 0 @ [5] @ replicate 16 3) = Some [5]"
  using aws_ticket_survives_tick [OF example_aead_correct(2), of example_rotator "replicate 12 0" "[5]"
      "replicate 12 0 @ [5] @ replicate 16 3" "Ok [4]"]
  by (simp add: example_rotator_def aws_encrypt_def encrypt_ticket_def decrypt_ticket_def example_aws_aead_def
      ticket_consts Let_def)

text \<open>the ticket lifetime of the aws-lc rotator is twice the rotation interval, at least one
  second and never wrapped: it saturates at the largest 32-bit value.\<close>

theorem aws_lifetime_saturates:
  "unat (aws_lifetime_of interval) = min (2 * max (unat interval) 1) (2 ^ 32 - 1)"
proof -
  let ?i = "max (unat interval) 1"
  define m where "m = min (if 2 * ?i < 2 ^ 64 then 2 * ?i else 2 ^ 64 - 1) (2 ^ 32 - 1 :: nat)"
  have m: "m = min (2 * ?i) (2 ^ 32 - 1)" and "1 \<le> m" and "m < 2 ^ 32"
    by (auto simp: m_def)
  have "unat (of_nat m :: u32) = m"
    using \<open>m < 2 ^ 32\<close> by (simp add: unat_of_nat)
  moreover have "unat (max interval 1) = ?i"
    by (simp add: max_def word_le_nat_alt)
  then have "aws_lifetime_of interval = max (of_nat m) 1"
    by (simp only: aws_lifetime_of_def Let_def m_def)
  moreover have "unat (max (w :: u32) 1) = max (unat w) 1" for w
    by (simp add: max_def word_le_nat_alt)
  ultimately show ?thesis
    using m \<open>1 \<le> m\<close> by simp
qed

end
