(* ===== verification/Anti_Replay.thy ===== *)
theory Anti_Replay
  imports Ticketer
begin

text \<open>
  Single-use tickets for 0-RTT data, \<open>oxitls/src/anti_replay.rs\<close>: the table of ticket fingerprints, its
  pruning, and the wrapper that decrypts a ticket at most once per window. The clock reading, the
  SHA-256 function and the wrapped ticketer are arguments; the mutex makes each call one step, so any
  interleaving of connections is a sequence of calls.
\<close>

section \<open>The guard\<close>

datatype replay_verdict = Fresh | Replayed

record replay_guard =
  seen :: "bytes \<rightharpoonup> u64"
  window_secs :: u64

definition replay_guard_new :: "u64 \<Rightarrow> replay_guard" where
  "replay_guard_new window = \<lparr> seen = Map.empty, window_secs = window \<rparr>"

text \<open>\<open>HashMap::retain\<close> with the window test.\<close>

definition prune :: "u64 \<Rightarrow> u64 \<Rightarrow> (bytes \<rightharpoonup> u64) \<Rightarrow> (bytes \<rightharpoonup> u64)" where
  "prune t window m =
     (\<lambda>k. case m k of
        Some recorded_at \<Rightarrow> if saturating_sub t recorded_at \<le> window then Some recorded_at else None
      | None \<Rightarrow> None)"

definition check_and_record ::
    "(bytes \<Rightarrow> bytes) \<Rightarrow> u64 \<Rightarrow> bytes \<Rightarrow> replay_guard \<Rightarrow> replay_verdict \<times> replay_guard" where
  "check_and_record sha t ticket g =
     (let key = sha ticket;
          m = prune t (window_secs g) (seen g) in
      case m key of
        Some _ \<Rightarrow> (Replayed, g\<lparr> seen := m \<rparr>)
      | None \<Rightarrow> (Fresh, g\<lparr> seen := m(key \<mapsto> t) \<rparr>))"

section \<open>The wrapping ticketer\<close>

text \<open>\<open>AntiReplayTicketer::new\<close>: the window is the lifetime of the wrapped ticketer.\<close>

definition anti_replay_new :: "u32 \<Rightarrow> replay_guard" where
  "anti_replay_new inner_lifetime = replay_guard_new (ucast inner_lifetime)"

text \<open>\<open>decrypt\<close>: the wrapped ticketer first, the table only for tickets it opened.\<close>

definition anti_replay_decrypt ::
    "(bytes \<Rightarrow> bytes) \<Rightarrow> (bytes \<Rightarrow> bytes option) \<Rightarrow> u64 \<Rightarrow> bytes \<Rightarrow> replay_guard
      \<Rightarrow> bytes option \<times> replay_guard" where
  "anti_replay_decrypt sha inner_decrypt t ticket g =
     (case inner_decrypt ticket of
        None \<Rightarrow> (None, g)
      | Some plaintext \<Rightarrow>
          (case check_and_record sha t ticket g of
             (Fresh, g') \<Rightarrow> (Some plaintext, g')
           | (Replayed, g') \<Rightarrow> (None, g')))"

text \<open>A history of calls: the clock reading, the ticket and the wrapped ticketer as it then was (its keys
  may have been rotated in between). The results and the final table.\<close>

type_synonym call = "u64 \<times> bytes \<times> (bytes \<Rightarrow> bytes option)"

fun run_calls :: "(bytes \<Rightarrow> bytes) \<Rightarrow> call list \<Rightarrow> replay_guard \<Rightarrow> bytes option list \<times> replay_guard" where
  "run_calls sha [] g = ([], g)"
| "run_calls sha ((t, ticket, inner) # cs) g =
     (let (r, g') = anti_replay_decrypt sha inner t ticket g;
          (rs, g'') = run_calls sha cs g' in (r # rs, g''))"

section \<open>The table\<close>

lemma prune_Some_iff:
  "prune t w m k = Some r \<longleftrightarrow> m k = Some r \<and> unat t - unat r \<le> unat w"
  by (auto simp: prune_def word_le_nat_alt split: option.splits)

lemma check_and_record_window [simp]: "window_secs (snd (check_and_record sha t tk g)) = window_secs g"
  by (simp add: check_and_record_def Let_def split: option.splits)

lemma check_Fresh_iff:
  "fst (check_and_record sha t tk g) = Fresh \<longleftrightarrow>
     (\<forall>r. seen g (sha tk) = Some r \<longrightarrow> unat r + unat (window_secs g) < unat t)"
proof -
  have "prune t (window_secs g) (seen g) (sha tk) = None \<longleftrightarrow>
      (\<forall>r. seen g (sha tk) = Some r \<longrightarrow> unat r + unat (window_secs g) < unat t)"
    by (auto simp: prune_def word_le_nat_alt split: option.splits)
  then show ?thesis
    by (cases "prune t (window_secs g) (seen g) (sha tk)") (simp_all add: check_and_record_def Let_def)
qed

lemma check_records:
  assumes "fst (check_and_record sha t tk g) = Fresh"
  shows "seen (snd (check_and_record sha t tk g)) (sha tk) = Some t"
  using assms by (auto simp: check_and_record_def Let_def split: option.splits)

lemma anti_replay_window [simp]: "window_secs (snd (anti_replay_decrypt sha inner t tk g)) = window_secs g"
  using check_and_record_window [of sha t tk g]
  by (auto simp: anti_replay_decrypt_def split: option.splits prod.splits replay_verdict.splits
      simp del: check_and_record_window)

text \<open>A record stays as long as the clock does not pass its window.\<close>

lemma check_keeps:
  assumes "seen g k = Some r" "unat t \<le> unat r + unat (window_secs g)"
  shows "seen (snd (check_and_record sha t tk g)) k = Some r"
proof -
  have "prune t (window_secs g) (seen g) k = Some r"
    using assms by (simp add: prune_Some_iff)
  then show ?thesis
    by (auto simp: check_and_record_def Let_def split: option.splits)
qed

lemma decrypt_keeps:
  assumes "seen g k = Some r" "unat t \<le> unat r + unat (window_secs g)"
  shows "seen (snd (anti_replay_decrypt sha inner t tk g)) k = Some r"
  using check_keeps [OF assms, of sha tk] assms(1)
  by (auto simp: anti_replay_decrypt_def split: option.splits prod.splits replay_verdict.splits)

lemma run_window [simp]: "window_secs (snd (run_calls sha cs g)) = window_secs g"
proof (induction cs arbitrary: g)
  case Nil
  then show ?case by simp
next
  case (Cons c cs)
  obtain t tk inner where c: "c = (t, tk, inner)" by (cases c)
  show ?case
    using Cons [of "snd (anti_replay_decrypt sha inner t tk g)"]
    by (simp add: c case_prod_beta Let_def)
qed

lemma run_keeps:
  assumes "seen g k = Some r" "\<forall>(t, tk, inner) \<in> set cs. unat t \<le> unat r + unat (window_secs g)"
  shows "seen (snd (run_calls sha cs g)) k = Some r"
  using assms
proof (induction cs arbitrary: g)
  case Nil
  then show ?case by simp
next
  case (Cons c cs)
  obtain t tk inner where c: "c = (t, tk, inner)" by (cases c)
  have "seen (snd (anti_replay_decrypt sha inner t tk g)) k = Some r"
    using Cons.prems by (auto simp: c intro: decrypt_keeps)
  then have "seen (snd (run_calls sha cs (snd (anti_replay_decrypt sha inner t tk g)))) k = Some r"
    using Cons.prems by (intro Cons.IH) auto
  then show ?case
    by (simp add: c case_prod_beta Let_def)
qed

lemma decrypt_Some_records:
  assumes "fst (anti_replay_decrypt sha inner t tk g) = Some p"
  shows "seen (snd (anti_replay_decrypt sha inner t tk g)) (sha tk) = Some t"
  using assms check_records [of sha t tk g]
  by (auto simp: anti_replay_decrypt_def split: option.splits prod.splits replay_verdict.splits)

lemma decrypt_recorded_None:
  assumes "seen g (sha tk) = Some r" "unat t \<le> unat r + unat (window_secs g)"
  shows "fst (anti_replay_decrypt sha inner t tk g) = None"
proof -
  have "fst (check_and_record sha t tk g) \<noteq> Fresh"
    using assms by (simp add: check_Fresh_iff)
  then have "fst (check_and_record sha t tk g) = Replayed"
    by (cases "fst (check_and_record sha t tk g)") simp_all
  then show ?thesis
    by (auto simp: anti_replay_decrypt_def split: option.splits prod.splits replay_verdict.splits)
qed

section \<open>Properties\<close>

definition example_sha :: "bytes \<Rightarrow> bytes" where
  "example_sha = (\<lambda>b. b)"

text \<open>C3: no replay. When a ticket was accepted at some clock reading, then after any sequence of other
  calls, whatever tickets they carry and however the wrapped ticketer changes, a further call with the
  same ticket is refused as long as no clock reading since then exceeds the first one by more than
  the window. The clock need not be monotonic.\<close>

theorem anti_replay_single_use:
  assumes "fst (anti_replay_decrypt sha inner t ticket g) = Some p"
    and "\<forall>(t', ticket', inner') \<in> set calls. unat t' \<le> unat t + unat (window_secs g)"
    and "unat t'' \<le> unat t + unat (window_secs g)"
  shows "fst (anti_replay_decrypt sha inner'' t'' ticket
    (snd (run_calls sha calls (snd (anti_replay_decrypt sha inner t ticket g))))) = None"
proof -
  let ?g = "snd (anti_replay_decrypt sha inner t ticket g)"
  have "seen ?g (sha ticket) = Some t"
    using assms(1) by (rule decrypt_Some_records)
  then have "seen (snd (run_calls sha calls ?g)) (sha ticket) = Some t"
    by (rule run_keeps) (use assms(2) in simp)
  then show ?thesis
    by (rule decrypt_recorded_None) (use assms(3) in simp)
qed

theorem anti_replay_single_use_witness:
  "fst (anti_replay_decrypt example_sha Some 105 [1]
     (snd (run_calls example_sha [(102, [2], Some)]
        (snd (anti_replay_decrypt example_sha Some 100 [1] (anti_replay_new 10)))))) = None"
  by (rule anti_replay_single_use [where p = "[1]"])
    (simp_all add: anti_replay_decrypt_def check_and_record_def prune_def anti_replay_new_def
      replay_guard_new_def example_sha_def)

text \<open>the guard refuses nothing else. A ticket the wrapped ticketer opens is accepted exactly when
  its fingerprint is not recorded or its record lies more than the window back; a ticket it does not
  open is refused and leaves the table as it was, so forged tickets cannot fill it.\<close>

theorem anti_replay_accepts_iff:
  "(fst (anti_replay_decrypt sha inner t ticket g) = Some p \<longleftrightarrow>
      inner ticket = Some p \<and>
      (\<forall>r. seen g (sha ticket) = Some r \<longrightarrow> unat r + unat (window_secs g) < unat t)) \<and>
   (inner ticket = None \<longrightarrow> anti_replay_decrypt sha inner t ticket g = (None, g))"
proof
  show "fst (anti_replay_decrypt sha inner t ticket g) = Some p \<longleftrightarrow>
      inner ticket = Some p \<and>
      (\<forall>r. seen g (sha ticket) = Some r \<longrightarrow> unat r + unat (window_secs g) < unat t)"
    unfolding check_Fresh_iff [symmetric]
    by (auto simp: anti_replay_decrypt_def split: option.splits prod.splits replay_verdict.splits)
  show "inner ticket = None \<longrightarrow> anti_replay_decrypt sha inner t ticket g = (None, g)"
    by (simp add: anti_replay_decrypt_def)
qed

theorem anti_replay_accepts_iff_witness:
  "fst (anti_replay_decrypt example_sha Some 100 [1] (anti_replay_new 10)) = Some [1] \<and>
   anti_replay_decrypt example_sha (\<lambda>_. None) 100 [1] (anti_replay_new 10) = (None, anti_replay_new 10)"
  using anti_replay_accepts_iff [of example_sha Some 100 "[1]" "anti_replay_new 10" "[1]"]
    anti_replay_accepts_iff [of example_sha "\<lambda>_. None" 100 "[1]" "anti_replay_new 10" "[1]"]
  by (simp add: anti_replay_new_def replay_guard_new_def)

text \<open>the table stays small. After any call that reaches it, every record in the table is within
  the window of the clock reading of that call.\<close>

theorem anti_replay_table_pruned:
  assumes "seen (snd (check_and_record sha t ticket g)) k = Some r"
  shows "unat t \<le> unat r + unat (window_secs g)"
  using assms prune_Some_iff [of t "window_secs g" "seen g" k r]
  by (auto simp: check_and_record_def Let_def split: option.splits if_splits)

theorem anti_replay_table_pruned_witness:
  "unat (107 :: u64) \<le> unat (100 :: u64) + unat (window_secs (anti_replay_new 10))"
  by (rule anti_replay_table_pruned [where sha = example_sha and ticket = "[2]" and k = "[1]" and
        t = 107 and r = 100 and g = "snd (check_and_record example_sha 100 [1] (anti_replay_new 10))",
        simplified check_and_record_window])
    (simp add: check_and_record_def prune_def anti_replay_new_def replay_guard_new_def example_sha_def
      saturating_sub_def)

text \<open>anti-replay on top of the pure-Rust ticketer. A ticket the server issued opens once to the
  session state it was issued for, and a second presentation within the window is refused, also when
  the keys were rotated in between.\<close>

theorem issued_ticket_opens_once:
  assumes "aead_correct A" "\<not> poisoned st" "oxi_encrypt A st (Some n) p = Some tk" "length n = 12"
    and "seen g (sha tk) = None" "unat t' \<le> unat t + unat (window_secs g)"
  shows "fst (anti_replay_decrypt sha (oxi_decrypt A st) t tk g) = Some p \<and>
    fst (anti_replay_decrypt sha (oxi_decrypt A st') t' tk
      (snd (anti_replay_decrypt sha (oxi_decrypt A st) t tk g))) = None"
proof
  have "oxi_decrypt A st tk = Some p"
    using assms(1-4) by (rule oxi.fresh_ticket_opens)
  moreover have "fst (check_and_record sha t tk g) = Fresh"
    using assms(5) by (simp add: check_Fresh_iff)
  ultimately show first: "fst (anti_replay_decrypt sha (oxi_decrypt A st) t tk g) = Some p"
    by (auto simp: anti_replay_decrypt_def split: prod.splits)
  show "fst (anti_replay_decrypt sha (oxi_decrypt A st') t' tk
      (snd (anti_replay_decrypt sha (oxi_decrypt A st) t tk g))) = None"
    using decrypt_Some_records [OF first] assms(6) by (simp add: decrypt_recorded_None)
qed

theorem issued_ticket_opens_once_witness:
  "fst (anti_replay_decrypt example_sha (oxi_decrypt example_aead example_ticketer) 100 example_ticket
      (anti_replay_new 60)) = Some [5, 6]"
  using issued_ticket_opens_once [OF example_aead_correct(1) _ example_ticket_encrypted,
      of "anti_replay_new 60" example_sha 100 100]
  by (simp add: example_ticketer_def anti_replay_new_def replay_guard_new_def)

end
