(* ===== verification/Server_Builder.thy ===== *)
theory Server_Builder
  imports Client_Builder Anti_Replay
begin

text \<open>
  The builders of server configurations: \<open>ServerBuilder\<close> of the facade (\<open>tls13/server.rs\<close>) and
  \<open>RustcryptoServerConfigBuilder\<close> of the adapter (\<open>server_builder.rs\<close>). A ticketer is named by what it is (an
  \<open>OxiTicketer\<close>, a wrapper with replay protection, an object of the caller); the functions of rustls and of the PEM
  reader are the record \<open>rustls_server_lib\<close>. The state of interest is the pair of ticketer fields, which the
  sources describe as mutually exclusive.
\<close>

section \<open>Data\<close>

datatype ticketer_obj = OxiObj oxi_ticketer | AntiReplayObj ticketer_obj | CustomTicketer nat | NoTicketer

datatype client_verification = NoClientCert | WebPkiClient root_store bool | RawKeyClient "bytes list"

datatype cert_source =
    RawKeyResolver nat
  | SniResolver "(string \<times> nat) list"
  | SingleCert "bytes list" private_key_der "bytes option"

record server_config =
  sc_provider :: crypto_provider
  sc_versions :: "tls_version list"
  sc_client_verification :: client_verification
  sc_cert :: cert_source
  sc_alpn :: "bytes list"
  sc_ticketer :: ticketer_obj
  sc_rotation :: "nat option"
  sc_max_fragment_size :: "nat option"
  sc_max_early_data_size :: u32
  sc_key_log :: "key_log_policy option"
  sc_compression :: bool

record rustls_server_lib =
  client_verifier_ok :: "root_store \<Rightarrow> crypto_provider \<Rightarrow> (unit, string) result"
  single_cert_ok :: "crypto_provider \<Rightarrow> bytes list \<Rightarrow> private_key_der \<Rightarrow> bytes option \<Rightarrow> (unit, string) result"
  sni_add_ok :: "string \<Rightarrow> nat \<Rightarrow> (unit, string) result"
  pem_cert_list :: "bytes \<Rightarrow> (bytes list, string) result"
  pem_private_key :: "bytes \<Rightarrow> (private_key_der option, string) result"

text \<open>What the builder of rustls has before the settings of our builders.\<close>

definition new_server_config ::
    "crypto_provider \<Rightarrow> tls_version list \<Rightarrow> client_verification \<Rightarrow> cert_source \<Rightarrow> server_config" where
  "new_server_config p vs cv cert =
     \<lparr> sc_provider = p, sc_versions = vs, sc_client_verification = cv, sc_cert = cert, sc_alpn = [],
       sc_ticketer = NoTicketer, sc_rotation = None, sc_max_fragment_size = None, sc_max_early_data_size = 0,
       sc_key_log = None, sc_compression = False \<rparr>"

section \<open>The builder of the facade\<close>

text \<open>Certified keys and loggers are named by a number; intervals are in nanoseconds.\<close>

record server_builder =
  sb_certs :: "bytes list option"
  sb_key :: "private_key_der option"
  sb_client_verifier_roots :: "root_store option"
  sb_alpn :: "bytes list"
  sb_sni_map :: "(string \<times> nat) list"
  sb_protocol_versions :: "tls_version list option"
  sb_ticketer :: "ticketer_obj option"
  sb_rotation_ticketer :: "(oxi_ticketer \<times> nat) option"
  sb_ocsp_response :: "bytes option"
  sb_max_fragment_size :: "nat option"
  sb_max_early_data_size :: "u32 option"
  sb_provider :: "crypto_provider option"
  sb_server_rpk :: "nat option"
  sb_client_rpk :: "bytes list option"
  sb_key_log_policy :: "key_log_policy option"
  sb_cert_compression :: bool

definition sb_new :: server_builder where
  "sb_new = \<lparr> sb_certs = None, sb_key = None, sb_client_verifier_roots = None, sb_alpn = [], sb_sni_map = [],
     sb_protocol_versions = None, sb_ticketer = None, sb_rotation_ticketer = None, sb_ocsp_response = None,
     sb_max_fragment_size = None, sb_max_early_data_size = None, sb_provider = None, sb_server_rpk = None,
     sb_client_rpk = None, sb_key_log_policy = None, sb_cert_compression = False \<rparr>"

definition sb_with_pem_cert_and_key ::
    "rustls_server_lib \<Rightarrow> bytes \<Rightarrow> bytes \<Rightarrow> server_builder \<Rightarrow> (server_builder, tls_error) result" where
  "sb_with_pem_cert_and_key T cert_pem key_pem b =
     rbind (rmap_err BadCert (pem_cert_list T cert_pem)) (\<lambda>certs.
     if certs = [] then Err (BadCert ''no certificates found in PEM'')
     else rbind (rmap_err InvalidConfig (pem_private_key T key_pem)) (\<lambda>k.
     rbind (ok_or k (BadCert ''no private key found in PEM'')) (\<lambda>key.
     Ok (b\<lparr> sb_certs := Some certs, sb_key := Some key \<rparr>))))"

definition sb_with_pem_cert_chain_and_key ::
    "rustls_server_lib \<Rightarrow> bytes \<Rightarrow> bytes \<Rightarrow> server_builder \<Rightarrow> (server_builder, tls_error) result" where
  "sb_with_pem_cert_chain_and_key T cert_pem key_pem b = sb_with_pem_cert_and_key T cert_pem key_pem b"

definition sb_with_der_cert_and_key :: "bytes list \<Rightarrow> private_key_der \<Rightarrow> server_builder \<Rightarrow> server_builder" where
  "sb_with_der_cert_and_key chain key b = b\<lparr> sb_certs := Some chain, sb_key := Some key \<rparr>"

definition sb_with_client_cert_verifier :: "root_store \<Rightarrow> server_builder \<Rightarrow> server_builder" where
  "sb_with_client_cert_verifier roots b = b\<lparr> sb_client_verifier_roots := Some roots \<rparr>"

definition sb_with_provider :: "crypto_provider \<Rightarrow> server_builder \<Rightarrow> server_builder" where
  "sb_with_provider p b = b\<lparr> sb_provider := Some p \<rparr>"

definition sb_with_alpn_protocols :: "bytes list \<Rightarrow> server_builder \<Rightarrow> server_builder" where
  "sb_with_alpn_protocols ps b = b\<lparr> sb_alpn := ps \<rparr>"

definition sb_with_sni_cert :: "string \<Rightarrow> nat \<Rightarrow> server_builder \<Rightarrow> server_builder" where
  "sb_with_sni_cert name key b = b\<lparr> sb_sni_map := sb_sni_map b @ [(name, key)] \<rparr>"

definition sb_with_protocol_versions :: "tls_version list \<Rightarrow> server_builder \<Rightarrow> server_builder" where
  "sb_with_protocol_versions vs b = b\<lparr> sb_protocol_versions := Some vs \<rparr>"

definition sb_with_ticketer :: "ticketer_obj \<Rightarrow> server_builder \<Rightarrow> server_builder" where
  "sb_with_ticketer t b = b\<lparr> sb_ticketer := Some t, sb_rotation_ticketer := None \<rparr>"

text \<open>The argument is the randomness for the key of a fresh \<open>OxiTicketer\<close>.\<close>

definition sb_with_anti_replay ::
    "(bytes, string) result \<Rightarrow> server_builder \<Rightarrow> (server_builder, tls_error) result" where
  "sb_with_anti_replay rnd b =
     rbind (case sb_ticketer b of
              Some t \<Rightarrow> Ok t
            | None \<Rightarrow> rbind (oxi_new rnd) (\<lambda>t. Ok (OxiObj t))) (\<lambda>ticketer.
     Ok (b\<lparr> sb_ticketer := Some (AntiReplayObj ticketer) \<rparr>))"

definition sb_with_ocsp_response :: "bytes \<Rightarrow> server_builder \<Rightarrow> server_builder" where
  "sb_with_ocsp_response ocsp_der b = b\<lparr> sb_ocsp_response := Some ocsp_der \<rparr>"

text \<open>The resolver is asked once, when it is set.\<close>

text \<open>\<open>StaticOcspResolver::ocsp_response\<close>.\<close>

definition static_ocsp_response :: "bytes \<Rightarrow> bytes option" where
  "static_ocsp_response response = Some response"

definition sb_with_ocsp_response_resolver :: "bytes option \<Rightarrow> server_builder \<Rightarrow> server_builder" where
  "sb_with_ocsp_response_resolver response b =
     (case response of Some bs \<Rightarrow> b\<lparr> sb_ocsp_response := Some bs \<rparr> | None \<Rightarrow> b)"

definition sb_with_max_fragment_size :: "nat option \<Rightarrow> server_builder \<Rightarrow> server_builder" where
  "sb_with_max_fragment_size n b = b\<lparr> sb_max_fragment_size := n \<rparr>"

definition sb_with_max_early_data_size :: "u32 \<Rightarrow> server_builder \<Rightarrow> server_builder" where
  "sb_with_max_early_data_size n b = b\<lparr> sb_max_early_data_size := Some n \<rparr>"

definition sb_with_server_raw_public_key :: "nat \<Rightarrow> server_builder \<Rightarrow> server_builder" where
  "sb_with_server_raw_public_key k b = b\<lparr> sb_server_rpk := Some k \<rparr>"

definition sb_with_client_raw_public_keys :: "bytes list \<Rightarrow> server_builder \<Rightarrow> server_builder" where
  "sb_with_client_raw_public_keys spki b = b\<lparr> sb_client_rpk := Some spki \<rparr>"

definition sb_with_ticketer_rotation_interval ::
    "(bytes, string) result \<Rightarrow> nat \<Rightarrow> server_builder \<Rightarrow> server_builder" where
  "sb_with_ticketer_rotation_interval rnd interval b =
     (case oxi_new rnd of
        Ok t \<Rightarrow> b\<lparr> sb_rotation_ticketer := Some (t, interval), sb_ticketer := None \<rparr>
      | Err e \<Rightarrow> b)"

definition sb_with_key_log_file :: "string \<Rightarrow> server_builder \<Rightarrow> server_builder" where
  "sb_with_key_log_file path b = b\<lparr> sb_key_log_policy := Some (KlFile path) \<rparr>"

definition sb_with_key_log_custom :: "nat \<Rightarrow> server_builder \<Rightarrow> server_builder" where
  "sb_with_key_log_custom k b = b\<lparr> sb_key_log_policy := Some (KlCustom k) \<rparr>"

definition sb_with_cert_compression :: "server_builder \<Rightarrow> server_builder" where
  "sb_with_cert_compression b = b\<lparr> sb_cert_compression := True \<rparr>"

section \<open>Building\<close>

definition sb_client_verification ::
    "rustls_server_lib \<Rightarrow> crypto_provider \<Rightarrow> server_builder \<Rightarrow> (client_verification, tls_error) result" where
  "sb_client_verification T provider b =
     (case sb_client_rpk b of
        Some spki_list \<Rightarrow> Ok (RawKeyClient spki_list)
      | None \<Rightarrow>
          (case sb_client_verifier_roots b of
             Some roots \<Rightarrow>
               rbind (rmap_err InvalidConfig (client_verifier_ok T roots provider)) (\<lambda>_. Ok (WebPkiClient roots True))
           | None \<Rightarrow> Ok NoClientCert))"

fun add_sni_certs :: "rustls_server_lib \<Rightarrow> (string \<times> nat) list \<Rightarrow> (unit, tls_error) result" where
  "add_sni_certs T [] = Ok ()"
| "add_sni_certs T ((name, ck) # rest) =
     rbind (rmap_err InvalidConfig (sni_add_ok T name ck)) (\<lambda>_. add_sni_certs T rest)"

definition sb_cert_source ::
    "rustls_server_lib \<Rightarrow> crypto_provider \<Rightarrow> server_builder \<Rightarrow> (cert_source, tls_error) result" where
  "sb_cert_source T provider b =
     (case sb_server_rpk b of
        Some k \<Rightarrow> Ok (RawKeyResolver k)
      | None \<Rightarrow>
          if sb_sni_map b \<noteq> [] then rbind (add_sni_certs T (sb_sni_map b)) (\<lambda>_. Ok (SniResolver (sb_sni_map b)))
          else
            rbind (ok_or (sb_certs b) (InvalidConfig ''no certificate configured'')) (\<lambda>certs.
            rbind (ok_or (sb_key b) (InvalidConfig ''no private key configured'')) (\<lambda>key.
            rbind (rmap_err BadCert (single_cert_ok T provider certs key (sb_ocsp_response b))) (\<lambda>_.
            Ok (SingleCert certs key (sb_ocsp_response b))))))"

definition one_second :: nat where
  "one_second = 1000000000"

definition sb_install_ticketer :: "server_builder \<Rightarrow> server_config \<Rightarrow> server_config" where
  "sb_install_ticketer b config =
     (case sb_rotation_ticketer b of
        Some (t, interval) \<Rightarrow>
          let effective_interval = max interval one_second in
          config\<lparr> sc_ticketer := OxiObj t, sc_rotation := Some effective_interval \<rparr>
      | None \<Rightarrow>
          (case sb_ticketer b of
             Some t \<Rightarrow> config\<lparr> sc_ticketer := t \<rparr>
           | None \<Rightarrow> config))"

definition sb_settings :: "server_builder \<Rightarrow> server_config \<Rightarrow> server_config" where
  "sb_settings b config =
     (let config = (case sb_max_fragment_size b of Some n \<Rightarrow> config\<lparr> sc_max_fragment_size := Some n \<rparr> | None \<Rightarrow> config);
          config = (case sb_max_early_data_size b of Some n \<Rightarrow> config\<lparr> sc_max_early_data_size := n \<rparr> | None \<Rightarrow> config);
          config = (case sb_key_log_policy b of Some p \<Rightarrow> config\<lparr> sc_key_log := Some p \<rparr> | None \<Rightarrow> config) in
      if sb_cert_compression b then config\<lparr> sc_compression := True \<rparr> else config)"

definition sb_build ::
    "rustls_lib \<Rightarrow> rustls_server_lib \<Rightarrow> bool \<Rightarrow> server_builder \<Rightarrow> (server_config, tls_error) result" where
  "sb_build S T post_quantum b =
     (let provider = (case sb_provider b of
                        Some p \<Rightarrow> p
                      | None \<Rightarrow> if post_quantum then pure_provider_with_pq S else pure_provider S);
          versions = (case sb_protocol_versions b of Some v \<Rightarrow> v | None \<Rightarrow> [Tls13]) in
      rbind (rmap_err InvalidConfig (versions_ok S provider versions)) (\<lambda>_.
      rbind (sb_client_verification T provider b) (\<lambda>cv.
      rbind (sb_cert_source T provider b) (\<lambda>cert.
      let config = new_server_config provider versions cv cert;
          config = config\<lparr> sc_alpn := sb_alpn b \<rparr> in
      Ok (sb_settings b (sb_install_ticketer b config))))))"

text \<open>One turn of the rotation task, after its tick: \<open>None\<close> when every owner of the ticketer is gone.\<close>

definition rotation_turn :: "bool \<Rightarrow> (bytes, string) result \<Rightarrow> oxi_ticketer \<Rightarrow> oxi_ticketer option" where
  "rotation_turn alive rnd t = (if alive then Some (snd (oxi_rotate rnd t)) else None)"

text \<open>The clone of the server builder copies the key, or loses a key of an unknown kind.\<close>

fun sb_clone_private_key_der :: "private_key_der \<Rightarrow> private_key_der" where
  "sb_clone_private_key_der (Pkcs1 k) = Pkcs1 k"
| "sb_clone_private_key_der (Sec1 k) = Sec1 k"
| "sb_clone_private_key_der (Pkcs8 k) = Pkcs8 k"
| "sb_clone_private_key_der (OtherKeyDer k) = Pkcs8 []"

definition sb_clone :: "server_builder \<Rightarrow> server_builder" where
  "sb_clone b = b\<lparr> sb_key := map_option sb_clone_private_key_der (sb_key b) \<rparr>"

section \<open>The builder of the adapter\<close>

record rustcrypto_server_builder =
  rs_certs :: "bytes list"
  rs_key :: "private_key_der option"
  rs_ocsp_response :: bytes
  rs_client_auth_required :: "bool option"
  rs_client_auth_roots :: "root_store option"
  rs_keylog :: key_log_policy
  rs_alpn :: "bytes list"
  rs_ticketer :: "ticketer_obj option"

definition rs_new :: rustcrypto_server_builder where
  "rs_new = \<lparr> rs_certs = [], rs_key = None, rs_ocsp_response = [], rs_client_auth_required = None,
     rs_client_auth_roots = None, rs_keylog = KlDisabled, rs_alpn = [], rs_ticketer = None \<rparr>"

definition rs_with_cert_and_key :: "bytes list \<Rightarrow> private_key_der \<Rightarrow> rustcrypto_server_builder \<Rightarrow> rustcrypto_server_builder" where
  "rs_with_cert_and_key certs key b = b\<lparr> rs_certs := certs, rs_key := Some key \<rparr>"

definition rs_with_ocsp_response :: "bytes \<Rightarrow> rustcrypto_server_builder \<Rightarrow> rustcrypto_server_builder" where
  "rs_with_ocsp_response der b = b\<lparr> rs_ocsp_response := der \<rparr>"

definition rs_with_client_auth :: "bool \<Rightarrow> root_store \<Rightarrow> rustcrypto_server_builder \<Rightarrow> rustcrypto_server_builder" where
  "rs_with_client_auth required roots b =
     b\<lparr> rs_client_auth_required := Some required, rs_client_auth_roots := Some roots \<rparr>"

definition rs_with_keylog :: "key_log_policy \<Rightarrow> rustcrypto_server_builder \<Rightarrow> rustcrypto_server_builder" where
  "rs_with_keylog policy b = b\<lparr> rs_keylog := policy \<rparr>"

definition rs_with_alpn :: "bytes list \<Rightarrow> rustcrypto_server_builder \<Rightarrow> rustcrypto_server_builder" where
  "rs_with_alpn protos b = b\<lparr> rs_alpn := protos \<rparr>"

definition rs_with_ticketer :: "ticketer_obj \<Rightarrow> rustcrypto_server_builder \<Rightarrow> rustcrypto_server_builder" where
  "rs_with_ticketer t b = b\<lparr> rs_ticketer := Some t \<rparr>"

definition rs_build ::
    "rustls_lib \<Rightarrow> rustls_server_lib \<Rightarrow> rustcrypto_server_builder \<Rightarrow> (server_config, tls_error) result" where
  "rs_build S T b =
     rbind (ok_or (rs_key b) (InvalidConfig ''no private key provided'')) (\<lambda>key.
     let provider = pure_provider S in
     rbind (rmap_err InvalidConfig (versions_ok S provider (default_versions S))) (\<lambda>_.
     rbind (case (rs_client_auth_required b, rs_client_auth_roots b) of
              (Some required, Some roots) \<Rightarrow>
                rbind (rmap_err (\<lambda>e. InvalidConfig (''client verifier: '' @ e)) (client_verifier_ok T roots provider))
                  (\<lambda>_. Ok (WebPkiClient roots required))
            | _ \<Rightarrow> Ok NoClientCert) (\<lambda>cv.
     let ocsp = (if rs_ocsp_response b = [] then None else Some (rs_ocsp_response b)) in
     rbind (rmap_err BadCert (single_cert_ok T provider (rs_certs b) key ocsp)) (\<lambda>_.
     let config = new_server_config provider (default_versions S) cv (SingleCert (rs_certs b) key ocsp);
         config = (if rs_alpn b \<noteq> [] then config\<lparr> sc_alpn := rs_alpn b \<rparr> else config);
         config = (if rs_keylog b \<noteq> KlDisabled then config\<lparr> sc_key_log := Some (rs_keylog b) \<rparr> else config) in
     Ok (case rs_ticketer b of Some t \<Rightarrow> config\<lparr> sc_ticketer := t \<rparr> | None \<Rightarrow> config)))))"

section \<open>The ticketer fields as a state machine\<close>

datatype ticket_op =
    WithTicketer ticketer_obj
  | WithAntiReplay "(bytes, string) result"
  | WithRotation "(bytes, string) result" nat

fun ticket_step :: "ticket_op \<Rightarrow> server_builder \<Rightarrow> (server_builder, tls_error) result" where
  "ticket_step (WithTicketer t) b = Ok (sb_with_ticketer t b)"
| "ticket_step (WithAntiReplay rnd) b = sb_with_anti_replay rnd b"
| "ticket_step (WithRotation rnd n) b = Ok (sb_with_ticketer_rotation_interval rnd n b)"

fun ticket_run :: "ticket_op list \<Rightarrow> server_builder \<Rightarrow> (server_builder, tls_error) result" where
  "ticket_run [] b = Ok b"
| "ticket_run (op # ops) b = rbind (ticket_step op b) (ticket_run ops)"

text \<open>The abstract states: no ticketer, a ticketer, a rotating one, and both fields set.\<close>

datatype ticketer_state = TkNone | TkTicketer | TkRotation | TkBoth

definition ticketer_state_of :: "server_builder \<Rightarrow> ticketer_state" where
  "ticketer_state_of b =
     (case (sb_ticketer b, sb_rotation_ticketer b) of
        (None, None) \<Rightarrow> TkNone | (Some _, None) \<Rightarrow> TkTicketer | (None, Some _) \<Rightarrow> TkRotation | (Some _, Some _) \<Rightarrow> TkBoth)"

fun abstract_step :: "ticket_op \<Rightarrow> ticketer_state \<Rightarrow> ticketer_state" where
  "abstract_step (WithTicketer t) s = TkTicketer"
| "abstract_step (WithRotation (Ok k) n) s = TkRotation"
| "abstract_step (WithRotation (Err e) n) s = s"
| "abstract_step (WithAntiReplay rnd) s = (if s \<in> {TkRotation, TkBoth} then TkBoth else TkTicketer)"

lemma oxi_new_Ok_iff: "(\<exists>t. oxi_new rnd = Ok t) \<longleftrightarrow> is_ok rnd"
  by (cases rnd) (auto simp: oxi_new_def oxi_new_with_lifetime_def)

lemma ticket_step_abstract:
  assumes "ticket_step op b = Ok b'"
  shows "ticketer_state_of b' = abstract_step op (ticketer_state_of b)"
proof (cases op)
  case (WithTicketer t)
  with assms show ?thesis by (auto simp: ticketer_state_of_def sb_with_ticketer_def)
next
  case (WithAntiReplay rnd)
  with assms obtain t where "b' = b\<lparr> sb_ticketer := Some (AntiReplayObj t) \<rparr>"
    by (auto simp: sb_with_anti_replay_def result_simps)
  with WithAntiReplay show ?thesis by (auto simp: ticketer_state_of_def split: option.splits)
next
  case (WithRotation rnd n)
  with assms show ?thesis
    by (cases rnd) (auto simp: ticketer_state_of_def sb_with_ticketer_rotation_interval_def oxi_new_def
        oxi_new_with_lifetime_def)
qed

lemma ticket_run_abstract:
  "ticket_run ops b = Ok b' \<Longrightarrow> ticketer_state_of b' = fold abstract_step ops (ticketer_state_of b)"
  by (induction ops arbitrary: b) (auto simp: result_simps dest: ticket_step_abstract)

lemma fold_abstract_both:
  assumes "s \<noteq> TkBoth"
  shows "fold abstract_step ops s = TkBoth \<Longrightarrow> \<exists>xs rnd ys. ops = xs @ WithAntiReplay rnd # ys \<and> fold abstract_step xs s = TkRotation"
proof (induction ops rule: rev_induct)
  case Nil
  with assms show ?case by simp
next
  case (snoc op ops)
  show ?case
  proof (cases "fold abstract_step ops s = TkBoth")
    case True
    with snoc.IH obtain xs rnd ys where "ops = xs @ WithAntiReplay rnd # ys" "fold abstract_step xs s = TkRotation"
      by blast
    then show ?thesis by force
  next
    case False
    with snoc.prems obtain rnd where "op = WithAntiReplay rnd" "fold abstract_step ops s = TkRotation"
      by (cases "(op, fold abstract_step ops s)" rule: abstract_step.cases) (auto split: if_splits)
    then show ?thesis by blast
  qed
qed

lemma sb_settings_keeps [simp]:
  "sc_ticketer (sb_settings b c) = sc_ticketer c" "sc_rotation (sb_settings b c) = sc_rotation c"
  "sc_cert (sb_settings b c) = sc_cert c" "sc_client_verification (sb_settings b c) = sc_client_verification c"
  "sc_versions (sb_settings b c) = sc_versions c" "sc_provider (sb_settings b c) = sc_provider c"
  by (simp_all add: sb_settings_def Let_def split: option.split)

lemma sb_install_ticketer_fields [simp]:
  "sc_ticketer (sb_install_ticketer b c) = (case sb_rotation_ticketer b of Some (t, n) \<Rightarrow> OxiObj t
     | None \<Rightarrow> (case sb_ticketer b of Some t \<Rightarrow> t | None \<Rightarrow> sc_ticketer c))"
  "sc_rotation (sb_install_ticketer b c) =
     (case sb_rotation_ticketer b of Some (t, n) \<Rightarrow> Some (max n one_second) | None \<Rightarrow> sc_rotation c)"
  "sc_cert (sb_install_ticketer b c) = sc_cert c" "sc_client_verification (sb_install_ticketer b c) = sc_client_verification c"
  "sc_versions (sb_install_ticketer b c) = sc_versions c" "sc_provider (sb_install_ticketer b c) = sc_provider c"
  by (simp_all add: sb_install_ticketer_def split: option.split)

lemma sb_build_Ok:
  assumes "sb_build S T pq b = Ok cfg"
  shows "sc_ticketer cfg = (case sb_rotation_ticketer b of Some (t, n) \<Rightarrow> OxiObj t
           | None \<Rightarrow> (case sb_ticketer b of Some t \<Rightarrow> t | None \<Rightarrow> NoTicketer))"
    and "sc_rotation cfg = (case sb_rotation_ticketer b of Some (t, n) \<Rightarrow> Some (max n one_second) | None \<Rightarrow> None)"
    and "sb_cert_source T (sc_provider cfg) b = Ok (sc_cert cfg)"
    and "sb_client_verification T (sc_provider cfg) b = Ok (sc_client_verification cfg)"
    and "sc_versions cfg = (case sb_protocol_versions b of Some v \<Rightarrow> v | None \<Rightarrow> [Tls13])"
  using assms by (auto simp: sb_build_def result_simps Let_def new_server_config_def cong: option.case_cong)

lemma ocsp_response_irrelevant:
  "sb_settings (sb_with_ocsp_response der b) = sb_settings b"
  "sb_install_ticketer (sb_with_ocsp_response der b) = sb_install_ticketer b"
  "sb_client_verification T p (sb_with_ocsp_response der b) = sb_client_verification T p b"
  "sb_provider (sb_with_ocsp_response der b) = sb_provider b"
  "sb_protocol_versions (sb_with_ocsp_response der b) = sb_protocol_versions b"
  "sb_alpn (sb_with_ocsp_response der b) = sb_alpn b"
  by (simp_all add: sb_with_ocsp_response_def sb_settings_def sb_install_ticketer_def sb_client_verification_def fun_eq_iff split: option.split)

section \<open>Properties\<close>

text \<open>The builder methods for tickets refine a machine of four states. From a fresh builder, the two ticketer
  fields are both set exactly when replay protection was requested while a rotating ticketer was pending, and no
  later call replaced the pair.\<close>

theorem server_ticketer_machine:
  assumes "ticket_run ops sb_new = Ok b"
  shows "ticketer_state_of b = fold abstract_step ops TkNone \<and>
     (sb_ticketer b \<noteq> None \<and> sb_rotation_ticketer b \<noteq> None \<longrightarrow>
        (\<exists>xs rnd ys. ops = xs @ WithAntiReplay rnd # ys \<and> fold abstract_step xs TkNone = TkRotation))"
proof -
  have run: "ticketer_state_of b = fold abstract_step ops TkNone"
    using ticket_run_abstract [OF assms] by (simp add: ticketer_state_of_def sb_new_def)
  moreover have "fold abstract_step ops TkNone = TkBoth" if "sb_ticketer b \<noteq> None" "sb_rotation_ticketer b \<noteq> None"
    using that run by (auto simp: ticketer_state_of_def split: option.splits)
  ultimately show ?thesis using fold_abstract_both [of TkNone ops] by auto
qed

text \<open>C9: Requesting replay protection installs it in the built configuration exactly when no rotating ticketer was
  pending on the builder; otherwise the configuration gets the plain rotating ticketer.\<close>

theorem anti_replay_installed_iff:
  assumes "sb_with_anti_replay rnd b = Ok b'" "sb_build S T pq b' = Ok cfg"
  shows "((\<exists>t. sc_ticketer cfg = AntiReplayObj t) \<longleftrightarrow> sb_rotation_ticketer b = None) \<and>
     (sb_rotation_ticketer b \<noteq> None \<longrightarrow> (\<exists>t. sc_ticketer cfg = OxiObj t))"
proof -
  from assms(1) obtain t where "b' = b\<lparr> sb_ticketer := Some (AntiReplayObj t) \<rparr>"
    by (auto simp: sb_with_anti_replay_def result_simps)
  with sb_build_Ok(1) [OF assms(2)] show ?thesis by (auto split: option.splits)
qed

text \<open>An OCSP response set on the builder reaches a single certificate; with certificates by server name, or a raw
  public key, it is dropped: the configuration is the one built without it.\<close>

theorem server_ocsp_staple:
  assumes "sb_build S T pq (sb_with_ocsp_response der b) = Ok cfg"
  shows "case sc_cert cfg of
      SingleCert chain key ocsp \<Rightarrow> ocsp = Some der
    | _ \<Rightarrow> sb_build S T pq b = Ok cfg"
proof -
  let ?b = "sb_with_ocsp_response der b"
  have src: "sb_cert_source T p ?b = sb_cert_source T p b" if "sb_server_rpk b \<noteq> None \<or> sb_sni_map b \<noteq> []" for p
    using that by (auto simp: sb_cert_source_def sb_with_ocsp_response_def split: option.splits)
  have "sb_build S T pq ?b = sb_build S T pq b" if "sb_server_rpk b \<noteq> None \<or> sb_sni_map b \<noteq> []"
    using src [OF that] by (simp add: sb_build_def ocsp_response_irrelevant)
  with assms sb_build_Ok(3) [OF assms] show ?thesis
    by (auto simp: sb_cert_source_def sb_with_ocsp_response_def result_simps split: cert_source.splits option.splits if_splits)
qed

text \<open>What a built server configuration has of the builder: TLS 1.3 alone unless versions were set; client
  authentication by raw keys if given, else mandatory web-PKI authentication against the given roots, else none; a
  raw public key before certificates by name before the single certificate; and a rotation interval of at least one
  second.\<close>

theorem server_build_settings:
  assumes "sb_build S T pq b = Ok cfg"
  shows "sc_versions cfg = (case sb_protocol_versions b of Some v \<Rightarrow> v | None \<Rightarrow> [Tls13]) \<and>
     sc_client_verification cfg =
       (case sb_client_rpk b of Some spki \<Rightarrow> RawKeyClient spki
        | None \<Rightarrow> (case sb_client_verifier_roots b of Some roots \<Rightarrow> WebPkiClient roots True | None \<Rightarrow> NoClientCert)) \<and>
     (case sb_server_rpk b of
        Some k \<Rightarrow> sc_cert cfg = RawKeyResolver k
      | None \<Rightarrow>
          if sb_sni_map b \<noteq> [] then sc_cert cfg = SniResolver (sb_sni_map b)
          else \<exists>chain key. sb_certs b = Some chain \<and> sb_key b = Some key \<and> sc_cert cfg = SingleCert chain key (sb_ocsp_response b)) \<and>
     (case sc_rotation cfg of Some n \<Rightarrow> one_second \<le> n | None \<Rightarrow> sb_rotation_ticketer b = None)"
proof -
  note built = sb_build_Ok [OF assms]
  have "sc_client_verification cfg =
       (case sb_client_rpk b of Some spki \<Rightarrow> RawKeyClient spki
        | None \<Rightarrow> (case sb_client_verifier_roots b of Some roots \<Rightarrow> WebPkiClient roots True | None \<Rightarrow> NoClientCert))"
    using built(4) by (auto simp: sb_client_verification_def result_simps split: option.splits)
  moreover have "case sb_server_rpk b of
        Some k \<Rightarrow> sc_cert cfg = RawKeyResolver k
      | None \<Rightarrow>
          if sb_sni_map b \<noteq> [] then sc_cert cfg = SniResolver (sb_sni_map b)
          else \<exists>chain key. sb_certs b = Some chain \<and> sb_key b = Some key \<and> sc_cert cfg = SingleCert chain key (sb_ocsp_response b)"
    using built(3) by (auto simp: sb_cert_source_def result_simps split: option.splits if_splits)
  ultimately show ?thesis using built(2,5) by (auto split: option.splits)
qed

section \<open>Witnesses\<close>

definition example_server_lib :: rustls_server_lib where
  "example_server_lib = \<lparr> client_verifier_ok = (\<lambda>_ _. Ok ()), single_cert_ok = (\<lambda>_ _ _ _. Ok ()), sni_add_ok = (\<lambda>_ _. Ok ()),
     pem_cert_list = (\<lambda>p. Ok [p]), pem_private_key = (\<lambda>p. Ok (Some (Pkcs8 p))) \<rparr>"

definition example_server :: server_builder where
  "example_server = sb_with_ticketer_rotation_interval (Ok [7]) 5 (sb_with_der_cert_and_key [[1]] (Pkcs8 [2]) sb_new)"

lemmas example_server_defs =
  example_server_def sb_with_ticketer_rotation_interval_def sb_with_der_cert_and_key_def sb_new_def oxi_new_def
  oxi_new_with_lifetime_def

lemma example_server_builds:
  assumes "sb_sni_map b = []" "sb_server_rpk b = None" "sb_certs b = Some chain" "sb_key b = Some key"
  shows "\<exists>cfg. sb_build example_rustls example_server_lib False b = Ok cfg"
  using assms
  by (auto simp: sb_build_def example_rustls_def example_server_lib_def sb_client_verification_def sb_cert_source_def
      Let_def split: option.split)

theorem server_ticketer_machine_witness:
  "\<exists>b. ticket_run [WithRotation (Ok [7]) 5, WithAntiReplay (Ok [8])] sb_new = Ok b \<and> ticketer_state_of b = TkBoth"
proof -
  obtain b where b: "ticket_run [WithRotation (Ok [7]) 5, WithAntiReplay (Ok [8])] sb_new = Ok b"
    by (simp add: sb_with_anti_replay_def example_server_defs)
  with server_ticketer_machine [OF b] show ?thesis by simp
qed

theorem anti_replay_installed_iff_witness:
  "\<exists>b cfg. sb_with_anti_replay (Ok [8]) example_server = Ok b \<and>
     sb_build example_rustls example_server_lib False b = Ok cfg \<and> (\<nexists>t. sc_ticketer cfg = AntiReplayObj t)"
proof -
  obtain b where b: "sb_with_anti_replay (Ok [8]) example_server = Ok b"
      "sb_sni_map b = []" "sb_server_rpk b = None" "sb_certs b = Some [[1]]" "sb_key b = Some (Pkcs8 [2])"
    by (simp add: sb_with_anti_replay_def example_server_defs)
  then obtain cfg where c: "sb_build example_rustls example_server_lib False b = Ok cfg"
    using example_server_builds by blast
  moreover have "sb_rotation_ticketer example_server \<noteq> None" by (simp add: example_server_defs)
  ultimately have "\<nexists>t. sc_ticketer cfg = AntiReplayObj t" using anti_replay_installed_iff [OF b(1) c] by simp
  with b(1) c show ?thesis by blast
qed

theorem server_ocsp_staple_witness:
  "\<exists>cfg. sb_build example_rustls example_server_lib False (sb_with_ocsp_response [3] example_server) = Ok cfg \<and>
     (\<forall>chain key ocsp. sc_cert cfg = SingleCert chain key ocsp \<longrightarrow> ocsp = Some [3])"
proof -
  obtain cfg where c: "sb_build example_rustls example_server_lib False (sb_with_ocsp_response [3] example_server) = Ok cfg"
    using example_server_builds [of "sb_with_ocsp_response [3] example_server"]
    by (auto simp: sb_with_ocsp_response_def example_server_defs)
  with server_ocsp_staple [OF c] show ?thesis by auto
qed

theorem server_build_settings_witness:
  "\<exists>cfg. sb_build example_rustls example_server_lib False example_server = Ok cfg \<and>
     sc_versions cfg = [Tls13] \<and> sc_client_verification cfg = NoClientCert"
proof -
  obtain cfg where c: "sb_build example_rustls example_server_lib False example_server = Ok cfg"
    using example_server_builds [of example_server] by (auto simp: example_server_defs)
  with server_build_settings [OF c] show ?thesis by (auto simp: example_server_defs)
qed

end
