(* ===== verification/Record_Layer.thy ===== *)
theory Record_Layer
  imports Verifier
begin

text \<open>
  The record protection of \<open>oxitls-rustcrypto-provider\<close> (\<open>aead/gcm.rs\<close>, \<open>aead/chacha20.rs\<close>): the TLS 1.3 and
  TLS 1.2 encrypters and decrypters for AES-GCM (a macro in the source, here a definition over the cipher) and
  ChaCha20-Poly1305. The ciphers (crates aes-gcm, chacha20poly1305, aead) are the record \<open>rc_aead\<close>; the nonces, the
  associated data and the removal of TLS 1.3 padding are functions of rustls, the record \<open>rustls_cipher\<close>. The locale
  \<open>record_cipher\<close> is the contract of an encrypter with its decrypter, interpreted for the four pairs; \<open>Traffic_Keys\<close> has the constructors.
\<close>

section \<open>The crates\<close>

text \<open>The methods of \<open>AeadInPlace\<close> for a key: on a buffer, and with the tag apart.\<close>

record rc_aead =
  encrypt_in_place :: "bytes \<Rightarrow> bytes \<Rightarrow> bytes \<Rightarrow> bytes \<Rightarrow> bytes option"
  decrypt_in_place :: "bytes \<Rightarrow> bytes \<Rightarrow> bytes \<Rightarrow> bytes \<Rightarrow> bytes option"
  encrypt_detached :: "bytes \<Rightarrow> bytes \<Rightarrow> bytes \<Rightarrow> bytes \<Rightarrow> (bytes \<times> bytes) option"
  decrypt_detached :: "bytes \<Rightarrow> bytes \<Rightarrow> bytes \<Rightarrow> bytes \<Rightarrow> bytes \<Rightarrow> bytes option"

text \<open>Their documentation: encryption in place extends the buffer by a tag of 16 bytes, decryption in place inverts
  it and truncates the buffer to the plaintext; the detached versions keep the length and hand the tag over.\<close>

definition rc_aead_ok :: "rc_aead \<Rightarrow> bool" where
  "rc_aead_ok A \<longleftrightarrow>
     (\<forall>k n a p c. encrypt_in_place A k n a p = Some c \<longrightarrow> length c = length p + 16 \<and> decrypt_in_place A k n a c = Some p) \<and>
     (\<forall>k n a c p. decrypt_in_place A k n a c = Some p \<longrightarrow> length c = length p + 16) \<and>
     (\<forall>k n a p c t. encrypt_detached A k n a p = Some (c, t) \<longrightarrow>
        length c = length p \<and> length t = 16 \<and> decrypt_detached A k n a c t = Some p)"

text \<open>Messages of the record layer, and the functions of rustls. \<open>unpad\<close> is \<open>into_tls13_unpadded_message\<close>.\<close>

record tls_message =
  msg_typ :: byte
  msg_version :: u16
  msg_payload :: bytes

record rustls_cipher =
  nonce_new :: "bytes \<Rightarrow> u64 \<Rightarrow> bytes"
  make_tls13_aad :: "nat \<Rightarrow> bytes"
  make_tls12_aad :: "u64 \<Rightarrow> byte \<Rightarrow> u16 \<Rightarrow> nat \<Rightarrow> bytes"
  unpad :: "tls_message \<Rightarrow> (tls_message, rustls_error) result"

text \<open>The nonce is the 12-byte IV with the sequence number in its last eight bytes; removing the padding of an inner
  plaintext gives the content and its type, which is not zero.\<close>

definition rustls_cipher_ok :: "rustls_cipher \<Rightarrow> bool" where
  "rustls_cipher_ok C \<longleftrightarrow>
     (\<forall>iv seq. length iv = 12 \<longrightarrow> length (nonce_new C iv seq) = 12 \<and> take 4 (nonce_new C iv seq) = take 4 iv) \<and>
     (\<forall>m p t. msg_payload m = p @ [t] \<longrightarrow> t \<noteq> 0 \<longrightarrow> length p \<le> 2 ^ 14 \<longrightarrow>
        unpad C m = Ok (m\<lparr> msg_typ := t, msg_payload := p \<rparr>))"

definition EncryptError :: rustls_error where "EncryptError = OtherRustlsError ''EncryptError''"
definition DecryptError :: rustls_error where "DecryptError = OtherRustlsError ''DecryptError''"

text \<open>\<open>ContentType::ApplicationData\<close> and \<open>ProtocolVersion::TLSv1_2\<close> on the wire.\<close>

definition application_data :: byte where "application_data = 23"
definition tls12_version :: u16 where "tls12_version = 0x0303"

section \<open>TLS 1.3\<close>

definition gcm_tls13_payload_len :: "nat \<Rightarrow> nat" where
  "gcm_tls13_payload_len payload_len = payload_len + 1 + 16"

definition gcm_tls13_encrypt ::
    "rc_aead \<Rightarrow> rustls_cipher \<Rightarrow> bytes \<Rightarrow> bytes \<Rightarrow> tls_message \<Rightarrow> u64 \<Rightarrow> (tls_message, rustls_error) result" where
  "gcm_tls13_encrypt A C key iv m seq =
     (let total_len = gcm_tls13_payload_len (length (msg_payload m));
          nonce = nonce_new C iv seq;
          aad = make_tls13_aad C total_len;
          payload = msg_payload m @ [msg_typ m] in
      rbind (ok_or (encrypt_in_place A key nonce aad payload) EncryptError) (\<lambda>payload.
      Ok \<lparr> msg_typ = application_data, msg_version = tls12_version, msg_payload = payload \<rparr>))"

definition gcm_tls13_decrypt ::
    "rc_aead \<Rightarrow> rustls_cipher \<Rightarrow> bytes \<Rightarrow> bytes \<Rightarrow> tls_message \<Rightarrow> u64 \<Rightarrow> (tls_message, rustls_error) result" where
  "gcm_tls13_decrypt A C key iv m seq =
     (let nonce = nonce_new C iv seq;
          aad = make_tls13_aad C (length (msg_payload m)) in
      rbind (ok_or (decrypt_in_place A key nonce aad (msg_payload m)) DecryptError) (\<lambda>payload.
      unpad C (m\<lparr> msg_payload := payload \<rparr>)))"

definition CHACHAPOLY1305_OVERHEAD :: nat where "CHACHAPOLY1305_OVERHEAD = 16"

definition chacha_tls13_payload_len :: "nat \<Rightarrow> nat" where
  "chacha_tls13_payload_len payload_len = payload_len + 1 + CHACHAPOLY1305_OVERHEAD"

definition chacha_tls13_encrypt ::
    "rc_aead \<Rightarrow> rustls_cipher \<Rightarrow> bytes \<Rightarrow> bytes \<Rightarrow> tls_message \<Rightarrow> u64 \<Rightarrow> (tls_message, rustls_error) result" where
  "chacha_tls13_encrypt A C key iv m seq =
     (let total_len = chacha_tls13_payload_len (length (msg_payload m));
          payload = msg_payload m @ [msg_typ m];
          nonce = nonce_new C iv seq;
          aad = make_tls13_aad C total_len in
      rbind (ok_or (encrypt_in_place A key nonce aad payload) EncryptError) (\<lambda>payload.
      Ok \<lparr> msg_typ = application_data, msg_version = tls12_version, msg_payload = payload \<rparr>))"

definition chacha_tls13_decrypt ::
    "rc_aead \<Rightarrow> rustls_cipher \<Rightarrow> bytes \<Rightarrow> bytes \<Rightarrow> tls_message \<Rightarrow> u64 \<Rightarrow> (tls_message, rustls_error) result" where
  "chacha_tls13_decrypt A C key iv m seq =
     (let nonce = nonce_new C iv seq;
          aad = make_tls13_aad C (length (msg_payload m)) in
      rbind (ok_or (decrypt_in_place A key nonce aad (msg_payload m)) DecryptError) (\<lambda>payload.
      unpad C (m\<lparr> msg_payload := payload \<rparr>)))"

section \<open>TLS 1.2\<close>

definition TLS12_GCM_EXPLICIT_NONCE_LEN :: nat where "TLS12_GCM_EXPLICIT_NONCE_LEN = 8"
definition TLS12_GCM_OVERHEAD :: nat where "TLS12_GCM_OVERHEAD = TLS12_GCM_EXPLICIT_NONCE_LEN + 16"

text \<open>The IV an encrypter is built with, from the fixed and the explicit part of the key block, and the fixed IV of a
  decrypter. \<open>copy_from_slice\<close> and \<open>try_into().unwrap()\<close> panic (\<open>None\<close>) on a part of another length; the lengths
  rustls hands over are those of \<open>key_block_shape\<close>.\<close>

record key_block_shape =
  enc_key_len :: nat
  fixed_iv_len :: nat
  explicit_nonce_len :: nat

definition gcm_key_block_shape :: "nat \<Rightarrow> key_block_shape" where
  "gcm_key_block_shape key_size = \<lparr> enc_key_len = key_size, fixed_iv_len = 4, explicit_nonce_len = 8 \<rparr>"

definition gcm_tls12_encrypter_iv :: "bytes \<Rightarrow> bytes \<Rightarrow> bytes option" where
  "gcm_tls12_encrypter_iv write_iv explicit =
     (if length write_iv = 4 \<and> length explicit = 8 then Some (write_iv @ explicit) else None)"

definition gcm_tls12_decrypter_iv :: "bytes \<Rightarrow> bytes option" where
  "gcm_tls12_decrypter_iv dec_iv = (if length dec_iv = 4 then Some dec_iv else None)"

definition gcm_tls12_payload_len :: "nat \<Rightarrow> nat" where
  "gcm_tls12_payload_len payload_len = payload_len + TLS12_GCM_EXPLICIT_NONCE_LEN + 16"

definition gcm_tls12_encrypt ::
    "rc_aead \<Rightarrow> rustls_cipher \<Rightarrow> bytes \<Rightarrow> bytes \<Rightarrow> tls_message \<Rightarrow> u64 \<Rightarrow> (tls_message, rustls_error) result" where
  "gcm_tls12_encrypt A C key iv m seq =
     (let nonce = nonce_new C iv seq;
          aad = make_tls12_aad C seq (msg_typ m) (msg_version m) (length (msg_payload m));
          payload = drop 4 nonce @ msg_payload m in
      rbind (ok_or (encrypt_detached A key nonce aad (drop TLS12_GCM_EXPLICIT_NONCE_LEN payload)) EncryptError) (\<lambda>(ct, tag).
      let payload = take TLS12_GCM_EXPLICIT_NONCE_LEN payload @ ct @ tag in
      Ok \<lparr> msg_typ = msg_typ m, msg_version = msg_version m, msg_payload = payload \<rparr>))"

text \<open>\<open>rotate_left\<close> is \<open>rotate\<close>.\<close>

definition gcm_tls12_decrypt ::
    "rc_aead \<Rightarrow> rustls_cipher \<Rightarrow> bytes \<Rightarrow> bytes \<Rightarrow> tls_message \<Rightarrow> u64 \<Rightarrow> (tls_message, rustls_error) result" where
  "gcm_tls12_decrypt A C key dec_iv m seq =
     (let payload = msg_payload m in
      if length payload < TLS12_GCM_OVERHEAD then Err DecryptError
      else
      let nonce = dec_iv @ take TLS12_GCM_EXPLICIT_NONCE_LEN payload;
          aad = make_tls12_aad C seq (msg_typ m) (msg_version m) (length payload - TLS12_GCM_OVERHEAD);
          body = drop TLS12_GCM_EXPLICIT_NONCE_LEN payload;
          tag_pos = length body - 16 in
      rbind (ok_or (decrypt_detached A key nonce aad (take tag_pos body) (drop tag_pos body)) DecryptError) (\<lambda>msg.
      let payload = take TLS12_GCM_EXPLICIT_NONCE_LEN payload @ msg @ drop tag_pos body;
          payload = rotate TLS12_GCM_EXPLICIT_NONCE_LEN payload in
      Ok (m\<lparr> msg_payload := take tag_pos payload \<rparr>)))"

definition chacha_key_block_shape :: key_block_shape where
  "chacha_key_block_shape = \<lparr> enc_key_len = 32, fixed_iv_len = 12, explicit_nonce_len = 0 \<rparr>"

definition chacha_tls12_payload_len :: "nat \<Rightarrow> nat" where
  "chacha_tls12_payload_len payload_len = payload_len + CHACHAPOLY1305_OVERHEAD"

definition chacha_tls12_encrypt ::
    "rc_aead \<Rightarrow> rustls_cipher \<Rightarrow> bytes \<Rightarrow> bytes \<Rightarrow> tls_message \<Rightarrow> u64 \<Rightarrow> (tls_message, rustls_error) result" where
  "chacha_tls12_encrypt A C key iv m seq =
     (let payload = msg_payload m;
          nonce = nonce_new C iv seq;
          aad = make_tls12_aad C seq (msg_typ m) (msg_version m) (length (msg_payload m)) in
      rbind (ok_or (encrypt_in_place A key nonce aad payload) EncryptError) (\<lambda>payload.
      Ok \<lparr> msg_typ = msg_typ m, msg_version = msg_version m, msg_payload = payload \<rparr>))"

text \<open>A subtraction of \<open>usize\<close>: with overflow checks it panics (\<open>None\<close>), without them it wraps.\<close>

definition usize_sub :: "bool \<Rightarrow> nat \<Rightarrow> nat \<Rightarrow> nat option" where
  "usize_sub checks a b = (if b \<le> a then Some (a - b) else if checks then None else Some (a + 2 ^ 64 - b))"

definition chacha_tls12_decrypt ::
    "bool \<Rightarrow> rc_aead \<Rightarrow> rustls_cipher \<Rightarrow> bytes \<Rightarrow> bytes \<Rightarrow> tls_message \<Rightarrow> u64 \<Rightarrow> (tls_message, rustls_error) result option" where
  "chacha_tls12_decrypt checks A C key iv m seq =
     (case usize_sub checks (length (msg_payload m)) CHACHAPOLY1305_OVERHEAD of
        None \<Rightarrow> None
      | Some len \<Rightarrow>
          let nonce = nonce_new C iv seq;
              aad = make_tls12_aad C seq (msg_typ m) (msg_version m) len in
          Some (rbind (ok_or (decrypt_in_place A key nonce aad (msg_payload m)) DecryptError) (\<lambda>payload.
                Ok (m\<lparr> msg_payload := payload \<rparr>))))"

section \<open>Extracted keys\<close>

datatype traffic_secrets = Aes128GcmSecrets bytes bytes | Aes256GcmSecrets bytes bytes | Chacha20Poly1305Secrets bytes bytes

text \<open>The macros are used for AES-128 and AES-256; the variant does not depend on which. The TLS 1.2 versions turn the
  fixed IV of the key block into an array of 12 bytes and panic (\<open>None\<close>) when it has another length.\<close>

definition gcm_tls13_extract_keys :: "bytes \<Rightarrow> bytes \<Rightarrow> traffic_secrets" where
  "gcm_tls13_extract_keys key iv = Aes256GcmSecrets key iv"

definition gcm_tls12_extract_keys :: "bytes \<Rightarrow> bytes \<Rightarrow> bytes \<Rightarrow> traffic_secrets option" where
  "gcm_tls12_extract_keys key iv explicit = (if length iv = 12 then Some (Aes128GcmSecrets key iv) else None)"

definition chacha_tls13_extract_keys :: "bytes \<Rightarrow> bytes \<Rightarrow> traffic_secrets" where
  "chacha_tls13_extract_keys key iv = Chacha20Poly1305Secrets key iv"

definition chacha_tls12_extract_keys :: "bytes \<Rightarrow> bytes \<Rightarrow> bytes \<Rightarrow> traffic_secrets option" where
  "chacha_tls12_extract_keys key iv explicit = (if length iv = 12 then Some (Chacha20Poly1305Secrets key iv) else None)"

section \<open>The contract\<close>

text \<open>An encrypter with IV \<open>ei\<close> and a decrypter with IV \<open>di\<close> belong together when \<open>ivs ei di\<close>; \<open>okm\<close> says which
  messages the pair carries. A decrypter that panics returns \<open>None\<close>. \<open>channel\<close> sends a list of messages, numbered
  from \<open>seq\<close> on, through both.\<close>

type_synonym encrypter = "rc_aead \<Rightarrow> rustls_cipher \<Rightarrow> bytes \<Rightarrow> bytes \<Rightarrow> tls_message \<Rightarrow> u64 \<Rightarrow> (tls_message, rustls_error) result"
type_synonym decrypter = "rc_aead \<Rightarrow> rustls_cipher \<Rightarrow> bytes \<Rightarrow> bytes \<Rightarrow> tls_message \<Rightarrow> u64 \<Rightarrow> (tls_message, rustls_error) result option"

fun protect_all :: "(tls_message \<Rightarrow> u64 \<Rightarrow> (tls_message, rustls_error) result) \<Rightarrow> u64 \<Rightarrow> tls_message list
    \<Rightarrow> (tls_message list, rustls_error) result" where
  "protect_all e seq [] = Ok []"
| "protect_all e seq (m # ms) = rbind (e m seq) (\<lambda>c. rbind (protect_all e (seq + 1) ms) (\<lambda>cs. Ok (c # cs)))"

fun unprotect_all :: "(tls_message \<Rightarrow> u64 \<Rightarrow> (tls_message, rustls_error) result option) \<Rightarrow> u64 \<Rightarrow> tls_message list
    \<Rightarrow> (tls_message list, rustls_error) result option" where
  "unprotect_all d seq [] = Some (Ok [])"
| "unprotect_all d seq (c # cs) =
     (case d c seq of
        None \<Rightarrow> None
      | Some (Err x) \<Rightarrow> Some (Err x)
      | Some (Ok m) \<Rightarrow> map_option (\<lambda>r. rbind r (\<lambda>ms. Ok (m # ms))) (unprotect_all d (seq + 1) cs))"

locale record_cipher =
  fixes enc :: encrypter and dec :: decrypter
    and payload_len :: "nat \<Rightarrow> nat" and ivs :: "bytes \<Rightarrow> bytes \<Rightarrow> bool" and okm :: "tls_message \<Rightarrow> bool"
  assumes enc_dec: "rc_aead_ok A \<Longrightarrow> rustls_cipher_ok C \<Longrightarrow> ivs ei di \<Longrightarrow> okm m \<Longrightarrow> enc A C key ei m seq = Ok e \<Longrightarrow>
            dec A C key di e seq = Some (Ok m)"
    and enc_len: "rc_aead_ok A \<Longrightarrow> rustls_cipher_ok C \<Longrightarrow> ivs ei di \<Longrightarrow> enc A C key ei m seq = Ok e \<Longrightarrow>
            length (msg_payload e) = payload_len (length (msg_payload m))"
begin

lemma channel:
  assumes "rc_aead_ok A" "rustls_cipher_ok C" "ivs ei di"
  shows "(\<forall>m \<in> set ms. okm m) \<Longrightarrow> protect_all (enc A C key ei) seq ms = Ok cs \<Longrightarrow>
     unprotect_all (dec A C key di) seq cs = Some (Ok ms) \<and>
     map (length \<circ> msg_payload) cs = map (payload_len \<circ> length \<circ> msg_payload) ms"
proof (induction ms arbitrary: seq cs)
  case Nil
  then show ?case by simp
next
  case (Cons m ms)
  from Cons.prems(2) obtain c ds where e: "enc A C key ei m seq = Ok c"
    and ds: "protect_all (enc A C key ei) (seq + 1) ms = Ok ds" and cs: "cs = c # ds"
    by (auto simp: result_simps)
  from Cons.IH [OF _ ds] Cons.prems(1) enc_dec [OF assms _ e] enc_len [OF assms e] cs
  show ?case by simp
qed

end

definition same_iv :: "bytes \<Rightarrow> bytes \<Rightarrow> bool" where
  "same_iv a b \<longleftrightarrow> a = b \<and> length a = 12"

definition fixed_part :: "bytes \<Rightarrow> bytes \<Rightarrow> bool" where
  "fixed_part a b \<longleftrightarrow> length a = 12 \<and> b = take 4 a"

text \<open>In TLS 1.3 the outer header is fixed: a message of protocol version 1.2 on the wire, with a content type
  other than zero and at most 16384 bytes.\<close>

definition tls13_message :: "tls_message \<Rightarrow> bool" where
  "tls13_message m \<longleftrightarrow> msg_typ m \<noteq> 0 \<and> msg_version m = tls12_version \<and> length (msg_payload m) \<le> 2 ^ 14"

lemma rc_aead_laws:
  assumes "rc_aead_ok A"
  shows "encrypt_in_place A k n a p = Some c \<Longrightarrow> length c = length p + 16"
    and "encrypt_in_place A k n a p = Some c \<Longrightarrow> decrypt_in_place A k n a c = Some p"
    and "decrypt_in_place A k n a c = Some p \<Longrightarrow> length c = length p + 16"
    and "encrypt_detached A k n a p = Some (c, t) \<Longrightarrow> length c = length p \<and> length t = 16"
    and "encrypt_detached A k n a p = Some (c, t) \<Longrightarrow> decrypt_detached A k n a c t = Some p"
  using assms unfolding rc_aead_ok_def by blast+

lemma rustls_cipher_laws:
  assumes "rustls_cipher_ok C"
  shows "length iv = 12 \<Longrightarrow> length (nonce_new C iv seq) = 12"
    and "length iv = 12 \<Longrightarrow> take 4 (nonce_new C iv seq) = take 4 iv"
    and "msg_payload m = p @ [t] \<Longrightarrow> t \<noteq> 0 \<Longrightarrow> length p \<le> 2 ^ 14 \<Longrightarrow> unpad C m = Ok (m\<lparr> msg_typ := t, msg_payload := p \<rparr>)"
  using assms unfolding rustls_cipher_ok_def by blast+

lemma tls13_roundtrip:
  assumes A: "rc_aead_ok A" and C: "rustls_cipher_ok C" and m: "tls13_message m"
    and e: "encrypt_in_place A key n (make_tls13_aad C (17 + length (msg_payload m))) (msg_payload m @ [msg_typ m]) = Some c"
  shows "\<exists>p. decrypt_in_place A key n (make_tls13_aad C (length c)) c = Some p \<and>
      unpad C (\<lparr> msg_typ = application_data, msg_version = tls12_version, msg_payload = p \<rparr>) = Ok m"
proof -
  have "length c = 17 + length (msg_payload m)" using rc_aead_laws(1) [OF A e] by simp
  with rc_aead_laws(2) [OF A e] rustls_cipher_laws(3) [OF C] m show ?thesis
    by (simp add: tls13_message_def)
qed

lemmas tls13_defs = gcm_tls13_encrypt_def gcm_tls13_decrypt_def chacha_tls13_encrypt_def chacha_tls13_decrypt_def
  gcm_tls13_payload_len_def chacha_tls13_payload_len_def CHACHAPOLY1305_OVERHEAD_def Let_def

interpretation gcm13: record_cipher gcm_tls13_encrypt "\<lambda>A C k i m s. Some (gcm_tls13_decrypt A C k i m s)"
    gcm_tls13_payload_len same_iv tls13_message
  by unfold_locales
    (auto simp: tls13_defs same_iv_def result_simps tls13_roundtrip dest: rc_aead_laws(1))

interpretation chacha13: record_cipher chacha_tls13_encrypt "\<lambda>A C k i m s. Some (chacha_tls13_decrypt A C k i m s)"
    chacha_tls13_payload_len same_iv tls13_message
  by unfold_locales
    (auto simp: tls13_defs same_iv_def result_simps tls13_roundtrip dest: rc_aead_laws(1))

lemma gcm_tls12_roundtrip:
  assumes A: "rc_aead_ok A" and C: "rustls_cipher_ok C" and iv: "fixed_part ei di"
    and e: "gcm_tls12_encrypt A C key ei m seq = Ok c"
  shows "gcm_tls12_decrypt A C key di c seq = Ok m"
    and "length (msg_payload c) = gcm_tls12_payload_len (length (msg_payload m))"
proof -
  let ?n = "nonce_new C ei seq"
  have n: "length ?n = 12" "take 4 ?n = di"
    using iv rustls_cipher_laws(1,2) [OF C] by (simp_all add: fixed_part_def)
  then have len: "length (drop 4 ?n) = 8" and nonce: "di @ drop 4 ?n = ?n"
    by (simp_all, metis append_take_drop_id)
  from e len obtain ct tag where
      d: "encrypt_detached A key ?n (make_tls12_aad C seq (msg_typ m) (msg_version m) (length (msg_payload m))) (msg_payload m) = Some (ct, tag)"
    and c: "c = \<lparr> msg_typ = msg_typ m, msg_version = msg_version m, msg_payload = drop 4 ?n @ ct @ tag \<rparr>"
    by (auto simp: gcm_tls12_encrypt_def TLS12_GCM_EXPLICIT_NONCE_LEN_def result_simps Let_def split: prod.splits)
  have l: "length ct = length (msg_payload m)" "length tag = 16"
    using rc_aead_laws(4) [OF A d] by simp_all
  have pt: "decrypt_detached A key ?n (make_tls12_aad C seq (msg_typ m) (msg_version m) (length ct)) ct tag = Some (msg_payload m)"
    using rc_aead_laws(5) [OF A d] l by simp
  have rot: "rotate 8 (drop 4 ?n @ xs) = xs @ drop 4 ?n" for xs
    using len rotate_append [of "drop 4 ?n" xs] by simp
  show "gcm_tls12_decrypt A C key di c seq = Ok m"
    using len nonce l pt rot [of "msg_payload m @ tag"]
    by (simp add: gcm_tls12_decrypt_def TLS12_GCM_EXPLICIT_NONCE_LEN_def TLS12_GCM_OVERHEAD_def c Let_def)
  show "length (msg_payload c) = gcm_tls12_payload_len (length (msg_payload m))"
    using len l by (simp add: gcm_tls12_payload_len_def TLS12_GCM_EXPLICIT_NONCE_LEN_def c)
qed

interpretation gcm12: record_cipher gcm_tls12_encrypt "\<lambda>A C k i m s. Some (gcm_tls12_decrypt A C k i m s)"
    gcm_tls12_payload_len fixed_part "\<lambda>_. True"
  by unfold_locales (simp_all add: gcm_tls12_roundtrip)

interpretation chacha12: record_cipher chacha_tls12_encrypt "chacha_tls12_decrypt checks"
    chacha_tls12_payload_len same_iv "\<lambda>_. True"
  by unfold_locales
    (auto simp: chacha_tls12_encrypt_def chacha_tls12_decrypt_def chacha_tls12_payload_len_def CHACHAPOLY1305_OVERHEAD_def
       usize_sub_def same_iv_def result_simps Let_def rc_aead_laws)

section \<open>Concrete instances\<close>

text \<open>A cipher that appends a tag of zeros, and the functions of rustls for it.\<close>

definition example_rc_aead :: rc_aead where
  "example_rc_aead =
     \<lparr> encrypt_in_place = (\<lambda>k n a p. Some (p @ replicate 16 0)),
       decrypt_in_place = (\<lambda>k n a c. if 16 \<le> length c then Some (take (length c - 16) c) else None),
       encrypt_detached = (\<lambda>k n a p. Some (p, replicate 16 0)),
       decrypt_detached = (\<lambda>k n a c t. Some c) \<rparr>"

definition example_rustls_cipher :: rustls_cipher where
  "example_rustls_cipher =
     \<lparr> nonce_new = (\<lambda>iv seq. iv), make_tls13_aad = (\<lambda>n. []), make_tls12_aad = (\<lambda>s t v n. []),
       unpad = (\<lambda>m. if msg_payload m = [] then Err DecryptError
         else Ok (m\<lparr> msg_typ := last (msg_payload m), msg_payload := butlast (msg_payload m) \<rparr>)) \<rparr>"

lemma example_rc_aead_ok: "rc_aead_ok example_rc_aead"
  by (auto simp: rc_aead_ok_def example_rc_aead_def split: if_splits)

lemma example_rustls_cipher_ok: "rustls_cipher_ok example_rustls_cipher"
  by (auto simp: rustls_cipher_ok_def example_rustls_cipher_def)

definition example_message :: tls_message where
  "example_message = \<lparr> msg_typ = 23, msg_version = tls12_version, msg_payload = [1, 2, 3] \<rparr>"

section \<open>Properties\<close>

text \<open>Records too short to hold a tag. The AES-GCM decrypter of TLS 1.2 answers \<open>DecryptError\<close>; the ChaCha20-Poly1305
  decrypter subtracts the tag length from the record length first, so a record of fewer than 16 bytes panics where
  overflow checks are on and reaches the cipher with a wrapped length where they are off.\<close>

theorem tls12_short_records:
  assumes A: "rc_aead_ok A"
  shows "(length (msg_payload m) < 24 \<longrightarrow> gcm_tls12_decrypt A C key di m seq = Err DecryptError) \<and>
         (length (msg_payload m) < 16 \<longrightarrow>
            chacha_tls12_decrypt True A C key iv m seq = None \<and>
            chacha_tls12_decrypt False A C key iv m seq = Some (Err DecryptError)) \<and>
         (16 \<le> length (msg_payload m) \<longrightarrow> chacha_tls12_decrypt checks A C key iv m seq \<noteq> None)"
proof -
  have "decrypt_in_place A key n a (msg_payload m) = None" if "length (msg_payload m) < 16" for n a
    using rc_aead_laws(3) [OF A, of key n a "msg_payload m"] that by (cases "decrypt_in_place A key n a (msg_payload m)") auto
  then show ?thesis
    by (auto simp: gcm_tls12_decrypt_def TLS12_GCM_OVERHEAD_def TLS12_GCM_EXPLICIT_NONCE_LEN_def
        chacha_tls12_decrypt_def usize_sub_def CHACHAPOLY1305_OVERHEAD_def Let_def)
qed

theorem tls12_short_records_witness:
  "rc_aead_ok example_rc_aead \<and> length (msg_payload example_message) < 16 \<and>
   chacha_tls12_decrypt True example_rc_aead example_rustls_cipher [] [] example_message 0 = None"
  using tls12_short_records [OF example_rc_aead_ok, of example_message example_rustls_cipher "[]" "[]" 0 "[]" True] example_rc_aead_ok
  by (simp add: example_message_def)

text \<open>Key extraction: with the fixed IV of the length its own \<open>key_block_shape\<close> asks for, the AES-GCM version of TLS 1.2
  panics and the ChaCha20-Poly1305 version returns the key.\<close>

lemma tls12_extract_keys:
  "length iv = fixed_iv_len (gcm_key_block_shape k) \<Longrightarrow> gcm_tls12_extract_keys key iv x = None"
  "length iv = fixed_iv_len chacha_key_block_shape \<Longrightarrow>
     chacha_tls12_extract_keys key iv x = Some (Chacha20Poly1305Secrets key iv)"
  by (simp_all add: gcm_key_block_shape_def chacha_key_block_shape_def gcm_tls12_extract_keys_def chacha_tls12_extract_keys_def)

end
