(* ===== verification/Quic.thy ===== *)
theory Quic
  imports Record_Layer
begin

unbundle bit_operations_syntax

text \<open>
  The QUIC keys of \<open>oxitls-rustcrypto-provider/src/quic.rs\<close>: header protection (RFC 9001, section 5.4) and packet
  protection. The block ciphers and the key stream of the crates aes and chacha20 are the record \<open>quic_lib\<close>; packet
  protection uses the ChaCha20-Poly1305 of \<open>rc_aead\<close>.
\<close>

section \<open>Header protection\<close>

definition SAMPLE_LEN :: nat where "SAMPLE_LEN = 16"
definition MAX_PN_LEN :: nat where "MAX_PN_LEN = 4"
definition MASK_LEN :: nat where "MASK_LEN = 5"

datatype header_cipher = HcAes128 | HcAes256 | HcChaCha20

record header_protection_key =
  hp_key :: bytes
  hp_cipher :: header_cipher

text \<open>One block of AES under a key, and the bytes of the ChaCha20 key stream from a byte offset, \<open>None\<close> where
  \<open>try_seek\<close> fails.\<close>

record quic_lib =
  aes128_block :: "bytes \<Rightarrow> bytes \<Rightarrow> bytes"
  aes256_block :: "bytes \<Rightarrow> bytes \<Rightarrow> bytes"
  chacha20_stream :: "bytes \<Rightarrow> bytes \<Rightarrow> u64 \<Rightarrow> nat \<Rightarrow> bytes option"

definition quic_lib_ok :: "quic_lib \<Rightarrow> bool" where
  "quic_lib_ok Q \<longleftrightarrow>
     (\<forall>k b. length b = 16 \<longrightarrow> length (aes128_block Q k b) = 16 \<and> length (aes256_block Q k b) = 16) \<and>
     (\<forall>k n off len s. chacha20_stream Q k n off len = Some s \<longrightarrow> length s = len)"

definition u32_from_le :: "bytes \<Rightarrow> u32" where
  "u32_from_le bs = of_nat (be_decode (rev bs))"

definition checked_mul_u64 :: "u64 \<Rightarrow> u64 \<Rightarrow> u64 option" where
  "checked_mul_u64 a b = (if unat a * unat b < 2 ^ 64 then Some (a * b) else None)"

definition derive_mask :: "quic_lib \<Rightarrow> header_protection_key \<Rightarrow> bytes \<Rightarrow> (bytes, rustls_error) result" where
  "derive_mask Q k sample =
     (if length sample \<noteq> SAMPLE_LEN then Err (General ''QUIC header protection: sample must be 16 bytes'')
      else
        (case hp_cipher k of
           HcAes128 \<Rightarrow>
             if length (hp_key k) < 16 then Err (General ''QUIC header protection: AES-128 key must be 16 bytes'')
             else Ok (take MASK_LEN (aes128_block Q (take 16 (hp_key k)) sample))
         | HcAes256 \<Rightarrow>
             if length (hp_key k) < 32 then Err (General ''QUIC header protection: AES-256 key must be 32 bytes'')
             else Ok (take MASK_LEN (aes256_block Q (take 32 (hp_key k)) sample))
         | HcChaCha20 \<Rightarrow>
             let counter = u32_from_le (slice sample 0 4);
                 nonce = slice sample 4 16 in
             if length (hp_key k) < 32 then Err (General ''QUIC header protection: ChaCha20 key must be 32 bytes'')
             else
               rbind (ok_or (checked_mul_u64 (ucast counter) 64) (General ''QUIC header protection: counter overflow'')) (\<lambda>off.
               ok_or (chacha20_stream Q (take 32 (hp_key k)) nonce off MASK_LEN) (General ''QUIC header protection: seek failed''))))"

text \<open>The loop over the packet number and the mask, \<open>iter_mut().zip(pn_mask).take(pn_len)\<close>.\<close>

fun xor_take :: "nat \<Rightarrow> bytes \<Rightarrow> bytes \<Rightarrow> bytes" where
  "xor_take (Suc n) (d # ds) (m # ms) = (d XOR m) # xor_take n ds ms"
| "xor_take n ds ms = ds"

definition LONG_HEADER_FORM :: byte where "LONG_HEADER_FORM = 0x80"

definition header_bits :: "byte \<Rightarrow> byte" where
  "header_bits first = (if first AND LONG_HEADER_FORM = LONG_HEADER_FORM then 0x0f else 0x1f)"

definition pn_len_of :: "byte \<Rightarrow> nat" where
  "pn_len_of first_plain = unat (first_plain AND 0x03) + 1"

definition xor_in_place :: "bytes \<Rightarrow> byte \<Rightarrow> bytes \<Rightarrow> bool \<Rightarrow> (byte \<times> bytes, rustls_error) result" where
  "xor_in_place msk first packet_number masked =
     (if length packet_number > MAX_PN_LEN then Err (General ''QUIC header protection: packet number too long'')
      else
        let bits = header_bits first;
            first_mask = hd msk;
            pn_mask = tl msk;
            first_plain = (if masked then first XOR (first_mask AND bits) else first);
            pn_len = pn_len_of first_plain in
        Ok (first XOR (first_mask AND bits), xor_take pn_len packet_number pn_mask))"

definition hp_encrypt_in_place ::
    "quic_lib \<Rightarrow> header_protection_key \<Rightarrow> bytes \<Rightarrow> byte \<Rightarrow> bytes \<Rightarrow> (byte \<times> bytes, rustls_error) result" where
  "hp_encrypt_in_place Q k sample first packet_number =
     rbind (derive_mask Q k sample) (\<lambda>msk. xor_in_place msk first packet_number False)"

definition hp_decrypt_in_place ::
    "quic_lib \<Rightarrow> header_protection_key \<Rightarrow> bytes \<Rightarrow> byte \<Rightarrow> bytes \<Rightarrow> (byte \<times> bytes, rustls_error) result" where
  "hp_decrypt_in_place Q k sample first packet_number =
     rbind (derive_mask Q k sample) (\<lambda>msk. xor_in_place msk first packet_number True)"

section \<open>Packet protection\<close>

text \<open>The key is always one of ChaCha20-Poly1305; \<open>new_from_slice(..).expect(..)\<close> panics (\<open>None\<close>) unless it has 32
  bytes. The suite is carried along and not read.\<close>

record packet_key =
  pk_iv :: bytes
  pk_suite :: u16
  pk_crypto :: bytes

definition packet_key_new :: "u16 \<Rightarrow> bytes \<Rightarrow> bytes \<Rightarrow> packet_key option" where
  "packet_key_new suite key iv =
     (if length key = 32 then Some \<lparr> pk_iv = iv, pk_suite = suite, pk_crypto = key \<rparr> else None)"

definition pk_encrypt_in_place ::
    "rc_aead \<Rightarrow> rustls_cipher \<Rightarrow> packet_key \<Rightarrow> u64 \<Rightarrow> bytes \<Rightarrow> bytes \<Rightarrow> (bytes \<times> bytes, rustls_error) result" where
  "pk_encrypt_in_place A C k packet_number aad payload =
     ok_or (encrypt_detached A (pk_crypto k) (nonce_new C (pk_iv k) packet_number) aad payload) EncryptError"

definition pk_tag_len :: nat where "pk_tag_len = 16"

text \<open>\<open>dst.copy_from_slice(src)\<close> panics when the lengths differ.\<close>

definition copy_from_slice :: "bytes \<Rightarrow> bytes \<Rightarrow> bytes option" where
  "copy_from_slice dst src = (if length dst = length src then Some src else None)"

definition pk_decrypt_in_place ::
    "rc_aead \<Rightarrow> rustls_cipher \<Rightarrow> packet_key \<Rightarrow> u64 \<Rightarrow> bytes \<Rightarrow> bytes \<Rightarrow> (bytes, rustls_error) result option" where
  "pk_decrypt_in_place A C k packet_number aad payload =
     (let payload_len = length payload;
          nonce = nonce_new C (pk_iv k) packet_number in
      case decrypt_in_place A (pk_crypto k) nonce aad payload of
        None \<Rightarrow> Some (Err DecryptError)
      | Some payload' \<Rightarrow>
          (case copy_from_slice payload payload' of
             None \<Rightarrow> None
           | Some payload'' \<Rightarrow> Some (Ok (take (payload_len - pk_tag_len) payload''))))"

definition pk_integrity_limit :: u64 where "pk_integrity_limit = push_bit 36 1"
definition pk_confidentiality_limit :: u64 where "pk_confidentiality_limit = - 1"

section \<open>Key builder\<close>

record key_builder =
  kb_cipher :: header_cipher
  kb_suite :: u16

definition kb_new_chacha20 :: "u16 \<Rightarrow> key_builder" where
  "kb_new_chacha20 suite = \<lparr> kb_cipher = HcChaCha20, kb_suite = suite \<rparr>"

definition kb_new_aes128 :: "u16 \<Rightarrow> key_builder" where
  "kb_new_aes128 suite = \<lparr> kb_cipher = HcAes128, kb_suite = suite \<rparr>"

definition kb_new_aes256 :: "u16 \<Rightarrow> key_builder" where
  "kb_new_aes256 suite = \<lparr> kb_cipher = HcAes256, kb_suite = suite \<rparr>"

definition kb_packet_key :: "key_builder \<Rightarrow> bytes \<Rightarrow> bytes \<Rightarrow> packet_key option" where
  "kb_packet_key b key iv = packet_key_new (kb_suite b) key iv"

definition kb_header_protection_key :: "key_builder \<Rightarrow> bytes \<Rightarrow> header_protection_key" where
  "kb_header_protection_key b key = \<lparr> hp_key = key, hp_cipher = kb_cipher b \<rparr>"

definition kb_aead_key_len :: "key_builder \<Rightarrow> nat" where
  "kb_aead_key_len b = 32"

section \<open>Lemmas\<close>

lemma xor_take_involution: "xor_take n (xor_take n ds ms) ms = ds"
  by (induction n ds ms rule: xor_take.induct) (simp_all add: xor.assoc)

lemma length_xor_take [simp]: "length (xor_take n ds ms) = length ds"
  by (induction n ds ms rule: xor_take.induct) simp_all

lemma xor_take_numeral [simp]:
  "xor_take (numeral n) (d # ds) (m # ms) = (d XOR m) # xor_take (pred_numeral n) ds ms"
  by (simp add: numeral_eq_Suc)

lemma replicate_5: "replicate 5 x = [x, x, x, x, x]"
  by (simp add: numeral_eq_Suc)

lemma header_bits_no_form: "header_bits first AND LONG_HEADER_FORM = 0"
  by (simp add: header_bits_def LONG_HEADER_FORM_def)

text \<open>Masking keeps the header form, so both directions msk the same bits.\<close>

lemma header_bits_masked: "header_bits (first XOR (m AND header_bits first)) = header_bits first"
proof -
  have "(m AND header_bits first) AND LONG_HEADER_FORM = 0"
    by (simp add: and.assoc header_bits_no_form)
  then have "(first XOR (m AND header_bits first)) AND LONG_HEADER_FORM = first AND LONG_HEADER_FORM"
    by (simp add: bit.conj_xor_distrib2)
  then show ?thesis by (simp add: header_bits_def)
qed

lemma xor_in_place_roundtrip:
  assumes "xor_in_place msk first pn False = Ok (first', pn')"
  shows "xor_in_place msk first' pn' True = Ok (first, pn)"
  using assms
  by (auto simp: xor_in_place_def Let_def header_bits_masked xor.assoc xor_take_involution split: if_splits)

text \<open>The block counter times 64 fits 64 bits, so \<open>counter overflow\<close> is not reached.\<close>

lemma counter_offset_fits: "checked_mul_u64 (ucast (c :: u32)) 64 \<noteq> None"
proof -
  have "unat c < 2 ^ 32" using unsigned_less [of c] by simp
  then show ?thesis by (simp add: checked_mul_u64_def unsigned_ucast_eq take_bit_nat_eq_self)
qed

lemma derive_mask_length:
  assumes "quic_lib_ok Q" "derive_mask Q k sample = Ok msk"
  shows "length msk = MASK_LEN"
  using assms
  by (auto simp: derive_mask_def quic_lib_ok_def SAMPLE_LEN_def MASK_LEN_def Let_def result_simps
      split: header_cipher.splits if_splits)


lemma drop_xor_take: "drop n (xor_take n ds ms) = drop n ds"
  by (induction n ds ms rule: xor_take.induct) simp_all

lemma packet_length_mismatch:
  assumes "rc_aead_ok A" "decrypt_in_place A key n a payload = Some p"
  shows "copy_from_slice payload p = None"
  using rc_aead_laws(3) [OF assms] by (simp add: copy_from_slice_def)

text \<open>The tag of the in-place methods of the crate stands after the ciphertext of the detached ones.\<close>

definition rc_aead_postfix :: "rc_aead \<Rightarrow> bool" where
  "rc_aead_postfix A \<longleftrightarrow> (\<forall>k n a p. encrypt_in_place A k n a p = map_option (\<lambda>(c, t). c @ t) (encrypt_detached A k n a p))"

definition example_quic_lib :: quic_lib where
  "example_quic_lib = \<lparr> aes128_block = (\<lambda>k b. map2 (XOR) k b), aes256_block = (\<lambda>k b. map2 (XOR) k b),
     chacha20_stream = (\<lambda>k n off len. Some (replicate len 0x5a)) \<rparr>"

section \<open>Properties\<close>

text \<open>C21: Header protection is undone by its removal: with the mask of the same key and sample, the header that was
  protected comes back, for long and short headers and every packet-number length; the header form and the
  other unprotected bits of the first byte are not changed, nor are packet-number bytes beyond the encoded
  length.\<close>

theorem header_protection_roundtrip:
  assumes "hp_encrypt_in_place Q k sample first pn = Ok (first', pn')"
  shows "hp_decrypt_in_place Q k sample first' pn' = Ok (first, pn) \<and>
         first' AND NOT (header_bits first) = first AND NOT (header_bits first) \<and>
         drop (pn_len_of first) pn' = drop (pn_len_of first) pn"
proof -
  obtain msk where m: "derive_mask Q k sample = Ok msk" and x: "xor_in_place msk first pn False = Ok (first', pn')"
    using assms by (auto simp: hp_encrypt_in_place_def result_simps)
  have f: "first' = first XOR (hd msk AND header_bits first)" and p: "pn' = xor_take (pn_len_of first) pn (tl msk)"
    using x by (simp_all add: xor_in_place_def Let_def split: if_splits)
  have "first' AND NOT (header_bits first) = first AND NOT (header_bits first)"
    by (simp add: f bit.conj_xor_distrib2 and.assoc)
  with m x xor_in_place_roundtrip p show ?thesis
    by (simp add: hp_decrypt_in_place_def drop_xor_take)
qed

theorem header_protection_roundtrip_witness:
  "\<exists>k first' pn'.
     hp_encrypt_in_place example_quic_lib k (replicate 16 1) 0x43 [1, 2, 3, 4] = Ok (first', pn') \<and>
     (first', pn') \<noteq> (0x43, [1, 2, 3, 4]) \<and>
     hp_decrypt_in_place example_quic_lib k (replicate 16 1) first' pn' = Ok (0x43, [1, 2, 3, 4])"
proof -
  let ?k = "\<lparr> hp_key = replicate 16 0x5b, hp_cipher = HcAes128 \<rparr>"
  have "derive_mask example_quic_lib ?k (replicate 16 1) = Ok [0x5a, 0x5a, 0x5a, 0x5a, 0x5a]"
    by (simp add: derive_mask_def example_quic_lib_def SAMPLE_LEN_def MASK_LEN_def zip_replicate replicate_5)
  then have e: "hp_encrypt_in_place example_quic_lib ?k (replicate 16 1) 0x43 [1, 2, 3, 4] = Ok (0x59, [0x5b, 0x58, 0x59, 0x5e])"
    by (simp add: hp_encrypt_in_place_def xor_in_place_def header_bits_def LONG_HEADER_FORM_def MAX_PN_LEN_def pn_len_of_def)
  from header_protection_roundtrip [OF e] e show ?thesis by fastforce
qed

text \<open>A mask is derived exactly for a sample of 16 bytes and a key long enough for the cipher, has five bytes, and the
  overflow of the ChaCha20 block counter that the code checks for does not occur.\<close>

lemma derive_mask_total:
  assumes Q: "quic_lib_ok Q" and seek: "\<forall>key n off. chacha20_stream Q key n off MASK_LEN \<noteq> None"
  shows "(case derive_mask Q k sample of
            Ok msk \<Rightarrow> length msk = MASK_LEN \<and> length sample = SAMPLE_LEN \<and>
              (if hp_cipher k = HcAes128 then 16 else 32) \<le> length (hp_key k)
          | Err e \<Rightarrow> length sample \<noteq> SAMPLE_LEN \<or> length (hp_key k) < (if hp_cipher k = HcAes128 then 16 else 32))"
proof (cases "derive_mask Q k sample")
  case (Ok msk)
  then show ?thesis
    using derive_mask_length [OF Q Ok] by (auto simp: derive_mask_def Let_def split: header_cipher.splits if_splits)
next
  case (Err e)
  then show ?thesis
    using seek counter_offset_fits
    by (auto simp: derive_mask_def Let_def result_simps split: header_cipher.splits if_splits) (metis option.distinct(1))+
qed

text \<open>C22: Opening a QUIC packet never returns a payload. A packet that fails authentication is \<open>DecryptError\<close>, and
  only such a packet is; a packet that authenticates, in particular every packet sealed with the same key, packet number and header, makes the code
  panic: the working copy is truncated to the plaintext and copied back into the longer payload.\<close>

theorem quic_open_panics:
  assumes A: "rc_aead_ok A" and post: "rc_aead_postfix A"
  shows "pk_decrypt_in_place A C k pn aad payload =
           (if decrypt_in_place A (pk_crypto k) (nonce_new C (pk_iv k) pn) aad payload = None
            then Some (Err DecryptError) else None) \<and>
         (pk_encrypt_in_place A C k pn aad plain = Ok (c, t) \<longrightarrow> pk_decrypt_in_place A C k pn aad (c @ t) = None)"
proof -
  have "encrypt_in_place A key n a plain = Some (c @ t)" if "encrypt_detached A key n a plain = Some (c, t)" for key n a
    using that post by (simp add: rc_aead_postfix_def)
  then have "decrypt_in_place A key n a (c @ t) = Some plain \<and> copy_from_slice (c @ t) plain = None"
    if "encrypt_detached A key n a plain = Some (c, t)" for key n a
    using that rc_aead_laws(2) [OF A] packet_length_mismatch [OF A] by metis
  then show ?thesis
    using packet_length_mismatch [OF A]
    by (auto simp: pk_decrypt_in_place_def pk_encrypt_in_place_def result_simps Let_def split: option.splits)
qed

theorem quic_open_panics_witness:
  "rc_aead_ok example_rc_aead \<and> rc_aead_postfix example_rc_aead \<and>
   (\<exists>k. packet_key_new 0x1303 (replicate 32 1) (replicate 12 2) = Some k \<and>
     pk_encrypt_in_place example_rc_aead example_rustls_cipher k 7 [] [1, 2, 3] = Ok ([1, 2, 3], replicate 16 0) \<and>
     pk_decrypt_in_place example_rc_aead example_rustls_cipher k 7 [] ([1, 2, 3] @ replicate 16 0) = None \<and>
     pk_decrypt_in_place example_rc_aead example_rustls_cipher k 7 [] [1] = Some (Err DecryptError))"
proof -
  let ?k = "\<lparr> pk_iv = replicate 12 2, pk_suite = 0x1303, pk_crypto = replicate 32 1 \<rparr>"
  have post: "rc_aead_postfix example_rc_aead"
    by (simp add: rc_aead_postfix_def example_rc_aead_def)
  have e: "pk_encrypt_in_place example_rc_aead example_rustls_cipher ?k 7 [] [1, 2, 3] = Ok ([1, 2, 3], replicate 16 0)"
    by (simp add: pk_encrypt_in_place_def example_rc_aead_def)
  have short: "decrypt_in_place example_rc_aead (replicate 32 1) n [] [1] = None" for n
    by (simp add: example_rc_aead_def)
  show ?thesis
    using e post example_rc_aead_ok short
      quic_open_panics [OF example_rc_aead_ok post, of example_rustls_cipher ?k 7 "[]" "[1]" "[1, 2, 3]" "[1, 2, 3]" "replicate 16 0"]
    by (auto simp: packet_key_new_def)
qed

end
