(* ===== verification/Pkcs11_Base.thy ===== *)
theory Pkcs11_Base
  imports Verifier
begin

text \<open>
  The basis of the PKCS#11 adapter \<open>oxitls-adapter-pkcs11\<close>: the error types (\<open>error.rs\<close>) and the session helpers
  (\<open>session.rs\<close>). The crate cryptoki and the token behind it are the record \<open>cryptoki\<close>, whose functions read and
  change a state of the token of any type.
\<close>

section \<open>Errors\<close>

datatype pkcs_sign_error =
    SignInitError string
  | SignSessionError string
  | SignKeyNotFound string
  | SignSignError string
  | InvalidSignatureLength nat nat

fun pkcs_sign_error_display :: "pkcs_sign_error \<Rightarrow> string" where
  "pkcs_sign_error_display (SignInitError msg) = ''PKCS#11 init error: '' @ msg"
| "pkcs_sign_error_display (SignSessionError msg) = ''PKCS#11 session error: '' @ msg"
| "pkcs_sign_error_display (SignKeyNotFound label) = ''PKCS#11 key not found for label: '' @ label"
| "pkcs_sign_error_display (SignSignError msg) = ''PKCS#11 sign error: '' @ msg"
| "pkcs_sign_error_display (InvalidSignatureLength expected got) =
     ''PKCS#11 invalid signature length: expected '' @ show_nat expected @ '', got '' @ show_nat got"

datatype pkcs11_error =
    InitError string
  | SessionError string
  | KeyNotFound string
  | SignError string
  | SessionPoolExhausted
  | HsmError u32 string
  | Unsupported string
  | LoadFailed string
  | TlsConfigError string
  | OtherError string

text \<open>Rust's \<open>{:#x}\<close>.\<close>

fun show_hex :: "nat \<Rightarrow> string" where
  "show_hex n = (if n < 16 then [hex_digit_lower n] else show_hex (n div 16) @ [hex_digit_lower (n mod 16)])"

declare show_hex.simps [simp del]

fun pkcs11_error_display :: "pkcs11_error \<Rightarrow> string" where
  "pkcs11_error_display (InitError msg) = ''PKCS#11 init error: '' @ msg"
| "pkcs11_error_display (SessionError msg) = ''PKCS#11 session error: '' @ msg"
| "pkcs11_error_display (KeyNotFound label) = ''PKCS#11 key not found for label: '' @ label"
| "pkcs11_error_display (SignError msg) = ''PKCS#11 sign error: '' @ msg"
| "pkcs11_error_display SessionPoolExhausted = ''PKCS#11 session pool exhausted: no available sessions''"
| "pkcs11_error_display (HsmError code msg) = ''PKCS#11 HSM error (0x'' @ show_hex (unat code) @ ''): '' @ msg"
| "pkcs11_error_display (Unsupported msg) = ''PKCS#11 unsupported: '' @ msg"
| "pkcs11_error_display (LoadFailed msg) = ''PKCS#11 library load failed: '' @ msg"
| "pkcs11_error_display (TlsConfigError msg) = ''TLS error: '' @ msg"
| "pkcs11_error_display (OtherError msg) = ''PKCS#11 error: '' @ msg"

fun from_sign_error :: "pkcs_sign_error \<Rightarrow> pkcs11_error" where
  "from_sign_error (SignInitError msg) = InitError msg"
| "from_sign_error (SignSessionError msg) = SessionError msg"
| "from_sign_error (SignKeyNotFound msg) = KeyNotFound msg"
| "from_sign_error (SignSignError msg) = SignError msg"
| "from_sign_error (InvalidSignatureLength expected got) =
     SignError (''invalid ECDSA signature length: expected '' @ show_nat expected @ '', got '' @ show_nat got)"

text \<open>\<open>cryptoki::error::Error\<close>; a return value of the token by its name.\<close>

datatype cryptoki_error = Pkcs11Rv string | LibraryLoading string | NotSupported | OtherCryptoki string

definition rv_codes :: "(string \<times> u32) list" where
  "rv_codes =
    [(''CKR_CANCEL'', 0x1),
     (''CKR_HOST_MEMORY'', 0x2),
     (''CKR_SLOT_ID_INVALID'', 0x3),
     (''CKR_GENERAL_ERROR'', 0x5),
     (''CKR_FUNCTION_FAILED'', 0x6),
     (''CKR_ARGUMENTS_BAD'', 0x7),
     (''CKR_NO_EVENT'', 0x8),
     (''CKR_NEED_TO_CREATE_THREADS'', 0x9),
     (''CKR_CANT_LOCK'', 0xa),
     (''CKR_ATTRIBUTE_READ_ONLY'', 0x10),
     (''CKR_ATTRIBUTE_SENSITIVE'', 0x11),
     (''CKR_ATTRIBUTE_TYPE_INVALID'', 0x12),
     (''CKR_ATTRIBUTE_VALUE_INVALID'', 0x13),
     (''CKR_DATA_INVALID'', 0x20),
     (''CKR_DATA_LEN_RANGE'', 0x21),
     (''CKR_DEVICE_ERROR'', 0x30),
     (''CKR_DEVICE_MEMORY'', 0x31),
     (''CKR_DEVICE_REMOVED'', 0x32),
     (''CKR_ENCRYPTED_DATA_INVALID'', 0x40),
     (''CKR_ENCRYPTED_DATA_LEN_RANGE'', 0x41),
     (''CKR_FUNCTION_CANCELED'', 0x50),
     (''CKR_FUNCTION_NOT_PARALLEL'', 0x51),
     (''CKR_FUNCTION_NOT_SUPPORTED'', 0x54),
     (''CKR_KEY_HANDLE_INVALID'', 0x60),
     (''CKR_KEY_SIZE_RANGE'', 0x62),
     (''CKR_KEY_TYPE_INCONSISTENT'', 0x63),
     (''CKR_KEY_NOT_NEEDED'', 0x64),
     (''CKR_KEY_CHANGED'', 0x65),
     (''CKR_KEY_NEEDED'', 0x66),
     (''CKR_KEY_INDIGESTIBLE'', 0x67),
     (''CKR_KEY_FUNCTION_NOT_PERMITTED'', 0x68),
     (''CKR_KEY_NOT_WRAPPABLE'', 0x69),
     (''CKR_KEY_UNEXTRACTABLE'', 0x6a),
     (''CKR_MECHANISM_INVALID'', 0x70),
     (''CKR_MECHANISM_PARAM_INVALID'', 0x71),
     (''CKR_OBJECT_HANDLE_INVALID'', 0x82),
     (''CKR_OPERATION_ACTIVE'', 0x90),
     (''CKR_OPERATION_NOT_INITIALIZED'', 0x91),
     (''CKR_PIN_INCORRECT'', 0xa0),
     (''CKR_PIN_INVALID'', 0xa1),
     (''CKR_PIN_LEN_RANGE'', 0xa2),
     (''CKR_PIN_EXPIRED'', 0xa3),
     (''CKR_PIN_LOCKED'', 0xa4),
     (''CKR_SESSION_CLOSED'', 0xb0),
     (''CKR_SESSION_COUNT'', 0xb1),
     (''CKR_SESSION_HANDLE_INVALID'', 0xb3),
     (''CKR_SESSION_PARALLEL_NOT_SUPPORTED'', 0xb4),
     (''CKR_SESSION_READ_ONLY'', 0xb5),
     (''CKR_SESSION_EXISTS'', 0xb6),
     (''CKR_SESSION_READ_ONLY_EXISTS'', 0xb7),
     (''CKR_SESSION_READ_WRITE_SO_EXISTS'', 0xb8),
     (''CKR_SIGNATURE_INVALID'', 0xc0),
     (''CKR_SIGNATURE_LEN_RANGE'', 0xc1),
     (''CKR_TEMPLATE_INCOMPLETE'', 0xd0),
     (''CKR_TEMPLATE_INCONSISTENT'', 0xd1),
     (''CKR_TOKEN_NOT_PRESENT'', 0xe0),
     (''CKR_TOKEN_NOT_RECOGNIZED'', 0xe1),
     (''CKR_TOKEN_WRITE_PROTECTED'', 0xe2),
     (''CKR_UNWRAPPING_KEY_HANDLE_INVALID'', 0xf0),
     (''CKR_UNWRAPPING_KEY_SIZE_RANGE'', 0xf1),
     (''CKR_UNWRAPPING_KEY_TYPE_INCONSISTENT'', 0xf2),
     (''CKR_USER_ALREADY_LOGGED_IN'', 0x100),
     (''CKR_USER_NOT_LOGGED_IN'', 0x101),
     (''CKR_USER_PIN_NOT_INITIALIZED'', 0x102),
     (''CKR_USER_TYPE_INVALID'', 0x103),
     (''CKR_USER_ANOTHER_ALREADY_LOGGED_IN'', 0x104),
     (''CKR_USER_TOO_MANY_TYPES'', 0x105),
     (''CKR_WRAPPED_KEY_INVALID'', 0x110),
     (''CKR_WRAPPED_KEY_LEN_RANGE'', 0x112),
     (''CKR_WRAPPING_KEY_HANDLE_INVALID'', 0x113),
     (''CKR_WRAPPING_KEY_SIZE_RANGE'', 0x114),
     (''CKR_WRAPPING_KEY_TYPE_INCONSISTENT'', 0x115),
     (''CKR_RANDOM_SEED_NOT_SUPPORTED'', 0x120),
     (''CKR_RANDOM_NO_RNG'', 0x121),
     (''CKR_DOMAIN_PARAMS_INVALID'', 0x130),
     (''CKR_BUFFER_TOO_SMALL'', 0x150),
     (''CKR_SAVED_STATE_INVALID'', 0x160),
     (''CKR_INFORMATION_SENSITIVE'', 0x170),
     (''CKR_STATE_UNSAVEABLE'', 0x180),
     (''CKR_CRYPTOKI_NOT_INITIALIZED'', 0x190),
     (''CKR_CRYPTOKI_ALREADY_INITIALIZED'', 0x191),
     (''CKR_MUTEX_BAD'', 0x1a0),
     (''CKR_MUTEX_NOT_LOCKED'', 0x1a1),
     (''CKR_NEW_PIN_MODE'', 0x1b0),
     (''CKR_NEXT_OTP'', 0x1b1),
     (''CKR_EXCEEDED_MAX_ITERATIONS'', 0x1b5),
     (''CKR_FIPS_SELF_TEST_FAILED'', 0x1b6),
     (''CKR_LIBRARY_LOAD_FAILED'', 0x1b7),
     (''CKR_PIN_TOO_WEAK'', 0x1b8),
     (''CKR_PUBLIC_KEY_INVALID'', 0x1b9),
     (''CKR_FUNCTION_REJECTED'', 0x200)]"

definition rv_error_to_code :: "string \<Rightarrow> u32" where
  "rv_error_to_code rv = (case map_of rv_codes rv of Some code \<Rightarrow> code | None \<Rightarrow> 0xFFFFFFFF)"

definition from_cryptoki_error :: "(cryptoki_error \<Rightarrow> string) \<Rightarrow> cryptoki_error \<Rightarrow> pkcs11_error" where
  "from_cryptoki_error to_string e =
     (case e of
        Pkcs11Rv rv \<Rightarrow> HsmError (rv_error_to_code rv) (''PKCS#11 rv='' @ rv)
      | LibraryLoading inner \<Rightarrow> LoadFailed inner
      | NotSupported \<Rightarrow> Unsupported ''operation not supported by this token''
      | OtherCryptoki m \<Rightarrow> OtherError (to_string e))"

section \<open>The token\<close>

datatype object_class = PRIVATE_KEY | CERTIFICATE

text \<open>Key types are the numbers \<open>CKK_*\<close>.\<close>

definition CKK_RSA :: u64 where "CKK_RSA = 0"
definition CKK_EC :: u64 where "CKK_EC = 3"
definition CKK_EC_EDWARDS :: u64 where "CKK_EC_EDWARDS = 0x40"

datatype attribute =
    Class object_class
  | Label bytes
  | KeyType u64
  | Id bytes
  | Sign bool
  | CertificateType u64
  | TokenObject bool
  | Value bytes
  | Subject bytes
  | OtherAttribute nat

datatype attribute_type = TyLabel | TyKeyType | TyId | TySign | TyValue

datatype pss_hash = SHA256 | SHA384 | SHA512

datatype mechanism =
    EcdsaSha256 | EcdsaSha384
  | Sha256RsaPkcs | Sha384RsaPkcs | Sha512RsaPkcs
  | RsaPkcsPss pss_hash pss_hash u64

type_synonym session = nat
type_synonym object_handle = nat

text \<open>The functions of cryptoki the adapter calls. \<open>close\<close> is the drop of a \<open>Session\<close>, \<open>utf8\<close> the bytes of a string.\<close>

record 't cryptoki =
  open_ro_session :: "u64 \<Rightarrow> 't \<Rightarrow> (session, cryptoki_error) result \<times> 't"
  login :: "session \<Rightarrow> string \<Rightarrow> 't \<Rightarrow> (unit, cryptoki_error) result \<times> 't"
  close :: "session \<Rightarrow> 't \<Rightarrow> 't"
  find_objects :: "'t \<Rightarrow> session \<Rightarrow> attribute list \<Rightarrow> (object_handle list, cryptoki_error) result"
  get_attributes :: "'t \<Rightarrow> session \<Rightarrow> object_handle \<Rightarrow> attribute_type list \<Rightarrow> (attribute list, cryptoki_error) result"
  token_sign :: "'t \<Rightarrow> session \<Rightarrow> mechanism \<Rightarrow> object_handle \<Rightarrow> bytes \<Rightarrow> (bytes, cryptoki_error) result"
  create_object :: "session \<Rightarrow> attribute list \<Rightarrow> 't \<Rightarrow> (object_handle, cryptoki_error) result \<times> 't"
  ck_to_string :: "cryptoki_error \<Rightarrow> string"
  kt_debug :: "u64 \<Rightarrow> string"
  utf8 :: "string \<Rightarrow> bytes"
  utf8_lossy :: "bytes \<Rightarrow> string"

section \<open>Sessions\<close>

text \<open>\<open>open_user_session\<close>; a session whose login fails is dropped on return.\<close>

definition open_user_session ::
    "'t cryptoki \<Rightarrow> u64 \<Rightarrow> string \<Rightarrow> 't \<Rightarrow> (session, pkcs_sign_error) result \<times> 't" where
  "open_user_session K slot pin t =
     (case open_ro_session K slot t of
        (Err e, t) \<Rightarrow> (Err (SignSessionError (ck_to_string K e)), t)
      | (Ok s, t) \<Rightarrow>
          (case login K s pin t of
             (Err e, t) \<Rightarrow> (Err (SignSessionError (''login failed: '' @ ck_to_string K e)), close K s t)
           | (Ok _, t) \<Rightarrow> (Ok s, t)))"

definition find_private_key_by_label ::
    "'t cryptoki \<Rightarrow> 't \<Rightarrow> session \<Rightarrow> string \<Rightarrow> (object_handle, pkcs_sign_error) result" where
  "find_private_key_by_label K t s label =
     (let template = [Class PRIVATE_KEY, Label (utf8 K label)] in
      rbind (rmap_err (\<lambda>e. SignKeyNotFound (''find_objects failed: '' @ ck_to_string K e)) (find_objects K t s template)) (\<lambda>handles.
      case handles of
        [] \<Rightarrow> Err (SignKeyNotFound label)
      | h # _ \<Rightarrow> Ok h))"

fun first_key_type :: "attribute list \<Rightarrow> u64 option" where
  "first_key_type [] = None"
| "first_key_type (KeyType kt # attrs) = Some kt"
| "first_key_type (_ # attrs) = first_key_type attrs"

definition probe_key_type :: "'t cryptoki \<Rightarrow> 't \<Rightarrow> session \<Rightarrow> object_handle \<Rightarrow> (u64, pkcs_sign_error) result" where
  "probe_key_type K t s h =
     rbind (rmap_err (\<lambda>e. SignSessionError (''get_attributes failed: '' @ ck_to_string K e)) (get_attributes K t s h [TyKeyType])) (\<lambda>attrs.
     ok_or (first_key_type attrs) (SignSessionError ''CKA_KEY_TYPE attribute not found on private key''))"

section \<open>The codes of return values\<close>

lemma rv_names_distinct: "distinct (map fst rv_codes)"
  unfolding rv_codes_def by simp

lemma rv_codes_increasing: "sorted_wrt (<) (map snd rv_codes)"
proof -
  have "successively (<) (map snd rv_codes)"
    unfolding rv_codes_def by simp
  then show ?thesis
    by (subst successively_iff_sorted_wrt_strong [symmetric]) auto
qed

lemma rv_codes_known: "code \<in> snd ` set rv_codes \<Longrightarrow> code \<le> 0x200"
  unfolding rv_codes_def by auto

lemma rv_error_to_code_known: "(name, code) \<in> set rv_codes \<Longrightarrow> rv_error_to_code name = code"
  using map_of_is_SomeI [OF rv_names_distinct] by (simp add: rv_error_to_code_def)

text \<open>The numeric code of a return value identifies it: two names of the table never share a code, and the code of a
  name outside the table is that of no name inside.\<close>

lemma rv_error_to_code_faithful:
  assumes "a \<in> fst ` set rv_codes"
  shows "rv_error_to_code a = rv_error_to_code b \<longleftrightarrow> a = b"
proof
  obtain ca where a: "(a, ca) \<in> set rv_codes" using assms by auto
  assume eq: "rv_error_to_code a = rv_error_to_code b"
  have "ca \<le> 0x200" using a rv_codes_known by force
  moreover have "rv_error_to_code b = ca" using eq rv_error_to_code_known [OF a] by simp
  ultimately have "map_of rv_codes b \<noteq> None" by (cases "map_of rv_codes b") (simp_all add: rv_error_to_code_def)
  then obtain cb where b: "(b, cb) \<in> set rv_codes" by (auto dest: map_of_SomeD)
  have "ca = cb" using eq rv_error_to_code_known [OF a] rv_error_to_code_known [OF b] by simp
  moreover have "inj_on snd (set rv_codes)"
    using rv_codes_increasing by (simp add: strict_sorted_iff distinct_map)
  ultimately show "a = b" using a b inj_onD [of snd "set rv_codes" "(a, ca)" "(b, cb)"] by simp
qed simp

end
