(* ===== verification/Pkcs11_Pool.thy ===== *)
theory Pkcs11_Pool
  imports Pkcs11_Base "HOL-Library.Multiset"
begin

text \<open>
  The session pool of \<open>oxitls-adapter-pkcs11/src/pool.rs\<close>: its construction, which opens and logs in every session, the
  non-blocking \<open>acquire\<close> and the drop of a \<open>PooledSession\<close>, first as functions of one caller and then as the steps of
  any number of threads, in the grain of the atomic operations of the code (the semaphore and the queue under its
  mutex are separate).
\<close>

section \<open>Construction\<close>

record session_pool =
  pool_sessions :: "session list"
  pool_permits :: nat

text \<open>The loop over \<open>0..cap\<close>. Sessions opened before a failure are dropped with the queue that held them.\<close>

definition close_all :: "'t cryptoki \<Rightarrow> session list \<Rightarrow> 't \<Rightarrow> 't" where
  "close_all K ss t = fold (close K) ss t"

fun open_sessions ::
    "'t cryptoki \<Rightarrow> u64 \<Rightarrow> string \<Rightarrow> nat \<Rightarrow> session list \<Rightarrow> 't \<Rightarrow> (session list, pkcs11_error) result \<times> 't" where
  "open_sessions K slot pin 0 acc t = (Ok acc, t)"
| "open_sessions K slot pin (Suc n) acc t =
     (case open_ro_session K slot t of
        (Err e, t) \<Rightarrow> (Err (SessionError (ck_to_string K e)), close_all K acc t)
      | (Ok s, t) \<Rightarrow>
          (case login K s pin t of
             (Err e, t) \<Rightarrow> (Err (SessionError (''login failed: '' @ ck_to_string K e)), close_all K acc (close K s t))
           | (Ok _, t) \<Rightarrow> open_sessions K slot pin n (acc @ [s]) t))"

definition pool_new ::
    "'t cryptoki \<Rightarrow> u64 \<Rightarrow> string \<Rightarrow> nat \<Rightarrow> 't \<Rightarrow> (session_pool, pkcs11_error) result \<times> 't" where
  "pool_new K slot pin cap t =
     (case open_sessions K slot pin cap [] t of
        (Err e, t) \<Rightarrow> (Err e, t)
      | (Ok ss, t) \<Rightarrow> (Ok \<lparr> pool_sessions = ss, pool_permits = cap \<rparr>, t))"

section \<open>Acquisition and release\<close>

text \<open>\<open>acquire\<close>: a permit first, then the front of the queue; a permit taken in vain is given back on return.\<close>

definition pool_acquire :: "session_pool \<Rightarrow> (session, pkcs11_error) result \<times> session_pool" where
  "pool_acquire p =
     (if pool_permits p = 0 then (Err SessionPoolExhausted, p)
      else
        (case pool_sessions p of
           [] \<Rightarrow> (Err SessionPoolExhausted, p)
         | s # ss \<Rightarrow> (Ok s, \<lparr> pool_sessions = ss, pool_permits = pool_permits p - 1 \<rparr>)))"

text \<open>The drop of a \<open>PooledSession\<close>: the session goes to the back of the queue, then the permit is released.\<close>

definition pool_release :: "session \<Rightarrow> session_pool \<Rightarrow> session_pool" where
  "pool_release s p = \<lparr> pool_sessions = pool_sessions p @ [s], pool_permits = pool_permits p + 1 \<rparr>"

section \<open>Threads\<close>

text \<open>Where a thread stands in \<open>acquire\<close> and \<open>drop\<close>.\<close>

datatype thread = Idle | HasPermit | Using session | Returned

record pool_state =
  queue :: "session list"
  permits :: nat
  threads :: "thread multiset"

datatype pool_event = TookPermit | NoPermit | TookSession session | QueueEmpty | PutBack session | Released

inductive pool_step :: "pool_state \<Rightarrow> pool_event \<Rightarrow> pool_state \<Rightarrow> bool" where
  take_permit: "pool_step \<lparr> queue = q, permits = Suc p, threads = add_mset Idle T \<rparr> TookPermit
                          \<lparr> queue = q, permits = p, threads = add_mset HasPermit T \<rparr>"
| no_permit: "pool_step \<lparr> queue = q, permits = 0, threads = add_mset Idle T \<rparr> NoPermit
                        \<lparr> queue = q, permits = 0, threads = add_mset Idle T \<rparr>"
| take_session: "pool_step \<lparr> queue = s # q, permits = p, threads = add_mset HasPermit T \<rparr> (TookSession s)
                           \<lparr> queue = q, permits = p, threads = add_mset (Using s) T \<rparr>"
| queue_empty: "pool_step \<lparr> queue = [], permits = p, threads = add_mset HasPermit T \<rparr> QueueEmpty
                          \<lparr> queue = [], permits = Suc p, threads = add_mset Idle T \<rparr>"
| put_back: "pool_step \<lparr> queue = q, permits = p, threads = add_mset (Using s) T \<rparr> (PutBack s)
                       \<lparr> queue = q @ [s], permits = p, threads = add_mset Returned T \<rparr>"
| release: "pool_step \<lparr> queue = q, permits = p, threads = add_mset Returned T \<rparr> Released
                      \<lparr> queue = q, permits = Suc p, threads = add_mset Idle T \<rparr>"

inductive_cases pool_step_queue_emptyE: "pool_step st QueueEmpty st'"
inductive_cases pool_step_no_permitE: "pool_step st NoPermit st'"

inductive pool_run :: "pool_state \<Rightarrow> pool_event list \<Rightarrow> pool_state \<Rightarrow> bool" for st where
  run_nil: "pool_run st [] st"
| run_snoc: "pool_run st es st' \<Longrightarrow> pool_step st' e st'' \<Longrightarrow> pool_run st (es @ [e]) st''"

text \<open>\<open>n\<close> threads that share a pool just built.\<close>

definition pool_start :: "session_pool \<Rightarrow> nat \<Rightarrow> pool_state" where
  "pool_start p n = \<lparr> queue = pool_sessions p, permits = pool_permits p, threads = replicate_mset n Idle \<rparr>"

section \<open>The invariant\<close>

text \<open>The sessions of the pool are those in the queue and those lent out, each once; the permits are those of the
  semaphore and those of the threads that are not idle.\<close>

fun session_of :: "thread \<Rightarrow> session multiset" where
  "session_of (Using s) = {#s#}"
| "session_of _ = {#}"

definition lent :: "thread multiset \<Rightarrow> session multiset" where
  "lent T = sum_mset (image_mset session_of T)"

definition pool_inv :: "session multiset \<Rightarrow> pool_state \<Rightarrow> bool" where
  "pool_inv S st \<longleftrightarrow>
     mset (queue st) + lent (threads st) = S \<and>
     permits st + size (filter_mset (\<lambda>t. t \<noteq> Idle) (threads st)) = size S"

lemma lent_add_mset [simp]:
  "lent (add_mset Idle T) = lent T"
  "lent (add_mset HasPermit T) = lent T"
  "lent (add_mset Returned T) = lent T"
  "lent (add_mset (Using s) T) = add_mset s (lent T)"
  by (simp_all add: lent_def)

lemma lent_idle [simp]: "lent (replicate_mset n Idle) = {#}"
  by (induction n) (simp_all add: lent_def)

lemma filter_idle [simp]: "filter_mset (\<lambda>t. t \<noteq> Idle) (replicate_mset n Idle) = {#}"
  by (induction n) simp_all

lemma pool_step_inv: "pool_step st e st' \<Longrightarrow> pool_inv S st \<Longrightarrow> pool_inv S st'"
  by (induction rule: pool_step.induct) (auto simp: pool_inv_def)

lemma pool_run_inv: "pool_run st es st' \<Longrightarrow> pool_inv S st \<Longrightarrow> pool_inv S st'"
  by (induction rule: pool_run.induct) (auto intro: pool_step_inv)

lemma size_lent_le: "size (lent T) \<le> size (filter_mset (\<lambda>t. t \<noteq> Idle) T)"
proof (induction T)
  case empty
  then show ?case by (simp add: lent_def)
next
  case (add t T)
  then show ?case by (cases t) auto
qed

text \<open>A thread with a permit finds a session.\<close>

lemma permit_finds_session:
  assumes "pool_inv S st" "HasPermit \<in># threads st"
  shows "queue st \<noteq> []"
proof -
  obtain T where T: "threads st = add_mset HasPermit T"
    using assms(2) by (metis insert_DiffM)
  have "size S = size (mset (queue st)) + size (lent T)" "size S \<ge> 1 + size (filter_mset (\<lambda>t. t \<noteq> Idle) T)"
    using assms(1) T by (auto simp: pool_inv_def)
  with size_lent_le [of T] show ?thesis by auto
qed

lemma pool_start_inv:
  "length (pool_sessions p) = pool_permits p \<Longrightarrow> pool_inv (mset (pool_sessions p)) (pool_start p n)"
  by (simp add: pool_inv_def pool_start_def)

lemma run_never_empty:
  assumes "pool_run st es st'" "pool_inv S st"
  shows "QueueEmpty \<notin> set es"
  using assms
proof (induction rule: pool_run.induct)
  case (run_snoc es st' e st'')
  have "e \<noteq> QueueEmpty"
  proof
    assume "e = QueueEmpty"
    with run_snoc.hyps(2) have "HasPermit \<in># threads st'" "queue st' = []"
      by (auto elim: pool_step_queue_emptyE)
    then show False
      using permit_finds_session [OF pool_run_inv [OF run_snoc.hyps(1) run_snoc.prems]] by simp
  qed
  with run_snoc show ?case by simp
qed simp

text \<open>What every thread still has to do until it is idle.\<close>

fun thread_rank :: "thread \<Rightarrow> nat" where
  "thread_rank Idle = 0"
| "thread_rank HasPermit = 3"
| "thread_rank (Using s) = 2"
| "thread_rank Returned = 1"

definition rank :: "pool_state \<Rightarrow> nat" where
  "rank st = sum_mset (image_mset thread_rank (threads st))"

lemma thread_rank_zero [simp]: "thread_rank t = 0 \<longleftrightarrow> t = Idle"
  by (cases t) simp_all

lemma rank_zero_iff: "rank st = 0 \<longleftrightarrow> (\<forall>t \<in># threads st. t = Idle)"
  by (simp add: rank_def)

lemma all_idle: "\<forall>t \<in># T. t = Idle \<Longrightarrow> T = replicate_mset (size T) Idle"
  by (induction T) auto

lemma rank_zero: "rank st = 0 \<Longrightarrow> threads st = replicate_mset (size (threads st)) Idle"
  unfolding rank_zero_iff by (rule all_idle)

text \<open>A thread that is not idle can always move on.\<close>

lemma busy_moves:
  assumes inv: "pool_inv S st" and busy: "rank st > 0"
  shows "\<exists>e st'. pool_step st e st' \<and> rank st' < rank st \<and> size (threads st') = size (threads st)"
proof -
  obtain q p where st: "st = \<lparr> queue = q, permits = p, threads = threads st \<rparr>" by (cases st) auto
  obtain t where t: "t \<in># threads st" "t \<noteq> Idle"
    using busy rank_zero_iff [of st] by auto
  then obtain T where T: "threads st = add_mset t T" by (metis insert_DiffM)
  show ?thesis
  proof (cases t)
    case HasPermit
    then obtain s q' where "q = s # q'"
      using permit_finds_session [OF inv] t st by (metis list.exhaust pool_state.select_convs(1))
    with st T HasPermit have "pool_step st (TookSession s) \<lparr> queue = q', permits = p, threads = add_mset (Using s) T \<rparr>"
      by (metis take_session)
    then show ?thesis using T HasPermit by (fastforce simp: rank_def)
  next
    case (Using s)
    with st T have "pool_step st (PutBack s) \<lparr> queue = q @ [s], permits = p, threads = add_mset Returned T \<rparr>"
      by (metis put_back)
    then show ?thesis using T Using by (fastforce simp: rank_def)
  next
    case Returned
    with st T have "pool_step st Released \<lparr> queue = q, permits = Suc p, threads = add_mset Idle T \<rparr>"
      by (metis release)
    then show ?thesis using T Returned by (fastforce simp: rank_def)
  qed (use t in simp)
qed

lemma pool_run_trans: "pool_run st' fs st'' \<Longrightarrow> pool_run st es st' \<Longrightarrow> pool_run st (es @ fs) st''"
proof (induction rule: pool_run.induct)
  case (run_snoc fs st' e st'')
  then show ?case using pool_run.run_snoc [of st "es @ fs" st' e st''] by simp
qed simp

lemma drains:
  assumes "pool_inv S st"
  shows "\<exists>es st'. pool_run st es st' \<and> rank st' = 0 \<and> size (threads st') = size (threads st)"
  using assms
proof (induction "rank st" arbitrary: st rule: less_induct)
  case less
  show ?case
  proof (cases "rank st = 0")
    case True
    then show ?thesis using run_nil by blast
  next
    case False
    then obtain e st1 where step: "pool_step st e st1" and r: "rank st1 < rank st" and n: "size (threads st1) = size (threads st)"
      using busy_moves [OF less.prems] by auto
    from less.hyps [OF r pool_step_inv [OF step less.prems]] obtain es st'
      where "pool_run st1 es st'" "rank st' = 0" "size (threads st') = size (threads st1)" by blast
    moreover have "pool_run st ([] @ [e]) st1" using run_snoc [OF run_nil step] .
    ultimately show ?thesis using pool_run_trans n by metis
  qed
qed

section \<open>Properties\<close>

text \<open>C23: Whatever the interleaving of any number of threads that acquire and drop sessions, no session is in two places at
  once: the sessions in the queue together with those in use are exactly those the pool was built with, so two
  threads never use the same one; a thread that was given a permit always finds a session in the queue; and
  \<open>SessionPoolExhausted\<close> is answered only when every session is taken (as many threads hold a permit as there
  are sessions).\<close>

theorem pool_exclusive:
  assumes p: "length (pool_sessions p) = pool_permits p" and d: "distinct (pool_sessions p)"
    and run: "pool_run (pool_start p n) es st"
  shows "mset (queue st) + lent (threads st) = mset (pool_sessions p) \<and>
         (\<forall>s. count (lent (threads st)) s \<le> 1) \<and>
         QueueEmpty \<notin> set es \<and>
         (pool_step st NoPermit st' \<longrightarrow> size (filter_mset (\<lambda>t. t \<noteq> Idle) (threads st)) = pool_permits p)"
proof -
  have inv: "pool_inv (mset (pool_sessions p)) st"
    using pool_run_inv [OF run pool_start_inv [OF p]] .
  then have eq: "mset (queue st) + lent (threads st) = mset (pool_sessions p)" by (simp add: pool_inv_def)
  have "count (lent (threads st)) s \<le> 1" for s
    using d eq by (metis count_union distinct_count_atmost_1 count_mset le_add2 le_trans nle_le zero_le_one)
  moreover have "QueueEmpty \<notin> set es"
    using run_never_empty [OF run pool_start_inv [OF p]] .
  moreover have "size (filter_mset (\<lambda>t. t \<noteq> Idle) (threads st)) = pool_permits p" if "pool_step st NoPermit st'"
    using that inv p by (auto simp: pool_inv_def elim!: pool_step_no_permitE)
  ultimately show ?thesis using eq by blast
qed


definition example_pool :: session_pool where
  "example_pool = \<lparr> pool_sessions = [10, 11], pool_permits = 2 \<rparr>"

lemma example_pool_run:
  "pool_run (pool_start example_pool 1) ([] @ [TookPermit] @ [TookSession 10])
     \<lparr> queue = [11], permits = 1, threads = {#Using 10#} \<rparr>"
  unfolding append_assoc [symmetric]
  by (rule run_snoc [OF run_snoc [OF run_nil]])
    (use take_permit [of "[10, 11]" 1 "{#}"] take_session [of 10 "[11]" 1 "{#}"] in
      \<open>simp_all add: pool_start_def example_pool_def numeral_2_eq_2\<close>)

theorem pool_exclusive_witness:
  "distinct (pool_sessions example_pool) \<and> length (pool_sessions example_pool) = pool_permits example_pool \<and>
   count (lent {#Using 10#}) 10 \<le> 1 \<and> QueueEmpty \<notin> set ([] @ [TookPermit] @ [TookSession 10])"
  using pool_exclusive [OF _ _ example_pool_run] by (simp add: example_pool_def)

text \<open>C24: No interleaving loses a session or a permit for good: from every reachable state the threads can finish, and once
  all are idle again the queue holds every session of the pool and the semaphore every permit, so that as many
  acquisitions succeed as at the start.\<close>

theorem pool_recovers:
  assumes p: "length (pool_sessions p) = pool_permits p" and run: "pool_run (pool_start p n) es st"
  shows "\<exists>fs st'. pool_run st fs st' \<and> threads st' = replicate_mset (size (threads st)) Idle \<and>
           mset (queue st') = mset (pool_sessions p) \<and> permits st' = pool_permits p"
proof -
  have inv: "pool_inv (mset (pool_sessions p)) st"
    using pool_run_inv [OF run pool_start_inv [OF p]] .
  obtain fs st' where r: "pool_run st fs st'" "rank st' = 0" "size (threads st') = size (threads st)"
    using drains [OF inv] by blast
  have T: "threads st' = replicate_mset (size (threads st)) Idle"
    using rank_zero [OF r(2)] r(3) by simp
  have "pool_inv (mset (pool_sessions p)) st'" by (rule pool_run_inv [OF r(1) inv])
  then have "mset (queue st') = mset (pool_sessions p) \<and> permits st' = pool_permits p"
    using p unfolding pool_inv_def T by simp
  with r(1) T show ?thesis by blast
qed

theorem pool_recovers_witness:
  "length (pool_sessions example_pool) = pool_permits example_pool \<and>
   (\<exists>fs st'. pool_run \<lparr> queue = [11], permits = 1, threads = {#Using 10#} \<rparr> fs st' \<and>
     mset (queue st') = {#10, 11#} \<and> permits st' = 2)"
  using pool_recovers [OF _ example_pool_run] by (auto simp: example_pool_def add_mset_commute)

text \<open>What PKCS#11 says of \<open>C_Login\<close>: the login is a state of the token for the whole application, shared by its
  sessions; a second login of the same user fails (\<open>CKR_USER_ALREADY_LOGGED_IN\<close>).\<close>

definition login_is_shared :: "'t cryptoki \<Rightarrow> ('t \<Rightarrow> bool) \<Rightarrow> bool" where
  "login_is_shared K logged_in \<longleftrightarrow>
     (\<forall>s pin t. fst (login K s pin t) = Ok () \<longrightarrow> \<not> logged_in t \<and> logged_in (snd (login K s pin t))) \<and>
     (\<forall>slot t. logged_in t \<longrightarrow> logged_in (snd (open_ro_session K slot t)))"

lemma open_sessions_logged_in:
  assumes "login_is_shared K logged_in" "logged_in t"
  shows "\<exists>msg. fst (open_sessions K slot pin (Suc n) acc t) = Err (SessionError msg)"
proof (cases "fst (open_ro_session K slot t)")
  case (Ok s)
  let ?t = "snd (open_ro_session K slot t)"
  have "logged_in ?t" using assms by (simp add: login_is_shared_def)
  then have "fst (login K s pin ?t) \<noteq> Ok ()"
    using assms(1) by (auto simp: login_is_shared_def)
  then obtain e where "fst (login K s pin ?t) = Err e" by (cases "fst (login K s pin ?t)") auto
  with Ok show ?thesis by (auto split: prod.splits result.splits)
next
  case (Err e)
  then show ?thesis by (auto split: prod.splits result.splits)
qed

text \<open>On a token whose login is shared, a pool of two or more sessions is never built: the second session is logged in
  again, the token refuses, and \<open>new\<close> returns \<open>SessionError\<close>.\<close>

lemma pool_new_second_login:
  assumes K: "login_is_shared K logged_in" and n: "2 \<le> cap"
  shows "\<exists>msg. fst (pool_new K slot pin cap t) = Err (SessionError msg)"
proof -
  obtain n where cap: "cap = Suc (Suc n)" using that [of "cap - 2"] n by simp
  have "\<exists>msg. fst (open_sessions K slot pin (Suc (Suc n)) [] t) = Err (SessionError msg)"
  proof (cases "open_ro_session K slot t")
    case (Pair r t')
    show ?thesis
    proof (cases r)
      case (Ok s)
      obtain r'' t'' where l: "login K s pin t' = (r'', t'')" by (cases "login K s pin t'") auto
      show ?thesis
      proof (cases r'')
        case ok: (Ok u)
        have "logged_in t''" using K l ok unfolding login_is_shared_def by (metis fst_conv snd_conv unit.exhaust)
        from open_sessions_logged_in [OF K this, of slot pin n "[s]"] Pair Ok l ok
        show ?thesis by simp
      next
        case (Err e)
        with Pair Ok l show ?thesis by simp
      qed
    next
      case (Err e)
      with Pair show ?thesis by simp
    qed
  qed
  then obtain msg t' where "open_sessions K slot pin cap [] t = (Err (SessionError msg), t')"
    unfolding cap by (metis prod.collapse)
  then show ?thesis by (simp add: pool_new_def)
qed

text \<open>A token that remembers the sessions it opened and whether the user is logged in.\<close>

definition example_token :: "(nat \<times> bool) cryptoki" where
  "example_token =
     \<lparr> open_ro_session = (\<lambda>slot (n, l). (Ok n, (Suc n, l))),
       login = (\<lambda>s pin (n, l). if l then (Err (Pkcs11Rv ''CKR_USER_ALREADY_LOGGED_IN''), (n, l)) else (Ok (), (n, True))),
       close = (\<lambda>s t. t),
       find_objects = (\<lambda>t s tmpl. Ok [1]), get_attributes = (\<lambda>t s h tys. Ok [KeyType CKK_EC]),
       token_sign = (\<lambda>t s m h msg. Ok (replicate 64 1)),
       create_object = (\<lambda>s tmpl t. (Err (Pkcs11Rv ''CKR_SESSION_READ_ONLY''), t)),
       ck_to_string = (\<lambda>e. ''error''), kt_debug = (\<lambda>k. ''?''), utf8 = map of_char, utf8_lossy = map (\<lambda>b. char_of (unat b)) \<rparr>"

lemma example_token_shared: "login_is_shared example_token snd"
  by (auto simp: login_is_shared_def example_token_def split: if_splits)

section \<open>One caller\<close>

text \<open>What a client of the pool relies on: it gets a session out of the pool, puts it back, and the contents are the
  same again. \<open>with_session\<close> is the pattern of every client: acquire, use the session, drop it on every path.\<close>

locale session_lender =
  fixes acquire :: "'p \<Rightarrow> (session, pkcs11_error) result \<times> 'p" and give_back :: "session \<Rightarrow> 'p \<Rightarrow> 'p"
    and contents :: "'p \<Rightarrow> session multiset" and free :: "'p \<Rightarrow> nat"
  assumes acquire_Ok: "acquire p = (Ok s, p') \<Longrightarrow> contents p = add_mset s (contents p') \<and> free p = Suc (free p')"
    and acquire_Err: "acquire p = (Err e, p') \<Longrightarrow> p' = p \<and> e = SessionPoolExhausted"
    and give_back: "contents (give_back s p) = add_mset s (contents p) \<and> free (give_back s p) = Suc (free p)"
begin

lemma lend_and_return:
  "acquire p = (Ok s, p') \<Longrightarrow> contents (give_back s p') = contents p \<and> free (give_back s p') = free p"
  using acquire_Ok [of p s p'] give_back [of s p'] by simp

end

definition with_session :: "session_pool \<Rightarrow> (pkcs11_error \<Rightarrow> 'e) \<Rightarrow> (session \<Rightarrow> ('a, 'e) result) \<Rightarrow> ('a, 'e) result \<times> session_pool" where
  "with_session p on_err body =
     (case pool_acquire p of
        (Err e, p) \<Rightarrow> (Err (on_err e), p)
      | (Ok s, p) \<Rightarrow> (body s, pool_release s p))"

interpretation pool_lender: session_lender pool_acquire pool_release "\<lambda>p. mset (pool_sessions p)" pool_permits
  by unfold_locales (auto simp: pool_acquire_def pool_release_def split: if_splits list.splits)

lemma with_session_keeps_pool:
  "with_session p on_err body = (r, p') \<Longrightarrow> mset (pool_sessions p') = mset (pool_sessions p) \<and> pool_permits p' = pool_permits p"
  using pool_lender.lend_and_return [of p] pool_lender.acquire_Err [of p]
  by (auto simp: with_session_def split: prod.splits result.splits)

lemma with_session_result:
  assumes "pool_sessions p = s # ss" "pool_permits p > 0"
  shows "with_session p on_err body = (body s, \<lparr> pool_sessions = ss @ [s], pool_permits = pool_permits p \<rparr>)"
  using assms by (simp add: with_session_def pool_acquire_def pool_release_def)

end
