(* ===== verification/Pkcs11_Signer.thy ===== *)
theory Pkcs11_Signer
  imports Pkcs11_Pool Schemes
begin

text \<open>
  The signing key of \<open>oxitls-adapter-pkcs11/src/signer.rs\<close>: the choice of a scheme, the mechanism of the token for it,
  signing through a session of the pool or through a fresh one, and the conversion of raw ECDSA signatures to DER.
  A reference decoder of DER signatures states what the conversion has to produce.
\<close>

section \<open>DER conversion\<close>

definition encode_int :: "bytes \<Rightarrow> bytes" where
  "encode_int bs =
     (let stripped = (case dropWhile (\<lambda>b. b = 0) bs of [] \<Rightarrow> [0] | t \<Rightarrow> t);
          needs_pad = (0x80 \<le> (case stripped of [] \<Rightarrow> 0 | b # _ \<Rightarrow> b));
          content_len = length stripped + (if needs_pad then 1 else 0) in
      0x02 # of_nat content_len # (if needs_pad then [0x00] else []) @ stripped)"

definition raw_ecdsa_to_der :: "bytes \<Rightarrow> (bytes, pkcs_sign_error) result" where
  "raw_ecdsa_to_der raw =
     (if length raw mod 2 \<noteq> 0 then Err (InvalidSignatureLength (length raw div 2 * 2) (length raw))
      else
        let half = length raw div 2;
            r_enc = encode_int (take half raw);
            s_enc = encode_int (drop half raw);
            seq_len = length r_enc + length s_enc in
        Ok (0x30 # of_nat seq_len # r_enc @ s_enc))"

section \<open>Signing\<close>

text \<open>\<open>SigningBackend\<close> is the function that signs with a mechanism.\<close>

definition finalize_signature :: "signature_scheme \<Rightarrow> bytes \<Rightarrow> (bytes, pkcs_sign_error) result" where
  "finalize_signature scheme raw_sig =
     (case scheme of
        ECDSA_NISTP256_SHA256 \<Rightarrow> if raw_sig \<noteq> [] \<and> hd raw_sig = 0x30 then Ok raw_sig else raw_ecdsa_to_der raw_sig
      | ECDSA_NISTP384_SHA384 \<Rightarrow> if raw_sig \<noteq> [] \<and> hd raw_sig = 0x30 then Ok raw_sig else raw_ecdsa_to_der raw_sig
      | _ \<Rightarrow> Ok raw_sig)"

definition sign_internal ::
    "(mechanism \<Rightarrow> bytes \<Rightarrow> (bytes, pkcs_sign_error) result) \<Rightarrow> mechanism \<Rightarrow> bytes \<Rightarrow> signature_scheme
      \<Rightarrow> (bytes, pkcs_sign_error) result" where
  "sign_internal backend mechanism message scheme =
     rbind (backend mechanism message) (\<lambda>raw_sig. finalize_signature scheme raw_sig)"

definition cryptoki_sign_raw ::
    "'t cryptoki \<Rightarrow> 't \<Rightarrow> session \<Rightarrow> object_handle \<Rightarrow> mechanism \<Rightarrow> bytes \<Rightarrow> (bytes, pkcs_sign_error) result" where
  "cryptoki_sign_raw K t s key_handle mechanism message =
     rmap_err (\<lambda>e. SignSignError (ck_to_string K e)) (token_sign K t s mechanism key_handle message)"

definition key_type_to_algorithm :: "'t cryptoki \<Rightarrow> u64 \<Rightarrow> (signature_algorithm, pkcs_sign_error) result" where
  "key_type_to_algorithm K kt =
     (if kt = CKK_EC then Ok ECDSA
      else if kt = CKK_RSA then Ok RSA
      else Err (SignKeyNotFound (''unsupported PKCS#11 key type: '' @ kt_debug K kt)))"

fun preferred_schemes :: "signature_algorithm \<Rightarrow> signature_scheme list" where
  "preferred_schemes ECDSA = [ECDSA_NISTP384_SHA384, ECDSA_NISTP256_SHA256]"
| "preferred_schemes RSA =
     [RSA_PSS_SHA512, RSA_PSS_SHA384, RSA_PSS_SHA256, RSA_PKCS1_SHA512, RSA_PKCS1_SHA384, RSA_PKCS1_SHA256]"
| "preferred_schemes _ = []"

text \<open>\<open>dbg\<close> is the \<open>Debug\<close> of rustls' \<open>SignatureScheme\<close>.\<close>

fun scheme_to_mechanism :: "(signature_scheme \<Rightarrow> string) \<Rightarrow> signature_scheme \<Rightarrow> (mechanism, pkcs_sign_error) result" where
  "scheme_to_mechanism dbg ECDSA_NISTP256_SHA256 = Ok EcdsaSha256"
| "scheme_to_mechanism dbg ECDSA_NISTP384_SHA384 = Ok EcdsaSha384"
| "scheme_to_mechanism dbg RSA_PKCS1_SHA256 = Ok Sha256RsaPkcs"
| "scheme_to_mechanism dbg RSA_PKCS1_SHA384 = Ok Sha384RsaPkcs"
| "scheme_to_mechanism dbg RSA_PKCS1_SHA512 = Ok Sha512RsaPkcs"
| "scheme_to_mechanism dbg RSA_PSS_SHA256 = Ok (RsaPkcsPss SHA256 SHA256 32)"
| "scheme_to_mechanism dbg RSA_PSS_SHA384 = Ok (RsaPkcsPss SHA384 SHA384 48)"
| "scheme_to_mechanism dbg RSA_PSS_SHA512 = Ok (RsaPkcsPss SHA512 SHA512 64)"
| "scheme_to_mechanism dbg scheme = Err (SignSignError (''unsupported signature scheme: '' @ dbg scheme))"

definition sign_in_session ::
    "'t cryptoki \<Rightarrow> (signature_scheme \<Rightarrow> string) \<Rightarrow> 't \<Rightarrow> session \<Rightarrow> string \<Rightarrow> signature_scheme \<Rightarrow> bytes
      \<Rightarrow> (bytes, pkcs_sign_error) result" where
  "sign_in_session K dbg t s key_label scheme message =
     rbind (find_private_key_by_label K t s key_label) (\<lambda>handle.
     rbind (scheme_to_mechanism dbg scheme) (\<lambda>mechanism.
     sign_internal (cryptoki_sign_raw K t s handle) mechanism message scheme))"

definition sign_via_pool ::
    "'t cryptoki \<Rightarrow> (signature_scheme \<Rightarrow> string) \<Rightarrow> 't \<Rightarrow> session_pool \<Rightarrow> string \<Rightarrow> signature_scheme \<Rightarrow> bytes
      \<Rightarrow> (bytes, pkcs_sign_error) result \<times> session_pool" where
  "sign_via_pool K dbg t pool key_label scheme message =
     with_session pool (\<lambda>e. SignSessionError (''pool acquire failed: '' @ pkcs11_error_display e))
       (\<lambda>s. sign_in_session K dbg t s key_label scheme message)"

text \<open>The fresh session of \<open>sign_with_pkcs11\<close> is dropped on return.\<close>

definition sign_with_pkcs11 ::
    "'t cryptoki \<Rightarrow> (signature_scheme \<Rightarrow> string) \<Rightarrow> u64 \<Rightarrow> string \<Rightarrow> string \<Rightarrow> signature_scheme \<Rightarrow> bytes \<Rightarrow> 't
      \<Rightarrow> (bytes, pkcs_sign_error) result \<times> 't" where
  "sign_with_pkcs11 K dbg slot pin key_label scheme message t =
     (case open_user_session K slot pin t of
        (Err e, t) \<Rightarrow> (Err e, t)
      | (Ok s, t) \<Rightarrow> (sign_in_session K dbg t s key_label scheme message, close K s t))"

section \<open>The signing key\<close>

datatype signing_key_backend = Pool | Direct u64 string

record pkcs11_signing_key =
  sk_backend :: signing_key_backend
  sk_label :: string
  sk_algorithm :: signature_algorithm

datatype pkcs11_signer =
    Pkcs11PooledSigner string signature_scheme
  | Pkcs11DirectSigner u64 string string signature_scheme

definition signing_key_new ::
    "'t cryptoki \<Rightarrow> 't \<Rightarrow> session_pool \<Rightarrow> string \<Rightarrow> (pkcs11_signing_key, pkcs11_error) result \<times> session_pool" where
  "signing_key_new K t pool key_label =
     with_session pool id (\<lambda>s.
       rbind (rmap_err from_sign_error (find_private_key_by_label K t s key_label)) (\<lambda>handle.
       rbind (rmap_err from_sign_error (probe_key_type K t s handle)) (\<lambda>kt.
       rbind (rmap_err (\<lambda>e. OtherError (''unsupported key type: '' @ pkcs_sign_error_display e)) (key_type_to_algorithm K kt)) (\<lambda>algorithm.
       Ok \<lparr> sk_backend = Pool, sk_label = key_label, sk_algorithm = algorithm \<rparr>))))"

text \<open>\<open>loaded\<close> and \<open>initialized\<close> are the results of \<open>Pkcs11::new\<close> and \<open>initialize\<close>.\<close>

definition signing_key_new_direct ::
    "'t cryptoki \<Rightarrow> (unit, cryptoki_error) result \<Rightarrow> (unit, cryptoki_error) result \<Rightarrow> u64 \<Rightarrow> string \<Rightarrow> string \<Rightarrow> 't
      \<Rightarrow> (pkcs11_signing_key, pkcs_sign_error) result \<times> 't" where
  "signing_key_new_direct K loaded initialized slot pin key_label t =
     (case rbind (rmap_err (\<lambda>e. SignInitError (ck_to_string K e)) loaded) (\<lambda>_.
           rmap_err (\<lambda>e. SignInitError (''C_Initialize failed: '' @ ck_to_string K e)) initialized) of
        Err e \<Rightarrow> (Err e, t)
      | Ok _ \<Rightarrow>
          (case open_user_session K slot pin t of
             (Err e, t) \<Rightarrow> (Err e, t)
           | (Ok s, t) \<Rightarrow>
               (rbind (find_private_key_by_label K t s key_label) (\<lambda>handle.
                rbind (probe_key_type K t s handle) (\<lambda>kt.
                rbind (key_type_to_algorithm K kt) (\<lambda>algorithm.
                Ok \<lparr> sk_backend = Direct slot pin, sk_label = key_label, sk_algorithm = algorithm \<rparr>))),
                close K s t)))"

definition choose_scheme :: "pkcs11_signing_key \<Rightarrow> signature_scheme list \<Rightarrow> pkcs11_signer option" where
  "choose_scheme k offered =
     map_option (\<lambda>scheme.
         (case sk_backend k of
            Pool \<Rightarrow> Pkcs11PooledSigner (sk_label k) scheme
          | Direct slot pin \<Rightarrow> Pkcs11DirectSigner slot pin (sk_label k) scheme))
       (first_offered (preferred_schemes (sk_algorithm k)) offered)"

fun signer_scheme :: "pkcs11_signer \<Rightarrow> signature_scheme" where
  "signer_scheme (Pkcs11PooledSigner label scheme) = scheme"
| "signer_scheme (Pkcs11DirectSigner slot pin label scheme) = scheme"

text \<open>\<open>Signer::sign\<close> of both signers, with the pool and the token they work on.\<close>

fun signer_sign ::
    "'t cryptoki \<Rightarrow> (signature_scheme \<Rightarrow> string) \<Rightarrow> pkcs11_signer \<Rightarrow> bytes \<Rightarrow> session_pool \<Rightarrow> 't
      \<Rightarrow> (bytes, rustls_error) result \<times> session_pool \<times> 't" where
  "signer_sign K dbg (Pkcs11PooledSigner label scheme) message pool t =
     (let (r, pool) = sign_via_pool K dbg t pool label scheme message in
      (rmap_err (\<lambda>e. General (pkcs_sign_error_display e)) r, pool, t))"
| "signer_sign K dbg (Pkcs11DirectSigner slot pin label scheme) message pool t =
     (let (r, t) = sign_with_pkcs11 K dbg slot pin label scheme message t in
      (rmap_err (\<lambda>e. General (pkcs_sign_error_display e)) r, pool, t))"

section \<open>A reference decoder of DER signatures\<close>

text \<open>An INTEGER in the short form, non-negative and without a superfluous leading zero, and the SEQUENCE of two.\<close>

definition minimal_int :: "bytes \<Rightarrow> bool" where
  "minimal_int c \<longleftrightarrow> c \<noteq> [] \<and> hd c < 0x80 \<and> (2 \<le> length c \<and> hd c = 0 \<longrightarrow> 0x80 \<le> c ! 1)"

fun der_int :: "bytes \<Rightarrow> (nat \<times> bytes) option" where
  "der_int (t # l # rest) =
     (let n = unat l; c = take n rest in
      if t = 0x02 \<and> n < 128 \<and> n \<le> length rest \<and> minimal_int c then Some (be_decode c, drop n rest) else None)"
| "der_int _ = None"

fun der_ecdsa :: "bytes \<Rightarrow> (nat \<times> nat) option" where
  "der_ecdsa (t # l # rest) =
     (if t = 0x30 \<and> unat l < 128 \<and> unat l = length rest
      then (case der_int rest of
              None \<Rightarrow> None
            | Some (r, rest) \<Rightarrow>
                (case der_int rest of
                   None \<Rightarrow> None
                 | Some (s, rest) \<Rightarrow> if rest = [] then Some (r, s) else None))
      else None)"
| "der_ecdsa _ = None"

section \<open>The conversion\<close>

lemma be_decode_Cons: "be_decode (b # bs) = unat b * 256 ^ length bs + be_decode bs"
proof (induction bs rule: rev_induct)
  case (snoc x bs)
  then show ?case
    using be_decode_snoc [of "b # bs" x] by (simp add: algebra_simps)
qed (simp add: be_decode_def)

lemma be_decode_strip: "be_decode (dropWhile (\<lambda>b. b = 0) bs) = be_decode bs"
  by (induction bs) (simp_all add: be_decode_Cons)

lemma dropWhile_zero_hd: "dropWhile (\<lambda>b :: byte. b = 0) bs = c # cs \<Longrightarrow> c \<noteq> 0"
  using hd_dropWhile [of "\<lambda>b. b = 0" bs] by force

lemma encode_int_layout:
  assumes "length bs \<le> 60"
  shows "\<exists>c. encode_int bs = 0x02 # of_nat (length c) # c \<and> 1 \<le> length c \<and> length c \<le> Suc (length bs) \<and> length c \<le> 61 \<and>
    minimal_int c \<and> be_decode c = be_decode bs"
proof (cases "dropWhile (\<lambda>b. b = 0) bs")
  case Nil
  then have "be_decode bs = 0" by (metis be_decode_strip be_decode_Nil)
  moreover have "encode_int bs = [2, 1, 0]" unfolding encode_int_def Nil by simp
  ultimately show ?thesis
    by (intro exI [of _ "[0]"]) (simp add: minimal_int_def be_decode_def)
next
  case (Cons b cs)
  have nz: "b \<noteq> 0" using dropWhile_zero_hd [OF Cons] .
  have val: "be_decode (b # cs) = be_decode bs" using be_decode_strip [of bs] Cons by simp
  have len: "length (b # cs) \<le> length bs" using length_dropWhile_le [of "\<lambda>b. b = 0" bs] Cons by simp
  show ?thesis
  proof (cases "0x80 \<le> b")
    case True
    with Cons val len assms show ?thesis
      by (intro exI [of _ "0 # b # cs"]) (simp add: encode_int_def minimal_int_def be_decode_Cons)
  next
    case False
    with Cons val len assms nz show ?thesis
      by (intro exI [of _ "b # cs"]) (simp add: encode_int_def minimal_int_def Let_def linorder_not_le [symmetric])
  qed
qed

lemma der_int_encode:
  assumes "length bs \<le> 60"
  shows "der_int (encode_int bs @ rest) = Some (be_decode bs, rest)" and "length (encode_int bs) \<le> 63"
proof -
  obtain c where c: "encode_int bs = 0x02 # of_nat (length c) # c" "1 \<le> length c" "length c \<le> 61"
    "minimal_int c" "be_decode c = be_decode bs"
    using encode_int_layout [OF assms] by blast
  have "unat (of_nat (length c) :: byte) = length c" using c(3) by simp
  with c show "der_int (encode_int bs @ rest) = Some (be_decode bs, rest)" "length (encode_int bs) \<le> 63"
    by (simp_all add: Let_def)
qed

lemma raw_ecdsa_to_der_decodes:
  assumes "length raw = 2 * n" "n \<le> 60"
  shows "\<exists>der. raw_ecdsa_to_der raw = Ok der \<and> der_ecdsa der = Some (be_decode (take n raw), be_decode (drop n raw))"
proof -
  let ?r = "encode_int (take n raw)" and ?s = "encode_int (drop n raw)"
  have "length (take n raw) \<le> 60" "length (drop n raw) \<le> 60" using assms by simp_all
  note r = der_int_encode [OF this(1)] and s = der_int_encode [OF this(2)]
  have len: "unat (of_nat (length ?r + length ?s) :: byte) = length ?r + length ?s"
    using r(2) s(2) by (simp del: of_nat_add)
  have "raw_ecdsa_to_der raw = Ok (0x30 # of_nat (length ?r + length ?s) # ?r @ ?s)"
    using assms by (simp add: raw_ecdsa_to_der_def Let_def)
  moreover have "der_ecdsa (0x30 # of_nat (length ?r + length ?s) # ?r @ ?s) = Some (be_decode (take n raw), be_decode (drop n raw))"
    using r(1) [of ?s] r(2) s(1) [of "[]"] s(2) len by (simp del: of_nat_add)
  ultimately show ?thesis by blast
qed


section \<open>Properties\<close>

text \<open>A raw ECDSA signature of two halves of up to 60 bytes (P-256 has 32, P-384 has 48) is converted to the DER
  encoding of exactly the two integers, minimal and within the short form, unless its first byte is the tag 0x30:
  such a signature is passed through as it is, and is a DER signature only if its second byte happens to be its
  length minus two. Odd lengths are refused.\<close>

theorem finalize_ecdsa:
  assumes scheme: "scheme \<in> {ECDSA_NISTP256_SHA256, ECDSA_NISTP384_SHA384}" and n: "0 < n" "n \<le> 60"
  shows "(length raw = 2 * n \<and> hd raw \<noteq> 0x30 \<longrightarrow>
            (\<exists>der. finalize_signature scheme raw = Ok der \<and>
              der_ecdsa der = Some (be_decode (take n raw), be_decode (drop n raw)))) \<and>
         (length raw = 2 * n \<and> hd raw = 0x30 \<longrightarrow>
            finalize_signature scheme raw = Ok raw \<and> (der_ecdsa raw \<noteq> None \<longrightarrow> unat (raw ! 1) = 2 * n - 2)) \<and>
         (length raw = 2 * n + 1 \<and> hd raw \<noteq> 0x30 \<longrightarrow>
            finalize_signature scheme raw = Err (InvalidSignatureLength (2 * n) (2 * n + 1)))"
proof (intro conjI impI)
  have fin: "finalize_signature scheme raw = (if raw \<noteq> [] \<and> hd raw = 0x30 then Ok raw else raw_ecdsa_to_der raw)"
    using scheme by (auto simp: finalize_signature_def)
  show "\<exists>der. finalize_signature scheme raw = Ok der \<and> der_ecdsa der = Some (be_decode (take n raw), be_decode (drop n raw))"
    if "length raw = 2 * n \<and> hd raw \<noteq> 0x30"
    using that fin raw_ecdsa_to_der_decodes [of raw n] n by simp
  show "finalize_signature scheme raw = Ok raw" if "length raw = 2 * n \<and> hd raw = 0x30"
    using that fin n by auto
  show "unat (raw ! 1) = 2 * n - 2" if "length raw = 2 * n \<and> hd raw = 0x30" "der_ecdsa raw \<noteq> None"
    using that by (cases raw rule: der_ecdsa.cases) (auto split: if_splits)
  show "finalize_signature scheme raw = Err (InvalidSignatureLength (2 * n) (2 * n + 1))"
    if "length raw = 2 * n + 1 \<and> hd raw \<noteq> 0x30"
    using that fin by (simp add: raw_ecdsa_to_der_def)
qed

theorem finalize_ecdsa_witness:
  "(\<exists>der. finalize_signature ECDSA_NISTP256_SHA256 (replicate 32 0x81 @ replicate 32 0) = Ok der \<and>
      der_ecdsa der = Some (be_decode (replicate 32 0x81), 0)) \<and>
   finalize_signature ECDSA_NISTP256_SHA256 (replicate 64 0x30) = Ok (replicate 64 0x30) \<and>
   der_ecdsa (replicate 64 0x30) = None"
proof -
  have z: "be_decode (replicate n 0) = 0" for n
    by (induction n) (simp_all add: be_decode_Cons)
  have one: "replicate 64 (0x30 :: byte) ! 1 = 0x30" by (rule nth_replicate) simp
  have "der_ecdsa (replicate 64 0x30) = None"
    using finalize_ecdsa [of ECDSA_NISTP256_SHA256 32 "replicate 64 0x30"] one
    by (cases "der_ecdsa (replicate 64 0x30)") auto
  then show ?thesis
    using finalize_ecdsa [of ECDSA_NISTP256_SHA256 32 "replicate 32 0x81 @ replicate 32 0"]
      finalize_ecdsa [of ECDSA_NISTP256_SHA256 32 "replicate 64 0x30"] z
    by (simp add: hd_append)
qed

text \<open>Signing through the pool. With a session at hand and the key found on the token, a pooled ECDSA signer returns
  the DER encoding of the two integers the token signed (first byte other than 0x30), and the pool holds the same
  sessions and permits afterwards; on every path, errors included, no session is lost. With no permit left the
  answer is the error of an exhausted pool and the token is not asked.\<close>

theorem pooled_sign_ecdsa:
  assumes scheme: "scheme_to_mechanism dbg scheme = Ok mech" "scheme \<in> {ECDSA_NISTP256_SHA256, ECDSA_NISTP384_SHA384}"
    and n: "0 < n" "n \<le> 60"
  shows "(pool_sessions pool = s # ss \<and> 0 < pool_permits pool \<and> find_private_key_by_label K t s label = Ok h \<and>
          token_sign K t s mech h message = Ok raw \<and> length raw = 2 * n \<and> hd raw \<noteq> 0x30 \<longrightarrow>
            (\<exists>der. signer_sign K dbg (Pkcs11PooledSigner label scheme) message pool t =
                (Ok der, \<lparr> pool_sessions = ss @ [s], pool_permits = pool_permits pool \<rparr>, t) \<and>
              der_ecdsa der = Some (be_decode (take n raw), be_decode (drop n raw)))) \<and>
         (pool_permits pool = 0 \<longrightarrow>
            signer_sign K dbg (Pkcs11PooledSigner label scheme) message pool t =
              (Err (General (''PKCS#11 session error: pool acquire failed: PKCS#11 session pool exhausted: no available sessions'')),
               pool, t)) \<and>
         (signer_sign K dbg (Pkcs11PooledSigner label scheme) message pool t = (r, pool', t') \<longrightarrow>
            mset (pool_sessions pool') = mset (pool_sessions pool) \<and> pool_permits pool' = pool_permits pool \<and> t' = t)"
proof (intro conjI impI)
  assume a: "pool_sessions pool = s # ss \<and> 0 < pool_permits pool \<and> find_private_key_by_label K t s label = Ok h \<and>
      token_sign K t s mech h message = Ok raw \<and> length raw = 2 * n \<and> hd raw \<noteq> 0x30"
  have "finalize_signature scheme raw = raw_ecdsa_to_der raw"
    using scheme(2) a by (auto simp: finalize_signature_def)
  moreover obtain der where der: "raw_ecdsa_to_der raw = Ok der" "der_ecdsa der = Some (be_decode (take n raw), be_decode (drop n raw))"
    using raw_ecdsa_to_der_decodes [of raw n] a n by blast
  ultimately have "sign_in_session K dbg t s label scheme message = Ok der"
    using a scheme(1) by (simp add: sign_in_session_def sign_internal_def cryptoki_sign_raw_def)
  with a der(2) show "\<exists>der. signer_sign K dbg (Pkcs11PooledSigner label scheme) message pool t =
                (Ok der, \<lparr> pool_sessions = ss @ [s], pool_permits = pool_permits pool \<rparr>, t) \<and>
              der_ecdsa der = Some (be_decode (take n raw), be_decode (drop n raw))"
    by (simp add: sign_via_pool_def with_session_result)
next
  assume "pool_permits pool = 0"
  then show "signer_sign K dbg (Pkcs11PooledSigner label scheme) message pool t =
      (Err (General (''PKCS#11 session error: pool acquire failed: PKCS#11 session pool exhausted: no available sessions'')), pool, t)"
    by (simp add: sign_via_pool_def with_session_def pool_acquire_def)
next
  assume "signer_sign K dbg (Pkcs11PooledSigner label scheme) message pool t = (r, pool', t')"
  then obtain r' where w: "sign_via_pool K dbg t pool label scheme message = (r', pool')" and t: "t' = t"
    by (auto split: prod.splits)
  note k = with_session_keeps_pool [OF w [unfolded sign_via_pool_def]]
  show "mset (pool_sessions pool') = mset (pool_sessions pool)" "pool_permits pool' = pool_permits pool" "t' = t"
    using k t by simp_all
qed

theorem pooled_sign_ecdsa_witness:
  "\<exists>der. signer_sign example_token (\<lambda>_. []) (Pkcs11PooledSigner ''key'' ECDSA_NISTP256_SHA256) [1, 2, 3] example_pool (0, True) =
      (Ok der, \<lparr> pool_sessions = [11, 10], pool_permits = 2 \<rparr>, (0, True)) \<and>
    der_ecdsa der = Some (be_decode (replicate 32 1), be_decode (replicate 32 1))"
  using pooled_sign_ecdsa [of "\<lambda>_. []" ECDSA_NISTP256_SHA256 EcdsaSha256 32 example_pool 10 "[11]" example_token "(0, True)" "''key''" 1
      "[1, 2, 3]" "replicate 64 1"]
  by (simp add: example_pool_def example_token_def find_private_key_by_label_def)

text \<open>The documentation of \<open>CKM_RSA_PKCS_PSS\<close>: the mechanism does not hash, its input is a digest of the length of the hash
  named in its parameters.\<close>

fun pss_digest_len :: "pss_hash \<Rightarrow> nat" where
  "pss_digest_len SHA256 = 32"
| "pss_digest_len SHA384 = 48"
| "pss_digest_len SHA512 = 64"

definition pss_takes_digest :: "'t cryptoki \<Rightarrow> bool" where
  "pss_takes_digest K \<longleftrightarrow>
     (\<forall>t s hash mgf sl h message. length message \<noteq> pss_digest_len hash \<longrightarrow>
        \<not> is_ok (token_sign K t s (RsaPkcsPss hash mgf sl) h message))"

text \<open>The scheme a key signs with. It is one the peer offered and the token has a mechanism for it. An EC key signs with
  ECDSA_NISTP384_SHA384 whenever that is offered, whatever its curve; an RSA key signs with PSS whenever a PSS
  scheme is offered, the message itself is handed to the mechanism, and on a token that follows the documentation
  of CKM_RSA_PKCS_PSS no message longer than 64 bytes is signed.\<close>

theorem chosen_scheme_signs:
  assumes K: "pss_takes_digest K" and c: "choose_scheme k offered = Some signer"
  shows "signer_scheme signer \<in> set offered \<and> is_ok (scheme_to_mechanism dbg (signer_scheme signer)) \<and>
         (sk_algorithm k = ECDSA \<and> ECDSA_NISTP384_SHA384 \<in> set offered \<longrightarrow> signer_scheme signer = ECDSA_NISTP384_SHA384) \<and>
         (sk_algorithm k = RSA \<and> set offered \<inter> {RSA_PSS_SHA256, RSA_PSS_SHA384, RSA_PSS_SHA512} \<noteq> {} \<and> 64 < length message \<longrightarrow>
            \<not> is_ok (fst (signer_sign K dbg signer message pool t)))"
proof -
  let ?s = "signer_scheme signer"
  obtain scheme where f: "first_offered (preferred_schemes (sk_algorithm k)) offered = Some scheme" and s: "?s = scheme"
    using c by (cases "sk_backend k") (auto simp: choose_scheme_def)
  have mech: "is_ok (scheme_to_mechanism dbg ?s)"
    using first_offered_Some [OF f] s by (cases "sk_algorithm k") auto
  have ec: "?s = ECDSA_NISTP384_SHA384" if "sk_algorithm k = ECDSA" "ECDSA_NISTP384_SHA384 \<in> set offered"
    using that f s by (simp add: first_offered_def)
  have pss: "?s \<in> {RSA_PSS_SHA256, RSA_PSS_SHA384, RSA_PSS_SHA512}"
    if "sk_algorithm k = RSA" "set offered \<inter> {RSA_PSS_SHA256, RSA_PSS_SHA384, RSA_PSS_SHA512} \<noteq> {}"
    using that f s by (auto simp: first_offered_def split: if_splits)
  have fail: "\<not> is_ok (sign_in_session K dbg u v l ?s message)"
    if "?s \<in> {RSA_PSS_SHA256, RSA_PSS_SHA384, RSA_PSS_SHA512}" "64 < length message" for u v l
    using that K unfolding pss_takes_digest_def sign_in_session_def sign_internal_def cryptoki_sign_raw_def
    by (fastforce simp: result_simps)
  have "\<not> is_ok (fst (signer_sign K dbg signer message pool t))"
    if "?s \<in> {RSA_PSS_SHA256, RSA_PSS_SHA384, RSA_PSS_SHA512}" "64 < length message"
    using fail [OF that]
    by (cases signer) (auto simp: sign_via_pool_def with_session_def sign_with_pkcs11_def result_simps split: prod.splits result.splits)
  with first_offered_Some [OF f] s mech ec pss show ?thesis by blast
qed


definition example_rsa_token :: "(nat \<times> bool) cryptoki" where
  "example_rsa_token = example_token\<lparr> token_sign := (\<lambda>t s m h message.
     (case m of
        RsaPkcsPss hash mgf sl \<Rightarrow> if length message = pss_digest_len hash then Ok [1] else Err (Pkcs11Rv ''CKR_DATA_LEN_RANGE'')
      | _ \<Rightarrow> Ok [2])) \<rparr>"

theorem chosen_scheme_signs_witness:
  "pss_takes_digest example_rsa_token \<and>
   (\<exists>signer. choose_scheme \<lparr> sk_backend = Pool, sk_label = ''key'', sk_algorithm = RSA \<rparr> [RSA_PKCS1_SHA256, RSA_PSS_SHA256] = Some signer \<and>
     \<not> is_ok (fst (signer_sign example_rsa_token (\<lambda>_. []) signer (replicate 130 0) example_pool (0, True))))"
proof -
  have K: "pss_takes_digest example_rsa_token"
    by (auto simp: pss_takes_digest_def example_rsa_token_def)
  have c: "choose_scheme \<lparr> sk_backend = Pool, sk_label = ''key'', sk_algorithm = RSA \<rparr> [RSA_PKCS1_SHA256, RSA_PSS_SHA256] =
      Some (Pkcs11PooledSigner ''key'' RSA_PSS_SHA256)"
    by (simp add: choose_scheme_def first_offered_def)
  show ?thesis
    using chosen_scheme_signs [OF K c, of "\<lambda>_. []" "replicate 130 0" example_pool "(0, True)"] K c by auto
qed

end
