(* ===== verification/Pkcs11_Provider.thy ===== *)
theory Pkcs11_Provider
  imports Pkcs11_Signer
begin

text \<open>
  The certificate resolver and the provider of \<open>oxitls-adapter-pkcs11\<close> (\<open>resolver.rs\<close>, \<open>provider.rs\<close>, the key types of
  \<open>lib.rs\<close>): selection of a certificate by server name with wildcards, the certificate chains and keys read from the
  token, the server configurations built from them, the listing of keys and the import of certificates.
\<close>

section \<open>Server names\<close>

text \<open>\<open>strip_prefix\<close> and \<open>strip_suffix\<close> of Rust strings; a string is the list of its bytes.\<close>

fun strip_prefix :: "string \<Rightarrow> string \<Rightarrow> string option" where
  "strip_prefix [] xs = Some xs"
| "strip_prefix (p # ps) (x # xs) = (if p = x then strip_prefix ps xs else None)"
| "strip_prefix (p # ps) [] = None"

definition strip_suffix :: "string \<Rightarrow> string \<Rightarrow> string option" where
  "strip_suffix suffix xs = map_option rev (strip_prefix (rev suffix) (rev xs))"

definition wildcard_matches :: "string \<Rightarrow> string \<Rightarrow> bool" where
  "wildcard_matches key requested =
     (case strip_prefix ''*.'' key of
        None \<Rightarrow> False
      | Some suffix \<Rightarrow>
          (case strip_suffix suffix requested of
             None \<Rightarrow> False
           | Some label_dot \<Rightarrow>
               1 < length label_dot \<and> last label_dot = CHR ''.'' \<and>
               CHR ''.'' \<notin> set (take (length label_dot - 1) label_dot)))"

text \<open>\<open>match_sni\<close>; a \<open>BTreeMap\<close> is the list of its entries in the order of its iteration.\<close>

definition match_sni :: "(string \<times> 'v) list \<Rightarrow> string \<Rightarrow> bool \<Rightarrow> 'v option \<Rightarrow> 'v option" where
  "match_sni m requested strict dflt =
     (case map_of m requested of
        Some v \<Rightarrow> Some v
      | None \<Rightarrow>
          (case find (\<lambda>(key, v). wildcard_matches key requested) m of
             Some (key, v) \<Rightarrow> Some v
           | None \<Rightarrow> if strict then None else dflt))"

section \<open>The resolver\<close>

record certified_key =
  ck_chain :: "bytes list"
  ck_key :: pkcs11_signing_key

record server_cert_resolver =
  sni_map :: "(string \<times> certified_key) list"
  default_cert :: "certified_key option"
  strict_sni :: bool

definition resolver_new :: "bytes list \<Rightarrow> pkcs11_signing_key \<Rightarrow> server_cert_resolver" where
  "resolver_new cert_chain signing_key =
     \<lparr> sni_map = [], default_cert = Some \<lparr> ck_chain = cert_chain, ck_key = signing_key \<rparr>, strict_sni = False \<rparr>"

definition resolver_with_sni_map :: "(string \<times> (bytes list \<times> pkcs11_signing_key)) list \<Rightarrow> server_cert_resolver" where
  "resolver_with_sni_map m =
     \<lparr> sni_map = map (\<lambda>(hostname, chain, key). (hostname, \<lparr> ck_chain = chain, ck_key = key \<rparr>)) m,
       default_cert = None, strict_sni = False \<rparr>"

definition resolver_with_strict_sni :: "bool \<Rightarrow> server_cert_resolver \<Rightarrow> server_cert_resolver" where
  "resolver_with_strict_sni strict r = r\<lparr> strict_sni := strict \<rparr>"

definition resolver_lookup :: "server_cert_resolver \<Rightarrow> string option \<Rightarrow> certified_key option" where
  "resolver_lookup r sni =
     (case sni of
        Some name \<Rightarrow> match_sni (sni_map r) name (strict_sni r) (default_cert r)
      | None \<Rightarrow> if strict_sni r then None else default_cert r)"

section \<open>The provider\<close>

fun first_value :: "attribute list \<Rightarrow> bytes option" where
  "first_value [] = None"
| "first_value (Value v # attrs) = Some v"
| "first_value (_ # attrs) = first_value attrs"

fun read_certs :: "'t cryptoki \<Rightarrow> 't \<Rightarrow> session \<Rightarrow> object_handle list \<Rightarrow> (bytes list, pkcs11_error) result" where
  "read_certs K t s [] = Ok []"
| "read_certs K t s (handle # handles) =
     rbind (rmap_err (\<lambda>e. SessionError (''get_attributes failed: '' @ ck_to_string K e)) (get_attributes K t s handle [TyValue])) (\<lambda>attrs.
     rbind (ok_or (first_value attrs) (SessionError ''CKA_VALUE not found on certificate'')) (\<lambda>der.
     rbind (read_certs K t s handles) (\<lambda>certs.
     Ok (der # certs))))"

definition cert_chain :: "'t cryptoki \<Rightarrow> 't \<Rightarrow> session_pool \<Rightarrow> string \<Rightarrow> (bytes list, pkcs11_error) result \<times> session_pool" where
  "cert_chain K t pool label =
     with_session pool id (\<lambda>s.
       let template = [Class CERTIFICATE, Label (utf8 K label)] in
       rbind (rmap_err (\<lambda>e. KeyNotFound (''find_objects failed: '' @ ck_to_string K e)) (find_objects K t s template)) (\<lambda>handles.
       if handles = [] then Err (KeyNotFound (''no certificate found with label: '' @ label))
       else read_certs K t s handles))"

text \<open>The rest of a \<open>rustls::ServerConfig\<close> is fixed: TLS 1.3, no client authentication. \<open>versions\<close> is the answer of
  rustls to the protocol versions for the given provider.\<close>

definition provider_server_config ::
    "'t cryptoki \<Rightarrow> 't \<Rightarrow> (unit, string) result \<Rightarrow> string \<Rightarrow> string \<Rightarrow> session_pool
      \<Rightarrow> (server_cert_resolver, pkcs11_error) result \<times> session_pool" where
  "provider_server_config K t versions chain_label key_label pool =
     (case cert_chain K t pool chain_label of
        (Err e, pool) \<Rightarrow> (Err e, pool)
      | (Ok chain, pool) \<Rightarrow>
          (case signing_key_new K t pool key_label of
             (Err e, pool) \<Rightarrow> (Err e, pool)
           | (Ok key, pool) \<Rightarrow>
               (rbind (rmap_err TlsConfigError versions) (\<lambda>_. Ok (resolver_new chain key)), pool)))"

fun load_sni_entries ::
    "'t cryptoki \<Rightarrow> 't \<Rightarrow> (string \<times> string \<times> string) list \<Rightarrow> (string \<times> (bytes list \<times> pkcs11_signing_key)) list \<Rightarrow> session_pool
      \<Rightarrow> ((string \<times> (bytes list \<times> pkcs11_signing_key)) list, pkcs11_error) result \<times> session_pool" where
  "load_sni_entries K t [] acc pool = (Ok acc, pool)"
| "load_sni_entries K t ((hostname, chain_label, key_label) # rest) acc pool =
     (case cert_chain K t pool chain_label of
        (Err e, pool) \<Rightarrow> (Err e, pool)
      | (Ok chain, pool) \<Rightarrow>
          (case signing_key_new K t pool key_label of
             (Err e, pool) \<Rightarrow> (Err e, pool)
           | (Ok key, pool) \<Rightarrow> load_sni_entries K t rest (acc @ [(hostname, (chain, key))]) pool))"

definition provider_server_config_sni ::
    "'t cryptoki \<Rightarrow> 't \<Rightarrow> (unit, string) result \<Rightarrow> (string \<times> string \<times> string) list \<Rightarrow> bool \<Rightarrow> session_pool
      \<Rightarrow> (server_cert_resolver, pkcs11_error) result \<times> session_pool" where
  "provider_server_config_sni K t versions m strict pool =
     (case load_sni_entries K t m [] pool of
        (Err e, pool) \<Rightarrow> (Err e, pool)
      | (Ok entries, pool) \<Rightarrow>
          (let resolver = resolver_with_strict_sni strict (resolver_with_sni_map entries) in
           (rbind (rmap_err TlsConfigError versions) (\<lambda>_. Ok resolver), pool)))"

subsection \<open>Construction\<close>

record tls_provider =
  prov_slot :: u64
  prov_pool :: session_pool

text \<open>\<open>loaded\<close>, \<open>initialized\<close> and \<open>slot\<close> are the results of \<open>Pkcs11::new\<close>, \<open>initialize\<close> and \<open>Slot::try_from\<close>.\<close>

definition provider_new ::
    "'t cryptoki \<Rightarrow> (unit, cryptoki_error) result \<Rightarrow> (unit, cryptoki_error) result \<Rightarrow> (u64, string) result \<Rightarrow> u64 \<Rightarrow> string \<Rightarrow> 't
      \<Rightarrow> (tls_provider, pkcs11_error) result \<times> 't" where
  "provider_new K loaded initialized slot slot_index pin t =
     (case rbind (rmap_err (\<lambda>e. InitError (ck_to_string K e)) loaded) (\<lambda>_.
           rbind (rmap_err (\<lambda>e. InitError (''C_Initialize failed: '' @ ck_to_string K e)) initialized) (\<lambda>_.
           rmap_err (\<lambda>e. InitError (''invalid slot index '' @ show_nat (unat slot_index) @ '': '' @ e)) slot)) of
        Err e \<Rightarrow> (Err e, t)
      | Ok slot \<Rightarrow>
          (let capacity = 4 in
           case pool_new K slot pin capacity t of
             (Err e, t) \<Rightarrow> (Err e, t)
           | (Ok pool, t) \<Rightarrow> (Ok \<lparr> prov_slot = slot, prov_pool = pool \<rparr>, t)))"

subsection \<open>Keys and certificates on the token\<close>

datatype pkcs11_key_type = Rsa | EcdsaP256 | EcdsaP384 | Ed25519Key | OtherKeyType u64

record pkcs11_key_info =
  ki_label :: string
  ki_key_type :: pkcs11_key_type
  ki_id :: bytes
  ki_signing_capable :: bool

record key_attrs =
  at_label :: "bytes option"
  at_key_type :: "u64 option"
  at_id :: bytes
  at_sign :: bool

fun take_attribute :: "attribute \<Rightarrow> key_attrs \<Rightarrow> key_attrs" where
  "take_attribute (Label v) a = a\<lparr> at_label := Some v \<rparr>"
| "take_attribute (KeyType kt) a = a\<lparr> at_key_type := Some kt \<rparr>"
| "take_attribute (Id v) a = a\<lparr> at_id := v \<rparr>"
| "take_attribute (Sign s) a = a\<lparr> at_sign := s \<rparr>"
| "take_attribute _ a = a"

definition key_type_of :: "u64 option \<Rightarrow> pkcs11_key_type" where
  "key_type_of raw =
     (case raw of
        Some kt \<Rightarrow> if kt = CKK_RSA then Rsa else if kt = CKK_EC then EcdsaP256
                   else if kt = CKK_EC_EDWARDS then Ed25519Key else OtherKeyType kt
      | None \<Rightarrow> OtherKeyType 0xFFFFFFFF)"

definition key_info_of :: "'t cryptoki \<Rightarrow> attribute list \<Rightarrow> pkcs11_key_info" where
  "key_info_of K attrs =
     (let a = fold take_attribute attrs \<lparr> at_label = None, at_key_type = None, at_id = [], at_sign = False \<rparr> in
      \<lparr> ki_label = (case at_label a of Some b \<Rightarrow> utf8_lossy K b | None \<Rightarrow> []),
        ki_key_type = key_type_of (at_key_type a), ki_id = at_id a, ki_signing_capable = at_sign a \<rparr>)"

fun read_keys :: "'t cryptoki \<Rightarrow> 't \<Rightarrow> session \<Rightarrow> object_handle list \<Rightarrow> (pkcs11_key_info list, pkcs11_error) result" where
  "read_keys K t s [] = Ok []"
| "read_keys K t s (handle # handles) =
     rbind (rmap_err (\<lambda>e. SessionError (''get_attributes failed: '' @ ck_to_string K e))
             (get_attributes K t s handle [TyLabel, TyKeyType, TyId, TySign])) (\<lambda>attrs.
     rbind (read_keys K t s handles) (\<lambda>keys.
     Ok (key_info_of K attrs # keys)))"

definition list_keys ::
    "'t cryptoki \<Rightarrow> 't \<Rightarrow> string option \<Rightarrow> session_pool \<Rightarrow> (pkcs11_key_info list, pkcs11_error) result \<times> session_pool" where
  "list_keys K t label_filter pool =
     with_session pool id (\<lambda>s.
       let template = [Class PRIVATE_KEY] @ (case label_filter of Some label \<Rightarrow> [Label (utf8 K label)] | None \<Rightarrow> []) in
       rbind (rmap_err (\<lambda>e. SessionError (''find_objects failed: '' @ ck_to_string K e)) (find_objects K t s template)) (\<lambda>handles.
       read_keys K t s handles))"

definition import_template :: "'t cryptoki \<Rightarrow> bytes \<Rightarrow> string \<Rightarrow> attribute list" where
  "import_template K cert_der label =
     (let id_bytes = take 20 cert_der in
      [Class CERTIFICATE, CertificateType 0, TokenObject True, Label (utf8 K label), Value cert_der, Subject id_bytes, Id id_bytes])"

definition import_cert ::
    "'t cryptoki \<Rightarrow> bytes \<Rightarrow> string \<Rightarrow> session_pool \<Rightarrow> 't \<Rightarrow> (unit, pkcs11_error) result \<times> session_pool \<times> 't" where
  "import_cert K cert_der label pool t =
     (case pool_acquire pool of
        (Err e, pool) \<Rightarrow> (Err e, pool, t)
      | (Ok s, pool) \<Rightarrow>
          (case create_object K s (import_template K cert_der label) t of
             (Err e, t) \<Rightarrow> (Err (from_cryptoki_error (ck_to_string K) e), pool_release s pool, t)
           | (Ok _, t) \<Rightarrow> (Ok (), pool_release s pool, t)))"

section \<open>Wildcards\<close>

lemma strip_prefix_iff: "strip_prefix ps xs = Some ys \<longleftrightarrow> xs = ps @ ys"
  by (induction ps xs rule: strip_prefix.induct) auto

lemma strip_suffix_iff: "strip_suffix suffix xs = Some ys \<longleftrightarrow> xs = ys @ suffix"
  by (auto simp: strip_suffix_def strip_prefix_iff) (metis rev_append rev_rev_ident)+

text \<open>The one wildcard that a name can match: its first label replaced by a star.\<close>

definition wildcard_of :: "string \<Rightarrow> string option" where
  "wildcard_of name =
     (let label = takeWhile (\<lambda>c. c \<noteq> CHR ''.'') name in
      if label = [] \<or> label = name then None else Some (CHR ''*'' # drop (length label) name))"

lemma wildcard_matches_split:
  "wildcard_matches key name \<longleftrightarrow>
     (\<exists>label suffix. key = ''*.'' @ suffix \<and> name = label @ CHR ''.'' # suffix \<and> label \<noteq> [] \<and> CHR ''.'' \<notin> set label)"
proof
  assume "wildcard_matches key name"
  then obtain suffix ld where k: "key = ''*.'' @ suffix" and n: "name = ld @ suffix"
    and l: "1 < length ld" "last ld = CHR ''.''" "CHR ''.'' \<notin> set (butlast ld)"
    unfolding wildcard_matches_def
    by (auto simp: strip_prefix_iff strip_suffix_iff butlast_conv_take split: option.splits)
  have "ld = butlast ld @ [CHR ''.'']" using l(1,2) by (metis append_butlast_last_id list.size(3) not_less_zero)
  moreover have "butlast ld \<noteq> []" using l(1) by (cases ld) auto
  ultimately show "\<exists>label suffix. key = ''*.'' @ suffix \<and> name = label @ CHR ''.'' # suffix \<and> label \<noteq> [] \<and> CHR ''.'' \<notin> set label"
    using k n l(3) by (metis append_Cons append_Nil append_assoc)
next
  assume "\<exists>label suffix. key = ''*.'' @ suffix \<and> name = label @ CHR ''.'' # suffix \<and> label \<noteq> [] \<and> CHR ''.'' \<notin> set label"
  then obtain label suffix where k: "key = ''*.'' @ suffix" and n: "name = label @ CHR ''.'' # suffix" "label \<noteq> []" "CHR ''.'' \<notin> set label"
    by blast
  have "strip_prefix ''*.'' key = Some suffix" using k by (simp only: strip_prefix_iff)
  moreover have "strip_suffix suffix name = Some (label @ [CHR ''.''])" using n(1) by (simp add: strip_suffix_iff)
  ultimately show "wildcard_matches key name"
    using n by (simp add: wildcard_matches_def)
qed

lemma takeWhile_label: "CHR ''.'' \<notin> set label \<Longrightarrow> takeWhile (\<lambda>c. c \<noteq> CHR ''.'') (label @ CHR ''.'' # suffix) = label"
  by (induction label) auto

lemma wildcard_matches_iff: "wildcard_matches key name \<longleftrightarrow> wildcard_of name = Some key"
proof
  assume "wildcard_matches key name"
  then obtain label suffix where "key = ''*.'' @ suffix" "name = label @ CHR ''.'' # suffix" "label \<noteq> []" "CHR ''.'' \<notin> set label"
    unfolding wildcard_matches_split by blast
  moreover from this have "takeWhile (\<lambda>c. c \<noteq> CHR ''.'') name = label"
    by (simp add: takeWhile_label)
  ultimately show "wildcard_of name = Some key" by (simp add: wildcard_of_def)
next
  assume w: "wildcard_of name = Some key"
  let ?l = "takeWhile (\<lambda>c. c \<noteq> CHR ''.'') name"
  have l: "?l \<noteq> []" "?l \<noteq> name" and k: "key = CHR ''*'' # drop (length ?l) name"
    using w by (auto simp: wildcard_of_def Let_def split: if_splits)
  have d: "drop (length ?l) name = dropWhile (\<lambda>c. c \<noteq> CHR ''.'') name" by (rule dropWhile_eq_drop [symmetric])
  have "dropWhile (\<lambda>c. c \<noteq> CHR ''.'') name \<noteq> []" using l(2) takeWhile_dropWhile_id [of "\<lambda>c. c \<noteq> CHR ''.''" name] by auto
  then obtain suffix where s: "dropWhile (\<lambda>c. c \<noteq> CHR ''.'') name = CHR ''.'' # suffix"
    using hd_dropWhile [of "\<lambda>c. c \<noteq> CHR ''.''" name] that by (cases "dropWhile (\<lambda>c. c \<noteq> CHR ''.'') name") auto
  have "CHR ''.'' \<notin> set ?l" by (auto dest: set_takeWhileD)
  moreover have "name = ?l @ CHR ''.'' # suffix" using takeWhile_dropWhile_id [of "\<lambda>c. c \<noteq> CHR ''.''" name] s by simp
  ultimately show "wildcard_matches key name"
    unfolding wildcard_matches_split using l(1) k d s by auto
qed

lemma find_key: "distinct (map fst m) \<Longrightarrow> map_option snd (find (\<lambda>(key, v). key = k) m) = map_of m k"
  by (induction m) auto

text \<open>The scan over the map is one more lookup.\<close>

lemma match_sni_lookup:
  assumes "distinct (map fst m)"
  shows "match_sni m name strict dflt =
    (case map_of m name of
       Some v \<Rightarrow> Some v
     | None \<Rightarrow>
         (case Option.bind (wildcard_of name) (map_of m) of
            Some v \<Rightarrow> Some v
          | None \<Rightarrow> if strict then None else dflt))"
proof (cases "wildcard_of name")
  case None
  then have "find (\<lambda>(key, v). wildcard_matches key name) m = None"
    by (simp add: find_None_iff wildcard_matches_iff)
  with None show ?thesis by (simp add: match_sni_def split: option.splits)
next
  case (Some k)
  then have "(\<lambda>(key, v). wildcard_matches key name) = (\<lambda>(key, v :: 'a). key = k)"
    by (auto simp: wildcard_matches_iff)
  then have "map_option snd (find (\<lambda>(key, v). wildcard_matches key name) m) = map_of m k"
    using find_key [OF assms, of k] by simp
  with Some show ?thesis
    by (cases "find (\<lambda>(key, v). wildcard_matches key name) m") (auto simp: match_sni_def split: option.splits)
qed


section \<open>Loading the entries\<close>

definition same_pool :: "session_pool \<Rightarrow> session_pool \<Rightarrow> bool" where
  "same_pool p q \<longleftrightarrow> mset (pool_sessions p) = mset (pool_sessions q) \<and> pool_permits p = pool_permits q"

lemma same_pool_refl [simp]: "same_pool p p"
  by (simp add: same_pool_def)

lemma same_pool_trans: "same_pool p q \<Longrightarrow> same_pool q r \<Longrightarrow> same_pool p r"
  by (simp add: same_pool_def)

lemma cert_chain_same_pool: "cert_chain K t pool label = (r, pool') \<Longrightarrow> same_pool pool' pool"
  unfolding cert_chain_def same_pool_def by (drule with_session_keeps_pool) simp

lemma signing_key_same_pool: "signing_key_new K t pool label = (r, pool') \<Longrightarrow> same_pool pool' pool"
  unfolding signing_key_new_def same_pool_def by (drule with_session_keeps_pool) simp

text \<open>An entry as it was read from the token, in a pool with the contents of \<open>pool\<close>.\<close>

definition entry_loaded ::
    "'t cryptoki \<Rightarrow> 't \<Rightarrow> session_pool \<Rightarrow> string \<times> string \<times> string \<Rightarrow> string \<times> (bytes list \<times> pkcs11_signing_key) \<Rightarrow> bool" where
  "entry_loaded K t pool e f \<longleftrightarrow>
     fst f = fst e \<and>
     (\<exists>p q. same_pool p pool \<and> same_pool q pool \<and>
        fst (cert_chain K t p (fst (snd e))) = Ok (fst (snd f)) \<and> fst (signing_key_new K t q (snd (snd e))) = Ok (snd (snd f)))"

lemma entry_loaded_mono: "entry_loaded K t p e f \<Longrightarrow> same_pool p q \<Longrightarrow> entry_loaded K t q e f"
  unfolding entry_loaded_def by (metis same_pool_trans)

lemma load_sni_entries_ok:
  "load_sni_entries K t m acc pool = (Ok fs, pool') \<Longrightarrow>
     same_pool pool' pool \<and> (\<exists>gs. fs = acc @ gs \<and> list_all2 (entry_loaded K t pool) m gs)"
proof (induction m arbitrary: acc pool)
  case (Cons e m)
  obtain h cl kl where e: "e = (h, cl, kl)" by (cases e)
  from Cons.prems obtain chain p1 key p2 where c: "cert_chain K t pool cl = (Ok chain, p1)"
    and k: "signing_key_new K t p1 kl = (Ok key, p2)"
    and r: "load_sni_entries K t m (acc @ [(h, (chain, key))]) p2 = (Ok fs, pool')"
    by (auto simp: e split: prod.splits result.splits)
  have p1: "same_pool p1 pool" and p2: "same_pool p2 pool"
    using cert_chain_same_pool [OF c] same_pool_trans [OF signing_key_same_pool [OF k] cert_chain_same_pool [OF c]] .
  from Cons.IH [OF r] obtain gs where gs: "same_pool pool' p2" "fs = acc @ [(h, (chain, key))] @ gs"
    "list_all2 (entry_loaded K t p2) m gs" by auto
  have "entry_loaded K t pool e (h, (chain, key))"
    unfolding entry_loaded_def e using c k p1 by (metis fst_conv snd_conv same_pool_refl)
  moreover have "list_all2 (entry_loaded K t pool) m gs"
    using gs(3) p2 by (auto elim: list_all2_mono intro: entry_loaded_mono)
  ultimately show ?case
    using same_pool_trans [OF gs(1) p2] gs(2) by auto
qed simp

lemma load_sni_entries_same_pool:
  "load_sni_entries K t m acc pool = (r, pool') \<Longrightarrow> same_pool pool' pool"
proof (induction m arbitrary: acc pool)
  case (Cons e m)
  obtain h cl kl where e: "e = (h, cl, kl)" by (cases e)
  obtain rc p1 where c: "cert_chain K t pool cl = (rc, p1)" by fastforce
  obtain rk p2 where k: "signing_key_new K t p1 kl = (rk, p2)" by fastforce
  note p1 = cert_chain_same_pool [OF c] and p2 = same_pool_trans [OF signing_key_same_pool [OF k] cert_chain_same_pool [OF c]]
  show ?case
    using Cons.prems Cons.IH [of _ p2] c k p1 p2 same_pool_trans [of pool' p2 pool]
    by (auto simp: e split: result.splits)
qed simp

lemma list_all2_fst: "list_all2 (entry_loaded K t p) m fs \<Longrightarrow> map fst fs = map fst m"
  by (induction rule: list_all2_induct) (simp_all add: entry_loaded_def)

section \<open>Properties\<close>

text \<open>C25: Certificate selection by server name. An exact entry wins; otherwise the one wildcard entry that can match, the name
  with its first label replaced by a star, whatever the order of the map; otherwise the default, unless the resolver
  is strict. A wildcard stands for exactly one non-empty label: it matches neither the bare domain nor a name with
  more labels.\<close>

theorem sni_selection:
  assumes "distinct (map fst (sni_map r))"
  shows "resolver_lookup r (Some name) =
           (case map_of (sni_map r) name of
              Some c \<Rightarrow> Some c
            | None \<Rightarrow>
                (case Option.bind (wildcard_of name) (map_of (sni_map r)) of
                   Some c \<Rightarrow> Some c
                 | None \<Rightarrow> if strict_sni r then None else default_cert r)) \<and>
         (wildcard_of name = Some key \<longleftrightarrow>
            (\<exists>label suffix. key = ''*.'' @ suffix \<and> name = label @ ''.'' @ suffix \<and> label \<noteq> [] \<and> CHR ''.'' \<notin> set label))"
  using match_sni_lookup [OF assms] wildcard_matches_iff [of key name] wildcard_matches_split [of key name]
  by (simp add: resolver_lookup_def)

definition example_key :: pkcs11_signing_key where
  "example_key = \<lparr> sk_backend = Pool, sk_label = ''key'', sk_algorithm = ECDSA \<rparr>"

definition example_resolver :: server_cert_resolver where
  "example_resolver = resolver_with_sni_map [(''*.ex.com'', ([[1]], example_key)), (''a.ex.com'', ([[2]], example_key))]"

theorem sni_selection_witness:
  "map_option ck_chain (resolver_lookup example_resolver (Some ''a.ex.com'')) = Some [[2]] \<and>
   map_option ck_chain (resolver_lookup example_resolver (Some ''b.ex.com'')) = Some [[1]] \<and>
   resolver_lookup example_resolver (Some ''a.b.ex.com'') = None \<and> resolver_lookup example_resolver (Some ''ex.com'') = None"
proof -
  have d: "distinct (map fst (sni_map example_resolver))"
    by (simp add: example_resolver_def resolver_with_sni_map_def)
  show ?thesis
    using sni_selection [OF d, of "''a.ex.com''"] sni_selection [OF d, of "''b.ex.com''"]
      sni_selection [OF d, of "''a.b.ex.com''"] sni_selection [OF d, of "''ex.com''"]
    by (simp add: example_resolver_def resolver_with_sni_map_def wildcard_of_def)
qed

text \<open>C26: A configuration by server names that is built serves, for every host of the map, the chain and the key read from
  the token under the labels of that host; every label has to be found or nothing is built, and on all paths the
  pool keeps its sessions and permits. A client that sends no name gets no certificate and a name that matches no
  entry gets none either, strict or not, an entry under the empty name included: there is no fallback.\<close>

theorem server_config_sni_serves:
  assumes d: "distinct (map fst m)" and r: "provider_server_config_sni K t versions m strict pool = (res, pool')"
  shows "same_pool pool' pool \<and>
    (\<forall>r. res = Ok r \<longrightarrow>
       (\<forall>e \<in> set m. \<exists>chain key. resolver_lookup r (Some (fst e)) = Some \<lparr> ck_chain = chain, ck_key = key \<rparr> \<and>
          entry_loaded K t pool e (fst e, (chain, key))) \<and>
       resolver_lookup r None = None \<and>
       (\<forall>name. name \<notin> fst ` set m \<and> (\<forall>w. wildcard_of name = Some w \<longrightarrow> w \<notin> fst ` set m) \<longrightarrow> resolver_lookup r (Some name) = None))"
proof (intro conjI allI impI)
  obtain fs where l: "load_sni_entries K t m [] pool = (fs, pool')"
    using r by (auto simp: provider_server_config_sni_def Let_def split: prod.splits result.splits)
  show "same_pool pool' pool" by (rule load_sni_entries_same_pool [OF l])
  fix v assume ok: "res = Ok v"
  with r l obtain gs where g: "fs = Ok gs" and v: "v = resolver_with_strict_sni strict (resolver_with_sni_map gs)"
    by (auto simp: provider_server_config_sni_def Let_def result_simps split: result.splits)
  have all: "list_all2 (entry_loaded K t pool) m gs" using load_sni_entries_ok [of K t m "[]" pool gs pool'] l g by simp
  have keys: "map fst gs = map fst m" by (rule list_all2_fst [OF all])
  have sm: "sni_map v = map (\<lambda>(h, chain, key). (h, \<lparr> ck_chain = chain, ck_key = key \<rparr>)) gs" and dv: "default_cert v = None"
    by (simp_all add: v resolver_with_strict_sni_def resolver_with_sni_map_def)
  have mo: "map_of (sni_map v) h = map_option (\<lambda>(chain, key). \<lparr> ck_chain = chain, ck_key = key \<rparr>) (map_of gs h)" for h
    unfolding sm by (induction gs) auto
  show "resolver_lookup v None = None" using dv by (simp add: resolver_lookup_def)
  show "\<forall>e \<in> set m. \<exists>chain key. resolver_lookup v (Some (fst e)) = Some \<lparr> ck_chain = chain, ck_key = key \<rparr> \<and>
          entry_loaded K t pool e (fst e, (chain, key))"
  proof
    fix e assume "e \<in> set m"
    then obtain g where g': "g \<in> set gs" "entry_loaded K t pool e g"
      using all by (metis in_set_conv_nth list_all2_conv_all_nth)
    have "(fst g, snd g) \<in> set gs" using g'(1) by simp
    with g'(2) d keys have "map_of gs (fst e) = Some (snd g)"
      by (metis entry_loaded_def map_of_is_SomeI)
    with g' mo [of "fst e"] show "\<exists>chain key. resolver_lookup v (Some (fst e)) = Some \<lparr> ck_chain = chain, ck_key = key \<rparr> \<and>
          entry_loaded K t pool e (fst e, (chain, key))"
      by (auto simp: resolver_lookup_def match_sni_def entry_loaded_def case_prod_unfold)
  qed
  fix name assume n: "name \<notin> fst ` set m \<and> (\<forall>w. wildcard_of name = Some w \<longrightarrow> w \<notin> fst ` set m)"
  have dg: "distinct (map fst (sni_map v))" using d keys by (simp add: sm comp_def case_prod_unfold)
  have none: "map_of gs h = None" if "h \<notin> fst ` set m" for h
    using that keys by (metis list.set_map map_of_eq_None_iff)
  show "resolver_lookup v (Some name) = None"
    using n none mo dv match_sni_lookup [OF dg, of name "strict_sni v" None]
    by (cases "wildcard_of name") (auto simp: resolver_lookup_def)
qed


theorem server_config_sni_serves_witness:
  "\<exists>r pool'. provider_server_config_sni
       (example_token\<lparr> get_attributes := (\<lambda>t s h tys. Ok [KeyType CKK_EC, Value [7]]) \<rparr>) (0, True) (Ok ())
       [(''a.ex'', ''c'', ''k'')] False example_pool = (Ok r, pool') \<and> same_pool pool' example_pool \<and>
     (\<exists>chain key. resolver_lookup r (Some ''a.ex'') = Some \<lparr> ck_chain = chain, ck_key = key \<rparr>) \<and>
     resolver_lookup r None = None \<and> resolver_lookup r (Some ''b.ex'') = None"
proof -
  let ?K = "example_token\<lparr> get_attributes := (\<lambda>t s h tys. Ok [KeyType CKK_EC, Value [7]]) \<rparr>"
  obtain r pool' where e: "provider_server_config_sni ?K (0, True) (Ok ()) [(''a.ex'', ''c'', ''k'')] False example_pool = (Ok r, pool')"
    by (simp add: provider_server_config_sni_def cert_chain_def signing_key_new_def find_private_key_by_label_def probe_key_type_def
        key_type_to_algorithm_def with_session_def pool_acquire_def pool_release_def example_token_def example_pool_def)
  have "distinct (map fst [(''a.ex'', ''c'', ''k'')])" by simp
  from server_config_sni_serves [OF this e] e show ?thesis
    by (fastforce simp: wildcard_of_def)
qed

text \<open>What PKCS#11 says of read-only sessions: an object of the token cannot be created in one
  (\<open>CKR_SESSION_READ_ONLY\<close>). Every session of the pool was opened read-only.\<close>

definition read_only_sessions :: "'t cryptoki \<Rightarrow> bool" where
  "read_only_sessions K \<longleftrightarrow> (\<forall>s tmpl t. TokenObject True \<in> set tmpl \<longrightarrow> \<not> is_ok (fst (create_object K s tmpl t)))"

text \<open>C27: On a token that follows PKCS#11 the provider cannot be built and certificates cannot be imported: \<open>new\<close> asks for
  four sessions and logs in on each, the second login is refused, and the result is always an error; \<open>import_cert\<close>
  creates a token object in a read-only session, which is always refused, the session going back to the pool.\<close>

theorem provider_on_conforming_token:
  assumes login: "login_is_shared K logged_in" and ro: "read_only_sessions K"
  shows "\<not> is_ok (fst (provider_new K loaded initialized slot slot_index pin t)) \<and>
         \<not> is_ok (fst (import_cert K cert_der label pool t)) \<and>
         (import_cert K cert_der label pool t = (r, pool', t') \<longrightarrow> same_pool pool' pool)"
proof (intro conjI impI)
  have "\<not> is_ok (fst (pool_new K slot' pin 4 t))" for slot'
    using pool_new_second_login [OF login, of 4 slot' pin t] by auto
  then show "\<not> is_ok (fst (provider_new K loaded initialized slot slot_index pin t))"
    by (auto simp: provider_new_def Let_def split: result.splits prod.splits) (metis fst_conv is_ok.simps(1))
  have c: "\<not> is_ok (fst (create_object K s (import_template K cert_der label) t))" for s
    using ro by (simp add: read_only_sessions_def import_template_def Let_def)
  then show "\<not> is_ok (fst (import_cert K cert_der label pool t))"
    by (auto simp: import_cert_def split: result.splits prod.splits) (metis fst_conv is_ok.simps(1))
  show "same_pool pool' pool" if "import_cert K cert_der label pool t = (r, pool', t')"
    using that pool_lender.lend_and_return [of pool] pool_lender.acquire_Err [of pool]
    by (auto simp: import_cert_def same_pool_def split: result.splits prod.splits)
qed

theorem provider_on_conforming_token_witness:
  "login_is_shared example_token snd \<and> read_only_sessions example_token \<and>
   \<not> is_ok (fst (provider_new example_token (Ok ()) (Ok ()) (Ok 0) 0 ''1234'' (0, False))) \<and>
   \<not> is_ok (fst (import_cert example_token [1, 2] ''c'' example_pool (0, True)))"
proof -
  have ro: "read_only_sessions example_token" by (simp add: read_only_sessions_def example_token_def)
  show ?thesis
    using provider_on_conforming_token [OF example_token_shared ro, of "Ok ()" "Ok ()" "Ok 0" 0 "''1234''" "(0, False)" "[1, 2]" "''c''"]
      provider_on_conforming_token [OF example_token_shared ro, of "Ok ()" "Ok ()" "Ok 0" 0 "''1234''" "(0, True)" "[1, 2]" "''c''" example_pool]
      example_token_shared ro by blast
qed

end
