(* ===== verification/Rcgen_Keys.thy ===== *)
theory Rcgen_Keys
  imports Rcgen_Der Core_Types
begin

text \<open>
  The data of the certificate generator \<open>oxitls-rcgen\<close> and its key types (\<open>keypair.rs\<close>). The crates it calls
  (rcgen, ed25519-dalek, p256, p384, rsa, sha2, x509-parser, time) are the fields of the record
  \<open>rcgen_lib\<close>; \<open>rcgen_crates_ok\<close> is what their documentation promises and the theorems use.
  Inner keys of the crates are represented by bytes chosen by the crate, errors by their rendered message, and
  instants by the seconds since the Unix epoch.

  \<open>std::net::IpAddr\<close> belongs to the standard library: its parser is \<open>parse_ip\<close>.
\<close>

section \<open>IP addresses of the standard library\<close>

text \<open>The octets of the address, 4 or 16.\<close>

datatype ip_addr = V4 bytes | V6 bytes

definition to_digit :: "nat \<Rightarrow> char \<Rightarrow> nat option" where
  "to_digit radix c =
     (let n = of_char c :: nat;
          d = if 48 \<le> n \<and> n \<le> 57 then n - 48
              else if 97 \<le> n \<and> n \<le> 122 then n - 87
              else if 65 \<le> n \<and> n \<le> 90 then n - 55 else radix in
      if d < radix then Some d else None)"

text \<open>The digit loop of \<open>read_number\<close>: the value read so far must stay at most \<open>bound\<close>, the number of digits at most \<open>most\<close>.\<close>

fun read_digits :: "nat \<Rightarrow> nat \<Rightarrow> nat \<Rightarrow> nat \<Rightarrow> nat \<Rightarrow> string \<Rightarrow> (nat \<times> nat \<times> string) option" where
  "read_digits radix bound most v n [] = Some (v, n, [])"
| "read_digits radix bound most v n (c # cs) =
     (case to_digit radix c of
        None \<Rightarrow> Some (v, n, c # cs)
      | Some d \<Rightarrow> if bound < v * radix + d \<or> most < Suc n then None
                  else read_digits radix bound most (v * radix + d) (Suc n) cs)"

definition read_number :: "nat \<Rightarrow> nat \<Rightarrow> nat \<Rightarrow> bool \<Rightarrow> string \<Rightarrow> (nat \<times> string) option" where
  "read_number radix bound most allow_zero_prefix s =
     (case read_digits radix bound most 0 0 s of
        None \<Rightarrow> None
      | Some (v, n, rest) \<Rightarrow>
          if n = 0 then None
          else if \<not> allow_zero_prefix \<and> hd s = CHR ''0'' \<and> 1 < n then None
          else Some (v, rest))"

definition read_separator :: "char \<Rightarrow> nat \<Rightarrow> (string \<Rightarrow> ('a \<times> string) option) \<Rightarrow> string \<Rightarrow> ('a \<times> string) option" where
  "read_separator sep i f s =
     (if 0 < i then (case s of c # cs \<Rightarrow> if c = sep then f cs else None | [] \<Rightarrow> None) else f s)"

fun read_octets :: "nat \<Rightarrow> nat \<Rightarrow> string \<Rightarrow> (bytes \<times> string) option" where
  "read_octets 0 i s = Some ([], s)"
| "read_octets (Suc k) i s =
     (case read_separator CHR ''.'' i (read_number 10 255 3 False) s of
        None \<Rightarrow> None
      | Some (v, s1) \<Rightarrow> map_option (\<lambda>(vs, s2). (of_nat v # vs, s2)) (read_octets k (Suc i) s1))"

definition read_ipv4 :: "string \<Rightarrow> (bytes \<times> string) option" where
  "read_ipv4 s = read_octets 4 0 s"

text \<open>\<open>read_groups\<close>: the groups left to read, the index of the next one.\<close>

fun read_groups :: "nat \<Rightarrow> nat \<Rightarrow> string \<Rightarrow> bytes list \<times> bool \<times> string" where
  "read_groups 0 i s = ([], False, s)"
| "read_groups (Suc left) i s =
     (case (if 0 < left then read_separator CHR '':'' i read_ipv4 s else None) of
        Some (v4, s1) \<Rightarrow> ([take 2 v4, drop 2 v4], True, s1)
      | None \<Rightarrow>
          (case read_separator CHR '':'' i (read_number 16 0xFFFF 4 True) s of
             None \<Rightarrow> ([], False, s)
           | Some (g, s1) \<Rightarrow>
               let (gs, v4, s2) = read_groups left (Suc i) s1 in (be_encode 2 g # gs, v4, s2)))"

definition read_ipv6 :: "string \<Rightarrow> (bytes \<times> string) option" where
  "read_ipv6 s =
     (let (head, head_ipv4, s1) = read_groups 8 0 s in
      if length head = 8 then Some (concat head, s1)
      else if head_ipv4 then None
      else case s1 of
        c # d # s2 \<Rightarrow>
          if c = CHR '':'' \<and> d = CHR '':'' then
            let (tail, _, s3) = read_groups (8 - (length head + 1)) 0 s2 in
            Some (concat (head @ replicate (8 - length head - length tail) [0, 0] @ tail), s3)
          else None
      | _ \<Rightarrow> None)"

definition parse_ip :: "string \<Rightarrow> ip_addr option" where
  "parse_ip s =
     (case (case read_ipv4 s of
              Some (o4, rest) \<Rightarrow> Some (V4 o4, rest)
            | None \<Rightarrow> map_option (\<lambda>(o6, rest). (V6 o6, rest)) (read_ipv6 s)) of
        Some (ip, []) \<Rightarrow> Some ip
      | _ \<Rightarrow> None)"

text \<open>\<open>Display\<close> of \<open>Ipv4Addr\<close>.\<close>

definition show_ipv4 :: "byte \<Rightarrow> byte \<Rightarrow> byte \<Rightarrow> byte \<Rightarrow> string" where
  "show_ipv4 a b c d =
     show_nat (unat a) @ ''.'' @ show_nat (unat b) @ ''.'' @ show_nat (unat c) @ ''.'' @ show_nat (unat d)"

lemma to_digit_10: "d < 10 \<Longrightarrow> to_digit 10 (char_of (48 + d)) = Some d"
  by (simp add: to_digit_def Let_def)

lemma show_nat_byte:
  assumes "n < 256"
  shows "\<exists>ds. show_nat n = map (\<lambda>d. char_of (48 + d)) ds \<and> ds \<noteq> [] \<and> length ds \<le> 3 \<and>
    list_all (\<lambda>d. d < 10) ds \<and> foldl (\<lambda>v d. v * 10 + d) 0 ds = n \<and> (hd ds = 0 \<longrightarrow> length ds = 1)"
proof -
  consider "n < 10" | "10 \<le> n" "n < 100" | "100 \<le> n" by linarith
  then show ?thesis
  proof cases
    case 1
    then show ?thesis by (intro exI [of _ "[n]"]) (simp add: show_nat.simps [of n])
  next
    case 2
    then have "n div 10 < 10" "0 < n div 10" by simp_all
    with 2 show ?thesis
      by (intro exI [of _ "[n div 10, n mod 10]"]) (simp add: show_nat.simps [of n] show_nat.simps [of "n div 10"])
  next
    case 3
    then have "n div 100 < 10" "0 < n div 100" using assms by simp_all
    moreover have "n div 10 div 10 = n div 100" by (simp add: div_mult2_eq [symmetric])
    moreover have "n div 10 \<ge> 10" using 3 by simp
    moreover have "100 * (n div 100) + n div 10 mod 10 * 10 + n mod 10 = n"
      using div_mult_mod_eq [of n 10] div_mult_mod_eq [of "n div 10" 10] \<open>n div 10 div 10 = n div 100\<close>
      by linarith
    ultimately show ?thesis using 3
      by (intro exI [of _ "[n div 100, n div 10 mod 10, n mod 10]"])
        (simp add: show_nat.simps [of n] show_nat.simps [of "n div 10"] show_nat.simps [of "n div 100"])
  qed
qed

lemma foldl_digits_ge: "v \<le> foldl (\<lambda>v d. v * 10 + d) v ds" for v :: nat
proof (induction ds arbitrary: v)
  case (Cons d ds)
  from Cons [of "v * 10 + d"] show ?case by simp
qed simp

lemma read_digits_shown:
  "list_all (\<lambda>d. d < 10) ds \<Longrightarrow> foldl (\<lambda>v d. v * 10 + d) v ds \<le> 255 \<Longrightarrow> n + length ds \<le> 3 \<Longrightarrow>
   rest = [] \<or> to_digit 10 (hd rest) = None \<Longrightarrow>
   read_digits 10 255 3 v n (map (\<lambda>d. char_of (48 + d)) ds @ rest) =
     Some (foldl (\<lambda>v d. v * 10 + d) v ds, n + length ds, rest)"
proof (induction ds arbitrary: v n)
  case Nil
  then show ?case by (cases rest) auto
next
  case (Cons d ds)
  then have "v * 10 + d \<le> 255" using foldl_digits_ge [of "v * 10 + d" ds] by simp
  with Cons show ?case by (simp add: to_digit_10)
qed

lemma read_number_shown:
  assumes "n < 256" "rest = [] \<or> to_digit 10 (hd rest) = None"
  shows "read_number 10 255 3 False (show_nat n @ rest) = Some (n, rest)"
proof -
  obtain ds where ds: "show_nat n = map (\<lambda>d. char_of (48 + d)) ds" "ds \<noteq> []" "length ds \<le> 3"
    "list_all (\<lambda>d. d < 10) ds" "foldl (\<lambda>v d. v * 10 + d) 0 ds = n" "hd ds = 0 \<longrightarrow> length ds = 1"
    using show_nat_byte [OF assms(1)] by (elim exE conjE) (rule that)
  have bounds: "foldl (\<lambda>v d. v * 10 + d) 0 ds \<le> 255" "0 + length ds \<le> 3"
    using ds(3,5) assms(1) by linarith+
  note read = read_digits_shown [OF ds(4) bounds assms(2)]
  have "read_digits 10 255 3 0 0 (show_nat n @ rest) = Some (n, length ds, rest)"
    unfolding ds(1) read by (simp only: ds(5) add_0)
  moreover have "hd (show_nat n @ rest) = CHR ''0'' \<longrightarrow> length ds = 1"
  proof
    assume "hd (show_nat n @ rest) = CHR ''0''"
    then have "char_of (48 + hd ds) = CHR ''0''" using ds(1,2) by (simp add: hd_map)
    then have "(of_char (char_of (48 + hd ds)) :: nat) = 48" by simp
    moreover have "hd ds < 10" using ds(2,4) by (cases ds) auto
    ultimately show "length ds = 1" using ds(6) by simp
  qed
  ultimately show ?thesis
    using ds(2) by (auto simp: read_number_def)
qed

text \<open>Every IPv4 address is read back from its dotted form.\<close>

lemma parse_ip_v4: "parse_ip (show_ipv4 a b c d) = Some (V4 [a, b, c, d])"
proof -
  have dot: "to_digit 10 CHR ''.'' = None" by (simp add: to_digit_def)
  have four: "read_ipv4 s = read_octets (Suc (Suc (Suc (Suc 0)))) 0 s" for s
    by (simp add: read_ipv4_def numeral_eq_Suc)
  have "read_ipv4 (show_ipv4 a b c d) = Some ([a, b, c, d], [])"
    using read_number_shown [of "unat d" "[]"]
    by (simp add: four show_ipv4_def read_separator_def read_number_shown dot)
  then show ?thesis by (simp add: parse_ip_def)
qed

section \<open>Data of rcgen\<close>

datatype sig_alg = PKCS_ED25519 | PKCS_ECDSA_P256_SHA256 | PKCS_ECDSA_P384_SHA384 | PKCS_RSA_SHA256

datatype san_type = SanRfc822Name string | SanDnsName string | SanUri string | SanIpAddress ip_addr

datatype basic_constraints = Unconstrained | Constrained byte

datatype is_ca = NoCa | ExplicitNoCa | Ca basic_constraints

datatype key_usage_purpose =
    DigitalSignature | ContentCommitment | KeyEncipherment | DataEncipherment | KeyAgreement
  | KeyCertSign | CrlSign | EncipherOnly | DecipherOnly

datatype extended_key_usage_purpose =
    EkuAny | ServerAuth | ClientAuth | CodeSigning | EmailProtection | TimeStamping | OcspSigning
  | OtherEku "nat list"

datatype dn_type =
    CountryName | LocalityName | StateOrProvinceName | OrganizationName | OrganizationalUnitName | CommonName
  | CustomDnType "nat list"

text \<open>The attributes of a \<open>DistinguishedName\<close>, in the order of its iterator.\<close>

type_synonym distinguished_name = "(dn_type \<times> string) list"

datatype general_subtree =
    SubtreeRfc822Name string | SubtreeDnsName string | SubtreeDirectoryName distinguished_name
  | SubtreeIpAddress bytes bytes

record name_constraints =
  permitted_subtrees :: "general_subtree list"
  excluded_subtrees :: "general_subtree list"

datatype key_id_method = KidSha256 | KidSha384 | KidSha512 | PreSpecified bytes

text \<open>\<open>CustomExtension::from_oid_content(oid, content)\<close>, which is not critical.\<close>

record custom_extension =
  ext_oid :: "nat list"
  ext_content :: bytes

text \<open>\<open>CertificateParams\<close>: the fields the sources set. A distribution point is its list of URIs and a
  serial number the integer it is made from.\<close>

record certificate_params =
  cp_not_before :: int
  cp_not_after :: int
  cp_serial_number :: "u64 option"
  cp_subject_alt_names :: "san_type list"
  cp_distinguished_name :: distinguished_name
  cp_is_ca :: is_ca
  cp_key_usages :: "key_usage_purpose list"
  cp_extended_key_usages :: "extended_key_usage_purpose list"
  cp_name_constraints :: "name_constraints option"
  cp_crl_distribution_points :: "string list list"
  cp_custom_extensions :: "custom_extension list"
  cp_use_authority_key_identifier :: bool
  cp_key_identifier_method :: key_id_method

text \<open>The traits \<open>PublicKeyData\<close> and \<open>SigningKey\<close>.\<close>

record public_key_data =
  pk_der_bytes :: bytes
  pk_algorithm :: sig_alg

record signing_key = public_key_data +
  sk_sign :: "bytes \<Rightarrow> (bytes, string) result"

text \<open>What x509-parser gives of a certification request: OIDs are \<open>None\<close> when they cannot be iterated,
  attribute values are the result of \<open>as_str\<close>.\<close>

datatype general_name =
    GnDnsName string | GnRfc822Name string | GnUri string | GnIpAddress bytes | GnOther bytes

datatype parsed_extension = SubjectAlternativeName "general_name list" | OtherParsedExtension bytes

record x509_attribute =
  xa_type :: "nat list option"
  xa_value :: "(string, string) result"

record x509_csr =
  csr_signature_algorithm :: "nat list option"
  csr_subject :: "x509_attribute list list"
  csr_requested_extensions :: "parsed_extension list option"
  csr_public_key :: bytes
  csr_spki_raw :: bytes

text \<open>What the summary of a certificate reads of it.\<close>

record x509_summary =
  xs_subject :: string
  xs_signature_algorithm :: string
  xs_not_after :: int

section \<open>The crates\<close>

text \<open>\<open>odt_plus_seconds\<close> is the addition of a duration to an instant, \<open>None\<close> where it panics; \<open>pfx_new\<close> is the DER form
  of the PKCS#12 archive; \<open>load_private_key\<close> is the key loader of the rustls provider.\<close>

record rcgen_lib =
  rg_sha256 :: "bytes \<Rightarrow> bytes"
  rg_ia5_string :: "string \<Rightarrow> (string, string) result"
  rg_params_default :: certificate_params
  rg_dn_push :: "distinguished_name \<Rightarrow> dn_type \<Rightarrow> string \<Rightarrow> distinguished_name"
  rg_dn_type_from_oid :: "nat list \<Rightarrow> dn_type"
  rg_spki :: "public_key_data \<Rightarrow> bytes"
  rg_self_signed :: "certificate_params \<Rightarrow> signing_key \<Rightarrow> (bytes \<times> string, string) result"
  rg_signed_by ::
    "certificate_params \<Rightarrow> public_key_data \<Rightarrow> certificate_params \<Rightarrow> signing_key \<Rightarrow> (bytes \<times> string, string) result"
  rg_serialize_request :: "certificate_params \<Rightarrow> signing_key \<Rightarrow> (bytes \<times> (string, string) result, string) result"
  rg_ring_unspecified :: string
  ed_verifying_key :: "bytes \<Rightarrow> bytes"
  ed_to_pkcs8 :: "bytes \<Rightarrow> (bytes, string) result"
  ed_sign :: "bytes \<Rightarrow> bytes \<Rightarrow> bytes"
  k256_from_bytes :: "bytes \<Rightarrow> bytes option"
  k256_to_pkcs8 :: "bytes \<Rightarrow> (bytes, string) result"
  k256_sec1_point :: "bytes \<Rightarrow> bytes"
  k256_sign_der :: "bytes \<Rightarrow> bytes \<Rightarrow> bytes"
  k384_from_bytes :: "bytes \<Rightarrow> bytes option"
  k384_to_pkcs8 :: "bytes \<Rightarrow> (bytes, string) result"
  k384_sec1_point :: "bytes \<Rightarrow> bytes"
  k384_sign_der :: "bytes \<Rightarrow> bytes \<Rightarrow> bytes"
  rsa_generate :: "draws \<Rightarrow> nat \<Rightarrow> (bytes, string) result"
  rsa_from_pkcs8 :: "bytes \<Rightarrow> (bytes, string) result"
  rsa_pkcs1_public :: "bytes \<Rightarrow> (bytes, string) result"
  rsa_to_pkcs8 :: "bytes \<Rightarrow> (bytes, string) result"
  rsa_try_sign :: "bytes \<Rightarrow> bytes \<Rightarrow> bytes option"
  csr_from_der :: "bytes \<Rightarrow> (x509_csr, string) result"
  xc_from_der :: "bytes \<Rightarrow> x509_summary option"
  odt_plus_seconds :: "int \<Rightarrow> int \<Rightarrow> int option"
  odt_from_unix :: "int \<Rightarrow> int option"
  odt_rfc3339 :: "int \<Rightarrow> string option"
  odt_display :: "int \<Rightarrow> string"
  pfx_new :: "bytes \<Rightarrow> bytes \<Rightarrow> string \<Rightarrow> string \<Rightarrow> bytes option"
  load_private_key :: "bytes \<Rightarrow> (bytes, string) result"

section \<open>The key types\<close>

text \<open>The three fields each of the five key types has: the crate's key, the public key bytes given to rcgen and the PKCS#8 form.\<close>

record oxi_key =
  key_inner :: bytes
  key_public :: bytes
  key_pkcs8 :: bytes

subsection \<open>Ed25519\<close>

definition ed25519_from_seed :: "rcgen_lib \<Rightarrow> bytes \<Rightarrow> (oxi_key, tls_error) result" where
  "ed25519_from_seed L seed =
     (let pub_key_bytes = ed_verifying_key L seed in
      rbind (rmap_err Other (ed_to_pkcs8 L seed)) (\<lambda>pkcs8_der_bytes.
      Ok \<lparr> key_inner = seed, key_public = pub_key_bytes, key_pkcs8 = pkcs8_der_bytes \<rparr>))"

definition ed25519_generate :: "rcgen_lib \<Rightarrow> draws \<Rightarrow> (oxi_key, tls_error) result" where
  "ed25519_generate L rnd = rbind (rmap_err Other (rnd 0)) (ed25519_from_seed L)"

definition ed25519_signing_key :: "rcgen_lib \<Rightarrow> oxi_key \<Rightarrow> signing_key" where
  "ed25519_signing_key L k =
     \<lparr> pk_der_bytes = key_public k, pk_algorithm = PKCS_ED25519, sk_sign = (\<lambda>msg. Ok (ed_sign L (key_inner k) msg)) \<rparr>"

subsection \<open>ECDSA\<close>

text \<open>\<open>generate\<close> of both curves: the loop from its i-th draw on.\<close>

partial_function (option) scalar_loop ::
    "(bytes \<Rightarrow> (oxi_key option, tls_error) result) \<Rightarrow> draws \<Rightarrow> nat \<Rightarrow> (oxi_key, tls_error) result option" where
  "scalar_loop try_from_scalar rnd i =
     (case rnd i of
        Err e \<Rightarrow> Some (Err (Other e))
      | Ok scalar \<Rightarrow>
          (case try_from_scalar scalar of
             Err e \<Rightarrow> Some (Err e)
           | Ok (Some key) \<Rightarrow> Some (Ok key)
           | Ok None \<Rightarrow> scalar_loop try_from_scalar rnd (Suc i)))"

definition p256_try_from_scalar :: "rcgen_lib \<Rightarrow> bytes \<Rightarrow> (oxi_key option, tls_error) result" where
  "p256_try_from_scalar L scalar =
     (case k256_from_bytes L scalar of
        None \<Rightarrow> Ok None
      | Some inner \<Rightarrow>
          rbind (rmap_err Other (k256_to_pkcs8 L inner)) (\<lambda>pkcs8_der_bytes.
          let uncompressed_pub = k256_sec1_point L inner in
          Ok (Some \<lparr> key_inner = inner, key_public = uncompressed_pub, key_pkcs8 = pkcs8_der_bytes \<rparr>)))"

definition oxi_p256_generate :: "rcgen_lib \<Rightarrow> draws \<Rightarrow> (oxi_key, tls_error) result option" where
  "oxi_p256_generate L rnd = scalar_loop (p256_try_from_scalar L) rnd 0"

definition p256_signing_key :: "rcgen_lib \<Rightarrow> oxi_key \<Rightarrow> signing_key" where
  "p256_signing_key L k =
     \<lparr> pk_der_bytes = key_public k, pk_algorithm = PKCS_ECDSA_P256_SHA256,
       sk_sign = (\<lambda>msg. Ok (k256_sign_der L (key_inner k) msg)) \<rparr>"

definition p384_try_from_scalar :: "rcgen_lib \<Rightarrow> bytes \<Rightarrow> (oxi_key option, tls_error) result" where
  "p384_try_from_scalar L scalar =
     (case k384_from_bytes L scalar of
        None \<Rightarrow> Ok None
      | Some inner \<Rightarrow>
          rbind (rmap_err Other (k384_to_pkcs8 L inner)) (\<lambda>pkcs8_der_bytes.
          let uncompressed_pub = k384_sec1_point L inner in
          Ok (Some \<lparr> key_inner = inner, key_public = uncompressed_pub, key_pkcs8 = pkcs8_der_bytes \<rparr>)))"

definition oxi_p384_generate :: "rcgen_lib \<Rightarrow> draws \<Rightarrow> (oxi_key, tls_error) result option" where
  "oxi_p384_generate L rnd = scalar_loop (p384_try_from_scalar L) rnd 0"

definition p384_signing_key :: "rcgen_lib \<Rightarrow> oxi_key \<Rightarrow> signing_key" where
  "p384_signing_key L k =
     \<lparr> pk_der_bytes = key_public k, pk_algorithm = PKCS_ECDSA_P384_SHA384,
       sk_sign = (\<lambda>msg. Ok (k384_sign_der L (key_inner k) msg)) \<rparr>"

subsection \<open>RSA\<close>

text \<open>\<open>OxiRsa2048Key\<close> and \<open>OxiRsa4096Key\<close> differ in the size they generate and in the name \<open>RSA-2048\<close> or
  \<open>RSA-4096\<close> of their messages. A PKCS#1 v1.5 signature does not depend on the generator given to
  \<open>try_sign_with_rng\<close>, which only blinds.\<close>

definition rsa_from_inner :: "string \<Rightarrow> rcgen_lib \<Rightarrow> bytes \<Rightarrow> (oxi_key, tls_error) result" where
  "rsa_from_inner name L inner =
     rbind (rmap_err (\<lambda>e. Other (name @ '' pubkey PKCS#1 DER: '' @ e)) (rsa_pkcs1_public L inner)) (\<lambda>pub_key_der.
     rbind (rmap_err (\<lambda>e. Other (name @ '' PKCS#8 DER: '' @ e)) (rsa_to_pkcs8 L inner)) (\<lambda>pkcs8_der_bytes.
     Ok \<lparr> key_inner = inner, key_public = pub_key_der, key_pkcs8 = pkcs8_der_bytes \<rparr>))"

definition rsa2048_from_inner :: "rcgen_lib \<Rightarrow> bytes \<Rightarrow> (oxi_key, tls_error) result" where
  "rsa2048_from_inner = rsa_from_inner ''RSA-2048''"

definition rsa4096_from_inner :: "rcgen_lib \<Rightarrow> bytes \<Rightarrow> (oxi_key, tls_error) result" where
  "rsa4096_from_inner = rsa_from_inner ''RSA-4096''"

definition rsa_sign_with :: "rcgen_lib \<Rightarrow> oxi_key \<Rightarrow> bytes \<Rightarrow> (bytes, string) result" where
  "rsa_sign_with L k msg = ok_or (rsa_try_sign L (key_inner k) msg) (rg_ring_unspecified L)"

definition rsa2048_generate :: "rcgen_lib \<Rightarrow> draws \<Rightarrow> (oxi_key, tls_error) result" where
  "rsa2048_generate L rnd =
     rbind (rmap_err (\<lambda>e. Other (''RSA-2048 keygen: '' @ e)) (rsa_generate L rnd 2048)) (rsa2048_from_inner L)"

definition rsa2048_from_pkcs8_der :: "rcgen_lib \<Rightarrow> bytes \<Rightarrow> (oxi_key, tls_error) result" where
  "rsa2048_from_pkcs8_der L der =
     rbind (rmap_err (\<lambda>e. Other (''RSA-2048 PKCS#8 parse: '' @ e)) (rsa_from_pkcs8 L der)) (rsa2048_from_inner L)"

definition rsa2048_signing_key :: "rcgen_lib \<Rightarrow> oxi_key \<Rightarrow> signing_key" where
  "rsa2048_signing_key L k =
     \<lparr> pk_der_bytes = key_public k, pk_algorithm = PKCS_RSA_SHA256, sk_sign = rsa_sign_with L k \<rparr>"

definition rsa4096_generate :: "rcgen_lib \<Rightarrow> draws \<Rightarrow> (oxi_key, tls_error) result" where
  "rsa4096_generate L rnd =
     rbind (rmap_err (\<lambda>e. Other (''RSA-4096 keygen: '' @ e)) (rsa_generate L rnd 4096)) (rsa4096_from_inner L)"

definition rsa4096_from_pkcs8_der :: "rcgen_lib \<Rightarrow> bytes \<Rightarrow> (oxi_key, tls_error) result" where
  "rsa4096_from_pkcs8_der L der =
     rbind (rmap_err (\<lambda>e. Other (''RSA-4096 PKCS#8 parse: '' @ e)) (rsa_from_pkcs8 L der)) (rsa4096_from_inner L)"

definition rsa4096_signing_key :: "rcgen_lib \<Rightarrow> oxi_key \<Rightarrow> signing_key" where
  "rsa4096_signing_key L k =
     \<lparr> pk_der_bytes = key_public k, pk_algorithm = PKCS_RSA_SHA256, sk_sign = rsa_sign_with L k \<rparr>"

section \<open>Key generation\<close>

text \<open>A draw that ends the loop: a failure of the generator, a usable scalar or a failing encoding.\<close>

definition scalar_ends :: "(bytes \<Rightarrow> (oxi_key option, tls_error) result) \<Rightarrow> (bytes, string) result \<Rightarrow> bool" where
  "scalar_ends tfs d = (case d of Err e \<Rightarrow> True | Ok scalar \<Rightarrow> tfs scalar \<noteq> Ok None)"

lemma scalar_loop_step:
  "\<not> scalar_ends tfs (rnd i) \<Longrightarrow> scalar_loop tfs rnd i = scalar_loop tfs rnd (Suc i)"
  by (subst scalar_loop.simps) (auto simp: scalar_ends_def split: result.splits)

lemma scalar_loop_skips:
  "(\<And>j. i \<le> j \<Longrightarrow> j < n \<Longrightarrow> \<not> scalar_ends tfs (rnd j)) \<Longrightarrow> i \<le> n \<Longrightarrow>
     scalar_loop tfs rnd i = scalar_loop tfs rnd n"
proof (induction "n - i" arbitrary: i)
  case (Suc k)
  then have "scalar_loop tfs rnd i = scalar_loop tfs rnd (Suc i)" by (simp add: scalar_loop_step)
  with Suc show ?case by simp
qed simp

definition scalar_outcome ::
    "(bytes \<Rightarrow> (oxi_key option, tls_error) result) \<Rightarrow> (bytes, string) result \<Rightarrow> (oxi_key, tls_error) result" where
  "scalar_outcome tfs d =
     (case d of Err e \<Rightarrow> Err (Other e) | Ok scalar \<Rightarrow> rbind (tfs scalar) (\<lambda>k. Ok (the k)))"

lemma scalar_loop_first:
  assumes "scalar_ends tfs (rnd n)" "\<And>j. j < n \<Longrightarrow> \<not> scalar_ends tfs (rnd j)"
  shows "scalar_loop tfs rnd 0 = Some (scalar_outcome tfs (rnd n))"
proof -
  have "scalar_loop tfs rnd 0 = scalar_loop tfs rnd n"
    using assms(2) by (intro scalar_loop_skips) simp_all
  then show ?thesis
    using assms(1) by (subst (asm) scalar_loop.simps)
      (auto simp: scalar_ends_def scalar_outcome_def split: result.splits option.splits)
qed

lemma scalar_loop_returned: "scalar_loop tfs rnd i = Some y \<Longrightarrow> \<exists>n. scalar_ends tfs (rnd n)"
proof (induction arbitrary: i y rule: scalar_loop.raw_induct [rotated, consumes 1])
  case (1 loop tfs rnd i y)
  show ?case
  proof (cases "scalar_ends tfs (rnd i)")
    case False
    then have "loop tfs rnd (Suc i) = Some y"
      using 1 by (auto simp: scalar_ends_def split: result.splits option.splits)
    then show ?thesis using 1 by blast
  qed blast
qed

text \<open>The loop returns exactly when some draw ends it, with the outcome of the first such draw.\<close>

lemma scalar_loop_iff:
  "scalar_loop tfs rnd 0 = Some r \<longleftrightarrow>
   (\<exists>n. scalar_ends tfs (rnd n) \<and> (\<forall>j<n. \<not> scalar_ends tfs (rnd j)) \<and> r = scalar_outcome tfs (rnd n))"
proof
  assume r: "scalar_loop tfs rnd 0 = Some r"
  then obtain n where "scalar_ends tfs (rnd n)" "\<forall>j<n. \<not> scalar_ends tfs (rnd j)"
    using scalar_loop_returned [OF r] exists_least_iff [of "\<lambda>n. scalar_ends tfs (rnd n)"] by blast
  with r scalar_loop_first [of tfs rnd n]
  show "\<exists>n. scalar_ends tfs (rnd n) \<and> (\<forall>j<n. \<not> scalar_ends tfs (rnd j)) \<and> r = scalar_outcome tfs (rnd n)"
    by auto
qed (auto intro: scalar_loop_first)

lemma scalar_loop_Ok: "scalar_loop tfs rnd 0 = Some (Ok k) \<Longrightarrow> \<exists>scalar. tfs scalar = Ok (Some k)"
  unfolding scalar_loop_iff
  by (auto simp: scalar_outcome_def scalar_ends_def eq_commute [of "Ok k"] result_simps split: result.splits)

section \<open>The contract of the key types\<close>

text \<open>The signature crates: what a key signs verifies under its public key, by a verification function \<open>V\<close> of the
  algorithm, the public key, the message and the signature.\<close>

type_synonym sig_verify = "sig_alg \<Rightarrow> bytes \<Rightarrow> bytes \<Rightarrow> bytes \<Rightarrow> bool"

definition signature_crates_ok :: "rcgen_lib \<Rightarrow> sig_verify \<Rightarrow> bool" where
  "signature_crates_ok L V \<longleftrightarrow>
     (\<forall>k m. V PKCS_ED25519 (ed_verifying_key L k) m (ed_sign L k m)) \<and>
     (\<forall>k m. V PKCS_ECDSA_P256_SHA256 (k256_sec1_point L k) m (k256_sign_der L k m)) \<and>
     (\<forall>k m. V PKCS_ECDSA_P384_SHA384 (k384_sec1_point L k) m (k384_sign_der L k m)) \<and>
     (\<forall>k p m s. rsa_pkcs1_public L k = Ok p \<longrightarrow> rsa_try_sign L k m = Some s \<longrightarrow> V PKCS_RSA_SHA256 p m s)"

text \<open>A signing key whose signatures verify under the public key it presents.\<close>

definition key_matches :: "sig_verify \<Rightarrow> signing_key \<Rightarrow> bool" where
  "key_matches V k \<longleftrightarrow> (\<forall>m s. sk_sign k m = Ok s \<longrightarrow> V (pk_algorithm k) (pk_der_bytes k) m s)"

locale key_type =
  fixes generate :: "rcgen_lib \<Rightarrow> draws \<Rightarrow> (oxi_key, tls_error) result option"
    and signing_key :: "rcgen_lib \<Rightarrow> oxi_key \<Rightarrow> signing_key"
  assumes generated_matches:
    "signature_crates_ok L V \<Longrightarrow> generate L rnd = Some (Ok k) \<Longrightarrow> key_matches V (signing_key L k)"

interpretation ed25519_type: key_type "\<lambda>L rnd. Some (ed25519_generate L rnd)" ed25519_signing_key
  by unfold_locales
    (auto simp: signature_crates_ok_def key_matches_def ed25519_generate_def ed25519_from_seed_def
      ed25519_signing_key_def Let_def result_simps)

interpretation p256_type: key_type oxi_p256_generate p256_signing_key
  by unfold_locales
    (auto simp: signature_crates_ok_def key_matches_def oxi_p256_generate_def p256_try_from_scalar_def
      p256_signing_key_def Let_def result_simps dest!: scalar_loop_Ok split: option.splits)

interpretation p384_type: key_type oxi_p384_generate p384_signing_key
  by unfold_locales
    (auto simp: signature_crates_ok_def key_matches_def oxi_p384_generate_def p384_try_from_scalar_def
      p384_signing_key_def Let_def result_simps dest!: scalar_loop_Ok split: option.splits)

interpretation rsa2048_type: key_type "\<lambda>L rnd. Some (rsa2048_generate L rnd)" rsa2048_signing_key
  by unfold_locales
    (auto simp: signature_crates_ok_def key_matches_def rsa2048_generate_def rsa2048_from_inner_def rsa_from_inner_def rsa_sign_with_def
      rsa2048_signing_key_def result_simps)

interpretation rsa4096_type: key_type "\<lambda>L rnd. Some (rsa4096_generate L rnd)" rsa4096_signing_key
  by unfold_locales
    (auto simp: signature_crates_ok_def key_matches_def rsa4096_generate_def rsa4096_from_inner_def rsa_from_inner_def rsa_sign_with_def
      rsa4096_signing_key_def result_simps)

end
