(* ===== verification/Rcgen_Cert.thy ===== *)
theory Rcgen_Cert
  imports Rcgen_Keys
begin

text \<open>
  Certificate generation of \<open>oxitls-rcgen\<close> (\<open>cert.rs\<close>): the parameter builder, the chain builder, the summaries and
  conversions of a generated certificate, and the generators of self-signed, CA, intermediate and leaf
  certificates. The functions that draw keys may not return (\<open>None\<close>), since the ECDSA key types sample scalars in
  a loop.

  The theorems are stated against \<open>valid_path\<close>, the part of the path validation of RFC 5280 that depends on
  the generated parameters: names and signatures chain, issuers are CAs that may sign certificates, and path
  length constraints are kept.
\<close>

section \<open>Certificates and keys\<close>

definition ck_fingerprint_sha256 :: "rcgen_lib \<Rightarrow> rcgen_certified_key \<Rightarrow> bytes" where
  "ck_fingerprint_sha256 L ck = rg_sha256 L (ck_cert_der ck)"

definition ck_not_after :: "rcgen_lib \<Rightarrow> rcgen_certified_key \<Rightarrow> int option" where
  "ck_not_after L ck =
     (case xc_from_der L (ck_cert_der ck) of
        None \<Rightarrow> None
      | Some parsed \<Rightarrow> odt_from_unix L (xs_not_after parsed))"

definition to_pkcs12 :: "rcgen_lib \<Rightarrow> rcgen_certified_key \<Rightarrow> string \<Rightarrow> string \<Rightarrow> (bytes, tls_error) result" where
  "to_pkcs12 L ck password friendly_name =
     ok_or (pfx_new L (ck_cert_der ck) (ck_pkcs8_der ck) password friendly_name)
       (InvalidConfig ''PKCS#12 construction failed'')"

text \<open>The chain and the PKCS#8 key.\<close>

definition to_rustls_cert_and_key :: "rcgen_certified_key \<Rightarrow> bytes list \<times> bytes" where
  "to_rustls_cert_and_key ck = ([ck_cert_der ck], ck_pkcs8_der ck)"

definition to_rustls_certified_key :: "rcgen_lib \<Rightarrow> rcgen_certified_key \<Rightarrow> (bytes list \<times> bytes, tls_error) result" where
  "to_rustls_certified_key L ck =
     rbind (rmap_err (\<lambda>e. InvalidConfig (''failed to load key: '' @ e)) (load_private_key L (ck_pkcs8_der ck)))
       (\<lambda>signing_key. Ok ([ck_cert_der ck], signing_key))"

fun join_with :: "string \<Rightarrow> string list \<Rightarrow> string" where
  "join_with sep [] = []"
| "join_with sep [x] = x"
| "join_with sep (x # y # ys) = x @ sep @ join_with sep (y # ys)"

definition certified_key_display :: "rcgen_lib \<Rightarrow> rcgen_certified_key \<Rightarrow> string" where
  "certified_key_display L ck =
     (let parsed = xc_from_der L (ck_cert_der ck);
          subject = (case parsed of Some c \<Rightarrow> xs_subject c | None \<Rightarrow> ''<unparseable>'');
          alg = (case parsed of Some c \<Rightarrow> xs_signature_algorithm c | None \<Rightarrow> ''<unknown>'');
          fp_hex = join_with '':'' (map hex2 (ck_fingerprint_sha256 L ck));
          not_after_val =
            (case ck_not_after L ck of
               None \<Rightarrow> ''<unparseable>''
             | Some t \<Rightarrow> (case odt_rfc3339 L t of Some s \<Rightarrow> s | None \<Rightarrow> odt_display L t)) in
      ''Subject: '' @ subject @ newline @ ''Algorithm: '' @ alg @ newline @
      ''SHA-256: '' @ fp_hex @ newline @ ''Not after: '' @ not_after_val)"

datatype ca_signer_inner =
    CaEd25519 oxi_key | CaP256 oxi_key | CaP384 oxi_key | CaRsa2048 oxi_key | CaRsa4096 oxi_key

record ca_certified_key =
  ca_certified :: rcgen_certified_key
  ca_params :: certificate_params
  ca_signer :: ca_signer_inner

text \<open>The key that \<open>sign_with!\<close> is expanded with.\<close>

fun ca_signing_key :: "rcgen_lib \<Rightarrow> ca_signer_inner \<Rightarrow> signing_key" where
  "ca_signing_key L (CaEd25519 k) = ed25519_signing_key L k"
| "ca_signing_key L (CaP256 k) = p256_signing_key L k"
| "ca_signing_key L (CaP384 k) = p384_signing_key L k"
| "ca_signing_key L (CaRsa2048 k) = rsa2048_signing_key L k"
| "ca_signing_key L (CaRsa4096 k) = rsa4096_signing_key L k"

definition public_of :: "signing_key \<Rightarrow> public_key_data" where
  "public_of k = \<lparr> pk_der_bytes = pk_der_bytes k, pk_algorithm = pk_algorithm k \<rparr>"

definition sign_child ::
    "rcgen_lib \<Rightarrow> ca_certified_key \<Rightarrow> certificate_params \<Rightarrow> public_key_data \<Rightarrow> (bytes \<times> string, tls_error) result" where
  "sign_child L ca child_params child_key =
     rmap_err InvalidConfig (rg_signed_by L child_params child_key (ca_params ca) (ca_signing_key L (ca_signer ca)))"

datatype signing_algorithm = Ed25519 | EcdsaP256 | EcdsaP384 | Rsa2048 | Rsa4096

section \<open>CertificateParamsBuilder\<close>

record params_builder =
  b_common_name :: "string option"
  b_dns_names :: "string list"
  b_ip_addresses :: "ip_addr list"
  b_is_ca :: is_ca
  b_key_usages :: "key_usage_purpose list"
  b_extended_key_usages :: "extended_key_usage_purpose list"
  b_serial_number :: "u64 option"
  b_not_before :: "int option"
  b_not_after :: "int option"
  b_name_constraints :: "name_constraints option"
  b_subject_key_id :: "bytes option"
  b_authority_key_id :: "bytes option"
  b_enable_aki_from_issuer :: bool
  b_crl_distribution_points :: "string list"
  b_ocsp_responder_url :: "string option"

definition params_builder_new :: params_builder where
  "params_builder_new =
     \<lparr> b_common_name = None, b_dns_names = [], b_ip_addresses = [], b_is_ca = NoCa, b_key_usages = [],
       b_extended_key_usages = [], b_serial_number = None, b_not_before = None, b_not_after = None,
       b_name_constraints = None, b_subject_key_id = None, b_authority_key_id = None,
       b_enable_aki_from_issuer = False, b_crl_distribution_points = [], b_ocsp_responder_url = None \<rparr>"

definition with_common_name :: "string \<Rightarrow> params_builder \<Rightarrow> params_builder" where
  "with_common_name cn b = b \<lparr> b_common_name := Some cn \<rparr>"

definition with_dns_names :: "string list \<Rightarrow> params_builder \<Rightarrow> params_builder" where
  "with_dns_names names b = b \<lparr> b_dns_names := b_dns_names b @ names \<rparr>"

fun with_ip_addresses :: "string list \<Rightarrow> params_builder \<Rightarrow> params_builder" where
  "with_ip_addresses [] b = b"
| "with_ip_addresses (addr # addrs) b =
     (case parse_ip addr of
        Some ip \<Rightarrow> with_ip_addresses addrs (b \<lparr> b_ip_addresses := b_ip_addresses b @ [ip] \<rparr>)
      | None \<Rightarrow> with_ip_addresses addrs b)"

definition with_ca :: "params_builder \<Rightarrow> params_builder" where
  "with_ca b = b \<lparr> b_is_ca := Ca Unconstrained \<rparr>"

definition with_ca_path_length :: "byte \<Rightarrow> params_builder \<Rightarrow> params_builder" where
  "with_ca_path_length path_len b = b \<lparr> b_is_ca := Ca (Constrained path_len) \<rparr>"

definition push_eku :: "extended_key_usage_purpose \<Rightarrow> params_builder \<Rightarrow> params_builder" where
  "push_eku u b = b \<lparr> b_extended_key_usages := b_extended_key_usages b @ [u] \<rparr>"

definition with_server_auth :: "params_builder \<Rightarrow> params_builder" where
  "with_server_auth = push_eku ServerAuth"

definition with_client_auth :: "params_builder \<Rightarrow> params_builder" where
  "with_client_auth = push_eku ClientAuth"

definition push_key_usage :: "key_usage_purpose \<Rightarrow> params_builder \<Rightarrow> params_builder" where
  "push_key_usage u b = b \<lparr> b_key_usages := b_key_usages b @ [u] \<rparr>"

definition with_digital_signature :: "params_builder \<Rightarrow> params_builder" where
  "with_digital_signature = push_key_usage DigitalSignature"

definition with_key_cert_sign :: "params_builder \<Rightarrow> params_builder" where
  "with_key_cert_sign = push_key_usage KeyCertSign"

definition with_crl_sign :: "params_builder \<Rightarrow> params_builder" where
  "with_crl_sign = push_key_usage CrlSign"

definition with_key_usages :: "key_usage_purpose list \<Rightarrow> params_builder \<Rightarrow> params_builder" where
  "with_key_usages usages b = b \<lparr> b_key_usages := usages \<rparr>"

definition with_serial_number :: "u64 \<Rightarrow> params_builder \<Rightarrow> params_builder" where
  "with_serial_number serial b = b \<lparr> b_serial_number := Some serial \<rparr>"

definition with_validity :: "int \<Rightarrow> int \<Rightarrow> params_builder \<Rightarrow> params_builder" where
  "with_validity not_before not_after b = b \<lparr> b_not_before := Some not_before, b_not_after := Some not_after \<rparr>"

definition with_name_constraints ::
    "general_subtree list \<Rightarrow> general_subtree list \<Rightarrow> params_builder \<Rightarrow> params_builder" where
  "with_name_constraints permitted excluded b =
     b \<lparr> b_name_constraints := Some \<lparr> permitted_subtrees = permitted, excluded_subtrees = excluded \<rparr> \<rparr>"

definition with_subject_key_id :: "bytes \<Rightarrow> params_builder \<Rightarrow> params_builder" where
  "with_subject_key_id bs b = b \<lparr> b_subject_key_id := Some bs \<rparr>"

definition with_authority_key_id :: "bytes \<Rightarrow> params_builder \<Rightarrow> params_builder" where
  "with_authority_key_id bs b = b \<lparr> b_authority_key_id := Some bs \<rparr>"

definition with_authority_key_id_from_issuer :: "params_builder \<Rightarrow> params_builder" where
  "with_authority_key_id_from_issuer b = b \<lparr> b_enable_aki_from_issuer := True \<rparr>"

definition with_crl_distribution_point :: "string \<Rightarrow> params_builder \<Rightarrow> params_builder" where
  "with_crl_distribution_point uri b = b \<lparr> b_crl_distribution_points := b_crl_distribution_points b @ [uri] \<rparr>"

definition with_ocsp_responder_url :: "string \<Rightarrow> params_builder \<Rightarrow> params_builder" where
  "with_ocsp_responder_url url b = b \<lparr> b_ocsp_responder_url := Some url \<rparr>"

definition with_code_signing :: "params_builder \<Rightarrow> params_builder" where
  "with_code_signing = push_eku CodeSigning"

definition with_email_protection :: "params_builder \<Rightarrow> params_builder" where
  "with_email_protection = push_eku EmailProtection"

definition with_ocsp_signing :: "params_builder \<Rightarrow> params_builder" where
  "with_ocsp_signing = push_eku OcspSigning"

definition with_extended_key_usages :: "extended_key_usage_purpose list \<Rightarrow> params_builder \<Rightarrow> params_builder" where
  "with_extended_key_usages usages b = b \<lparr> b_extended_key_usages := usages \<rparr>"

text \<open>\<open>collect::<Result<Vec<_>, _>>()\<close>: the first error ends the collection.\<close>

fun collect_results :: "('a, 'e) result list \<Rightarrow> ('a list, 'e) result" where
  "collect_results [] = Ok []"
| "collect_results (r # rs) = rbind r (\<lambda>x. rbind (collect_results rs) (\<lambda>xs. Ok (x # xs)))"

definition dns_san :: "rcgen_lib \<Rightarrow> string \<Rightarrow> (san_type, tls_error) result" where
  "dns_san L name = rmap_err InvalidConfig (rbind (rg_ia5_string L name) (\<lambda>s. Ok (SanDnsName s)))"

definition AKI_OID :: "nat list" where
  "AKI_OID = [2, 5, 29, 35]"

definition AIA_OID :: "nat list" where
  "AIA_OID = [1, 3, 6, 1, 5, 5, 7, 1, 1]"

definition builder_dn :: "rcgen_lib \<Rightarrow> params_builder \<Rightarrow> distinguished_name" where
  "builder_dn L b =
     (case b_common_name b of
        Some cn \<Rightarrow> rg_dn_push L [] CommonName cn
      | None \<Rightarrow>
          (case b_dns_names b of first_dns # _ \<Rightarrow> rg_dn_push L [] CommonName first_dns | [] \<Rightarrow> []))"

definition builder_aki :: "params_builder \<Rightarrow> certificate_params \<Rightarrow> certificate_params" where
  "builder_aki b params =
     (case b_authority_key_id b of
        Some aki_bytes \<Rightarrow>
          params \<lparr> cp_custom_extensions := cp_custom_extensions params @
                    [\<lparr> ext_oid = AKI_OID, ext_content = encode_authority_key_identifier aki_bytes \<rparr>] \<rparr>
      | None \<Rightarrow>
          if b_enable_aki_from_issuer b then params \<lparr> cp_use_authority_key_identifier := True \<rparr> else params)"

definition builder_aia :: "params_builder \<Rightarrow> certificate_params \<Rightarrow> certificate_params" where
  "builder_aia b params =
     (case b_ocsp_responder_url b of
        Some url \<Rightarrow>
          params \<lparr> cp_custom_extensions := cp_custom_extensions params @
                    [\<lparr> ext_oid = AIA_OID, ext_content = encode_aia_ocsp url \<rparr>] \<rparr>
      | None \<Rightarrow> params)"

text \<open>\<open>if let Some(v) = x { .. }\<close> and \<open>if c { .. }\<close> around an assignment to the parameters.\<close>

definition if_some :: "'a option \<Rightarrow> ('a \<Rightarrow> 'p \<Rightarrow> 'p) \<Rightarrow> 'p \<Rightarrow> 'p" where
  "if_some x f p = (case x of Some v \<Rightarrow> f v p | None \<Rightarrow> p)"

definition if_set :: "bool \<Rightarrow> ('p \<Rightarrow> 'p) \<Rightarrow> 'p \<Rightarrow> 'p" where
  "if_set c f p = (if c then f p else p)"

fun is_ca_ca :: "is_ca \<Rightarrow> bool" where
  "is_ca_ca (Ca _) = True"
| "is_ca_ca _ = False"

definition build_with_spki :: "rcgen_lib \<Rightarrow> params_builder \<Rightarrow> bytes \<Rightarrow> (certificate_params, tls_error) result" where
  "build_with_spki L b spki_for_kid =
     rbind (collect_results (map (dns_san L) (b_dns_names b))) (\<lambda>dns_sans.
     let sans = dns_sans @ map SanIpAddress (b_ip_addresses b) in
     if sans = [] \<and> \<not> is_ca_ca (b_is_ca b) then
       Err (InvalidConfig ''at least one SAN is required for leaf certificates'')
     else
       let default_kid = rg_sha256 L spki_for_kid;
           ski = (case b_subject_key_id b of Some bs \<Rightarrow> bs | None \<Rightarrow> default_kid);
           dn = builder_dn L b;
           params = rg_params_default L;
           params = params \<lparr> cp_subject_alt_names := sans, cp_distinguished_name := dn, cp_is_ca := b_is_ca b,
                             cp_key_identifier_method := PreSpecified ski \<rparr>;
           params = if_set (b_key_usages b \<noteq> []) (\<lambda>p. p \<lparr> cp_key_usages := b_key_usages b \<rparr>) params;
           params = if_set (b_extended_key_usages b \<noteq> [])
                      (\<lambda>p. p \<lparr> cp_extended_key_usages := b_extended_key_usages b \<rparr>) params;
           params = params \<lparr> cp_serial_number :=
                       Some (case b_serial_number b of Some n \<Rightarrow> n | None \<Rightarrow> 1) \<rparr>;
           params = if_some (b_not_before b) (\<lambda>nb p. p \<lparr> cp_not_before := nb \<rparr>) params;
           params = if_some (b_not_after b) (\<lambda>na p. p \<lparr> cp_not_after := na \<rparr>) params;
           params = if_some (b_name_constraints b) (\<lambda>nc p. p \<lparr> cp_name_constraints := Some nc \<rparr>) params;
           params = builder_aki b params;
           params = if_set (b_crl_distribution_points b \<noteq> [])
                      (\<lambda>p. p \<lparr> cp_crl_distribution_points := map (\<lambda>uri. [uri]) (b_crl_distribution_points b) \<rparr>) params;
           params = builder_aia b params in
       Ok params)"

definition params_build :: "rcgen_lib \<Rightarrow> params_builder \<Rightarrow> (certificate_params, tls_error) result" where
  "params_build L b = build_with_spki L b []"

section \<open>CertChainBuilder\<close>

record chain_builder =
  chain_leaf :: "bytes option"
  chain_intermediates :: "bytes list"
  chain_root :: "bytes option"

definition chain_builder_new :: chain_builder where
  "chain_builder_new = \<lparr> chain_leaf = None, chain_intermediates = [], chain_root = None \<rparr>"

definition with_leaf :: "bytes \<Rightarrow> chain_builder \<Rightarrow> chain_builder" where
  "with_leaf der c = c \<lparr> chain_leaf := Some der \<rparr>"

definition with_intermediate :: "bytes \<Rightarrow> chain_builder \<Rightarrow> chain_builder" where
  "with_intermediate der c = c \<lparr> chain_intermediates := chain_intermediates c @ [der] \<rparr>"

definition with_root :: "bytes \<Rightarrow> chain_builder \<Rightarrow> chain_builder" where
  "with_root der c = c \<lparr> chain_root := Some der \<rparr>"

definition chain_build :: "chain_builder \<Rightarrow> bytes list" where
  "chain_build c =
     (let chain = [];
          chain = (case chain_leaf c of Some l \<Rightarrow> chain @ [l] | None \<Rightarrow> chain);
          chain = chain @ chain_intermediates c in
      case chain_root c of Some r \<Rightarrow> chain @ [r] | None \<Rightarrow> chain)"

fun push_all :: "bytes list \<Rightarrow> bytes list \<Rightarrow> bytes list" where
  "push_all chain [] = chain"
| "push_all chain (i # is) = push_all (chain @ [i]) is"

definition chain_build_rustls :: "chain_builder \<Rightarrow> bytes list" where
  "chain_build_rustls c =
     (let chain = [];
          chain = (case chain_leaf c of Some l \<Rightarrow> chain @ [l] | None \<Rightarrow> chain);
          chain = push_all chain (chain_intermediates c) in
      case chain_root c of Some r \<Rightarrow> chain @ [r] | None \<Rightarrow> chain)"

section \<open>Parameters of the generated certificates\<close>

definition san_of :: "rcgen_lib \<Rightarrow> string \<Rightarrow> (san_type, tls_error) result" where
  "san_of L s = (case parse_ip s of Some ip \<Rightarrow> Ok (SanIpAddress ip) | None \<Rightarrow> dns_san L s)"

definition build_params :: "rcgen_lib \<Rightarrow> string list \<Rightarrow> bytes \<Rightarrow> (certificate_params, tls_error) result" where
  "build_params L subject_alt_names spki_for_kid =
     rbind (collect_results (map (san_of L) subject_alt_names)) (\<lambda>sans.
     if sans = [] then Err (InvalidConfig ''at least one SAN is required'')
     else
       let kid = rg_sha256 L spki_for_kid;
           cn = (case subject_alt_names of s # _ \<Rightarrow> s | [] \<Rightarrow> ''localhost'');
           dn = rg_dn_push L [] CommonName cn in
       Ok (rg_params_default L \<lparr>
             cp_subject_alt_names := sans, cp_distinguished_name := dn, cp_is_ca := NoCa,
             cp_key_usages := [DigitalSignature], cp_extended_key_usages := [ServerAuth],
             cp_key_identifier_method := PreSpecified kid, cp_serial_number := Some 1 \<rparr>))"

definition build_client_params :: "rcgen_lib \<Rightarrow> string list \<Rightarrow> bytes \<Rightarrow> (certificate_params, tls_error) result" where
  "build_client_params L subject_alt_names spki_for_kid =
     rbind (collect_results (map (san_of L) subject_alt_names)) (\<lambda>sans.
     if sans = [] then Err (InvalidConfig ''at least one SAN is required'')
     else
       let kid = rg_sha256 L spki_for_kid;
           cn = (case subject_alt_names of s # _ \<Rightarrow> s | [] \<Rightarrow> ''client'');
           dn = rg_dn_push L [] CommonName cn in
       Ok (rg_params_default L \<lparr>
             cp_subject_alt_names := sans, cp_distinguished_name := dn, cp_is_ca := NoCa,
             cp_key_usages := [DigitalSignature], cp_extended_key_usages := [ClientAuth],
             cp_key_identifier_method := PreSpecified kid, cp_serial_number := Some 2 \<rparr>))"

definition build_ca_params :: "rcgen_lib \<Rightarrow> string \<Rightarrow> bytes \<Rightarrow> byte option \<Rightarrow> certificate_params" where
  "build_ca_params L subject_cn spki_for_kid path_length =
     (let kid = rg_sha256 L spki_for_kid;
          dn = rg_dn_push L [] CommonName subject_cn in
      rg_params_default L \<lparr>
        cp_distinguished_name := dn,
        cp_is_ca := (case path_length of Some len \<Rightarrow> Ca (Constrained len) | None \<Rightarrow> Ca Unconstrained),
        cp_key_usages := [KeyCertSign, CrlSign, DigitalSignature],
        cp_key_identifier_method := PreSpecified kid, cp_serial_number := Some 1 \<rparr>)"

section \<open>Self-signed certificates\<close>

text \<open>The common body of the generators, for a key and its view as a signing key of rcgen.\<close>

definition self_signed_with ::
    "rcgen_lib \<Rightarrow> string list \<Rightarrow> oxi_key \<Rightarrow> signing_key \<Rightarrow> (rcgen_certified_key, tls_error) result" where
  "self_signed_with L subject_alt_names key sk =
     (let spki = rg_spki L (public_of sk) in
      rbind (build_params L subject_alt_names spki) (\<lambda>params.
      rbind (rmap_err InvalidConfig (rg_self_signed L params sk)) (\<lambda>(der, pem).
      Ok \<lparr> ck_cert_der = der, ck_pkcs8_der = key_pkcs8 key, ck_cert_pem = pem \<rparr>)))"

definition generate_self_signed_ed25519 ::
    "rcgen_lib \<Rightarrow> draws \<Rightarrow> string list \<Rightarrow> (rcgen_certified_key, tls_error) result option" where
  "generate_self_signed_ed25519 L rnd sans =
     dbind (Some (ed25519_generate L rnd)) (\<lambda>key. Some (self_signed_with L sans key (ed25519_signing_key L key)))"

definition generate_self_signed_p256 ::
    "rcgen_lib \<Rightarrow> draws \<Rightarrow> string list \<Rightarrow> (rcgen_certified_key, tls_error) result option" where
  "generate_self_signed_p256 L rnd sans =
     dbind (oxi_p256_generate L rnd) (\<lambda>key. Some (self_signed_with L sans key (p256_signing_key L key)))"

definition generate_self_signed_p384 ::
    "rcgen_lib \<Rightarrow> draws \<Rightarrow> string list \<Rightarrow> (rcgen_certified_key, tls_error) result option" where
  "generate_self_signed_p384 L rnd sans =
     dbind (oxi_p384_generate L rnd) (\<lambda>key. Some (self_signed_with L sans key (p384_signing_key L key)))"

definition self_signed_from_rsa2048_key ::
    "rcgen_lib \<Rightarrow> string list \<Rightarrow> oxi_key \<Rightarrow> (rcgen_certified_key, tls_error) result" where
  "self_signed_from_rsa2048_key L sans key = self_signed_with L sans key (rsa2048_signing_key L key)"

definition self_signed_from_rsa4096_key ::
    "rcgen_lib \<Rightarrow> string list \<Rightarrow> oxi_key \<Rightarrow> (rcgen_certified_key, tls_error) result" where
  "self_signed_from_rsa4096_key L sans key = self_signed_with L sans key (rsa4096_signing_key L key)"

definition generate_self_signed_rsa2048 ::
    "rcgen_lib \<Rightarrow> draws \<Rightarrow> string list \<Rightarrow> (rcgen_certified_key, tls_error) result option" where
  "generate_self_signed_rsa2048 L rnd sans =
     dbind (Some (rsa2048_generate L rnd)) (\<lambda>key. Some (self_signed_with L sans key (rsa2048_signing_key L key)))"

definition generate_self_signed_rsa4096 ::
    "rcgen_lib \<Rightarrow> draws \<Rightarrow> string list \<Rightarrow> (rcgen_certified_key, tls_error) result option" where
  "generate_self_signed_rsa4096 L rnd sans =
     dbind (Some (rsa4096_generate L rnd)) (\<lambda>key. Some (self_signed_with L sans key (rsa4096_signing_key L key)))"

fun generate_self_signed ::
    "rcgen_lib \<Rightarrow> draws \<Rightarrow> string list \<Rightarrow> signing_algorithm \<Rightarrow> (rcgen_certified_key, tls_error) result option" where
  "generate_self_signed L rnd sans Ed25519 = generate_self_signed_ed25519 L rnd sans"
| "generate_self_signed L rnd sans EcdsaP256 = generate_self_signed_p256 L rnd sans"
| "generate_self_signed L rnd sans EcdsaP384 = generate_self_signed_p384 L rnd sans"
| "generate_self_signed L rnd sans Rsa2048 = generate_self_signed_rsa2048 L rnd sans"
| "generate_self_signed L rnd sans Rsa4096 = generate_self_signed_rsa4096 L rnd sans"

section \<open>Certificate authorities and what they sign\<close>

text \<open>The match on the algorithm: which key type generates, and the variant its key is stored in.\<close>

fun generate_for :: "rcgen_lib \<Rightarrow> draws \<Rightarrow> signing_algorithm \<Rightarrow> (oxi_key, tls_error) result option" where
  "generate_for L rnd Ed25519 = Some (ed25519_generate L rnd)"
| "generate_for L rnd EcdsaP256 = oxi_p256_generate L rnd"
| "generate_for L rnd EcdsaP384 = oxi_p384_generate L rnd"
| "generate_for L rnd Rsa2048 = Some (rsa2048_generate L rnd)"
| "generate_for L rnd Rsa4096 = Some (rsa4096_generate L rnd)"

fun variant_of :: "signing_algorithm \<Rightarrow> oxi_key \<Rightarrow> ca_signer_inner" where
  "variant_of Ed25519 = CaEd25519"
| "variant_of EcdsaP256 = CaP256"
| "variant_of EcdsaP384 = CaP384"
| "variant_of Rsa2048 = CaRsa2048"
| "variant_of Rsa4096 = CaRsa4096"

definition key_for :: "rcgen_lib \<Rightarrow> signing_algorithm \<Rightarrow> oxi_key \<Rightarrow> signing_key" where
  "key_for L alg k = ca_signing_key L (variant_of alg k)"

definition generate_ca ::
    "rcgen_lib \<Rightarrow> draws \<Rightarrow> string \<Rightarrow> signing_algorithm \<Rightarrow> (ca_certified_key, tls_error) result option" where
  "generate_ca L rnd subject_cn alg =
     dbind (generate_for L rnd alg) (\<lambda>key.
     let sk = key_for L alg key;
         spki = rg_spki L (public_of sk);
         params = build_ca_params L subject_cn spki None in
     Some (rbind (rmap_err InvalidConfig (rg_self_signed L params sk)) (\<lambda>(der, pem).
       Ok \<lparr> ca_certified = \<lparr> ck_cert_der = der, ck_pkcs8_der = key_pkcs8 key, ck_cert_pem = pem \<rparr>,
            ca_params = params, ca_signer = variant_of alg key \<rparr>)))"

definition generate_intermediate_ca ::
    "rcgen_lib \<Rightarrow> draws \<Rightarrow> string \<Rightarrow> signing_algorithm \<Rightarrow> ca_certified_key \<Rightarrow> (ca_certified_key, tls_error) result option" where
  "generate_intermediate_ca L rnd subject_cn alg parent =
     dbind (generate_for L rnd alg) (\<lambda>key.
     let sk = key_for L alg key;
         spki = rg_spki L (public_of sk);
         params = build_ca_params L subject_cn spki (Some 0) in
     Some (rbind (sign_child L parent params (public_of sk)) (\<lambda>(cert_der, cert_pem).
       Ok \<lparr> ca_certified = \<lparr> ck_cert_der = cert_der, ck_pkcs8_der = key_pkcs8 key, ck_cert_pem = cert_pem \<rparr>,
            ca_params = params, ca_signer = variant_of alg key \<rparr>)))"

definition generate_ca_signed_client_cert ::
    "rcgen_lib \<Rightarrow> draws \<Rightarrow> string list \<Rightarrow> signing_algorithm \<Rightarrow> ca_certified_key \<Rightarrow> (rcgen_certified_key, tls_error) result option" where
  "generate_ca_signed_client_cert L rnd sans alg ca =
     dbind (generate_for L rnd alg) (\<lambda>key.
     let sk = key_for L alg key; spki = rg_spki L (public_of sk) in
     Some (rbind (build_client_params L sans spki) (\<lambda>params.
           rbind (sign_child L ca params (public_of sk)) (\<lambda>(cert_der, cert_pem).
           Ok \<lparr> ck_cert_der = cert_der, ck_pkcs8_der = key_pkcs8 key, ck_cert_pem = cert_pem \<rparr>))))"

definition generate_ca_signed_leaf ::
    "rcgen_lib \<Rightarrow> draws \<Rightarrow> string list \<Rightarrow> signing_algorithm \<Rightarrow> ca_certified_key \<Rightarrow> (rcgen_certified_key, tls_error) result option" where
  "generate_ca_signed_leaf L rnd sans alg ca =
     dbind (generate_for L rnd alg) (\<lambda>key.
     let sk = key_for L alg key; spki = rg_spki L (public_of sk) in
     Some (rbind (build_params L sans spki) (\<lambda>params.
           rbind (sign_child L ca params (public_of sk)) (\<lambda>(cert_der, cert_pem).
           Ok \<lparr> ck_cert_der = cert_der, ck_pkcs8_der = key_pkcs8 key, ck_cert_pem = cert_pem \<rparr>))))"

end
