(* ===== verification/Rcgen_Chain.thy ===== *)
theory Rcgen_Chain
  imports Rcgen_Cert "HOL-Library.AList"
begin

text \<open>
  What the certificates generated by \<open>oxitls-rcgen\<close> are worth to a verifier. \<open>issued_view\<close> is a parsed certificate;
  \<open>rcgen_ok\<close> says that rcgen issues certificates which a reader \<open>R\<close> parses back to what the parameters state
  (not to the parameters: their encoding forgets, for example, how a key identifier was chosen), with the issuer's
  name and a signature of the issuer's key, and names rcgen's defaults. Certificate authorities
  arise by the steps of the inductive predicate \<open>issued\<close>: a root, and intermediates under the last authority.
\<close>

section \<open>What rcgen promises\<close>

record issued_view =
  cv_valid_from :: int
  cv_valid_until :: int
  cv_serial :: nat
  cv_subject :: distinguished_name
  cv_names :: "san_type list"
  cv_ca :: "basic_constraints option"
  cv_key_usages :: "key_usage_purpose set"
  cv_ekus :: "extended_key_usage_purpose set"
  cv_name_constraints :: "name_constraints option"
  cv_issuer :: distinguished_name
  cv_key :: public_key_data
  cv_tbs :: bytes
  cv_sig_alg :: sig_alg
  cv_signature :: bytes

type_synonym cert_reader = "bytes \<Rightarrow> issued_view option"

text \<open>Values that their encoding determines: an instant from 1950 to 9999; a name without repeated types and without
  identifiers given as numbers, which may be those of a named type; IA5 strings and addresses of their length.\<close>

definition encodable_time :: "int \<Rightarrow> bool" where
  "encodable_time t \<longleftrightarrow> - 631152000 \<le> t \<and> t \<le> 253402300799"

fun named_dn_type :: "dn_type \<Rightarrow> bool" where
  "named_dn_type (CustomDnType _) = False"
| "named_dn_type _ = True"

definition plain_dn :: "distinguished_name \<Rightarrow> bool" where
  "plain_dn dn \<longleftrightarrow> distinct (map fst dn) \<and> list_all (\<lambda>(t, v). named_dn_type t) dn"

fun ip_wf :: "ip_addr \<Rightarrow> bool" where
  "ip_wf (V4 octets) = (length octets = 4)"
| "ip_wf (V6 octets) = (length octets = 16)"

fun san_wf :: "san_type \<Rightarrow> bool" where
  "san_wf (SanRfc822Name s) = is_ascii s"
| "san_wf (SanDnsName s) = is_ascii s"
| "san_wf (SanUri s) = is_ascii s"
| "san_wf (SanIpAddress a) = ip_wf a"

fun named_eku :: "extended_key_usage_purpose \<Rightarrow> bool" where
  "named_eku (OtherEku _) = False"
| "named_eku _ = True"

fun stated_ca :: "is_ca \<Rightarrow> basic_constraints option" where
  "stated_ca (Ca c) = Some c"
| "stated_ca _ = None"

text \<open>What a certificate states of the parameters it was requested with. Extensions given as bytes may say anything, so the
  rest holds without them; key usages are written only beside alternative names or the constraints of a CA.\<close>

definition states_params :: "certificate_params \<Rightarrow> issued_view \<Rightarrow> bool" where
  "states_params p v \<longleftrightarrow>
     (encodable_time (cp_not_before p) \<longrightarrow> cv_valid_from v = cp_not_before p) \<and>
     (encodable_time (cp_not_after p) \<longrightarrow> cv_valid_until v = cp_not_after p) \<and>
     (\<forall>n. cp_serial_number p = Some n \<longrightarrow> cv_serial v = unat n) \<and>
     (plain_dn (cp_distinguished_name p) \<longrightarrow> cv_subject v = cp_distinguished_name p) \<and>
     (cp_custom_extensions p = [] \<longrightarrow>
        (list_all san_wf (cp_subject_alt_names p) \<longrightarrow> cv_names v = cp_subject_alt_names p) \<and>
        cv_ca v = stated_ca (cp_is_ca p) \<and>
        (cp_subject_alt_names p \<noteq> [] \<or> stated_ca (cp_is_ca p) \<noteq> None \<longrightarrow> cv_key_usages v = set (cp_key_usages p)) \<and>
        (list_all named_eku (cp_extended_key_usages p) \<longrightarrow> cv_ekus v = set (cp_extended_key_usages p)) \<and>
        (cp_name_constraints p = None \<longrightarrow> cv_name_constraints v = None))"

lemma states_paramsD:
  assumes "states_params p v"
  shows "encodable_time (cp_not_before p) \<Longrightarrow> cv_valid_from v = cp_not_before p"
    and "encodable_time (cp_not_after p) \<Longrightarrow> cv_valid_until v = cp_not_after p"
    and "cp_serial_number p = Some n \<Longrightarrow> cv_serial v = unat n"
    and "plain_dn (cp_distinguished_name p) \<Longrightarrow> cv_subject v = cp_distinguished_name p"
    and "cp_custom_extensions p = [] \<Longrightarrow> list_all san_wf (cp_subject_alt_names p) \<Longrightarrow> cv_names v = cp_subject_alt_names p"
    and "cp_custom_extensions p = [] \<Longrightarrow> cv_ca v = stated_ca (cp_is_ca p)"
    and "cp_custom_extensions p = [] \<Longrightarrow> stated_ca (cp_is_ca p) \<noteq> None \<Longrightarrow> cv_key_usages v = set (cp_key_usages p)"
    and "cp_custom_extensions p = [] \<Longrightarrow> list_all named_eku (cp_extended_key_usages p) \<Longrightarrow>
      cv_ekus v = set (cp_extended_key_usages p)"
    and "cp_custom_extensions p = [] \<Longrightarrow> cp_name_constraints p = None \<Longrightarrow> cv_name_constraints v = None"
  using assms unfolding states_params_def by blast+

text \<open>A certificate for \<open>params\<close> and \<open>key\<close> that \<open>issuer\<close> signed under the name \<open>dn\<close>.\<close>

definition issued_as ::
    "cert_reader \<Rightarrow> certificate_params \<Rightarrow> public_key_data \<Rightarrow> distinguished_name \<Rightarrow> signing_key \<Rightarrow> bytes \<Rightarrow> bool" where
  "issued_as R params key dn issuer der \<longleftrightarrow>
     (\<exists>v. R der = Some v \<and> states_params params v \<and> (plain_dn dn \<longrightarrow> cv_issuer v = dn) \<and> cv_key v = key \<and>
        cv_sig_alg v = pk_algorithm issuer \<and> sk_sign issuer (cv_tbs v) = Ok (cv_signature v))"

definition rcgen_ok :: "rcgen_lib \<Rightarrow> cert_reader \<Rightarrow> bool" where
  "rcgen_ok L R \<longleftrightarrow>
     (\<forall>p k der pem. rg_self_signed L p k = Ok (der, pem) \<longrightarrow>
        issued_as R p (public_of k) (cp_distinguished_name p) k der) \<and>
     (\<forall>p key ip k der pem. rg_signed_by L p key ip k = Ok (der, pem) \<longrightarrow>
        issued_as R p key (cp_distinguished_name ip) k der) \<and>
     (\<forall>s. rok (rg_ia5_string L s) = (if is_ascii s then Some s else None)) \<and>
     (\<forall>d t v. rg_dn_push L d t v = AList.update t v d) \<and>
     cp_is_ca (rg_params_default L) = NoCa \<and> cp_custom_extensions (rg_params_default L) = [] \<and>
     \<not> cp_use_authority_key_identifier (rg_params_default L)"

lemma rcgen_okD:
  assumes "rcgen_ok L R"
  shows "rg_self_signed L p k = Ok (der, pem) \<Longrightarrow> issued_as R p (public_of k) (cp_distinguished_name p) k der"
    and "rg_signed_by L p key ip k = Ok (der, pem) \<Longrightarrow> issued_as R p key (cp_distinguished_name ip) k der"
    and "rg_ia5_string L s = Ok u \<longleftrightarrow> is_ascii s \<and> u = s"
    and "rg_dn_push L d t v = AList.update t v d"
    and "cp_is_ca (rg_params_default L) = NoCa" "cp_custom_extensions (rg_params_default L) = []"
    "\<not> cp_use_authority_key_identifier (rg_params_default L)"
proof -
  have "rok (rg_ia5_string L s) = (if is_ascii s then Some s else None)"
    using assms by (simp add: rcgen_ok_def)
  then show "rg_ia5_string L s = Ok u \<longleftrightarrow> is_ascii s \<and> u = s"
    by (cases "rg_ia5_string L s") (auto split: if_splits)
qed (use assms in \<open>auto simp: rcgen_ok_def\<close>)

section \<open>Well-formed names\<close>

lemma read_octets_length: "read_octets k i s = Some (vs, r) \<Longrightarrow> length vs = k"
  by (induction k i s arbitrary: vs r rule: read_octets.induct) (auto split: option.splits)

lemma read_groups_wf:
  "read_groups k i s = (gs, v4, r) \<Longrightarrow> length gs \<le> k \<and> (\<forall>g \<in> set gs. length g = 2)"
proof (induction k i s arbitrary: gs v4 r rule: read_groups.induct)
  case (2 left i s)
  have four: "length o4 = 4" if "read_separator CHR '':'' i read_ipv4 s = Some (o4, t)" for o4 t
    using that by (auto simp: read_separator_def read_ipv4_def split: if_splits list.splits dest: read_octets_length)
  show ?case
  proof (cases "if 0 < left then read_separator CHR '':'' i read_ipv4 s else None")
    case None
    show ?thesis
    proof (cases "read_separator CHR '':'' i (read_number 16 0xFFFF 4 True) s")
      case (Some gt)
      obtain g t where gt: "gt = (g, t)" by fastforce
      obtain gs' v4' r' where rest: "read_groups left (Suc i) t = (gs', v4', r')" by (metis prod_cases3)
      with "2.prems" None Some gt have "gs = be_encode 2 g # gs'" by simp
      with "2.IH" [OF None Some gt [symmetric] rest] show ?thesis by (simp add: gt)
    qed (use "2.prems" None in simp)
  next
    case (Some ot)
    obtain o4 t where ot: "ot = (o4, t)" by fastforce
    with Some have "0 < left" "length o4 = 4" using four by (auto split: if_splits)
    moreover from "2.prems" Some ot have "gs = [take 2 o4, drop 2 o4]" by simp
    ultimately show ?thesis by auto
  qed
qed simp

lemma length_concat_pairs: "\<forall>g \<in> set gs. length g = 2 \<Longrightarrow> length (concat gs) = 2 * length gs"
  by (induction gs) auto

lemma read_ipv6_length:
  assumes "read_ipv6 s = Some (os, r)"
  shows "length os = 16"
proof -
  obtain hd h4 s1 where h: "read_groups 8 0 s = (hd, h4, s1)" by (metis prod_cases3)
  note head = read_groups_wf [OF h]
  show ?thesis
  proof (cases "length hd = 8")
    case True
    with assms h have "os = concat hd" by (simp add: read_ipv6_def)
    with head True show ?thesis by (simp add: length_concat_pairs)
  next
    case False
    with assms h obtain s2 tl t4 where t: "read_groups (8 - (length hd + 1)) 0 s2 = (tl, t4, r)"
      and os: "os = concat (hd @ replicate (8 - length hd - length tl) [0, 0] @ tl)"
      by (auto simp: read_ipv6_def split: if_splits list.splits prod.splits)
    note tail = read_groups_wf [OF t]
    have "length os = 2 * length (hd @ replicate (8 - length hd - length tl) [0, 0 :: byte] @ tl)"
      unfolding os by (rule length_concat_pairs) (use head tail in \<open>auto\<close>)
    moreover have "length hd + length tl \<le> 8" using head tail False by linarith
    ultimately show ?thesis by simp
  qed
qed

lemma parse_ip_wf: "parse_ip s = Some ip \<Longrightarrow> ip_wf ip"
  by (auto simp: parse_ip_def read_ipv4_def split: option.splits list.splits prod.splits
      dest: read_octets_length read_ipv6_length)

lemma san_of_wf:
  assumes "rcgen_ok L R" "san_of L s = Ok n"
  shows "san_wf n"
proof (cases "parse_ip s")
  case None
  with assms(2) obtain u where "rg_ia5_string L s = Ok u" "n = SanDnsName u"
    by (auto simp: san_of_def dns_san_def result_simps)
  with rcgen_okD(3) [OF assms(1)] show ?thesis by simp
next
  case (Some ip)
  with assms(2) have "n = SanIpAddress ip" by (simp add: san_of_def)
  with parse_ip_wf [OF Some] show ?thesis by simp
qed

lemma collect_results_map_Ok:
  "collect_results (map f xs) = Ok ys \<longleftrightarrow> list_all2 (\<lambda>x y. f x = Ok y) xs ys"
proof (induction xs arbitrary: ys)
  case (Cons x xs)
  then show ?case by (cases ys) (auto simp: result_simps)
qed auto

lemma sans_wf:
  assumes "rcgen_ok L R" "collect_results (map (san_of L) sans) = Ok ys"
  shows "list_all san_wf ys"
  using assms(2) san_of_wf [OF assms(1)] unfolding collect_results_map_Ok
  by (auto simp: list_all2_conv_all_nth list_all_length)

section \<open>Path validation\<close>

definition signed_link :: "sig_verify \<Rightarrow> issued_view \<Rightarrow> issued_view \<Rightarrow> bool" where
  "signed_link V child issuer \<longleftrightarrow>
     cv_issuer child = cv_subject issuer \<and>
     cv_sig_alg child = pk_algorithm (cv_key issuer) \<and>
     V (cv_sig_alg child) (pk_der_bytes (cv_key issuer)) (cv_tbs child) (cv_signature child)"

fun path_length_allows :: "nat \<Rightarrow> basic_constraints option \<Rightarrow> bool" where
  "path_length_allows n (Some Unconstrained) = True"
| "path_length_allows n (Some (Constrained l)) = (n \<le> unat l)"
| "path_length_allows n None = False"

text \<open>An issuer with \<open>n\<close> CA certificates between it and the leaf; the last certificate is a self-signed anchor.\<close>

fun path_up :: "sig_verify \<Rightarrow> nat \<Rightarrow> issued_view \<Rightarrow> issued_view list \<Rightarrow> bool" where
  "path_up V n child [] = signed_link V child child"
| "path_up V n child (issuer # rest) =
     (signed_link V child issuer \<and> path_length_allows n (cv_ca issuer) \<and>
      KeyCertSign \<in> cv_key_usages issuer \<and> path_up V (Suc n) issuer rest)"

definition valid_path :: "cert_reader \<Rightarrow> sig_verify \<Rightarrow> bytes list \<Rightarrow> bool" where
  "valid_path R V ders =
     (case those (map R ders) of Some (leaf # cas) \<Rightarrow> path_up V 0 leaf cas | _ \<Rightarrow> False)"

section \<open>Authorities\<close>

inductive issued :: "rcgen_lib \<Rightarrow> ca_certified_key list \<Rightarrow> bool" for L where
  root: "generate_ca L rnd cn alg = Some (Ok ca) \<Longrightarrow> issued L [ca]"
| intermediate: "issued L (p # cs) \<Longrightarrow> generate_intermediate_ca L rnd cn alg p = Some (Ok ca) \<Longrightarrow>
    issued L (ca # p # cs)"

inductive_simps issued_simps [simp]: "issued L []"

lemma issued_params:
  "issued L cas \<Longrightarrow> ca \<in> set cas \<Longrightarrow> \<exists>cn spki len. ca_params ca = build_ca_params L cn spki len"
  by (induction rule: issued.induct)
    ((auto simp: generate_ca_def generate_intermediate_ca_def Let_def result_simps; blast)+)

lemma generated_key_matches:
  "signature_crates_ok L V \<Longrightarrow> generate_for L rnd alg = Some (Ok k) \<Longrightarrow> key_matches V (key_for L alg k)"
  using ed25519_type.generated_matches [of L V rnd k] p256_type.generated_matches [of L V rnd k]
    p384_type.generated_matches [of L V rnd k] rsa2048_type.generated_matches [of L V rnd k]
    rsa4096_type.generated_matches [of L V rnd k]
  by (cases alg) (simp_all add: key_for_def)

definition ca_key :: "rcgen_lib \<Rightarrow> ca_certified_key \<Rightarrow> signing_key" where
  "ca_key L ca = ca_signing_key L (ca_signer ca)"

definition ca_der :: "ca_certified_key \<Rightarrow> bytes" where
  "ca_der ca = ck_cert_der (ca_certified ca)"

text \<open>The certificate of an authority states its parameters and the key it signs with; \<open>who\<close> signed it.\<close>

definition ca_sound ::
    "rcgen_lib \<Rightarrow> cert_reader \<Rightarrow> sig_verify \<Rightarrow> basic_constraints \<Rightarrow> ca_certified_key \<Rightarrow> ca_certified_key \<Rightarrow> bool" where
  "ca_sound L R V c who ca \<longleftrightarrow>
     issued_as R (ca_params ca) (public_of (ca_key L ca)) (cp_distinguished_name (ca_params who)) (ca_key L who) (ca_der ca) \<and>
     key_matches V (ca_key L ca) \<and> plain_dn (cp_distinguished_name (ca_params ca)) \<and>
     cp_custom_extensions (ca_params ca) = [] \<and> cp_is_ca (ca_params ca) = Ca c \<and>
     KeyCertSign \<in> set (cp_key_usages (ca_params ca))"

lemma build_ca_params_sels [simp]:
  "cp_is_ca (build_ca_params L cn spki len) = (case len of Some l \<Rightarrow> Ca (Constrained l) | None \<Rightarrow> Ca Unconstrained)"
  "KeyCertSign \<in> set (cp_key_usages (build_ca_params L cn spki len))"
  "cp_custom_extensions (build_ca_params L cn spki len) = cp_custom_extensions (rg_params_default L)"
  by (simp_all add: build_ca_params_def Let_def)

lemma ca_params_plain: "rcgen_ok L R \<Longrightarrow> plain_dn (cp_distinguished_name (build_ca_params L cn spki len))"
  by (simp add: build_ca_params_def Let_def rcgen_okD(4) plain_dn_def)

lemma generate_ca_sound:
  assumes "rcgen_ok L R" "signature_crates_ok L V" "generate_ca L rnd cn alg = Some (Ok ca)"
  shows "ca_sound L R V Unconstrained ca ca"
  using assms(3) rcgen_okD(1,6) [OF assms(1)] generated_key_matches [OF assms(2)] ca_params_plain [OF assms(1)]
  by (auto simp: generate_ca_def ca_sound_def ca_key_def ca_der_def key_for_def Let_def
      result_simps)

lemma generate_intermediate_sound:
  assumes "rcgen_ok L R" "signature_crates_ok L V" "generate_intermediate_ca L rnd cn alg p = Some (Ok ca)"
  shows "ca_sound L R V (Constrained 0) p ca"
  using assms(3) rcgen_okD(2,6) [OF assms(1)] generated_key_matches [OF assms(2)] ca_params_plain [OF assms(1)]
  by (auto simp: generate_intermediate_ca_def ca_sound_def ca_key_def ca_der_def key_for_def sign_child_def Let_def result_simps)

text \<open>What the reader sees of an authority, and of a certificate it signed.\<close>

lemma ca_view:
  assumes "ca_sound L R V c x who"
  obtains w where "R (ca_der who) = Some w" "states_params (ca_params who) w" "cv_ca w = Some c"
    "KeyCertSign \<in> cv_key_usages w" "cv_subject w = cp_distinguished_name (ca_params who)"
    "cv_key w = public_of (ca_key L who)"
proof -
  from assms obtain w where w: "R (ca_der who) = Some w" "states_params (ca_params who) w" "cv_key w = public_of (ca_key L who)"
    by (auto simp: ca_sound_def issued_as_def)
  with assms that states_paramsD(4,6,7) [OF w(2)] show ?thesis by (simp add: ca_sound_def)
qed

lemma link_of:
  assumes "issued_as R p key (cp_distinguished_name (ca_params who)) (ca_key L who) der"
    "ca_sound L R V c x who" "R (ca_der who) = Some w"
  obtains v where "R der = Some v" "states_params p v" "signed_link V v w"
proof -
  obtain v where v: "R der = Some v" "states_params p v" "cv_issuer v = cp_distinguished_name (ca_params who)"
    "cv_sig_alg v = pk_algorithm (ca_key L who)" "sk_sign (ca_key L who) (cv_tbs v) = Ok (cv_signature v)"
    using assms(1,2) by (auto simp: issued_as_def ca_sound_def)
  moreover have "cv_subject w = cp_distinguished_name (ca_params who)" "cv_key w = public_of (ca_key L who)"
    using ca_view [OF assms(2)] assms(3) by (metis option.inject)+
  moreover have "key_matches V (ca_key L who)" using assms(2) by (simp add: ca_sound_def)
  ultimately show ?thesis
    by (intro that) (auto simp: signed_link_def key_matches_def public_of_def)
qed

text \<open>The leaf certificates: what they state and who signed them.\<close>

definition leaf_sound ::
    "rcgen_lib \<Rightarrow> cert_reader \<Rightarrow> string list \<Rightarrow> extended_key_usage_purpose \<Rightarrow> u64 \<Rightarrow> ca_certified_key \<Rightarrow> bytes \<Rightarrow> bool" where
  "leaf_sound L R sans eku serial ca der \<longleftrightarrow>
     (\<exists>p key. issued_as R p key (cp_distinguished_name (ca_params ca)) (ca_key L ca) der \<and>
        cp_is_ca p = NoCa \<and> sans \<noteq> [] \<and> collect_results (map (san_of L) sans) = Ok (cp_subject_alt_names p) \<and>
        cp_extended_key_usages p = [eku] \<and> cp_serial_number p = Some serial \<and>
        cp_custom_extensions p = cp_custom_extensions (rg_params_default L))"

lemma build_params_sels:
  "build_params L sans spki = Ok p \<Longrightarrow> cp_is_ca p = NoCa \<and> sans \<noteq> [] \<and>
     collect_results (map (san_of L) sans) = Ok (cp_subject_alt_names p) \<and>
     cp_extended_key_usages p = [ServerAuth] \<and> cp_serial_number p = Some 1 \<and>
     cp_custom_extensions p = cp_custom_extensions (rg_params_default L)"
  by (auto simp: build_params_def Let_def result_simps split: if_splits)

lemma build_client_params_sels:
  "build_client_params L sans spki = Ok p \<Longrightarrow> cp_is_ca p = NoCa \<and> sans \<noteq> [] \<and>
     collect_results (map (san_of L) sans) = Ok (cp_subject_alt_names p) \<and>
     cp_extended_key_usages p = [ClientAuth] \<and> cp_serial_number p = Some 2 \<and>
     cp_custom_extensions p = cp_custom_extensions (rg_params_default L)"
  by (auto simp: build_client_params_def Let_def result_simps split: if_splits)

lemma generate_leaf_sound:
  assumes "rcgen_ok L R" "generate_ca_signed_leaf L rnd sans alg ca = Some (Ok leaf)"
  shows "leaf_sound L R sans ServerAuth 1 ca (ck_cert_der leaf)"
  using assms(2) rcgen_okD(2) [OF assms(1)] build_params_sels
  unfolding leaf_sound_def ca_key_def
  by (fastforce simp: generate_ca_signed_leaf_def sign_child_def Let_def result_simps)

lemma generate_client_sound:
  assumes "rcgen_ok L R" "generate_ca_signed_client_cert L rnd sans alg ca = Some (Ok leaf)"
  shows "leaf_sound L R sans ClientAuth 2 ca (ck_cert_der leaf)"
  using assms(2) rcgen_okD(2) [OF assms(1)] build_client_params_sels
  unfolding leaf_sound_def ca_key_def
  by (fastforce simp: generate_ca_signed_client_cert_def sign_child_def Let_def result_simps)

lemma leaf_states:
  assumes "rcgen_ok L R" "leaf_sound L R sans eku serial ca der" "named_eku eku"
  obtains v where "R der = Some v" "cv_ca v = None" "collect_results (map (san_of L) sans) = Ok (cv_names v)"
    "cv_ekus v = {eku}" "cv_serial v = unat serial"
proof -
  obtain p v where p: "states_params p v" "cp_is_ca p = NoCa" "collect_results (map (san_of L) sans) = Ok (cp_subject_alt_names p)"
    "cp_extended_key_usages p = [eku]" "cp_serial_number p = Some serial" "cp_custom_extensions p = []" and "R der = Some v"
    using assms(2) rcgen_okD(6) [OF assms(1)] by (auto simp: leaf_sound_def issued_as_def)
  moreover from p(3) have "list_all san_wf (cp_subject_alt_names p)" by (rule sans_wf [OF assms(1)])
  ultimately show ?thesis
    using assms(3) states_paramsD(3,5,6,8) [OF p(1)] by (intro that) auto
qed

section \<open>Chains\<close>

text \<open>The invariant of the issued authorities: all but the last are intermediates signed by their successor, the last is a
  root signed by itself.\<close>

fun chain_sound :: "rcgen_lib \<Rightarrow> cert_reader \<Rightarrow> sig_verify \<Rightarrow> ca_certified_key list \<Rightarrow> bool" where
  "chain_sound L R V [] = False"
| "chain_sound L R V [ca] = ca_sound L R V Unconstrained ca ca"
| "chain_sound L R V (ca # p # cs) = (ca_sound L R V (Constrained 0) p ca \<and> chain_sound L R V (p # cs))"

lemma issued_chain_sound:
  "issued L cas \<Longrightarrow> rcgen_ok L R \<Longrightarrow> signature_crates_ok L V \<Longrightarrow> chain_sound L R V cas"
  by (induction rule: issued.induct) (auto intro: generate_ca_sound generate_intermediate_sound)

lemma those_Some_Cons [simp]: "those (Some x # xs) = map_option ((#) x) (those xs)"
  by simp

text \<open>From any position of the chain the path holds exactly when no intermediate is above another CA certificate.\<close>

lemma chain_path:
  assumes "chain_sound L R V (ca # cas)" "issued_as R p key (cp_distinguished_name (ca_params ca)) (ca_key L ca) der"
  shows "\<exists>v vs. R der = Some v \<and> those (map (R \<circ> ca_der) (ca # cas)) = Some vs \<and>
    (path_up V n v vs \<longleftrightarrow> (if n = 0 then length cas \<le> 1 else cas = []))"
  using assms
proof (induction cas arbitrary: ca n p key der)
  case Nil
  then have sound: "ca_sound L R V Unconstrained ca ca" by simp
  from ca_view [OF sound] obtain w where w: "R (ca_der ca) = Some w" "cv_ca w = Some Unconstrained" "KeyCertSign \<in> cv_key_usages w" .
  from link_of [OF Nil(2) sound w(1)] obtain v where v: "R der = Some v" "signed_link V v w" .
  have "issued_as R (ca_params ca) (public_of (ca_key L ca)) (cp_distinguished_name (ca_params ca)) (ca_key L ca) (ca_der ca)"
    using sound by (simp add: ca_sound_def)
  from link_of [OF this sound w(1)] w(1) have "signed_link V w w" by (metis option.inject)
  with v w show ?case by simp
next
  case (Cons c cs)
  then have sound: "ca_sound L R V (Constrained 0) c ca" and up: "chain_sound L R V (c # cs)" by simp_all
  from ca_view [OF sound] obtain w where w: "R (ca_der ca) = Some w" "cv_ca w = Some (Constrained 0)" "KeyCertSign \<in> cv_key_usages w" .
  from link_of [OF Cons(3) sound w(1)] obtain v where v: "R der = Some v" "signed_link V v w" .
  from Cons(1) [OF up, of _ _ _ "Suc n"] sound obtain vs where
    vs: "those (map (R \<circ> ca_der) (c # cs)) = Some vs" "path_up V (Suc n) w vs \<longleftrightarrow> cs = []"
    using w(1) by (fastforce simp: ca_sound_def)
  have "those (map (R \<circ> ca_der) (ca # c # cs)) = Some (w # vs)" using w(1) vs(1) by simp
  moreover have "path_up V n v (w # vs) \<longleftrightarrow> (if n = 0 then length (c # cs) \<le> 1 else c # cs = [])"
    using v(2) w(2,3) vs(2) by auto
  ultimately show ?case using v(1) by blast
qed

lemma chain_valid_path:
  assumes "chain_sound L R V (ca # cas)" "issued_as R p key (cp_distinguished_name (ca_params ca)) (ca_key L ca) der"
  shows "valid_path R V (der # map ca_der (ca # cas)) \<longleftrightarrow> length cas \<le> 1"
proof -
  from chain_path [OF assms, of 0] obtain v vs where
    v: "R der = Some v" "those (map (R \<circ> ca_der) (ca # cas)) = Some vs" "path_up V 0 v vs \<longleftrightarrow> length cas \<le> 1" by auto
  have "those (map R (der # map ca_der (ca # cas))) = Some (v # vs)"
    using v(1,2) by (simp add: comp_def)
  with v(3) show ?thesis by (simp only: valid_path_def option.case list.case)
qed

text \<open>C28: A server or client certificate that an authority issued, sent with the certificates of the authorities above it, is a
  valid path exactly when there is at most one intermediate: intermediates carry path length 0, yet the
  generator signs further intermediates under them. The leaf states that it is no CA, the requested names in order and one
  extended key usage.\<close>

theorem issued_chain_validates:
  assumes "rcgen_ok L R" "signature_crates_ok L V" "issued L (ca # cas)"
    "generate_ca_signed_leaf L rnd sans alg ca = Some (Ok leaf) \<and> eku = ServerAuth \<or>
     generate_ca_signed_client_cert L rnd sans alg ca = Some (Ok leaf) \<and> eku = ClientAuth"
  shows "(valid_path R V (ck_cert_der leaf # map ca_der (ca # cas)) \<longleftrightarrow> length cas \<le> 1) \<and>
    (\<exists>v. R (ck_cert_der leaf) = Some v \<and> cv_ca v = None \<and>
       collect_results (map (san_of L) sans) = Ok (cv_names v) \<and> cv_ekus v = {eku})"
proof -
  obtain n where leaf: "leaf_sound L R sans eku n ca (ck_cert_der leaf)"
    using assms(4) generate_leaf_sound [OF assms(1)] generate_client_sound [OF assms(1)] by metis
  have "chain_sound L R V (ca # cas)" using assms(1-3) by (intro issued_chain_sound)
  with leaf have "valid_path R V (ck_cert_der leaf # map ca_der (ca # cas)) \<longleftrightarrow> length cas \<le> 1"
    by (auto simp: leaf_sound_def simp del: list.map dest!: chain_valid_path)
  moreover have "named_eku eku" using assms(4) by auto
  ultimately show ?thesis by (metis leaf_states [OF assms(1) leaf])
qed

text \<open>The chain builder gives both its forms in the order leaf, intermediates as added, root.\<close>

lemma push_all_eq: "push_all chain is = chain @ is"
  by (induction "is" arbitrary: chain) simp_all

lemma fold_with_intermediate:
  "fold with_intermediate ders c = c \<lparr> chain_intermediates := chain_intermediates c @ ders \<rparr>"
  by (induction ders arbitrary: c) (simp_all add: with_intermediate_def)

lemma chain_builder_order:
  "chain_build_rustls c = chain_build c"
  "chain_build (with_root r (fold with_intermediate ders (with_leaf l chain_builder_new))) = l # ders @ [r]"
  by (simp_all add: chain_build_rustls_def chain_build_def push_all_eq fold_with_intermediate with_root_def with_leaf_def
      chain_builder_new_def)

section \<open>The parameter builder\<close>

lemma dns_sans_Ok:
  assumes "rcgen_ok L R"
  shows "collect_results (map (dns_san L) names) = Ok ys \<longleftrightarrow> list_all is_ascii names \<and> ys = map SanDnsName names"
proof -
  have "dns_san L n = Ok y \<longleftrightarrow> is_ascii n \<and> y = SanDnsName n" for n y
    using rcgen_okD(3) [OF assms, of n] by (auto simp: dns_san_def result_simps)
  then show ?thesis
    by (auto simp: collect_results_map_Ok list_all2_conv_all_nth list_all_length intro: nth_equalityI)
qed

lemma with_ip_addresses_eq:
  "with_ip_addresses addrs b = b \<lparr> b_ip_addresses := b_ip_addresses b @ List.map_filter parse_ip addrs \<rparr>"
  by (induction addrs arbitrary: b) (auto simp: List.map_filter_simps split: option.splits)

text \<open>The contents of the extensions with an OID.\<close>

definition extension_contents :: "nat list \<Rightarrow> certificate_params \<Rightarrow> bytes list" where
  "extension_contents oid p = map ext_content (filter (\<lambda>e. ext_oid e = oid) (cp_custom_extensions p))"

lemma build_with_spki_Ok:
  assumes "rcgen_ok L R"
  shows "is_ok (build_with_spki L b spki) \<longleftrightarrow> list_all is_ascii (b_dns_names b) \<and>
    (b_dns_names b \<noteq> [] \<or> b_ip_addresses b \<noteq> [] \<or> is_ca_ca (b_is_ca b))"
  by (auto simp: build_with_spki_def Let_def result_simps dns_sans_Ok [OF assms])

lemma builder_step_sels:
  "cp_custom_extensions (builder_aki b p) = cp_custom_extensions p @ (case b_authority_key_id b of
     Some k \<Rightarrow> [\<lparr> ext_oid = AKI_OID, ext_content = encode_authority_key_identifier k \<rparr>] | None \<Rightarrow> [])"
  "cp_custom_extensions (builder_aia b p) = cp_custom_extensions p @ (case b_ocsp_responder_url b of
     Some u \<Rightarrow> [\<lparr> ext_oid = AIA_OID, ext_content = encode_aia_ocsp u \<rparr>] | None \<Rightarrow> [])"
  "cp_use_authority_key_identifier (builder_aki b p) =
     (cp_use_authority_key_identifier p \<or> b_authority_key_id b = None \<and> b_enable_aki_from_issuer b)"
  "cp_use_authority_key_identifier (builder_aia b p) = cp_use_authority_key_identifier p"
  "cp_subject_alt_names (builder_aki b p) = cp_subject_alt_names p"
  "cp_subject_alt_names (builder_aia b p) = cp_subject_alt_names p"
  by (simp_all add: builder_aki_def builder_aia_def split: option.split)

lemma if_steps:
  "(\<And>v q. sel (f v q) = sel q) \<Longrightarrow> sel (if_some x f p) = sel p"
  "(\<And>q. sel (g q) = sel q) \<Longrightarrow> sel (if_set c g p) = sel p"
  by (simp_all add: if_some_def if_set_def split: option.split)

lemmas if_step_sels =
  if_steps [where sel = cp_custom_extensions] if_steps [where sel = cp_use_authority_key_identifier]
  if_steps [where sel = cp_subject_alt_names]

lemma build_with_spki_extensions:
  assumes "rcgen_ok L R" "build_with_spki L b spki = Ok p"
  shows "cp_custom_extensions p =
      (case b_authority_key_id b of
         Some k \<Rightarrow> [\<lparr> ext_oid = AKI_OID, ext_content = encode_authority_key_identifier k \<rparr>] | None \<Rightarrow> []) @
      (case b_ocsp_responder_url b of
         Some u \<Rightarrow> [\<lparr> ext_oid = AIA_OID, ext_content = encode_aia_ocsp u \<rparr>] | None \<Rightarrow> [])"
    and "cp_use_authority_key_identifier p \<longleftrightarrow> b_authority_key_id b = None \<and> b_enable_aki_from_issuer b"
    and "cp_subject_alt_names p = map SanDnsName (b_dns_names b) @ map SanIpAddress (b_ip_addresses b)"
  using assms rcgen_okD(6,7) [OF assms(1)]
  by (auto simp: build_with_spki_def Let_def result_simps dns_sans_Ok [OF assms(1)] builder_step_sels if_step_sels
      split: if_split_asm)

text \<open>The builder succeeds exactly for ASCII names with, unless it is a CA, some name or address. The
  alternative names are the DNS names and then the addresses that parsed; those that did not parse are dropped
  without an error. An explicit authority key identifier excludes the one derived from the issuer, and it
  and the OCSP location are read back from the extensions.\<close>

theorem builder_result:
  assumes "rcgen_ok L R"
  shows "(is_ok (build_with_spki L b spki) \<longleftrightarrow> list_all is_ascii (b_dns_names b) \<and>
      (b_dns_names b \<noteq> [] \<or> b_ip_addresses b \<noteq> [] \<or> is_ca_ca (b_is_ca b))) \<and>
    (build_with_spki L (with_ip_addresses addrs b) spki = Ok p \<longrightarrow>
      cp_subject_alt_names p = map SanDnsName (b_dns_names b) @
        map SanIpAddress (b_ip_addresses b @ List.map_filter parse_ip addrs)) \<and>
    (build_with_spki L b spki = Ok q \<longrightarrow>
      (cp_use_authority_key_identifier q \<longleftrightarrow> b_authority_key_id b = None \<and> b_enable_aki_from_issuer b) \<and>
      (\<forall>k. b_authority_key_id b = Some k \<and> length k \<le> 65531 \<longrightarrow>
        map read_aki (extension_contents AKI_OID q) = [Some k]) \<and>
      (\<forall>u. b_ocsp_responder_url b = Some u \<and> length u \<le> 65517 \<longrightarrow>
        map read_aia_ocsp (extension_contents AIA_OID q) = [Some (ascii u)]))"
  using build_with_spki_Ok [OF assms, of b spki] build_with_spki_extensions(3) [OF assms, of "with_ip_addresses addrs b" spki p]
    build_with_spki_extensions(1,2) [OF assms, of b spki q]
  by (auto simp: with_ip_addresses_eq extension_contents_def AKI_OID_def AIA_OID_def read_back split: option.splits)

section \<open>A concrete generator\<close>

text \<open>A key of all fives, signatures that are constant, and certificates numbered by the request they answer.\<close>

definition example_seed :: bytes where
  "example_seed = [5, 5]"

definition example_rcgen_key :: public_key_data where
  "example_rcgen_key = \<lparr> pk_der_bytes = example_seed, pk_algorithm = PKCS_ED25519 \<rparr>"

definition example_default :: certificate_params where
  "example_default =
     \<lparr> cp_not_before = 0, cp_not_after = 0, cp_serial_number = None, cp_subject_alt_names = [],
       cp_distinguished_name = [], cp_is_ca = NoCa, cp_key_usages = [], cp_extended_key_usages = [],
       cp_name_constraints = None, cp_crl_distribution_points = [], cp_custom_extensions = [],
       cp_use_authority_key_identifier = False, cp_key_identifier_method = KidSha256 \<rparr>"

definition example_params :: "is_ca \<Rightarrow> string \<Rightarrow> certificate_params" where
  "example_params c cn =
     example_default \<lparr> cp_distinguished_name := [(CommonName, cn)], cp_is_ca := c,
       cp_key_usages := [KeyCertSign, CrlSign, DigitalSignature],
       cp_key_identifier_method := PreSpecified [], cp_serial_number := Some 1 \<rparr>"

definition example_leaf_params :: certificate_params where
  "example_leaf_params =
     example_default \<lparr> cp_subject_alt_names := [SanDnsName ''x.y''], cp_distinguished_name := [(CommonName, ''x.y'')],
       cp_key_usages := [DigitalSignature], cp_extended_key_usages := [ServerAuth],
       cp_key_identifier_method := PreSpecified [], cp_serial_number := Some 1 \<rparr>"

definition example_csr_params :: certificate_params where
  "example_csr_params =
     example_default \<lparr> cp_distinguished_name := [(CommonName, ''x.y'')], cp_subject_alt_names := [SanDnsName ''x.y''] \<rparr>"

text \<open>The answer to that request at second 1000, for one day.\<close>

definition example_answer :: certificate_params where
  "example_answer =
     example_csr_params \<lparr> cp_key_identifier_method := PreSpecified [], cp_serial_number := Some 1,
       cp_not_before := 700, cp_not_after := 87400 \<rparr>"

definition example_requests :: "(bytes \<times> certificate_params \<times> distinguished_name) list" where
  "example_requests =
     [([1], example_params (Ca Unconstrained) ''R'', [(CommonName, ''R'')]),
      ([2], example_params (Ca (Constrained 0)) ''I'', [(CommonName, ''R'')]),
      ([3], example_leaf_params, [(CommonName, ''I'')]),
      ([4], example_answer, [(CommonName, ''I'')])]"

definition example_view :: "certificate_params \<Rightarrow> distinguished_name \<Rightarrow> issued_view" where
  "example_view p dn =
     \<lparr> cv_valid_from = cp_not_before p, cv_valid_until = cp_not_after p,
       cv_serial = (case cp_serial_number p of Some n \<Rightarrow> unat n | None \<Rightarrow> 0), cv_subject = cp_distinguished_name p,
       cv_names = cp_subject_alt_names p, cv_ca = stated_ca (cp_is_ca p), cv_key_usages = set (cp_key_usages p),
       cv_ekus = set (cp_extended_key_usages p), cv_name_constraints = cp_name_constraints p, cv_issuer = dn, cv_key = example_rcgen_key, cv_tbs = [], cv_sig_alg = PKCS_ED25519, cv_signature = [7] \<rparr>"

definition example_reader :: cert_reader where
  "example_reader der =
     map_option (\<lambda>(d, p, dn). example_view p dn) (find (\<lambda>(d, p, dn). d = der) example_requests)"

definition example_issue ::
    "certificate_params \<Rightarrow> public_key_data \<Rightarrow> distinguished_name \<Rightarrow> signing_key \<Rightarrow> (bytes \<times> string, string) result" where
  "example_issue p key dn k =
     (if key = example_rcgen_key \<and> pk_algorithm k = PKCS_ED25519 \<and> sk_sign k [] = Ok [7] then
        (case find (\<lambda>(d, q, e). q = p \<and> e = dn) example_requests of
           Some (d, _) \<Rightarrow> Ok (d, ''PEM'') | None \<Rightarrow> Err ''refused'')
      else Err ''refused'')"

definition example_rcgen :: rcgen_lib where
  "example_rcgen =
     \<lparr> rg_sha256 = (\<lambda>_. []), rg_ia5_string = (\<lambda>s. if is_ascii s then Ok s else Err ''not ASCII''),
       rg_params_default = example_default, rg_dn_push = (\<lambda>d t v. AList.update t v d),
       rg_dn_type_from_oid = (\<lambda>oid. if oid = [2, 5, 4, 3] then CommonName else CustomDnType oid), rg_spki = pk_der_bytes,
       rg_self_signed = (\<lambda>p k. example_issue p (public_of k) (cp_distinguished_name p) k),
       rg_signed_by = (\<lambda>p key ip k. example_issue p key (cp_distinguished_name ip) k),
       rg_serialize_request =
         (\<lambda>p k. if p = example_csr_params \<and> public_of k = example_rcgen_key then Ok ([9], Ok ''CSR'') else Err ''refused''), rg_ring_unspecified = ''unspecified'',
       ed_verifying_key = (\<lambda>k. k), ed_to_pkcs8 = Ok, ed_sign = (\<lambda>k m. [7]),
       k256_from_bytes = Some, k256_to_pkcs8 = Ok, k256_sec1_point = (\<lambda>k. k), k256_sign_der = (\<lambda>k m. [7]),
       k384_from_bytes = Some, k384_to_pkcs8 = Ok, k384_sec1_point = (\<lambda>k. k), k384_sign_der = (\<lambda>k m. [7]),
       rsa_generate = (\<lambda>rnd n. rnd 0), rsa_from_pkcs8 = Ok, rsa_pkcs1_public = Ok, rsa_to_pkcs8 = Ok,
       rsa_try_sign = (\<lambda>k m. Some [7]),
       csr_from_der = (\<lambda>d. Ok \<lparr> csr_signature_algorithm = Some [1, 3, 101, 112],
         csr_subject = [[\<lparr> xa_type = Some [2, 5, 4, 3], xa_value = Ok ''x.y'' \<rparr>]],
         csr_requested_extensions = Some [SubjectAlternativeName [GnDnsName ''x.y'']],
         csr_public_key = example_seed, csr_spki_raw = example_seed \<rparr>),
       xc_from_der = (\<lambda>d. None), odt_plus_seconds = (\<lambda>t s. if t + s \<le> 253402300799 then Some (t + s) else None),
       odt_from_unix = Some, odt_rfc3339 = (\<lambda>t. None), odt_display = (\<lambda>t. []), pfx_new = (\<lambda>c k p n. None),
       load_private_key = Ok \<rparr>"

definition example_verify :: sig_verify where
  "example_verify a p m s \<longleftrightarrow> s = [7]"

definition example_rcgen_draws :: draws where
  "example_rcgen_draws i = Ok example_seed"

definition example_root :: ca_certified_key where
  "example_root =
     \<lparr> ca_certified = \<lparr> ck_cert_der = [1], ck_pkcs8_der = example_seed, ck_cert_pem = ''PEM'' \<rparr>,
       ca_params = example_params (Ca Unconstrained) ''R'',
       ca_signer = CaEd25519 \<lparr> key_inner = example_seed, key_public = example_seed, key_pkcs8 = example_seed \<rparr> \<rparr>"

definition example_intermediate :: ca_certified_key where
  "example_intermediate =
     example_root \<lparr> ca_certified := \<lparr> ck_cert_der = [2], ck_pkcs8_der = example_seed, ck_cert_pem = ''PEM'' \<rparr>,
       ca_params := example_params (Ca (Constrained 0)) ''I'' \<rparr>"

definition example_leaf :: rcgen_certified_key where
  "example_leaf = \<lparr> ck_cert_der = [3], ck_pkcs8_der = example_seed, ck_cert_pem = ''PEM'' \<rparr>"

lemma example_issue_ok:
  assumes "example_issue p key dn k = Ok (der, pem)"
  shows "issued_as example_reader p key dn k der"
proof -
  have *: "key = example_rcgen_key" "pk_algorithm k = PKCS_ED25519" "sk_sign k [] = Ok [7]"
    using assms by (auto simp: example_issue_def split: if_splits)
  with assms have "find (\<lambda>(d, q, e). q = p \<and> e = dn) example_requests = Some (der, p, dn)"
    by (auto simp: example_issue_def split: option.splits dest: find_Some_iff_in)
  then have "example_reader der = Some (example_view p dn)"
    by (auto simp: example_requests_def example_reader_def split: if_splits)
  with * show ?thesis by (simp add: issued_as_def example_view_def states_params_def)
qed

lemma example_rcgen_ok:
  "rcgen_ok example_rcgen example_reader" "signature_crates_ok example_rcgen example_verify"
  by (auto simp: rcgen_ok_def signature_crates_ok_def example_rcgen_def example_verify_def example_default_def
      dest: example_issue_ok)

lemmas example_defs = example_rcgen_def example_rcgen_draws_def example_root_def example_intermediate_def
  example_leaf_def example_requests_def example_rcgen_key_def example_params_def example_leaf_params_def example_default_def
  example_issue_def example_csr_params_def example_answer_def

lemmas generator_defs = generate_ca_def generate_intermediate_ca_def generate_ca_signed_leaf_def sign_child_def
  key_for_def public_of_def build_ca_params_def build_params_def ed25519_generate_def ed25519_from_seed_def
  ed25519_signing_key_def

lemma example_names: "parse_ip ''x.y'' = None" "is_ascii ''x.y''"
  by (simp_all add: is_ascii_def parse_ip_def read_ipv4_def read_ipv6_def read_octets.simps(2) [of 3, simplified]
      read_groups.simps(2) [of 7, simplified] read_separator_def read_number_def to_digit_def)

lemma example_generated:
  "generate_ca example_rcgen example_rcgen_draws ''R'' Ed25519 = Some (Ok example_root)"
  "generate_intermediate_ca example_rcgen example_rcgen_draws ''I'' Ed25519 example_root = Some (Ok example_intermediate)"
  "generate_ca_signed_leaf example_rcgen example_rcgen_draws [''x.y''] Ed25519 example_intermediate = Some (Ok example_leaf)"
  by (simp_all add: generator_defs san_of_def dns_san_def example_names example_defs Let_def)

theorem issued_chain_validates_witness:
  "valid_path example_reader example_verify
     (map ck_cert_der [example_leaf, ca_certified example_intermediate, ca_certified example_root])"
proof -
  have "issued example_rcgen [example_intermediate, example_root]"
    using example_generated by (intro issued.intros)
  from issued_chain_validates [OF example_rcgen_ok this, of example_rcgen_draws "[''x.y'']" Ed25519 example_leaf ServerAuth]
  show ?thesis by (simp add: example_generated ca_der_def)
qed

definition example_params_builder :: params_builder where
  "example_params_builder =
     with_ocsp_responder_url ''http://o'' (with_authority_key_id [1, 2] (with_dns_names [''x.y''] params_builder_new))"

theorem builder_result_witness:
  "\<exists>p. build_with_spki example_rcgen example_params_builder [] = Ok p \<and>
     cp_subject_alt_names p = [SanDnsName ''x.y''] \<and> map read_aki (extension_contents AKI_OID p) = [Some [1, 2]]"
proof -
  have b: "b_dns_names example_params_builder = [''x.y'']" "b_ip_addresses example_params_builder = []"
    "b_authority_key_id example_params_builder = Some [1, 2]"
    by (simp_all add: example_params_builder_def with_ocsp_responder_url_def with_authority_key_id_def with_dns_names_def
        params_builder_new_def)
  have "is_ok (build_with_spki example_rcgen example_params_builder [])"
    using builder_result [OF example_rcgen_ok(1), of example_params_builder "[]"] b example_names by simp
  then obtain p where p: "build_with_spki example_rcgen example_params_builder [] = Ok p"
    by (cases "build_with_spki example_rcgen example_params_builder []") simp_all
  have "cp_subject_alt_names p = [SanDnsName ''x.y'']"
    using builder_result [OF example_rcgen_ok(1), of example_params_builder "[]" "[]" p] b p
    by (simp add: List.map_filter_simps)
  moreover have "map read_aki (extension_contents AKI_OID p) = [Some [1, 2]]"
    using builder_result [OF example_rcgen_ok(1), of example_params_builder "[]" "[]" p p] b p by simp
  ultimately show ?thesis using p by (intro exI [of _ p] conjI)
qed

end
