(* ===== verification/Rcgen_Csr.thy ===== *)
theory Rcgen_Csr
  imports Rcgen_Chain
begin

text \<open>
  Certificate signing requests of \<open>oxitls-rcgen\<close> (\<open>csr.rs\<close>): generating a request, reading the parts of a
  request that x509-parser has parsed, and signing it. \<open>csr_crates_ok\<close> is what the theorems use of the crates
  beyond \<open>rcgen_ok\<close>: the object identifiers of the algorithms that rcgen writes into requests.
\<close>

section \<open>Requests\<close>

record csr_bytes =
  csr_der :: bytes
  csr_pem :: string

record signed_certificate =
  sc_cert_der :: bytes
  sc_cert_pem :: string

definition build_csr_with_key :: "rcgen_lib \<Rightarrow> string \<Rightarrow> signing_key \<Rightarrow> (csr_bytes, tls_error) result" where
  "build_csr_with_key L subject_cn key =
     (let params = rg_params_default L;
          dn = rg_dn_push L [] CommonName subject_cn;
          params = params \<lparr> cp_distinguished_name := dn \<rparr> in
      rbind (dns_san L subject_cn) (\<lambda>san.
      let params = params \<lparr> cp_subject_alt_names := [san] \<rparr> in
      rbind (rmap_err (\<lambda>e. InvalidConfig (''CSR serialize: '' @ e)) (rg_serialize_request L params key)) (\<lambda>(der, pem_result).
      rbind (rmap_err (\<lambda>e. InvalidConfig (''CSR pem: '' @ e)) pem_result) (\<lambda>pem.
      Ok \<lparr> csr_der = der, csr_pem = pem \<rparr>))))"

definition generate_csr ::
    "rcgen_lib \<Rightarrow> draws \<Rightarrow> string \<Rightarrow> signing_algorithm \<Rightarrow> (csr_bytes \<times> bytes, tls_error) result option" where
  "generate_csr L rnd subject_cn alg =
     dbind (generate_for L rnd alg) (\<lambda>key.
     Some (rbind (build_csr_with_key L subject_cn (key_for L alg key)) (\<lambda>csr. Ok (csr, key_pkcs8 key))))"

section \<open>Reading a request\<close>

record parsed_csr =
  pc_subject_dn :: distinguished_name
  pc_sans :: "san_type list"
  pc_public_key_bit_string :: bytes
  pc_spki_full :: bytes
  pc_algorithm :: sig_alg

definition CSR_ED25519 :: "nat list" where
  "CSR_ED25519 = [1, 3, 101, 112]"

definition CSR_ECDSA_SHA256 :: "nat list" where
  "CSR_ECDSA_SHA256 = [1, 2, 840, 10045, 4, 3, 2]"

definition CSR_ECDSA_SHA384 :: "nat list" where
  "CSR_ECDSA_SHA384 = [1, 2, 840, 10045, 4, 3, 3]"

definition CSR_RSA_SHA256 :: "nat list" where
  "CSR_RSA_SHA256 = [1, 2, 840, 113549, 1, 1, 11]"

definition show_oid :: "nat list \<Rightarrow> string" where
  "show_oid oid = ''['' @ join_with '', '' (map show_nat oid) @ '']''"

definition signature_algorithm_from_oid :: "nat list \<Rightarrow> (sig_alg, tls_error) result" where
  "signature_algorithm_from_oid oid =
     (if oid = CSR_ED25519 then Ok PKCS_ED25519
      else if oid = CSR_ECDSA_SHA256 then Ok PKCS_ECDSA_P256_SHA256
      else if oid = CSR_ECDSA_SHA384 then Ok PKCS_ECDSA_P384_SHA384
      else if oid = CSR_RSA_SHA256 then Ok PKCS_RSA_SHA256
      else Err (InvalidConfig (''unsupported CSR signature algorithm OID: '' @ show_oid oid)))"

fun push_attributes ::
    "rcgen_lib \<Rightarrow> distinguished_name \<Rightarrow> x509_attribute list \<Rightarrow> (distinguished_name, tls_error) result" where
  "push_attributes L dn [] = Ok dn"
| "push_attributes L dn (attr # attrs) =
     rbind (ok_or (xa_type attr) (InvalidConfig ''DN attribute OID missing'')) (\<lambda>raw_oid.
     let dn_type = rg_dn_type_from_oid L raw_oid in
     rbind (rmap_err (\<lambda>e. InvalidConfig (''DN attribute value: '' @ e)) (xa_value attr)) (\<lambda>value.
     push_attributes L (rg_dn_push L dn dn_type value) attrs))"

fun push_rdns ::
    "rcgen_lib \<Rightarrow> distinguished_name \<Rightarrow> x509_attribute list list \<Rightarrow> (distinguished_name, tls_error) result" where
  "push_rdns L dn [] = Ok dn"
| "push_rdns L dn (rdn # rdns) = rbind (push_attributes L dn rdn) (\<lambda>dn'. push_rdns L dn' rdns)"

definition dn_from_x509_name :: "rcgen_lib \<Rightarrow> x509_attribute list list \<Rightarrow> (distinguished_name, tls_error) result" where
  "dn_from_x509_name L name = push_rdns L [] name"

definition collect_requested_extensions :: "x509_csr \<Rightarrow> (parsed_extension list option, tls_error) result" where
  "collect_requested_extensions csr =
     (case csr_requested_extensions csr of Some exts \<Rightarrow> Ok (Some exts) | None \<Rightarrow> Ok None)"

definition parse_ip_octets :: "bytes \<Rightarrow> ip_addr option" where
  "parse_ip_octets octets =
     (if length octets = 4 then Some (V4 octets) else if length octets = 16 then Some (V6 octets) else None)"

fun san_from_general_name :: "rcgen_lib \<Rightarrow> general_name \<Rightarrow> san_type option" where
  "san_from_general_name L (GnDnsName s) = map_option SanDnsName (rok (rg_ia5_string L s))"
| "san_from_general_name L (GnRfc822Name s) = map_option SanRfc822Name (rok (rg_ia5_string L s))"
| "san_from_general_name L (GnUri s) = map_option SanUri (rok (rg_ia5_string L s))"
| "san_from_general_name L (GnIpAddress octets) = map_option SanIpAddress (parse_ip_octets octets)"
| "san_from_general_name L (GnOther _) = None"

text \<open>The loops over the requested extensions and their general names.\<close>

fun push_general_names :: "rcgen_lib \<Rightarrow> san_type list \<Rightarrow> general_name list \<Rightarrow> san_type list" where
  "push_general_names L sans [] = sans"
| "push_general_names L sans (gn # gns) =
     (case san_from_general_name L gn of
        Some sty \<Rightarrow> push_general_names L (sans @ [sty]) gns
      | None \<Rightarrow> push_general_names L sans gns)"

fun push_extension_sans :: "rcgen_lib \<Rightarrow> san_type list \<Rightarrow> parsed_extension list \<Rightarrow> san_type list" where
  "push_extension_sans L sans [] = sans"
| "push_extension_sans L sans (SubjectAlternativeName gns # exts) =
     push_extension_sans L (push_general_names L sans gns) exts"
| "push_extension_sans L sans (OtherParsedExtension _ # exts) = push_extension_sans L sans exts"

definition parse_csr_components :: "rcgen_lib \<Rightarrow> bytes \<Rightarrow> (parsed_csr, tls_error) result" where
  "parse_csr_components L der =
     rbind (rmap_err (\<lambda>e. InvalidConfig (''parse CSR DER: '' @ e)) (csr_from_der L der)) (\<lambda>csr.
     rbind (ok_or (csr_signature_algorithm csr) (InvalidConfig ''CSR signature algorithm OID is missing'')) (\<lambda>alg_oid.
     rbind (signature_algorithm_from_oid alg_oid) (\<lambda>algorithm.
     rbind (dn_from_x509_name L (csr_subject csr)) (\<lambda>subject_dn.
     let sans = (case collect_requested_extensions csr of
                   Ok (Some req_exts) \<Rightarrow> push_extension_sans L [] req_exts
                 | _ \<Rightarrow> []) in
     Ok \<lparr> pc_subject_dn = subject_dn, pc_sans = sans, pc_public_key_bit_string = csr_public_key csr,
          pc_spki_full = csr_spki_raw csr, pc_algorithm = algorithm \<rparr>))))"

section \<open>Signing a request\<close>

definition sign_with_issuer ::
    "rcgen_lib \<Rightarrow> certificate_params \<Rightarrow> public_key_data \<Rightarrow> certificate_params \<Rightarrow> signing_key \<Rightarrow>
     (bytes \<times> string, tls_error) result" where
  "sign_with_issuer L params csr_pub issuer_params issuer_key =
     rmap_err (\<lambda>e. InvalidConfig (''sign CSR: '' @ e)) (rg_signed_by L params csr_pub issuer_params issuer_key)"

text \<open>The outcome is \<open>None\<close> when the arithmetic of the validity period panics; \<open>now\<close> is the system time.\<close>

definition sign_csr ::
    "rcgen_lib \<Rightarrow> int \<Rightarrow> bytes \<Rightarrow> ca_certified_key \<Rightarrow> u32 \<Rightarrow> (signed_certificate, tls_error) result option" where
  "sign_csr L t der ca validity_days =
     (case parse_csr_components L der of
        Err e \<Rightarrow> Some (Err e)
      | Ok parsed \<Rightarrow>
          let params = rg_params_default L;
              params = params \<lparr> cp_distinguished_name := pc_subject_dn parsed, cp_subject_alt_names := pc_sans parsed \<rparr>;
              kid = rg_sha256 L (pc_spki_full parsed);
              params = params \<lparr> cp_key_identifier_method := PreSpecified kid, cp_serial_number := Some 1 \<rparr> in
          Option.bind (odt_plus_seconds L t (- (5 * 60))) (\<lambda>not_before.
          Option.bind (odt_plus_seconds L t (int (unat validity_days) * 86400)) (\<lambda>not_after.
          let params = params \<lparr> cp_not_before := not_before, cp_not_after := not_after \<rparr>;
              csr_pub = \<lparr> pk_der_bytes = pc_public_key_bit_string parsed, pk_algorithm = pc_algorithm parsed \<rparr> in
          Some (rbind (sign_with_issuer L params csr_pub (ca_params ca) (ca_signing_key L (ca_signer ca)))
            (\<lambda>(cert_der, cert_pem). Ok \<lparr> sc_cert_der = cert_der, sc_cert_pem = cert_pem \<rparr>)))))"

section \<open>The subject of a request\<close>

text \<open>The attributes of a name, as rcgen's types and the values, when all can be read.\<close>

definition readable_attrs :: "rcgen_lib \<Rightarrow> x509_attribute list \<Rightarrow> (dn_type \<times> string) list \<Rightarrow> bool" where
  "readable_attrs L attrs pairs \<longleftrightarrow>
     map (\<lambda>a. (map_option (rg_dn_type_from_oid L) (xa_type a), xa_value a)) attrs =
     map (\<lambda>(t, v). (Some t, Ok v)) pairs"

lemma readable_attrs_simps:
  "readable_attrs L [] pairs \<longleftrightarrow> pairs = []"
  "readable_attrs L (a # as) pairs \<longleftrightarrow>
     (\<exists>oid v rest. xa_type a = Some oid \<and> xa_value a = Ok v \<and>
        pairs = (rg_dn_type_from_oid L oid, v) # rest \<and> readable_attrs L as rest)"
  by (auto simp: readable_attrs_def Cons_eq_map_conv)

lemma push_attributes_iff:
  "push_attributes L dn attrs = Ok dn' \<longleftrightarrow>
   (\<exists>pairs. readable_attrs L attrs pairs \<and> dn' = fold (\<lambda>(t, v) d. rg_dn_push L d t v) pairs dn)"
proof (induction attrs arbitrary: dn)
  case (Cons a as)
  show ?case
  proof (cases "\<exists>oid v. xa_type a = Some oid \<and> xa_value a = Ok v")
    case True
    then obtain oid v where "xa_type a = Some oid" "xa_value a = Ok v" by blast
    with Cons [of "rg_dn_push L dn (rg_dn_type_from_oid L oid) v"] show ?thesis
      by (auto simp: readable_attrs_simps Let_def)
  next
    case False
    then show ?thesis by (auto simp: readable_attrs_simps result_simps Let_def)
  qed
qed (auto simp: readable_attrs_simps)

lemma readable_attrs_append:
  "readable_attrs L (as @ bs) pairs \<longleftrightarrow>
   (\<exists>ps qs. pairs = ps @ qs \<and> readable_attrs L as ps \<and> readable_attrs L bs qs)"
  by (auto simp: readable_attrs_def append_eq_map_conv)

lemma dn_from_x509_name_iff:
  "dn_from_x509_name L name = Ok dn \<longleftrightarrow>
   (\<exists>pairs. readable_attrs L (concat name) pairs \<and> dn = fold (\<lambda>(t, v) d. rg_dn_push L d t v) pairs [])"
proof -
  have "push_rdns L dn0 name = Ok dn \<longleftrightarrow>
    (\<exists>pairs. readable_attrs L (concat name) pairs \<and> dn = fold (\<lambda>(t, v) d. rg_dn_push L d t v) pairs dn0)" for dn0
  proof (induction name arbitrary: dn0)
    case (Cons rdn rdns)
    then show ?case
      by (fastforce simp: result_simps push_attributes_iff readable_attrs_append)
  qed (auto simp: readable_attrs_simps)
  then show ?thesis by (simp add: dn_from_x509_name_def)
qed

lemma fold_update_same:
  "distinct (map fst ps) \<Longrightarrow> fold (\<lambda>(t, v) d. AList.update t v d) ps [] = ps"
proof (induction ps rule: rev_induct)
  case (snoc p ps)
  have "t \<notin> fst ` set d \<Longrightarrow> AList.update t v d = d @ [(t, v)]" for t v and d :: "('a \<times> 'b) list"
    by (induction d) auto
  with snoc show ?case by (cases p) auto
qed simp

lemma fold_update_map_of:
  "map_of (fold (\<lambda>(t, v) d. AList.update t v d) ps d) = map_of d ++ map_of (rev ps)"
  by (induction ps arbitrary: d) (auto simp: update_conv' map_add_def fun_eq_iff split: option.splits)

lemma fold_update_distinct:
  "distinct (map fst d) \<Longrightarrow> distinct (map fst (fold (\<lambda>(t, v) d. AList.update t v d) ps d))"
  by (induction ps arbitrary: d) (auto simp: distinct_update)

text \<open>A request's subject becomes a name in which each attribute type occurs once, with the value it has last in the
  request; so the name is kept exactly when no attribute type is repeated. The name is refused exactly when
  some attribute has no readable type or value.\<close>

theorem csr_subject_kept:
  assumes "rcgen_ok L R"
  shows "(is_ok (dn_from_x509_name L name) \<longleftrightarrow> (\<exists>attrs. readable_attrs L (concat name) attrs)) \<and>
    (\<forall>attrs dn. readable_attrs L (concat name) attrs \<and> dn_from_x509_name L name = Ok dn \<longrightarrow>
       distinct (map fst dn) \<and> map_of dn = map_of (rev attrs) \<and> (dn = attrs \<longleftrightarrow> distinct (map fst attrs)))"
proof (intro conjI allI impI)
  have push: "rg_dn_push L d t v = AList.update t v d" for d t v by (rule rcgen_okD(4) [OF assms])
  show "is_ok (dn_from_x509_name L name) \<longleftrightarrow> (\<exists>attrs. readable_attrs L (concat name) attrs)"
    by (auto simp: is_ok_iff dn_from_x509_name_iff)
  fix attrs dn assume *: "readable_attrs L (concat name) attrs \<and> dn_from_x509_name L name = Ok dn"
  then have "dn = fold (\<lambda>(t, v) d. AList.update t v d) attrs []"
    by (auto simp: dn_from_x509_name_iff push readable_attrs_def inj_eq inj_on_def split_def map_eq_conv
        dest!: map_injective [rotated])
  then show "distinct (map fst dn)" "map_of dn = map_of (rev attrs)" "dn = attrs \<longleftrightarrow> distinct (map fst attrs)"
    using fold_update_distinct [of "[]" attrs] fold_update_map_of [of attrs "[]"] fold_update_same [of attrs] by auto
qed

section \<open>The life of a request\<close>

fun general_name_of :: "san_type \<Rightarrow> general_name" where
  "general_name_of (SanDnsName s) = GnDnsName s"
| "general_name_of (SanRfc822Name s) = GnRfc822Name s"
| "general_name_of (SanUri s) = GnUri s"
| "general_name_of (SanIpAddress (V4 octets)) = GnIpAddress octets"
| "general_name_of (SanIpAddress (V6 octets)) = GnIpAddress octets"

fun algorithm_oid :: "sig_alg \<Rightarrow> nat list" where
  "algorithm_oid PKCS_ED25519 = CSR_ED25519"
| "algorithm_oid PKCS_ECDSA_P256_SHA256 = CSR_ECDSA_SHA256"
| "algorithm_oid PKCS_ECDSA_P384_SHA384 = CSR_ECDSA_SHA384"
| "algorithm_oid PKCS_RSA_SHA256 = CSR_RSA_SHA256"

fun is_san_extension :: "parsed_extension \<Rightarrow> bool" where
  "is_san_extension (SubjectAlternativeName _) = True"
| "is_san_extension (OtherParsedExtension _) = False"

text \<open>rcgen writes requests that x509-parser reads back: the algorithm and public key of the signing key; a plain
  subject; and, for parameters with well-formed names and without extensions given as bytes, the alternative names
  as the only such extension. Instants of the \<open>time\<close> crate end with the year 9999, at second 253402300799.\<close>

definition csr_crates_ok :: "rcgen_lib \<Rightarrow> bool" where
  "csr_crates_ok L \<longleftrightarrow>
     (\<forall>p k der pem. rg_serialize_request L p k = Ok (der, pem) \<longrightarrow>
       (\<exists>csr. csr_from_der L der = Ok csr \<and> csr_signature_algorithm csr = Some (algorithm_oid (pk_algorithm k)) \<and>
          (plain_dn (cp_distinguished_name p) \<longrightarrow>
             readable_attrs L (concat (csr_subject csr)) (cp_distinguished_name p)) \<and>
          (cp_subject_alt_names p \<noteq> [] \<and> list_all san_wf (cp_subject_alt_names p) \<and> cp_custom_extensions p = [] \<longrightarrow>
             (\<exists>pre post. csr_requested_extensions csr =
                Some (pre @ SubjectAlternativeName (map general_name_of (cp_subject_alt_names p)) # post) \<and>
                \<not> list_ex is_san_extension (pre @ post))) \<and>
          csr_public_key csr = pk_der_bytes k)) \<and>
     (\<forall>t s. 0 \<le> t \<and> -1000 \<le> s \<longrightarrow>
       odt_plus_seconds L t s = (if t + s \<le> 253402300799 then Some (t + s) else None))"

lemma algorithm_oid_read [simp]: "signature_algorithm_from_oid (algorithm_oid a) = Ok a"
  by (cases a) (simp_all add: signature_algorithm_from_oid_def CSR_ED25519_def CSR_ECDSA_SHA256_def
      CSR_ECDSA_SHA384_def CSR_RSA_SHA256_def)

lemma push_extension_sans_append:
  "push_extension_sans L sans (es @ fs) = push_extension_sans L (push_extension_sans L sans es) fs"
proof (induction es arbitrary: sans)
  case (Cons e es)
  then show ?case by (cases e) simp_all
qed simp

lemma push_extension_sans_other: "\<not> list_ex is_san_extension es \<Longrightarrow> push_extension_sans L sans es = sans"
proof (induction es)
  case (Cons e es)
  then show ?case by (cases e) simp_all
qed simp

lemma general_name_read:
  assumes "rcgen_ok L R" "is_ascii cn"
  shows "push_general_names L [] (map general_name_of [SanDnsName cn]) = [SanDnsName cn]"
proof -
  have "rg_ia5_string L cn = Ok cn" using rcgen_okD(3) [OF assms(1)] assms(2) by simp
  then show ?thesis by simp
qed

text \<open>What a request made by \<open>generate_csr\<close> parses to.\<close>

lemma generated_csr_parses:
  assumes "rcgen_ok L R" "csr_crates_ok L" "generate_csr L rnd cn alg = Some (Ok (csr, pkcs8))"
  obtains key parsed where "generate_for L rnd alg = Some (Ok key)" "pkcs8 = key_pkcs8 key"
    "parse_csr_components L (csr_der csr) = Ok parsed" "pc_subject_dn parsed = [(CommonName, cn)]"
    "pc_sans parsed = [SanDnsName cn]" "is_ascii cn"
    "\<lparr> pk_der_bytes = pc_public_key_bit_string parsed, pk_algorithm = pc_algorithm parsed \<rparr> = public_of (key_for L alg key)"
proof -
  obtain key where key: "generate_for L rnd alg = Some (Ok key)" "pkcs8 = key_pkcs8 key"
    "build_csr_with_key L cn (key_for L alg key) = Ok csr"
    using assms(3) by (auto simp: generate_csr_def result_simps)
  define p where "p = rg_params_default L
    \<lparr> cp_distinguished_name := [(CommonName, cn)], cp_subject_alt_names := [SanDnsName cn] \<rparr>"
  have "is_ascii cn \<and> (\<exists>pem. rg_serialize_request L p (key_for L alg key) = Ok (csr_der csr, pem))"
    using key(3) rcgen_okD(3,4) [OF assms(1)]
    by (auto simp: p_def build_csr_with_key_def dns_san_def Let_def result_simps)
  then obtain pem where p: "cp_distinguished_name p = [(CommonName, cn)]" "cp_subject_alt_names p = [SanDnsName cn]"
    "is_ascii cn" "rg_serialize_request L p (key_for L alg key) = Ok (csr_der csr, pem)"
    by (auto simp: p_def)
  have "plain_dn (cp_distinguished_name p)" "cp_subject_alt_names p \<noteq> []" "list_all san_wf (cp_subject_alt_names p)"
    "cp_custom_extensions p = []"
    using p rcgen_okD(6) [OF assms(1)] by (simp_all add: plain_dn_def p_def)
  with assms(2) p(4) obtain x pre post where x: "csr_from_der L (csr_der csr) = Ok x"
    "csr_signature_algorithm x = Some (algorithm_oid (pk_algorithm (key_for L alg key)))"
    "readable_attrs L (concat (csr_subject x)) (cp_distinguished_name p)"
    "csr_requested_extensions x =
       Some (pre @ SubjectAlternativeName (map general_name_of (cp_subject_alt_names p)) # post)"
    "\<not> list_ex is_san_extension (pre @ post)" "csr_public_key x = pk_der_bytes (key_for L alg key)"
    unfolding csr_crates_ok_def by meson
  have dn: "dn_from_x509_name L (csr_subject x) = Ok [(CommonName, cn)]"
    using x(3) p(1) rcgen_okD(4) [OF assms(1)] by (auto simp: dn_from_x509_name_iff intro!: exI [of _ "[(CommonName, cn)]"])
  have sans: "push_extension_sans L [] (pre @ SubjectAlternativeName (map general_name_of (cp_subject_alt_names p)) # post) =
    [SanDnsName cn]"
    using x(5) p(2) general_name_read [OF assms(1) p(3)]
    by (simp add: push_extension_sans_append push_extension_sans_other)
  have "parse_csr_components L (csr_der csr) =
    Ok \<lparr> pc_subject_dn = [(CommonName, cn)], pc_sans = [SanDnsName cn],
         pc_public_key_bit_string = pk_der_bytes (key_for L alg key), pc_spki_full = csr_spki_raw x,
         pc_algorithm = pk_algorithm (key_for L alg key) \<rparr>"
    using x(1,2,6) dn sans by (simp add: parse_csr_components_def collect_requested_extensions_def x(4) Let_def)
  with key that p(3) show ?thesis by (simp add: public_of_def)
qed

lemma sign_csr_sound:
  assumes "rcgen_ok L R" "parse_csr_components L der = Ok parsed" "sign_csr L t der ca days = Some (Ok cert)"
  obtains p where
    "issued_as R p \<lparr> pk_der_bytes = pc_public_key_bit_string parsed, pk_algorithm = pc_algorithm parsed \<rparr>
       (cp_distinguished_name (ca_params ca)) (ca_key L ca) (sc_cert_der cert)"
    "cp_distinguished_name p = pc_subject_dn parsed" "cp_subject_alt_names p = pc_sans parsed"
    "cp_is_ca p = NoCa" "cp_serial_number p = Some 1" "cp_custom_extensions p = []"
    "odt_plus_seconds L t (- 300) = Some (cp_not_before p)"
    "odt_plus_seconds L t (int (unat days) * 86400) = Some (cp_not_after p)"
  using assms(2,3) rcgen_okD(2) [OF assms(1)] rcgen_okD(5,6) [OF assms(1)]
  by (fastforce simp: sign_csr_def sign_with_issuer_def ca_key_def Let_def result_simps bind_eq_Some_conv)

text \<open>C29: A certificate issued for a generated request has the requested name as its subject and only alternative
  name, is no CA, and certifies the public key that belongs to the private key handed out with the request; with the authorities
  above it, it is a valid path exactly when there is at most one intermediate.\<close>

theorem csr_lifecycle:
  assumes "rcgen_ok L R" "signature_crates_ok L V" "csr_crates_ok L" "issued L (ca # cas)"
    "generate_csr L rnd cn alg = Some (Ok (csr, pkcs8))" "sign_csr L t (csr_der csr) ca days = Some (Ok cert)"
  shows "(valid_path R V (sc_cert_der cert # map ca_der (ca # cas)) \<longleftrightarrow> length cas \<le> 1) \<and>
    (\<exists>key v. generate_for L rnd alg = Some (Ok key) \<and> pkcs8 = key_pkcs8 key \<and> R (sc_cert_der cert) = Some v \<and>
       cv_key v = public_of (key_for L alg key) \<and> cv_subject v = [(CommonName, cn)] \<and>
       cv_names v = [SanDnsName cn] \<and> cv_ca v = None)"
proof -
  from generated_csr_parses [OF assms(1,3,5)] obtain key parsed where
    k: "generate_for L rnd alg = Some (Ok key)" "pkcs8 = key_pkcs8 key"
    "parse_csr_components L (csr_der csr) = Ok parsed" "pc_subject_dn parsed = [(CommonName, cn)]"
    "pc_sans parsed = [SanDnsName cn]" "is_ascii cn"
    "\<lparr> pk_der_bytes = pc_public_key_bit_string parsed, pk_algorithm = pc_algorithm parsed \<rparr> = public_of (key_for L alg key)" .
  from sign_csr_sound [OF assms(1) k(3) assms(6)] obtain p where
    p: "issued_as R p (public_of (key_for L alg key)) (cp_distinguished_name (ca_params ca)) (ca_key L ca) (sc_cert_der cert)"
    "cp_distinguished_name p = [(CommonName, cn)]" "cp_subject_alt_names p = [SanDnsName cn]" "cp_is_ca p = NoCa"
    "cp_custom_extensions p = []"
    unfolding k(4,5,7) by blast
  obtain v where v: "R (sc_cert_der cert) = Some v" "states_params p v" "cv_key v = public_of (key_for L alg key)"
    using p(1) by (auto simp: issued_as_def)
  have "cv_subject v = [(CommonName, cn)]" "cv_names v = [SanDnsName cn]" "cv_ca v = None"
    using states_paramsD(4-6) [OF v(2)] p k(6) by (simp_all add: plain_dn_def)
  moreover have "chain_sound L R V (ca # cas)" using assms(1,2,4) by (intro issued_chain_sound)
  from chain_valid_path [OF this p(1)] have "valid_path R V (sc_cert_der cert # map ca_der (ca # cas)) \<longleftrightarrow> length cas \<le> 1" .
  ultimately show ?thesis using k v by blast
qed

text \<open>For a request that parses, signing panics exactly when the end of the validity period would lie after the year 9999;
  otherwise the certificate is valid from five minutes before now for the given number of days.\<close>

theorem sign_csr_validity:
  assumes "rcgen_ok L R" "csr_crates_ok L" "0 \<le> t" "t \<le> 253402300799" "parse_csr_components L der = Ok parsed"
  shows "(sign_csr L t der ca days = None \<longleftrightarrow> 253402300799 < t + int (unat days) * 86400) \<and>
    (\<forall>cert. sign_csr L t der ca days = Some (Ok cert) \<longrightarrow>
      (\<exists>v. R (sc_cert_der cert) = Some v \<and> cv_valid_from v = t - 300 \<and>
           cv_valid_until v = t + int (unat days) * 86400))"
proof (intro conjI allI impI)
  have odt: "odt_plus_seconds L t s = (if t + s \<le> 253402300799 then Some (t + s) else None)" if "-1000 \<le> s" for s
    using assms(2,3) that unfolding csr_crates_ok_def by blast
  have days: "-1000 \<le> int (unat days) * 86400"
    using zero_le_mult_iff [of "int (unat days)" 86400] by linarith
  show "sign_csr L t der ca days = None \<longleftrightarrow> 253402300799 < t + int (unat days) * 86400"
    using assms(4,5) odt [of "- 300"] odt [OF days]
    by (auto simp: sign_csr_def Let_def simp del: of_nat_unat)
  fix cert assume "sign_csr L t der ca days = Some (Ok cert)"
  from sign_csr_sound [OF assms(1,5) this] obtain p key where
    "issued_as R p key (cp_distinguished_name (ca_params ca)) (ca_key L ca) (sc_cert_der cert)"
    "odt_plus_seconds L t (- 300) = Some (cp_not_before p)"
    "odt_plus_seconds L t (int (unat days) * 86400) = Some (cp_not_after p)" by metis
  with odt [of "- 300"] odt [OF days] obtain v where "R (sc_cert_der cert) = Some v" "states_params p v"
    "cp_not_before p = t - 300" "cp_not_after p = t + int (unat days) * 86400" "cp_not_after p \<le> 253402300799"
    by (auto simp: issued_as_def simp del: of_nat_unat split: if_splits)
  moreover from this days assms(3,4) have "encodable_time (cp_not_before p)" "encodable_time (cp_not_after p)"
    by (simp_all add: encodable_time_def del: of_nat_unat)
  ultimately show "\<exists>v. R (sc_cert_der cert) = Some v \<and> cv_valid_from v = t - 300 \<and>
    cv_valid_until v = t + int (unat days) * 86400"
    using states_paramsD(1,2) by metis
qed

text \<open>The certificates an authority issues: server leaves, intermediates and answers to requests.\<close>

definition issued_by :: "rcgen_lib \<Rightarrow> ca_certified_key \<Rightarrow> bytes \<Rightarrow> bool" where
  "issued_by L ca der \<longleftrightarrow>
     (\<exists>rnd sans alg leaf. generate_ca_signed_leaf L rnd sans alg ca = Some (Ok leaf) \<and> der = ck_cert_der leaf) \<or>
     (\<exists>rnd cn alg sub. generate_intermediate_ca L rnd cn alg ca = Some (Ok sub) \<and> der = ca_der sub) \<or>
     (\<exists>t csr days cert. sign_csr L t csr ca days = Some (Ok cert) \<and> der = sc_cert_der cert)"

lemma build_ca_params_serial: "cp_serial_number (build_ca_params L cn spki len) = Some 1"
  by (simp add: build_ca_params_def Let_def)

lemma issued_by_serial:
  assumes "rcgen_ok L R" "plain_dn (cp_distinguished_name (ca_params ca))" "issued_by L ca der"
  shows "\<exists>v. R der = Some v \<and> cv_issuer v = cp_distinguished_name (ca_params ca) \<and> cv_serial v = 1"
proof -
  have one: ?thesis
    if "issued_as R p key (cp_distinguished_name (ca_params ca)) k der" "cp_serial_number p = Some 1" for p key k
    using that assms(2) states_paramsD(3) by (fastforce simp: issued_as_def)
  from assms(3) show ?thesis unfolding issued_by_def
  proof (elim disjE exE conjE)
    fix rnd sans alg leaf
    assume "generate_ca_signed_leaf L rnd sans alg ca = Some (Ok leaf)" "der = ck_cert_der leaf"
    then show ?thesis
      using generate_leaf_sound [OF assms(1)] one by (fastforce simp: leaf_sound_def)
  next
    fix rnd cn alg sub
    assume "generate_intermediate_ca L rnd cn alg ca = Some (Ok sub)" "der = ca_der sub"
    then obtain spki key pem where "rg_signed_by L (build_ca_params L cn spki (Some 0)) key (ca_params ca) (ca_signing_key L (ca_signer ca)) =
        Ok (der, pem)"
      by (auto simp: generate_intermediate_ca_def sign_child_def ca_der_def Let_def result_simps)
    with rcgen_okD(2) [OF assms(1)] show ?thesis
      by (blast intro: one build_ca_params_serial)
  next
    fix t csr days cert
    assume c: "sign_csr L t csr ca days = Some (Ok cert)" "der = sc_cert_der cert"
    then obtain parsed where "parse_csr_components L csr = Ok parsed"
      by (auto simp: sign_csr_def split: result.splits)
    from sign_csr_sound [OF assms(1) this c(1)] obtain p key where
      "issued_as R p key (cp_distinguished_name (ca_params ca)) (ca_key L ca) der" "cp_serial_number p = Some 1"
      unfolding c(2) by metis
    then show ?thesis by (rule one)
  qed
qed

text \<open>All server, intermediate and requested certificates of one generated authority carry the same issuer name and the serial number 1, so
  issuer and serial number do not identify a certificate.\<close>

theorem serial_numbers_repeat:
  assumes "rcgen_ok L R" "issued L (ca # cas)" "issued_by L ca der" "issued_by L ca der'"
  shows "\<exists>v v'. R der = Some v \<and> R der' = Some v' \<and> cv_issuer v = cv_issuer v' \<and> cv_serial v = 1 \<and> cv_serial v' = 1"
proof -
  obtain cn spki len where "ca_params ca = build_ca_params L cn spki len"
    using issued_params [OF assms(2), of ca] by auto
  then have "plain_dn (cp_distinguished_name (ca_params ca))" using ca_params_plain [OF assms(1)] by simp
  with issued_by_serial [OF assms(1) _ assms(3)] issued_by_serial [OF assms(1) _ assms(4)] show ?thesis by auto
qed

section \<open>Witnesses\<close>

lemma example_csr_ok: "csr_crates_ok example_rcgen"
proof -
  have "public_of k = example_rcgen_key \<Longrightarrow> pk_algorithm k = PKCS_ED25519 \<and> pk_der_bytes k = example_seed" for k
    by (simp add: public_of_def example_rcgen_key_def)
  then show ?thesis
    by (auto simp: csr_crates_ok_def example_rcgen_def example_csr_params_def readable_attrs_def CSR_ED25519_def
        split: if_splits intro!: exI [of _ "[]"])
qed

definition example_csr :: csr_bytes where
  "example_csr = \<lparr> csr_der = [9], csr_pem = ''CSR'' \<rparr>"

definition example_answered :: signed_certificate where
  "example_answered = \<lparr> sc_cert_der = [4], sc_cert_pem = ''PEM'' \<rparr>"

lemma example_requested:
  "generate_csr example_rcgen example_rcgen_draws ''x.y'' Ed25519 = Some (Ok (example_csr, example_seed))"
  by (simp add: generate_csr_def build_csr_with_key_def dns_san_def generator_defs example_names example_defs example_csr_def
      Let_def)

lemma example_parsed:
  "parse_csr_components example_rcgen [9] =
     Ok \<lparr> pc_subject_dn = [(CommonName, ''x.y'')], pc_sans = [SanDnsName ''x.y''], pc_public_key_bit_string = example_seed,
          pc_spki_full = example_seed, pc_algorithm = PKCS_ED25519 \<rparr>"
  by (simp add: parse_csr_components_def dn_from_x509_name_def signature_algorithm_from_oid_def CSR_ED25519_def
      collect_requested_extensions_def example_names example_rcgen_def Let_def)

lemma example_signed:
  "sign_csr example_rcgen 1000 [9] example_intermediate 1 = Some (Ok example_answered)"
  by (simp add: sign_csr_def example_parsed)
    (simp add: sign_with_issuer_def example_defs example_answered_def ed25519_signing_key_def Let_def)

lemma example_issued: "issued example_rcgen [example_intermediate, example_root]"
  using example_generated by (intro issued.intros)

theorem csr_lifecycle_witness:
  "valid_path example_reader example_verify [[4], [2], [1]] \<and>
   map_option cv_names (example_reader [4]) = Some [SanDnsName ''x.y'']"
proof -
  have "sign_csr example_rcgen 1000 (csr_der example_csr) example_intermediate 1 = Some (Ok example_answered)"
    using example_signed by (simp add: example_csr_def)
  from csr_lifecycle [OF example_rcgen_ok example_csr_ok example_issued example_requested this]
  show ?thesis by (auto simp: example_answered_def ca_der_def example_intermediate_def example_root_def)
qed

theorem sign_csr_validity_witness:
  "sign_csr example_rcgen 1000 [9] example_intermediate 0xFFFFFFFF = None \<and>
   sign_csr example_rcgen 1000 [9] example_intermediate 1 \<noteq> None"
  using sign_csr_validity [OF example_rcgen_ok(1) example_csr_ok _ _ example_parsed, of 1000 example_intermediate "0xFFFFFFFF"]
    sign_csr_validity [OF example_rcgen_ok(1) example_csr_ok _ _ example_parsed, of 1000 example_intermediate 1]
  by simp

theorem serial_numbers_repeat_witness:
  "\<exists>v v'. example_reader [3] = Some v \<and> example_reader [4] = Some v' \<and> cv_issuer v = cv_issuer v' \<and>
     cv_serial v = 1 \<and> cv_serial v' = 1"
proof (rule serial_numbers_repeat [OF example_rcgen_ok(1) example_issued])
  show "issued_by example_rcgen example_intermediate [3]"
    using example_generated(3) by (fastforce simp: issued_by_def example_leaf_def)
  show "issued_by example_rcgen example_intermediate [4]"
    using example_signed by (fastforce simp: issued_by_def example_answered_def)
qed

definition example_name :: "x509_attribute list list" where
  "example_name =
     [[\<lparr> xa_type = Some [0, 9], xa_value = Ok ''com'' \<rparr>], [\<lparr> xa_type = Some [0, 9], xa_value = Ok ''example'' \<rparr>]]"

theorem csr_subject_kept_witness:
  "is_ok (dn_from_x509_name example_rcgen example_name) \<and>
   dn_from_x509_name example_rcgen example_name \<noteq>
     Ok [(CustomDnType [0, 9], ''com''), (CustomDnType [0, 9], ''example'')]"
proof -
  let ?attrs = "[(CustomDnType [0, 9], ''com''), (CustomDnType [0, 9], ''example'')]"
  have "readable_attrs example_rcgen (concat example_name) ?attrs"
    by (simp add: readable_attrs_def example_name_def example_rcgen_def)
  moreover have "\<not> distinct (map fst ?attrs)" by simp
  ultimately show ?thesis
    using csr_subject_kept [OF example_rcgen_ok(1), of example_name] by blast
qed

end
