(* ===== verification/Crypto_Provider.thy ===== *)
theory Crypto_Provider
  imports Core_Types Verifier Schemes
begin

text \<open>
  The rest of \<open>oxitls-rustcrypto-provider\<close> beside its record layer and QUIC keys: the key exchange groups (\<open>kx.rs\<close>),
  the hash and HMAC adapters (\<open>hash.rs\<close>, \<open>hmac.rs\<close>), the signing keys (\<open>sign.rs\<close>, \<open>sign/\<close>), the signature
  verification algorithms (\<open>verify.rs\<close>, \<open>verify/\<close>) and the tables of cipher suites (\<open>lib.rs\<close>, \<open>misc.rs\<close>).
  The curve, hash and signature crates are the fields of \<open>provider_lib\<close>, with keys, signatures and hash states
  represented by bytes chosen by the crate; \<open>kx_crates_ok\<close>, \<open>hash_crates_ok\<close> and \<open>sign_crates_ok\<close> are
  what their documentation promises.
\<close>

section \<open>The crates\<close>

datatype hash_name = Sha256 | Sha384 | Sha512

datatype curve = P256 | P384

datatype rsa_padding = Pkcs1v15 | Pss

record provider_lib =
  x25519_random :: "draws \<Rightarrow> bytes"
  x25519_public :: "bytes \<Rightarrow> bytes"
  x25519_diffie_hellman :: "bytes \<Rightarrow> bytes \<Rightarrow> bytes"
  ecdh_random :: "curve \<Rightarrow> draws \<Rightarrow> bytes"
  ecdh_public_sec1 :: "curve \<Rightarrow> bytes \<Rightarrow> bytes"
  ecdh_from_sec1 :: "curve \<Rightarrow> bytes \<Rightarrow> bytes option"
  ecdh_diffie_hellman :: "curve \<Rightarrow> bytes \<Rightarrow> bytes \<Rightarrow> bytes"
  hasher_new :: "hash_name \<Rightarrow> bytes"
  hasher_update :: "hash_name \<Rightarrow> bytes \<Rightarrow> bytes \<Rightarrow> bytes"
  hasher_finalize :: "hash_name \<Rightarrow> bytes \<Rightarrow> bytes"
  digest_of :: "hash_name \<Rightarrow> bytes \<Rightarrow> bytes"
  mac_new :: "hash_name \<Rightarrow> bytes \<Rightarrow> bytes option"
  mac_update :: "hash_name \<Rightarrow> bytes \<Rightarrow> bytes \<Rightarrow> bytes"
  mac_finalize :: "hash_name \<Rightarrow> bytes \<Rightarrow> bytes"
  rsa_key_from_pkcs8 :: "bytes \<Rightarrow> (bytes, string) result"
  rsa_key_from_pkcs1 :: "bytes \<Rightarrow> (bytes, string) result"
  rsa_sign :: "rsa_padding \<Rightarrow> hash_name \<Rightarrow> bytes \<Rightarrow> bytes \<Rightarrow> bytes option"
  rsa_public_from_pkcs1 :: "bytes \<Rightarrow> bytes option"
  rsa_signature_from :: "rsa_padding \<Rightarrow> bytes \<Rightarrow> bytes option"
  rsa_verify :: "rsa_padding \<Rightarrow> hash_name \<Rightarrow> bytes \<Rightarrow> bytes \<Rightarrow> bytes \<Rightarrow> bool"
  ecdsa_key_from_pkcs8 :: "curve \<Rightarrow> bytes \<Rightarrow> (bytes, string) result"
  ecdsa_key_from_sec1 :: "curve \<Rightarrow> bytes \<Rightarrow> (bytes, string) result"
  ecdsa_sign_der :: "curve \<Rightarrow> bytes \<Rightarrow> bytes \<Rightarrow> bytes option"
  ecdsa_sig_from_der :: "curve \<Rightarrow> bytes \<Rightarrow> bytes option"
  ecdsa_verifying_from_sec1 :: "curve \<Rightarrow> bytes \<Rightarrow> bytes option"
  ecdsa_verify_prehash :: "curve \<Rightarrow> bytes \<Rightarrow> bytes \<Rightarrow> bytes \<Rightarrow> bool"
  ed25519_key_from_pkcs8 :: "bytes \<Rightarrow> (bytes, string) result"
  ed25519_key_from_sec1 :: "bytes \<Rightarrow> (bytes, string) result"
  ed25519_try_sign :: "bytes \<Rightarrow> bytes \<Rightarrow> bytes option"
  ed25519_signature_from :: "bytes \<Rightarrow> bytes option"
  ed25519_verifying_from :: "bytes \<Rightarrow> bytes option"
  ed25519_verify :: "bytes \<Rightarrow> bytes \<Rightarrow> bytes \<Rightarrow> bool"

section \<open>Key exchange\<close>

datatype named_group = X25519 | Secp256r1 | Secp384r1

definition invalid_key_share :: rustls_error where
  "invalid_key_share = OtherRustlsError ''PeerMisbehaved(InvalidKeyShare)''"

record active_kx =
  kx_priv_key :: bytes
  kx_pub_key :: bytes

definition x25519_start :: "provider_lib \<Rightarrow> draws \<Rightarrow> (active_kx, rustls_error) result" where
  "x25519_start L rnd =
     (let priv_key = x25519_random L rnd; pub_key = x25519_public L priv_key in
      Ok \<lparr> kx_priv_key = priv_key, kx_pub_key = pub_key \<rparr>)"

definition x25519_complete :: "provider_lib \<Rightarrow> active_kx \<Rightarrow> bytes \<Rightarrow> (bytes, rustls_error) result" where
  "x25519_complete L kx peer =
     (if length peer \<noteq> 32 then Err invalid_key_share
      else Ok (x25519_diffie_hellman L (kx_priv_key kx) peer))"

text \<open>\<open>impl_kx!\<close>, for both curves.\<close>

definition ec_start :: "curve \<Rightarrow> provider_lib \<Rightarrow> draws \<Rightarrow> (active_kx, rustls_error) result" where
  "ec_start c L rnd =
     (let priv_key = ecdh_random L c rnd in
      Ok \<lparr> kx_priv_key = priv_key, kx_pub_key = ecdh_public_sec1 L c priv_key \<rparr>)"

definition ec_complete :: "curve \<Rightarrow> provider_lib \<Rightarrow> active_kx \<Rightarrow> bytes \<Rightarrow> (bytes, rustls_error) result" where
  "ec_complete c L kx peer =
     (case ecdh_from_sec1 L c peer of
        None \<Rightarrow> Err invalid_key_share
      | Some their_pub \<Rightarrow> Ok (ecdh_diffie_hellman L c (kx_priv_key kx) their_pub))"

text \<open>A group of the trait \<open>SupportedKxGroup\<close>.\<close>

record kx_group =
  kx_name :: named_group
  kx_start :: "provider_lib \<Rightarrow> draws \<Rightarrow> (active_kx, rustls_error) result"
  kx_complete :: "provider_lib \<Rightarrow> active_kx \<Rightarrow> bytes \<Rightarrow> (bytes, rustls_error) result"

definition X25519_group :: kx_group where
  "X25519_group = \<lparr> kx_name = X25519, kx_start = x25519_start, kx_complete = x25519_complete \<rparr>"

definition SecP256R1 :: kx_group where
  "SecP256R1 = \<lparr> kx_name = Secp256r1, kx_start = ec_start P256, kx_complete = ec_complete P256 \<rparr>"

definition SecP384R1 :: kx_group where
  "SecP384R1 = \<lparr> kx_name = Secp384r1, kx_start = ec_start P384, kx_complete = ec_complete P384 \<rparr>"

definition ALL_KX_GROUPS :: "kx_group list" where
  "ALL_KX_GROUPS = [X25519_group, SecP256R1, SecP384R1]"

section \<open>Hashes and HMAC\<close>

text \<open>\<open>impl_hash!\<close>: the context is the state of the crate's hasher; cloning it is the identity here.\<close>

definition hash_start :: "provider_lib \<Rightarrow> hash_name \<Rightarrow> bytes" where
  "hash_start L h = hasher_new L h"

definition hash_hash :: "provider_lib \<Rightarrow> hash_name \<Rightarrow> bytes \<Rightarrow> bytes" where
  "hash_hash L h data = digest_of L h data"

fun hash_output_len :: "hash_name \<Rightarrow> nat" where
  "hash_output_len Sha256 = 32"
| "hash_output_len Sha384 = 48"
| "hash_output_len Sha512 = 64"

definition hash_update :: "provider_lib \<Rightarrow> hash_name \<Rightarrow> bytes \<Rightarrow> bytes \<Rightarrow> bytes" where
  "hash_update L h ctx data = hasher_update L h ctx data"

definition hash_fork :: "bytes \<Rightarrow> bytes" where
  "hash_fork ctx = ctx"

definition hash_fork_finish :: "provider_lib \<Rightarrow> hash_name \<Rightarrow> bytes \<Rightarrow> bytes" where
  "hash_fork_finish L h ctx = hasher_finalize L h ctx"

definition hash_finish :: "provider_lib \<Rightarrow> hash_name \<Rightarrow> bytes \<Rightarrow> bytes" where
  "hash_finish L h ctx = hasher_finalize L h ctx"

text \<open>\<open>impl_hmac!\<close>; \<open>with_key\<close> is \<open>None\<close> where \<open>unwrap\<close> panics.\<close>

definition hmac_with_key :: "provider_lib \<Rightarrow> hash_name \<Rightarrow> bytes \<Rightarrow> bytes option" where
  "hmac_with_key L h key = mac_new L h key"

fun mac_update_all :: "provider_lib \<Rightarrow> hash_name \<Rightarrow> bytes \<Rightarrow> bytes list \<Rightarrow> bytes" where
  "mac_update_all L h ctx [] = ctx"
| "mac_update_all L h ctx (m # ms) = mac_update_all L h (mac_update L h ctx m) ms"

definition hmac_sign_concat :: "provider_lib \<Rightarrow> hash_name \<Rightarrow> bytes \<Rightarrow> bytes \<Rightarrow> bytes list \<Rightarrow> bytes \<Rightarrow> bytes" where
  "hmac_sign_concat L h key_ctx first middle last_part =
     (let ctx = mac_update L h key_ctx first;
          ctx = mac_update_all L h ctx middle;
          ctx = mac_update L h ctx last_part in
      mac_finalize L h ctx)"

section \<open>Signing\<close>

datatype provider_key = RsaSigningKey bytes | EcdsaSigningKey curve bytes | Ed25519SigningKey bytes

definition failed_to_decrypt :: "string \<Rightarrow> rustls_error" where
  "failed_to_decrypt e = General (''failed to decrypt private key: '' @ e)"

fun rsa_try_from :: "provider_lib \<Rightarrow> private_key_der \<Rightarrow> (provider_key, rustls_error) result" where
  "rsa_try_from L (Pkcs8 der) = rbind (rmap_err failed_to_decrypt (rsa_key_from_pkcs8 L der)) (Ok \<circ> RsaSigningKey)"
| "rsa_try_from L (Pkcs1 der) = rbind (rmap_err failed_to_decrypt (rsa_key_from_pkcs1 L der)) (Ok \<circ> RsaSigningKey)"
| "rsa_try_from L (Sec1 _) = Err (General ''RSA does not support SEC-1 key'')"
| "rsa_try_from L (OtherKeyDer _) = Err (General ''not supported'')"

fun ecdsa_try_from :: "curve \<Rightarrow> provider_lib \<Rightarrow> private_key_der \<Rightarrow> (provider_key, rustls_error) result" where
  "ecdsa_try_from c L (Pkcs8 der) =
     rbind (rmap_err failed_to_decrypt (ecdsa_key_from_pkcs8 L c der)) (Ok \<circ> EcdsaSigningKey c)"
| "ecdsa_try_from c L (Sec1 sec1) =
     rbind (rmap_err failed_to_decrypt (ecdsa_key_from_sec1 L c sec1)) (Ok \<circ> EcdsaSigningKey c)"
| "ecdsa_try_from c L (Pkcs1 _) = Err (General ''ECDSA does not support PKCS#1 key'')"
| "ecdsa_try_from c L (OtherKeyDer _) = Err (General ''not supported'')"

fun ed25519_try_from :: "provider_lib \<Rightarrow> private_key_der \<Rightarrow> (provider_key, rustls_error) result" where
  "ed25519_try_from L (Pkcs8 der) =
     rbind (rmap_err failed_to_decrypt (ed25519_key_from_pkcs8 L der)) (Ok \<circ> Ed25519SigningKey)"
| "ed25519_try_from L (Sec1 sec1) =
     rbind (rmap_err failed_to_decrypt (ed25519_key_from_sec1 L sec1)) (Ok \<circ> Ed25519SigningKey)"
| "ed25519_try_from L (Pkcs1 _) = Err (General ''ED25519 does not support PKCS#1 key'')"
| "ed25519_try_from L (OtherKeyDer _) = Err (General ''not supported'')"

text \<open>\<open>or_else\<close>, whose closure ignores the error.\<close>

fun or_else :: "('a, 'e) result \<Rightarrow> ('a, 'e) result \<Rightarrow> ('a, 'e) result" where
  "or_else (Ok a) r = Ok a"
| "or_else (Err e) r = r"

definition any_ecdsa_type :: "provider_lib \<Rightarrow> private_key_der \<Rightarrow> (provider_key, rustls_error) result" where
  "any_ecdsa_type L der = or_else (ecdsa_try_from P256 L der) (ecdsa_try_from P384 L der)"

definition any_eddsa_type :: "provider_lib \<Rightarrow> private_key_der \<Rightarrow> (provider_key, rustls_error) result" where
  "any_eddsa_type L der = ed25519_try_from L der"

definition any_supported_type :: "provider_lib \<Rightarrow> private_key_der \<Rightarrow> (provider_key, rustls_error) result" where
  "any_supported_type L der =
     or_else (or_else (rsa_try_from L der) (any_ecdsa_type L der)) (any_eddsa_type L der)"

definition provider_load_private_key :: "provider_lib \<Rightarrow> private_key_der \<Rightarrow> (provider_key, rustls_error) result" where
  "provider_load_private_key L der = any_supported_type L der"

text \<open>A signer: its scheme and the crate function that \<open>sign\<close> calls.\<close>

record provider_signer =
  ps_scheme :: signature_scheme
  ps_try_sign :: "bytes \<Rightarrow> bytes option"

definition provider_sign :: "provider_signer \<Rightarrow> bytes \<Rightarrow> (bytes, rustls_error) result" where
  "provider_sign s message = ok_or (ps_try_sign s message) (General ''signing failed'')"

definition ALL_RSA_SCHEMES :: "signature_scheme list" where
  "ALL_RSA_SCHEMES =
     [RSA_PSS_SHA512, RSA_PSS_SHA384, RSA_PSS_SHA256, RSA_PKCS1_SHA512, RSA_PKCS1_SHA384, RSA_PKCS1_SHA256]"

fun rsa_scheme_parts :: "signature_scheme \<Rightarrow> (rsa_padding \<times> hash_name) option" where
  "rsa_scheme_parts RSA_PSS_SHA512 = Some (Pss, Sha512)"
| "rsa_scheme_parts RSA_PSS_SHA384 = Some (Pss, Sha384)"
| "rsa_scheme_parts RSA_PSS_SHA256 = Some (Pss, Sha256)"
| "rsa_scheme_parts RSA_PKCS1_SHA512 = Some (Pkcs1v15, Sha512)"
| "rsa_scheme_parts RSA_PKCS1_SHA384 = Some (Pkcs1v15, Sha384)"
| "rsa_scheme_parts RSA_PKCS1_SHA256 = Some (Pkcs1v15, Sha256)"
| "rsa_scheme_parts _ = None"

definition rsa_choose_scheme :: "provider_lib \<Rightarrow> bytes \<Rightarrow> signature_scheme list \<Rightarrow> provider_signer option" where
  "rsa_choose_scheme L key offered =
     Option.bind (find (\<lambda>scheme. scheme \<in> set offered) ALL_RSA_SCHEMES) (\<lambda>scheme.
       map_option (\<lambda>(padding, h). \<lparr> ps_scheme = scheme, ps_try_sign = rsa_sign L padding h key \<rparr>)
         (rsa_scheme_parts scheme))"

fun ecdsa_scheme :: "curve \<Rightarrow> signature_scheme" where
  "ecdsa_scheme P256 = ECDSA_NISTP256_SHA256"
| "ecdsa_scheme P384 = ECDSA_NISTP384_SHA384"

definition ecdsa_choose_scheme :: "provider_lib \<Rightarrow> curve \<Rightarrow> bytes \<Rightarrow> signature_scheme list \<Rightarrow> provider_signer option" where
  "ecdsa_choose_scheme L c key offered =
     (if ecdsa_scheme c \<in> set offered
      then Some \<lparr> ps_scheme = ecdsa_scheme c, ps_try_sign = ecdsa_sign_der L c key \<rparr> else None)"

definition ed25519_choose_scheme :: "provider_lib \<Rightarrow> bytes \<Rightarrow> signature_scheme list \<Rightarrow> provider_signer option" where
  "ed25519_choose_scheme L key offered =
     (if ED25519 \<in> set offered then Some \<lparr> ps_scheme = ED25519, ps_try_sign = ed25519_try_sign L key \<rparr> else None)"

fun provider_choose_scheme :: "provider_lib \<Rightarrow> provider_key \<Rightarrow> signature_scheme list \<Rightarrow> provider_signer option" where
  "provider_choose_scheme L (RsaSigningKey k) offered = rsa_choose_scheme L k offered"
| "provider_choose_scheme L (EcdsaSigningKey c k) offered = ecdsa_choose_scheme L c k offered"
| "provider_choose_scheme L (Ed25519SigningKey k) offered = ed25519_choose_scheme L k offered"

fun provider_key_algorithm :: "provider_key \<Rightarrow> signature_algorithm" where
  "provider_key_algorithm (RsaSigningKey _) = RSA"
| "provider_key_algorithm (EcdsaSigningKey _ _) = ECDSA"
| "provider_key_algorithm (Ed25519SigningKey _) = ED25519_ALG"

section \<open>Verification\<close>

datatype key_alg_id = AlgEcdsaP256 | AlgEcdsaP384 | AlgRsaEncryption | AlgEd25519

datatype sig_alg_id = AlgEcdsa hash_name | AlgRsaPkcs1 hash_name | AlgRsaPss hash_name | AlgEd25519Sig

text \<open>A \<open>SignatureVerificationAlgorithm\<close>; \<open>InvalidSignature\<close> is the only error.\<close>

record verification_algorithm =
  va_public_key_alg_id :: key_alg_id
  va_signature_alg_id :: sig_alg_id
  va_verify_signature :: "provider_lib \<Rightarrow> bytes \<Rightarrow> bytes \<Rightarrow> bytes \<Rightarrow> (unit, unit) result"

fun curve_alg :: "curve \<Rightarrow> key_alg_id" where
  "curve_alg P256 = AlgEcdsaP256"
| "curve_alg P384 = AlgEcdsaP384"

definition ecdsa_verify_signature ::
    "curve \<Rightarrow> hash_name \<Rightarrow> provider_lib \<Rightarrow> bytes \<Rightarrow> bytes \<Rightarrow> bytes \<Rightarrow> (unit, unit) result" where
  "ecdsa_verify_signature c h L public_key message sig_bytes =
     rbind (ok_or (ecdsa_sig_from_der L c sig_bytes) ()) (\<lambda>sg.
     rbind (ok_or (ecdsa_verifying_from_sec1 L c public_key) ()) (\<lambda>verifying_key.
     let dg = digest_of L h message in
     if ecdsa_verify_prehash L c verifying_key dg sg then Ok () else Err ()))"

definition ecdsa_verifier :: "curve \<Rightarrow> hash_name \<Rightarrow> verification_algorithm" where
  "ecdsa_verifier c h =
     \<lparr> va_public_key_alg_id = curve_alg c, va_signature_alg_id = AlgEcdsa h,
       va_verify_signature = ecdsa_verify_signature c h \<rparr>"

definition rsa_verify_signature ::
    "rsa_padding \<Rightarrow> hash_name \<Rightarrow> provider_lib \<Rightarrow> bytes \<Rightarrow> bytes \<Rightarrow> bytes \<Rightarrow> (unit, unit) result" where
  "rsa_verify_signature p h L public_key message sig_bytes =
     rbind (ok_or (rsa_public_from_pkcs1 L public_key) ()) (\<lambda>pk.
     rbind (ok_or (rsa_signature_from L p sig_bytes) ()) (\<lambda>sg.
     if rsa_verify L p h pk message sg then Ok () else Err ()))"

definition rsa_verifier :: "rsa_padding \<Rightarrow> hash_name \<Rightarrow> verification_algorithm" where
  "rsa_verifier p h =
     \<lparr> va_public_key_alg_id = AlgRsaEncryption,
       va_signature_alg_id = (case p of Pkcs1v15 \<Rightarrow> AlgRsaPkcs1 h | Pss \<Rightarrow> AlgRsaPss h),
       va_verify_signature = rsa_verify_signature p h \<rparr>"

definition ed25519_verify_signature ::
    "provider_lib \<Rightarrow> bytes \<Rightarrow> bytes \<Rightarrow> bytes \<Rightarrow> (unit, unit) result" where
  "ed25519_verify_signature L public_key message sig_bytes =
     (if length public_key \<noteq> 32 then Err ()
      else
        rbind (ok_or (ed25519_signature_from L sig_bytes) ()) (\<lambda>sg.
        rbind (ok_or (ed25519_verifying_from L public_key) ()) (\<lambda>vk.
        if ed25519_verify L vk message sg then Ok () else Err ())))"

definition ed25519_verifier :: verification_algorithm where
  "ed25519_verifier =
     \<lparr> va_public_key_alg_id = AlgEd25519, va_signature_alg_id = AlgEd25519Sig,
       va_verify_signature = ed25519_verify_signature \<rparr>"

definition ALGORITHMS_all :: "verification_algorithm list" where
  "ALGORITHMS_all =
     [ecdsa_verifier P256 Sha256, ecdsa_verifier P256 Sha384, ecdsa_verifier P384 Sha256, ecdsa_verifier P384 Sha384,
      ed25519_verifier,
      rsa_verifier Pkcs1v15 Sha256, rsa_verifier Pkcs1v15 Sha384, rsa_verifier Pkcs1v15 Sha512,
      rsa_verifier Pss Sha256, rsa_verifier Pss Sha384, rsa_verifier Pss Sha512]"

definition ALGORITHMS_mapping :: "(signature_scheme \<times> verification_algorithm list) list" where
  "ALGORITHMS_mapping =
     [(ECDSA_NISTP384_SHA384, [ecdsa_verifier P384 Sha384, ecdsa_verifier P256 Sha384]),
      (ECDSA_NISTP256_SHA256, [ecdsa_verifier P256 Sha256, ecdsa_verifier P384 Sha256]),
      (ED25519, [ed25519_verifier]),
      (RSA_PKCS1_SHA256, [rsa_verifier Pkcs1v15 Sha256]),
      (RSA_PKCS1_SHA384, [rsa_verifier Pkcs1v15 Sha384]),
      (RSA_PKCS1_SHA512, [rsa_verifier Pkcs1v15 Sha512]),
      (RSA_PSS_SHA256, [rsa_verifier Pss Sha256]),
      (RSA_PSS_SHA384, [rsa_verifier Pss Sha384]),
      (RSA_PSS_SHA512, [rsa_verifier Pss Sha512])]"

section \<open>Cipher suites\<close>

datatype suite_aead = Tls12Aes128Gcm | Tls12Aes256Gcm | Tls13Aes128Gcm | Tls13Aes256Gcm | Chacha20Poly1305

text \<open>\<open>SupportedCipherSuite\<close>: the suite, its transcript hash, the hash of its PRF or HKDF, its AEAD, the schemes of a TLS 1.2
  suite (all use ECDHE) and the number of records one key may protect.\<close>

record supported_suite =
  se_suite :: rustls_suite
  se_hash_provider :: hash_name
  se_kdf_hash :: hash_name
  se_aead_alg :: suite_aead
  se_sign :: "signature_scheme list option"
  se_confidentiality_limit :: u64

definition u64_MAX :: u64 where
  "u64_MAX = 0xFFFFFFFFFFFFFFFF"

definition TLS12_ECDSA_SCHEMES :: "signature_scheme list" where
  "TLS12_ECDSA_SCHEMES = [ECDSA_NISTP256_SHA256, ECDSA_NISTP384_SHA384, ECDSA_NISTP521_SHA512, ED25519]"

definition TLS12_RSA_SCHEMES :: "signature_scheme list" where
  "TLS12_RSA_SCHEMES =
     [RSA_PKCS1_SHA256, RSA_PKCS1_SHA384, RSA_PKCS1_SHA512, RSA_PSS_SHA256, RSA_PSS_SHA384, RSA_PSS_SHA512]"

definition TLS_ECDHE_ECDSA_WITH_AES_128_GCM_SHA256 :: supported_suite where
  "TLS_ECDHE_ECDSA_WITH_AES_128_GCM_SHA256 =
     \<lparr> se_suite = RS_TLS_ECDHE_ECDSA_WITH_AES_128_GCM_SHA256, se_hash_provider = Sha256, se_kdf_hash = Sha256,
       se_aead_alg = Tls12Aes128Gcm, se_sign = Some TLS12_ECDSA_SCHEMES, se_confidentiality_limit = u64_MAX \<rparr>"

definition TLS_ECDHE_ECDSA_WITH_AES_256_GCM_SHA384 :: supported_suite where
  "TLS_ECDHE_ECDSA_WITH_AES_256_GCM_SHA384 =
     \<lparr> se_suite = RS_TLS_ECDHE_ECDSA_WITH_AES_256_GCM_SHA384, se_hash_provider = Sha384, se_kdf_hash = Sha384,
       se_aead_alg = Tls12Aes256Gcm, se_sign = Some TLS12_ECDSA_SCHEMES, se_confidentiality_limit = u64_MAX \<rparr>"

definition TLS_ECDHE_ECDSA_WITH_CHACHA20_POLY1305_SHA256 :: supported_suite where
  "TLS_ECDHE_ECDSA_WITH_CHACHA20_POLY1305_SHA256 =
     \<lparr> se_suite = RS_TLS_ECDHE_ECDSA_WITH_CHACHA20_POLY1305_SHA256, se_hash_provider = Sha256, se_kdf_hash = Sha256,
       se_aead_alg = Chacha20Poly1305, se_sign = Some TLS12_ECDSA_SCHEMES, se_confidentiality_limit = u64_MAX \<rparr>"

definition TLS_ECDHE_ECDSA_SUITES :: "supported_suite list" where
  "TLS_ECDHE_ECDSA_SUITES =
     [TLS_ECDHE_ECDSA_WITH_AES_128_GCM_SHA256, TLS_ECDHE_ECDSA_WITH_AES_256_GCM_SHA384,
      TLS_ECDHE_ECDSA_WITH_CHACHA20_POLY1305_SHA256]"

definition TLS_ECDHE_RSA_WITH_AES_128_GCM_SHA256 :: supported_suite where
  "TLS_ECDHE_RSA_WITH_AES_128_GCM_SHA256 =
     \<lparr> se_suite = RS_TLS_ECDHE_RSA_WITH_AES_128_GCM_SHA256, se_hash_provider = Sha256, se_kdf_hash = Sha256,
       se_aead_alg = Tls12Aes128Gcm, se_sign = Some TLS12_RSA_SCHEMES, se_confidentiality_limit = u64_MAX \<rparr>"

definition TLS_ECDHE_RSA_WITH_AES_256_GCM_SHA384 :: supported_suite where
  "TLS_ECDHE_RSA_WITH_AES_256_GCM_SHA384 =
     \<lparr> se_suite = RS_TLS_ECDHE_RSA_WITH_AES_256_GCM_SHA384, se_hash_provider = Sha384, se_kdf_hash = Sha384,
       se_aead_alg = Tls12Aes256Gcm, se_sign = Some TLS12_RSA_SCHEMES, se_confidentiality_limit = u64_MAX \<rparr>"

definition TLS_ECDHE_RSA_WITH_CHACHA20_POLY1305_SHA256 :: supported_suite where
  "TLS_ECDHE_RSA_WITH_CHACHA20_POLY1305_SHA256 =
     \<lparr> se_suite = RS_TLS_ECDHE_RSA_WITH_CHACHA20_POLY1305_SHA256, se_hash_provider = Sha256, se_kdf_hash = Sha256,
       se_aead_alg = Chacha20Poly1305, se_sign = Some TLS12_RSA_SCHEMES, se_confidentiality_limit = u64_MAX \<rparr>"

definition TLS_ECDHE_RSA_SUITES :: "supported_suite list" where
  "TLS_ECDHE_RSA_SUITES =
     [TLS_ECDHE_RSA_WITH_AES_128_GCM_SHA256, TLS_ECDHE_RSA_WITH_AES_256_GCM_SHA384,
      TLS_ECDHE_RSA_WITH_CHACHA20_POLY1305_SHA256]"

definition TLS13_AES_128_GCM_SHA256 :: supported_suite where
  "TLS13_AES_128_GCM_SHA256 =
     \<lparr> se_suite = RS_TLS13_AES_128_GCM_SHA256, se_hash_provider = Sha256, se_kdf_hash = Sha256,
       se_aead_alg = Tls13Aes128Gcm, se_sign = None, se_confidentiality_limit = u64_MAX \<rparr>"

definition TLS13_AES_256_GCM_SHA384 :: supported_suite where
  "TLS13_AES_256_GCM_SHA384 =
     \<lparr> se_suite = RS_TLS13_AES_256_GCM_SHA384, se_hash_provider = Sha384, se_kdf_hash = Sha384,
       se_aead_alg = Tls13Aes256Gcm, se_sign = None, se_confidentiality_limit = u64_MAX \<rparr>"

definition TLS13_AES_SUITES :: "supported_suite list" where
  "TLS13_AES_SUITES = [TLS13_AES_128_GCM_SHA256, TLS13_AES_256_GCM_SHA384]"

definition TLS13_CHACHA20_POLY1305_SHA256 :: supported_suite where
  "TLS13_CHACHA20_POLY1305_SHA256 =
     \<lparr> se_suite = RS_TLS13_CHACHA20_POLY1305_SHA256, se_hash_provider = Sha256, se_kdf_hash = Sha256,
       se_aead_alg = Chacha20Poly1305, se_sign = None, se_confidentiality_limit = u64_MAX \<rparr>"

text \<open>\<open>const_concat_slices!\<close>: an array filled with its first element and overwritten by two loops.\<close>

function copy_loop :: "'a list \<Rightarrow> 'a list \<Rightarrow> nat \<Rightarrow> nat \<Rightarrow> 'a list" where
  "copy_loop out xs off i =
     (if i < length xs then copy_loop (out[i + off := xs ! i]) xs off (i + 1) else out)"
  by pat_completeness auto
termination by (relation "measure (\<lambda>(out, xs, off, i). length xs - i)") auto

declare copy_loop.simps [simp del]

definition const_concat_slices :: "'a list \<Rightarrow> 'a list \<Rightarrow> 'a list" where
  "const_concat_slices a b =
     (let len = length a + length b;
          out = (if len = 0 then []
                 else if length a = 0 then replicate len (b ! 0)
                 else replicate len (a ! 0));
          out = copy_loop out a 0 0 in
      copy_loop out b (length a) 0)"

definition TLS12_SUITES :: "bool \<Rightarrow> supported_suite list" where
  "TLS12_SUITES feature_tls12 =
     (if feature_tls12 then const_concat_slices TLS_ECDHE_ECDSA_SUITES TLS_ECDHE_RSA_SUITES else [])"

definition TLS13_SUITES :: "supported_suite list" where
  "TLS13_SUITES = const_concat_slices TLS13_AES_SUITES [TLS13_CHACHA20_POLY1305_SHA256]"

definition ALL_CIPHER_SUITES :: "bool \<Rightarrow> supported_suite list" where
  "ALL_CIPHER_SUITES feature_tls12 =
     const_concat_slices (if feature_tls12 then TLS12_SUITES feature_tls12 else []) TLS13_SUITES"

record provider_config =
  pv_cipher_suites :: "supported_suite list"
  pv_kx_groups :: "kx_group list"
  pv_all_algorithms :: "verification_algorithm list"
  pv_mapping :: "(signature_scheme \<times> verification_algorithm list) list"

definition provider :: "bool \<Rightarrow> provider_config" where
  "provider feature_tls12 =
     \<lparr> pv_cipher_suites = ALL_CIPHER_SUITES feature_tls12, pv_kx_groups = ALL_KX_GROUPS,
       pv_all_algorithms = ALGORITHMS_all, pv_mapping = ALGORITHMS_mapping \<rparr>"

text \<open>\<open>SecureRandom::fill\<close>: the bytes of the system generator, or \<open>GetRandomFailed\<close>.\<close>

definition provider_fill :: "draws \<Rightarrow> (bytes, unit) result" where
  "provider_fill rnd = rmap_err (\<lambda>_. ()) (rnd 0)"

section \<open>Key exchange\<close>

definition kx_crates_ok :: "provider_lib \<Rightarrow> bool" where
  "kx_crates_ok L \<longleftrightarrow>
     (\<forall>a b. x25519_diffie_hellman L a (x25519_public L b) = x25519_diffie_hellman L b (x25519_public L a)) \<and>
     (\<forall>a. length (x25519_public L a) = 32) \<and>
     (\<forall>c a. ecdh_from_sec1 L c (ecdh_public_sec1 L c a) \<noteq> None) \<and>
     (\<forall>c a b pa pb. ecdh_from_sec1 L c (ecdh_public_sec1 L c a) = Some pa \<longrightarrow>
        ecdh_from_sec1 L c (ecdh_public_sec1 L c b) = Some pb \<longrightarrow>
        ecdh_diffie_hellman L c a pb = ecdh_diffie_hellman L c b pa)"

lemma ec_agrees:
  assumes "kx_crates_ok L" "ec_start c L r = Ok a" "ec_start c L s = Ok b"
  shows "\<exists>z. ec_complete c L a (kx_pub_key b) = Ok z \<and> ec_complete c L b (kx_pub_key a) = Ok z"
proof -
  have a: "kx_pub_key a = ecdh_public_sec1 L c (kx_priv_key a)" and b: "kx_pub_key b = ecdh_public_sec1 L c (kx_priv_key b)"
    using assms(2,3) by (auto simp: ec_start_def Let_def)
  have "ecdh_from_sec1 L c (kx_pub_key a) \<noteq> None" "ecdh_from_sec1 L c (kx_pub_key b) \<noteq> None"
    using assms(1) by (auto simp: a b kx_crates_ok_def)
  then obtain pa pb where p: "ecdh_from_sec1 L c (kx_pub_key a) = Some pa" "ecdh_from_sec1 L c (kx_pub_key b) = Some pb"
    by blast
  then have "ecdh_diffie_hellman L c (kx_priv_key a) pb = ecdh_diffie_hellman L c (kx_priv_key b) pa"
    using assms(1) unfolding a b kx_crates_ok_def by blast
  with p show ?thesis by (simp add: ec_complete_def)
qed

lemma kx_groups_agree:
  assumes "kx_crates_ok L" "G \<in> set ALL_KX_GROUPS" "kx_start G L r = Ok a" "kx_start G L s = Ok b"
  shows "\<exists>z. kx_complete G L a (kx_pub_key b) = Ok z \<and> kx_complete G L b (kx_pub_key a) = Ok z"
  using assms ec_agrees [OF assms(1)]
  by (auto simp: ALL_KX_GROUPS_def SecP256R1_def SecP384R1_def X25519_group_def x25519_start_def x25519_complete_def
      kx_crates_ok_def Let_def)

text \<open>X25519 refuses a share only for its length: a share that forces the shared secret to be all zero is accepted.\<close>

lemma x25519_accepts_zero:
  "length p = 32 \<Longrightarrow> x25519_diffie_hellman L (kx_priv_key x) p = replicate 32 0 \<Longrightarrow>
     x25519_complete L x p = Ok (replicate 32 0)"
  by (simp add: x25519_complete_def)

section \<open>Hashes\<close>

definition hash_crates_ok :: "provider_lib \<Rightarrow> bool" where
  "hash_crates_ok L \<longleftrightarrow>
     (\<forall>h d. digest_of L h d = hasher_finalize L h (hasher_update L h (hasher_new L h) d)) \<and>
     (\<forall>h c a b. hasher_update L h (hasher_update L h c a) b = hasher_update L h c (a @ b)) \<and>
     (\<forall>h c. hasher_update L h c [] = c) \<and>
     (\<forall>h c a b. mac_update L h (mac_update L h c a) b = mac_update L h c (a @ b)) \<and>
     (\<forall>h c. mac_update L h c [] = c)"

lemma fold_hash_update:
  "hash_crates_ok L \<Longrightarrow> fold (\<lambda>d c. hash_update L h c d) ds c = hasher_update L h c (concat ds)"
  by (induction ds arbitrary: c) (auto simp: hash_crates_ok_def hash_update_def)

lemma mac_update_all_concat: "hash_crates_ok L \<Longrightarrow> mac_update_all L h c ms = mac_update L h c (concat ms)"
  by (induction ms arbitrary: c) (auto simp: hash_crates_ok_def)

text \<open>A transcript hash fed piece by piece equals the hash of the whole, also at every fork on the way, and the HMAC of
  pieces is the HMAC of their concatenation.\<close>

theorem transcript_hash:
  assumes "hash_crates_ok L"
  shows "hash_finish L h (fold (\<lambda>d c. hash_update L h c d) (ds @ es) (hash_start L h)) = hash_hash L h (concat (ds @ es)) \<and>
    (let ctx = fold (\<lambda>d c. hash_update L h c d) ds (hash_start L h) in
      hash_fork_finish L h ctx = hash_hash L h (concat ds) \<and>
      hash_finish L h (fold (\<lambda>d c. hash_update L h c d) fs (hash_fork ctx)) = hash_hash L h (concat (ds @ fs))) \<and>
    hmac_sign_concat L h k x ms y = mac_finalize L h (mac_update L h k (x @ concat ms @ y))"
  using assms
  by (auto simp: fold_hash_update mac_update_all_concat hash_finish_def hash_fork_finish_def hash_hash_def hash_start_def
      hash_fork_def hmac_sign_concat_def Let_def hash_crates_ok_def)

section \<open>Signatures\<close>

fun curve_hash :: "curve \<Rightarrow> hash_name" where
  "curve_hash P256 = Sha256"
| "curve_hash P384 = Sha384"

text \<open>What a key of a crate signs verifies under its public key \<open>PK k\<close>, in the encoding of a certificate; ECDSA keys sign the
  digest that belongs to their curve.\<close>

definition sign_crates_ok :: "provider_lib \<Rightarrow> (provider_key \<Rightarrow> bytes) \<Rightarrow> bool" where
  "sign_crates_ok L PK \<longleftrightarrow>
     (\<forall>k p h m s. rsa_sign L p h k m = Some s \<longrightarrow>
        (\<exists>pk sg. rsa_public_from_pkcs1 L (PK (RsaSigningKey k)) = Some pk \<and> rsa_signature_from L p s = Some sg \<and>
           rsa_verify L p h pk m sg)) \<and>
     (\<forall>c k m s. ecdsa_sign_der L c k m = Some s \<longrightarrow>
        (\<exists>vk sg. ecdsa_verifying_from_sec1 L c (PK (EcdsaSigningKey c k)) = Some vk \<and> ecdsa_sig_from_der L c s = Some sg \<and>
           ecdsa_verify_prehash L c vk (digest_of L (curve_hash c) m) sg)) \<and>
     (\<forall>k m s. ed25519_try_sign L k m = Some s \<longrightarrow>
        length (PK (Ed25519SigningKey k)) = 32 \<and>
        (\<exists>vk sg. ed25519_verifying_from L (PK (Ed25519SigningKey k)) = Some vk \<and> ed25519_signature_from L s = Some sg \<and>
           ed25519_verify L vk m sg))"

fun key_schemes :: "provider_key \<Rightarrow> signature_scheme list" where
  "key_schemes (RsaSigningKey _) = ALL_RSA_SCHEMES"
| "key_schemes (EcdsaSigningKey c _) = [ecdsa_scheme c]"
| "key_schemes (Ed25519SigningKey _) = [ED25519]"

lemma rsa_schemes_parts: "s \<in> set ALL_RSA_SCHEMES \<Longrightarrow> \<exists>p h. rsa_scheme_parts s = Some (p, h)"
  by (auto simp: ALL_RSA_SCHEMES_def)

lemma rsa_mapping:
  "rsa_scheme_parts s = Some (p, h) \<Longrightarrow> map_of ALGORITHMS_mapping s = Some [rsa_verifier p h]"
  by (cases s) (auto simp: ALGORITHMS_mapping_def)

lemma ecdsa_mapping: "\<exists>va. map_of ALGORITHMS_mapping (ecdsa_scheme c) = Some [ecdsa_verifier c (curve_hash c), va]"
  by (cases c) (auto simp: ALGORITHMS_mapping_def)

lemma chosen_scheme: "map_option ps_scheme (provider_choose_scheme L k offered) = first_offered (key_schemes k) offered"
proof (cases k)
  case (RsaSigningKey key)
  show ?thesis
  proof (cases "find (\<lambda>s. s \<in> set offered) ALL_RSA_SCHEMES")
    case (Some s)
    then have "s \<in> set ALL_RSA_SCHEMES" by (blast dest: find_Some_iff_in)
    then obtain p h where "rsa_scheme_parts s = Some (p, h)" using rsa_schemes_parts by blast
    with Some RsaSigningKey show ?thesis by (simp add: rsa_choose_scheme_def first_offered_def)
  qed (simp add: RsaSigningKey rsa_choose_scheme_def first_offered_def)
qed (auto simp: ecdsa_choose_scheme_def ed25519_choose_scheme_def first_offered_def)

text \<open>C30: A key signs under the first of its schemes that the peer offers, and under none exactly when they have none in
  common; every signature it makes is accepted by the first verification algorithm that the provider maps to that
  scheme, under the key's own public key.\<close>

theorem provider_signature_verifies:
  assumes "sign_crates_ok L PK"
  shows "map_option ps_scheme (provider_choose_scheme L k offered) = first_offered (key_schemes k) offered \<and>
    (\<forall>sg m s. provider_choose_scheme L k offered = Some sg \<and> provider_sign sg m = Ok s \<longrightarrow>
       (\<exists>va vas. map_of ALGORITHMS_mapping (ps_scheme sg) = Some (va # vas) \<and>
          va_verify_signature va L (PK k) m s = Ok ()))"
proof (intro conjI allI impI)
  fix sg m s assume *: "provider_choose_scheme L k offered = Some sg \<and> provider_sign sg m = Ok s"
  then have sign: "ps_try_sign sg m = Some s" by (simp add: provider_sign_def result_simps)
  show "\<exists>va vas. map_of ALGORITHMS_mapping (ps_scheme sg) = Some (va # vas) \<and>
    va_verify_signature va L (PK k) m s = Ok ()"
  proof (cases k)
    case (RsaSigningKey key)
    with * obtain p h where p: "rsa_scheme_parts (ps_scheme sg) = Some (p, h)" "ps_try_sign sg = rsa_sign L p h key"
      by (auto simp: rsa_choose_scheme_def bind_eq_Some_conv)
    with sign assms RsaSigningKey rsa_mapping [OF p(1)] show ?thesis
      by (fastforce simp: sign_crates_ok_def rsa_verifier_def rsa_verify_signature_def)
  next
    case (EcdsaSigningKey c key)
    with * have e: "ps_scheme sg = ecdsa_scheme c" "ps_try_sign sg = ecdsa_sign_der L c key"
      by (auto simp: ecdsa_choose_scheme_def split: if_splits)
    with sign assms EcdsaSigningKey ecdsa_mapping [of c] show ?thesis
      by (fastforce simp: sign_crates_ok_def ecdsa_verifier_def ecdsa_verify_signature_def Let_def)
  next
    case (Ed25519SigningKey key)
    with * have "ps_scheme sg = ED25519" "ps_try_sign sg = ed25519_try_sign L key"
      by (auto simp: ed25519_choose_scheme_def split: if_splits)
    with sign assms Ed25519SigningKey show ?thesis
      by (fastforce simp: sign_crates_ok_def ed25519_verifier_def ed25519_verify_signature_def ALGORITHMS_mapping_def)
  qed
qed (rule chosen_scheme)

section \<open>The tables\<close>

lemma length_copy_loop [simp]: "length (copy_loop out xs off i) = length out"
proof (induction out xs off i rule: copy_loop.induct)
  case (1 out xs off i)
  then show ?case by (cases "i < length xs") (simp_all add: copy_loop.simps [of out])
qed

lemma nth_copy_loop:
  "off + length xs \<le> length out \<Longrightarrow> j < length out \<Longrightarrow>
   copy_loop out xs off i ! j = (if off + i \<le> j \<and> j < off + length xs then xs ! (j - off) else out ! j)"
proof (induction out xs off i rule: copy_loop.induct)
  case (1 out xs off i)
  show ?case
  proof (cases "i < length xs")
    case True
    with 1 show ?thesis
      by (auto simp: copy_loop.simps [of out] nth_list_update add.commute le_less_Suc_eq)
  next
    case False
    then show ?thesis by (auto simp: copy_loop.simps [of out])
  qed
qed

lemma concat_slices: "const_concat_slices a b = a @ b"
proof -
  define out where "out = (if length a + length b = 0 then []
    else if length a = 0 then replicate (length a + length b) (b ! 0) else replicate (length a + length b) (a ! 0))"
  have len: "length out = length a + length b" by (auto simp: out_def)
  have "const_concat_slices a b = copy_loop (copy_loop out a 0 0) b (length a) 0"
    by (simp add: const_concat_slices_def out_def Let_def)
  also have "\<dots> = a @ b"
    by (rule nth_equalityI) (auto simp: len nth_copy_loop nth_append)
  finally show ?thesis .
qed

text \<open>The parts that the name of a suite fixes (RFC 8446, RFC 5288, RFC 5289, RFC 7905): its hash, its cipher and the kind of key.\<close>

datatype suite_cipher = Aes128 | Aes256 | Chacha

fun suite_parts :: "cipher_suite \<Rightarrow> (hash_name \<times> suite_cipher \<times> signature_algorithm option) option" where
  "suite_parts Tls13Aes128GcmSha256 = Some (Sha256, Aes128, None)"
| "suite_parts Tls13Aes256GcmSha384 = Some (Sha384, Aes256, None)"
| "suite_parts Tls13Chacha20Poly1305Sha256 = Some (Sha256, Chacha, None)"
| "suite_parts Tls12EcdheEcdsaAes128GcmSha256 = Some (Sha256, Aes128, Some ECDSA)"
| "suite_parts Tls12EcdheEcdsaAes256GcmSha384 = Some (Sha384, Aes256, Some ECDSA)"
| "suite_parts Tls12EcdheEcdsaChacha20Poly1305Sha256 = Some (Sha256, Chacha, Some ECDSA)"
| "suite_parts Tls12EcdheRsaAes128GcmSha256 = Some (Sha256, Aes128, Some RSA)"
| "suite_parts Tls12EcdheRsaAes256GcmSha384 = Some (Sha384, Aes256, Some RSA)"
| "suite_parts Tls12EcdheRsaChacha20Poly1305Sha256 = Some (Sha256, Chacha, Some RSA)"
| "suite_parts _ = None"

fun aead_cipher :: "suite_aead \<Rightarrow> suite_cipher" where
  "aead_cipher Tls12Aes128Gcm = Aes128"
| "aead_cipher Tls12Aes256Gcm = Aes256"
| "aead_cipher Tls13Aes128Gcm = Aes128"
| "aead_cipher Tls13Aes256Gcm = Aes256"
| "aead_cipher Chacha20Poly1305 = Chacha"

fun is_rsa_scheme :: "signature_scheme \<Rightarrow> bool" where
  "is_rsa_scheme s = (rsa_scheme_parts s \<noteq> None)"

definition suite_consistent :: "supported_suite \<Rightarrow> bool" where
  "suite_consistent s \<longleftrightarrow>
     (case Option.bind (map_cipher_suite (se_suite s)) suite_parts of
        None \<Rightarrow> False
      | Some (h, c, alg) \<Rightarrow>
          se_hash_provider s = h \<and> se_kdf_hash s = h \<and> aead_cipher (se_aead_alg s) = c \<and>
          (case (alg, se_sign s) of
             (None, None) \<Rightarrow> True
           | (Some a, Some schemes) \<Rightarrow> list_all (\<lambda>x. is_rsa_scheme x \<longleftrightarrow> a = RSA) schemes
           | _ \<Rightarrow> False))"

lemmas suite_defs =
  TLS_ECDHE_ECDSA_WITH_AES_128_GCM_SHA256_def TLS_ECDHE_ECDSA_WITH_AES_256_GCM_SHA384_def
  TLS_ECDHE_ECDSA_WITH_CHACHA20_POLY1305_SHA256_def TLS_ECDHE_RSA_WITH_AES_128_GCM_SHA256_def
  TLS_ECDHE_RSA_WITH_AES_256_GCM_SHA384_def TLS_ECDHE_RSA_WITH_CHACHA20_POLY1305_SHA256_def
  TLS13_AES_128_GCM_SHA256_def TLS13_AES_256_GCM_SHA384_def TLS13_CHACHA20_POLY1305_SHA256_def

lemma all_suites:
  "ALL_CIPHER_SUITES f = (if f then TLS_ECDHE_ECDSA_SUITES @ TLS_ECDHE_RSA_SUITES else []) @ TLS13_AES_SUITES @
     [TLS13_CHACHA20_POLY1305_SHA256]"
  by (simp add: ALL_CIPHER_SUITES_def TLS12_SUITES_def TLS13_SUITES_def concat_slices)

text \<open>The compile-time concatenation of slices is concatenation. The provider's suites are pairwise different, each has the
  hash, key derivation, cipher and kind of signature its name says, and the verification algorithms are those of
  the mapping; but every suite, AES-GCM ones included, lets one key protect the maximal number of records.\<close>

theorem provider_tables:
  "const_concat_slices a b = a @ b \<and>
   distinct (map se_suite (pv_cipher_suites (provider f))) \<and>
   list_all suite_consistent (pv_cipher_suites (provider f)) \<and>
   set (pv_all_algorithms (provider f)) = (\<Union>(_, vas) \<in> set (pv_mapping (provider f)). set vas) \<and>
   list_all (\<lambda>s. se_confidentiality_limit s = u64_MAX) (pv_cipher_suites (provider f))"
proof (intro conjI)
  show "const_concat_slices a b = a @ b" by (rule concat_slices)
  show "distinct (map se_suite (pv_cipher_suites (provider f)))"
    by (cases f) (simp_all add: provider_def all_suites TLS_ECDHE_ECDSA_SUITES_def TLS_ECDHE_RSA_SUITES_def TLS13_AES_SUITES_def suite_defs)
  show "list_all suite_consistent (pv_cipher_suites (provider f))"
    by (simp add: provider_def all_suites TLS_ECDHE_ECDSA_SUITES_def TLS_ECDHE_RSA_SUITES_def TLS13_AES_SUITES_def suite_defs
        suite_consistent_def TLS12_ECDSA_SCHEMES_def TLS12_RSA_SCHEMES_def)
  show "set (pv_all_algorithms (provider f)) = (\<Union>(_, vas) \<in> set (pv_mapping (provider f)). set vas)"
    by (auto simp: provider_def ALGORITHMS_all_def ALGORITHMS_mapping_def)
  show "list_all (\<lambda>s. se_confidentiality_limit s = u64_MAX) (pv_cipher_suites (provider f))"
    by (simp add: provider_def all_suites TLS_ECDHE_ECDSA_SUITES_def TLS_ECDHE_RSA_SUITES_def TLS13_AES_SUITES_def suite_defs)
qed

section \<open>A concrete library\<close>

text \<open>Keys are their public keys, shared secrets byte-wise sums, hash states the bytes read so far and signatures the
  signed digest.\<close>

definition sum_bytes :: "bytes \<Rightarrow> bytes \<Rightarrow> bytes" where
  "sum_bytes xs ys = map2 (+) xs ys"

definition example_provider_lib :: provider_lib where
  "example_provider_lib =
     \<lparr> x25519_random = (\<lambda>r. replicate 32 1), x25519_public = (\<lambda>k. take 32 (k @ replicate 32 0)),
       x25519_diffie_hellman = (\<lambda>a b. replicate 32 0),
       ecdh_random = (\<lambda>c r. [2]), ecdh_public_sec1 = (\<lambda>c k. k), ecdh_from_sec1 = (\<lambda>c p. Some p),
       ecdh_diffie_hellman = (\<lambda>c a b. sum_bytes a b),
       hasher_new = (\<lambda>h. []), hasher_update = (\<lambda>h c d. c @ d), hasher_finalize = (\<lambda>h c. c), digest_of = (\<lambda>h d. d),
       mac_new = (\<lambda>h k. Some k), mac_update = (\<lambda>h c d. c @ d), mac_finalize = (\<lambda>h c. c),
       rsa_key_from_pkcs8 = (\<lambda>d. Err ''no''), rsa_key_from_pkcs1 = (\<lambda>d. Ok d), rsa_sign = (\<lambda>p h k m. Some (k @ m)),
       rsa_public_from_pkcs1 = Some, rsa_signature_from = (\<lambda>p s. Some s), rsa_verify = (\<lambda>p h k m s. s = k @ m),
       ecdsa_key_from_pkcs8 = (\<lambda>c d. Ok d), ecdsa_key_from_sec1 = (\<lambda>c d. Ok d), ecdsa_sign_der = (\<lambda>c k m. Some (k @ m)),
       ecdsa_sig_from_der = (\<lambda>c s. Some s), ecdsa_verifying_from_sec1 = (\<lambda>c k. Some k),
       ecdsa_verify_prehash = (\<lambda>c k d s. s = k @ d),
       ed25519_key_from_pkcs8 = (\<lambda>d. Ok d), ed25519_key_from_sec1 = (\<lambda>d. Ok d),
       ed25519_try_sign = (\<lambda>k m. if length k = 32 then Some (k @ m) else None),
       ed25519_signature_from = Some, ed25519_verifying_from = Some, ed25519_verify = (\<lambda>k m s. s = k @ m) \<rparr>"

fun example_public :: "provider_key \<Rightarrow> bytes" where
  "example_public (RsaSigningKey k) = k"
| "example_public (EcdsaSigningKey c k) = k"
| "example_public (Ed25519SigningKey k) = k"

lemma example_provider_ok:
  "kx_crates_ok example_provider_lib" "hash_crates_ok example_provider_lib"
  "sign_crates_ok example_provider_lib example_public"
proof -
  have "sum_bytes a b = sum_bytes b a" for a b
    unfolding sum_bytes_def by (subst zip_commute) (simp add: case_prod_unfold add.commute)
  then show "kx_crates_ok example_provider_lib"
    by (auto simp: kx_crates_ok_def example_provider_lib_def min_def)
qed (auto simp: hash_crates_ok_def sign_crates_ok_def example_provider_lib_def split: if_splits)

theorem transcript_hash_witness:
  "hash_finish example_provider_lib Sha256
     (fold (\<lambda>d c. hash_update example_provider_lib Sha256 c d) ([[1]] @ [[2], [3]]) (hash_start example_provider_lib Sha256)) =
   hash_hash example_provider_lib Sha256 [1, 2, 3]"
  using transcript_hash [OF example_provider_ok(2), of Sha256 "[[1]]" "[[2], [3]]"] by simp

theorem provider_signature_verifies_witness:
  "\<exists>va vas. map_of ALGORITHMS_mapping ECDSA_NISTP384_SHA384 = Some (va # vas) \<and>
     va_verify_signature va example_provider_lib [4] [5] [4, 5] = Ok ()"
proof -
  define sg where "sg = \<lparr> ps_scheme = ECDSA_NISTP384_SHA384, ps_try_sign = (\<lambda>m :: bytes. Some ([4] @ m)) \<rparr>"
  have "provider_choose_scheme example_provider_lib (EcdsaSigningKey P384 [4]) [ECDSA_NISTP384_SHA384] = Some sg"
    "provider_sign sg [5] = Ok [4, 5]"
    by (simp_all add: ecdsa_choose_scheme_def example_provider_lib_def sg_def provider_sign_def)
  with provider_signature_verifies
    [OF example_provider_ok(3), of "EcdsaSigningKey P384 [4]" "[ECDSA_NISTP384_SHA384]"]
  show ?thesis by (fastforce simp: sg_def)
qed

end
