(* ===== verification/Hybrid_Kx.thy ===== *)
theory Hybrid_Kx
  imports Crypto_Provider
begin

text \<open>
  The post-quantum hybrid key exchange X25519MLKEM768 (\<open>kx.rs\<close> of \<open>oxitls-adapter-rustls-rustcrypto\<close>). ML-KEM-768 is the
  crate \<open>ml_kem\<close>: its functions and those of X25519 are the record \<open>hybrid_lib\<close>, \<open>hybrid_crates_ok\<close> what they promise.
  The \<open>debug_assert\<close>s on lengths are theorems here.
\<close>

section \<open>Model\<close>

text \<open>Encapsulation keys and decapsulation keys are represented by bytes chosen by the crate; \<open>mlkem_generate\<close> and
  \<open>mlkem_encapsulate\<close> draw their own randomness.\<close>

record hybrid_lib =
  hl_x25519 :: provider_lib
  mlkem_generate :: "draws \<Rightarrow> bytes \<times> bytes"
  mlkem_ek_to_bytes :: "bytes \<Rightarrow> bytes"
  mlkem_ek_new :: "bytes \<Rightarrow> bytes option"
  mlkem_encapsulate :: "draws \<Rightarrow> bytes \<Rightarrow> bytes \<times> bytes"
  mlkem_decapsulate :: "bytes \<Rightarrow> bytes \<Rightarrow> bytes option"

definition MLKEM768_ENCAP_KEY_LEN :: nat where
  "MLKEM768_ENCAP_KEY_LEN = 1184"

definition MLKEM768_CIPHERTEXT_LEN :: nat where
  "MLKEM768_CIPHERTEXT_LEN = 1088"

definition X25519_PUB_LEN :: nat where
  "X25519_PUB_LEN = 32"

definition CLIENT_SHARE_LEN :: nat where
  "CLIENT_SHARE_LEN = MLKEM768_ENCAP_KEY_LEN + X25519_PUB_LEN"

definition SERVER_SHARE_LEN :: nat where
  "SERVER_SHARE_LEN = MLKEM768_CIPHERTEXT_LEN + X25519_PUB_LEN"

record active_hybrid =
  ah_dk :: bytes
  ah_x25519_priv :: bytes
  ah_combined_pub :: bytes

text \<open>\<open>start\<close>, from the randomness of the KEM and of X25519.\<close>

definition hybrid_start :: "hybrid_lib \<Rightarrow> draws \<Rightarrow> draws \<Rightarrow> (active_hybrid, rustls_error) result" where
  "hybrid_start L kem_rnd rnd =
     (let (dk, ek) = mlkem_generate L kem_rnd;
          ek_bytes = mlkem_ek_to_bytes L ek;
          x25519_priv = x25519_random (hl_x25519 L) rnd;
          x25519_pub = x25519_public (hl_x25519 L) x25519_priv in
      Ok \<lparr> ah_dk = dk, ah_x25519_priv = x25519_priv, ah_combined_pub = ek_bytes @ x25519_pub \<rparr>)"

text \<open>\<open>start_and_complete\<close>: the server's share and the secret.\<close>

definition hybrid_start_and_complete ::
    "hybrid_lib \<Rightarrow> draws \<Rightarrow> draws \<Rightarrow> bytes \<Rightarrow> (bytes \<times> bytes, rustls_error) result" where
  "hybrid_start_and_complete L kem_rnd rnd peer_pub_key =
     (if length peer_pub_key \<noteq> CLIENT_SHARE_LEN then Err invalid_key_share
      else
        let peer_ek_bytes = take MLKEM768_ENCAP_KEY_LEN peer_pub_key;
            peer_x25519_bytes = drop MLKEM768_ENCAP_KEY_LEN peer_pub_key in
        if length peer_ek_bytes \<noteq> MLKEM768_ENCAP_KEY_LEN then Err invalid_key_share
        else
          rbind (ok_or (mlkem_ek_new L peer_ek_bytes) invalid_key_share) (\<lambda>peer_ek.
          let (ct, mlkem_ss) = mlkem_encapsulate L kem_rnd peer_ek;
              x25519_priv = x25519_random (hl_x25519 L) rnd;
              x25519_pub = x25519_public (hl_x25519 L) x25519_priv in
          if length peer_x25519_bytes \<noteq> X25519_PUB_LEN then Err invalid_key_share
          else
            let x25519_ss = x25519_diffie_hellman (hl_x25519 L) x25519_priv peer_x25519_bytes in
            Ok (ct @ x25519_pub, mlkem_ss @ x25519_ss)))"

definition hybrid_complete :: "hybrid_lib \<Rightarrow> active_hybrid \<Rightarrow> bytes \<Rightarrow> (bytes, rustls_error) result" where
  "hybrid_complete L a peer_pub_key =
     (if length peer_pub_key \<noteq> SERVER_SHARE_LEN then Err invalid_key_share
      else
        let ct_bytes = take MLKEM768_CIPHERTEXT_LEN peer_pub_key;
            peer_x25519_bytes = drop MLKEM768_CIPHERTEXT_LEN peer_pub_key in
        rbind (ok_or (mlkem_decapsulate L (ah_dk a) ct_bytes) invalid_key_share) (\<lambda>mlkem_ss.
        if length peer_x25519_bytes \<noteq> X25519_PUB_LEN then Err invalid_key_share
        else
          let x25519_ss = x25519_diffie_hellman (hl_x25519 L) (ah_x25519_priv a) peer_x25519_bytes in
          Ok (mlkem_ss @ x25519_ss)))"

definition hybrid_component :: "active_hybrid \<Rightarrow> (named_group \<times> bytes) option" where
  "hybrid_component a = Some (X25519, drop MLKEM768_ENCAP_KEY_LEN (ah_combined_pub a))"

definition complete_hybrid_component :: "hybrid_lib \<Rightarrow> active_hybrid \<Rightarrow> bytes \<Rightarrow> (bytes, rustls_error) result" where
  "complete_hybrid_component L a peer_pub_key =
     (if length peer_pub_key \<noteq> X25519_PUB_LEN then Err invalid_key_share
      else Ok (x25519_diffie_hellman (hl_x25519 L) (ah_x25519_priv a) peer_pub_key))"

definition usable_for_version :: "rustls_version \<Rightarrow> bool" where
  "usable_for_version version \<longleftrightarrow> version = TLSv1_3"

section \<open>Agreement\<close>

definition hybrid_crates_ok :: "hybrid_lib \<Rightarrow> bool" where
  "hybrid_crates_ok L \<longleftrightarrow> kx_crates_ok (hl_x25519 L) \<and>
     (\<forall>a p. length (x25519_diffie_hellman (hl_x25519 L) a p) = 32) \<and>
     (\<forall>r dk ek. mlkem_generate L r = (dk, ek) \<longrightarrow>
        length (mlkem_ek_to_bytes L ek) = 1184 \<and> mlkem_ek_new L (mlkem_ek_to_bytes L ek) = Some ek \<and>
        (\<forall>s ct ss. mlkem_encapsulate L s ek = (ct, ss) \<longrightarrow>
           length ct = 1088 \<and> length ss = 32 \<and> mlkem_decapsulate L dk ct = Some ss))"

lemmas hybrid_lengths = CLIENT_SHARE_LEN_def SERVER_SHARE_LEN_def MLKEM768_ENCAP_KEY_LEN_def
  MLKEM768_CIPHERTEXT_LEN_def X25519_PUB_LEN_def

lemma hybrid_start_parts:
  assumes "hybrid_crates_ok L" "hybrid_start L kr r = Ok a"
  obtains ek where "mlkem_generate L kr = (ah_dk a, ek)"
    "ah_combined_pub a = mlkem_ek_to_bytes L ek @ x25519_public (hl_x25519 L) (ah_x25519_priv a)"
    "length (mlkem_ek_to_bytes L ek) = 1184"
    "length (x25519_public (hl_x25519 L) (ah_x25519_priv a)) = 32"
  using assms by (cases "mlkem_generate L kr") (auto simp: hybrid_start_def hybrid_crates_ok_def kx_crates_ok_def Let_def)

text \<open>C31: A hybrid exchange between a client and a server gives both the same 64-byte secret, the ML-KEM secret before the
  X25519 secret, with shares of 1216 and 1120 bytes; shares of other lengths are refused. When the server picks
  plain X25519, the classical component of the client's share completes to the secret of that group.\<close>

theorem hybrid_exchange:
  assumes "hybrid_crates_ok L" "hybrid_start L kr r = Ok a"
  shows "length (ah_combined_pub a) = 1216 \<and>
    (\<exists>ct pub ms xs. hybrid_start_and_complete L ks s (ah_combined_pub a) = Ok (ct @ pub, ms @ xs) \<and>
       length ct = 1088 \<and> length pub = 32 \<and> length ms = 32 \<and> length xs = 32 \<and>
       hybrid_complete L a (ct @ pub) = Ok (ms @ xs)) \<and>
    (length p \<noteq> 1216 \<longrightarrow> hybrid_start_and_complete L ks s p = Err invalid_key_share) \<and>
    (length q \<noteq> 1120 \<longrightarrow> hybrid_complete L a q = Err invalid_key_share) \<and>
    (\<exists>share b z. hybrid_component a = Some (X25519, share) \<and> x25519_start (hl_x25519 L) s = Ok b \<and>
       x25519_complete (hl_x25519 L) b share = Ok z \<and> complete_hybrid_component L a (kx_pub_key b) = Ok z)"
proof (intro conjI impI)
  obtain ek where ek: "mlkem_generate L kr = (ah_dk a, ek)"
    "ah_combined_pub a = mlkem_ek_to_bytes L ek @ x25519_public (hl_x25519 L) (ah_x25519_priv a)"
    "length (mlkem_ek_to_bytes L ek) = 1184" "length (x25519_public (hl_x25519 L) (ah_x25519_priv a)) = 32"
    by (rule hybrid_start_parts [OF assms])
  obtain ct ms where enc: "mlkem_encapsulate L ks ek = (ct, ms)" by fastforce
  define b where "b = x25519_random (hl_x25519 L) s"
  have kem: "mlkem_ek_new L (mlkem_ek_to_bytes L ek) = Some ek" "length ct = 1088" "length ms = 32"
    "mlkem_decapsulate L (ah_dk a) ct = Some ms"
    using assms(1) ek(1) enc unfolding hybrid_crates_ok_def by blast+
  have dh: "length (x25519_public (hl_x25519 L) b) = 32" "\<And>p. length (x25519_diffie_hellman (hl_x25519 L) b p) = 32"
    "x25519_diffie_hellman (hl_x25519 L) (ah_x25519_priv a) (x25519_public (hl_x25519 L) b) =
     x25519_diffie_hellman (hl_x25519 L) b (x25519_public (hl_x25519 L) (ah_x25519_priv a))"
    using assms(1) unfolding hybrid_crates_ok_def kx_crates_ok_def by blast+
  show "length (ah_combined_pub a) = 1216" using ek by simp
  show "\<exists>ct pub ms xs. hybrid_start_and_complete L ks s (ah_combined_pub a) = Ok (ct @ pub, ms @ xs) \<and>
       length ct = 1088 \<and> length pub = 32 \<and> length ms = 32 \<and> length xs = 32 \<and>
       hybrid_complete L a (ct @ pub) = Ok (ms @ xs)"
    using ek kem dh enc
    by (intro exI [of _ ct] exI [of _ "x25519_public (hl_x25519 L) b"] exI [of _ ms]
          exI [of _ "x25519_diffie_hellman (hl_x25519 L) b (x25519_public (hl_x25519 L) (ah_x25519_priv a))"])
      (simp add: hybrid_start_and_complete_def hybrid_complete_def hybrid_lengths Let_def flip: b_def)
  show "\<exists>share b z. hybrid_component a = Some (X25519, share) \<and> x25519_start (hl_x25519 L) s = Ok b \<and>
       x25519_complete (hl_x25519 L) b share = Ok z \<and> complete_hybrid_component L a (kx_pub_key b) = Ok z"
    using ek dh
    by (simp add: hybrid_component_def x25519_start_def x25519_complete_def complete_hybrid_component_def hybrid_lengths
        Let_def flip: b_def)
qed (simp_all add: hybrid_start_and_complete_def hybrid_complete_def hybrid_lengths)

section \<open>Witness\<close>

definition example_hybrid :: hybrid_lib where
  "example_hybrid =
     \<lparr> hl_x25519 = example_provider_lib, mlkem_generate = (\<lambda>r. ([1], [2])), mlkem_ek_to_bytes = (\<lambda>k. replicate 1184 7),
       mlkem_ek_new = (\<lambda>b. Some [2]), mlkem_encapsulate = (\<lambda>r k. (replicate 1088 3, replicate 32 4)),
       mlkem_decapsulate = (\<lambda>k c. Some (replicate 32 4)) \<rparr>"

lemma example_hybrid_ok: "hybrid_crates_ok example_hybrid"
  using example_provider_ok(1)
  by (simp add: hybrid_crates_ok_def example_hybrid_def) (simp add: example_provider_lib_def)

theorem hybrid_exchange_witness:
  "\<exists>a. hybrid_start example_hybrid (\<lambda>_. Ok []) (\<lambda>_. Ok []) = Ok a \<and> length (ah_combined_pub a) = 1216 \<and>
     hybrid_complete example_hybrid a [] = Err invalid_key_share"
proof -
  obtain a where "hybrid_start example_hybrid (\<lambda>_. Ok []) (\<lambda>_. Ok []) = Ok a"
    by (simp add: hybrid_start_def example_hybrid_def Let_def)
  with hybrid_exchange [OF example_hybrid_ok this, of "\<lambda>_. Ok []" "\<lambda>_. Ok []" "[]" "[]"] show ?thesis by auto
qed

end
