(* ===== verification/Native_Certs.thy ===== *)
theory Native_Certs
  imports Roots Core_Types
begin

text \<open>
  Loading the certificate store of the operating system (\<open>oxitls-native-certs/src/lib.rs\<close>). The platform interfaces
  (Security.framework, the file system, SChannel) are the record \<open>os_lib\<close>; the root store is that of \<open>Roots\<close>.
\<close>

section \<open>The platforms\<close>

datatype trust_domain = UserDomain | AdminDomain | SystemDomain

datatype trust_setting = TrustRoot | TrustAsRoot | DenyTrust | UnspecifiedTrust | InvalidTrust

text \<open>\<open>TrustSettings::iter\<close>, \<open>tls_trust_settings_for_certificate\<close>, \<open>tokio::fs::read\<close>, the certificates of a PEM text that could
  be decoded, and the certificates of the Windows store. A blocking task that panics or is cancelled is \<open>join_error\<close>.\<close>

record os_lib =
  trust_iter :: "trust_domain \<Rightarrow> bytes list option"
  tls_trust_settings :: "trust_domain \<Rightarrow> bytes \<Rightarrow> (trust_setting option, string) result"
  fs_read :: "string \<Rightarrow> (bytes, string) result"
  pem_decoded :: "bytes \<Rightarrow> bytes list"
  windows_root_certs :: "(bytes list, string) result"
  join_error :: "string option"

datatype target_os = Macos | Linux | Windows | OtherOs

section \<open>Loading\<close>

text \<open>\<open>add_parsable_certificates\<close>: certificates that do not parse are skipped.\<close>

definition add_parsable :: "root_lib \<Rightarrow> bytes list \<Rightarrow> root_store" where
  "add_parsable R certs = add_certs R certs []"

fun collect_domain :: "os_lib \<Rightarrow> trust_domain \<Rightarrow> bytes list \<Rightarrow> bytes list \<Rightarrow> bytes list" where
  "collect_domain S d [] ders = ders"
| "collect_domain S d (cert # certs) ders =
     (case tls_trust_settings S d cert of
        Err _ \<Rightarrow> collect_domain S d certs ders
      | Ok setting \<Rightarrow>
          let trust_for_ssl =
                (case setting of
                   Some TrustRoot \<Rightarrow> True
                 | Some TrustAsRoot \<Rightarrow> True
                 | None \<Rightarrow> True
                 | Some DenyTrust \<Rightarrow> False
                 | Some UnspecifiedTrust \<Rightarrow> False
                 | Some InvalidTrust \<Rightarrow> False) in
          if trust_for_ssl then collect_domain S d certs (ders @ [cert]) else collect_domain S d certs ders)"

fun collect_domains :: "os_lib \<Rightarrow> trust_domain list \<Rightarrow> bytes list \<Rightarrow> bytes list" where
  "collect_domains S [] ders = ders"
| "collect_domains S (d # ds) ders =
     (case trust_iter S d of
        None \<Rightarrow> collect_domains S ds ders
      | Some certs \<Rightarrow> collect_domains S ds (collect_domain S d certs ders))"

definition macos_collect_trusted_ders :: "os_lib \<Rightarrow> (bytes list, tls_error) result" where
  "macos_collect_trusted_ders S = Ok (collect_domains S [UserDomain, AdminDomain, SystemDomain] [])"

text \<open>\<open>spawn_blocking(f).await.map_err(..)??\<close>.\<close>

definition blocking :: "os_lib \<Rightarrow> string \<Rightarrow> ('a, tls_error) result \<Rightarrow> ('a, tls_error) result" where
  "blocking S what r = (case join_error S of Some e \<Rightarrow> Err (Other (what @ e)) | None \<Rightarrow> r)"

definition load_macos_roots :: "root_lib \<Rightarrow> os_lib \<Rightarrow> (root_store, tls_error) result" where
  "load_macos_roots R S =
     rbind (blocking S ''native-roots macOS join error: '' (macos_collect_trusted_ders S)) (\<lambda>ders.
     Ok (add_parsable R ders))"

definition PATHS :: "string list" where
  "PATHS = [''/etc/ssl/certs/ca-certificates.crt'', ''/etc/pki/tls/cert.pem'', ''/etc/ssl/cert.pem'']"

text \<open>The debug form of the list of paths and of the last error.\<close>

definition debug_paths :: string where
  "debug_paths =
     ''[\"/etc/ssl/certs/ca-certificates.crt\", \"/etc/pki/tls/cert.pem\", \"/etc/ssl/cert.pem\"]''"

definition debug_option :: "string option \<Rightarrow> string" where
  "debug_option x = (case x of None \<Rightarrow> ''None'' | Some e \<Rightarrow> ''Some('' @ e @ '')'')"

fun linux_loop :: "root_lib \<Rightarrow> os_lib \<Rightarrow> string list \<Rightarrow> string option \<Rightarrow> (root_store, tls_error) result" where
  "linux_loop R S [] last_err =
     Err (Other (''native-roots Linux: no CA bundle found at any of '' @ debug_paths @ '' (last error: '' @
                 debug_option last_err @ '')''))"
| "linux_loop R S (path # paths) last_err =
     (case fs_read S path of
        Ok bs \<Rightarrow> Ok (add_parsable R (pem_decoded S bs))
      | Err e \<Rightarrow> linux_loop R S paths (Some e))"

definition load_linux_roots :: "root_lib \<Rightarrow> os_lib \<Rightarrow> (root_store, tls_error) result" where
  "load_linux_roots R S = linux_loop R S PATHS None"

definition windows_collect_trusted_ders :: "os_lib \<Rightarrow> (bytes list, tls_error) result" where
  "windows_collect_trusted_ders S =
     rmap_err (\<lambda>e. Other (''native-roots Windows: cannot open ROOT store: '' @ e)) (windows_root_certs S)"

definition load_windows_roots :: "root_lib \<Rightarrow> os_lib \<Rightarrow> (root_store, tls_error) result" where
  "load_windows_roots R S =
     rbind (blocking S ''native-roots Windows join error: '' (windows_collect_trusted_ders S)) (\<lambda>ders.
     Ok (add_parsable R ders))"

fun load_native_roots :: "target_os \<Rightarrow> root_lib \<Rightarrow> os_lib \<Rightarrow> (root_store, tls_error) result" where
  "load_native_roots Macos R S = load_macos_roots R S"
| "load_native_roots Linux R S = load_linux_roots R S"
| "load_native_roots Windows R S = load_windows_roots R S"
| "load_native_roots OtherOs R S = Err (Other ''native-roots: unsupported target OS'')"

section \<open>What is trusted\<close>

text \<open>A domain whose settings permit a certificate for TLS.\<close>

definition permits :: "os_lib \<Rightarrow> trust_domain \<Rightarrow> bytes \<Rightarrow> bool" where
  "permits S d cert \<longleftrightarrow>
     (\<exists>certs. trust_iter S d = Some certs \<and> cert \<in> set certs) \<and>
     tls_trust_settings S d cert \<in> {Ok None, Ok (Some TrustRoot), Ok (Some TrustAsRoot)}"

lemma set_collect_domain:
  "set (collect_domain S d certs ders) = set ders \<union>
     {c \<in> set certs. tls_trust_settings S d c \<in> {Ok None, Ok (Some TrustRoot), Ok (Some TrustAsRoot)}}"
  by (induction certs arbitrary: ders)
    (auto simp: Let_def split: result.splits option.splits trust_setting.splits)

lemma set_collect_domains: "set (collect_domains S ds ders) = set ders \<union> {c. \<exists>d \<in> set ds. permits S d c}"
  by (induction ds arbitrary: ders) (auto simp: set_collect_domain permits_def split: option.splits)

lemma set_anchors_of: "set (anchors_of R cs) = {ta. \<exists>c \<in> set cs. anchor_from_der R c = Ok ta}"
  by (induction cs) (auto split: result.splits)

text \<open>On macOS the loaded store holds exactly the anchors of the certificates that some domain permits; a certificate that
  the user's or the administrator's settings deny is trusted all the same when another domain permits it. On
  Linux the first readable bundle alone is used, even when it holds no certificate, and loading fails exactly when
  none can be read.\<close>

theorem native_roots_trusted:
  assumes "join_error S = None"
  shows "(\<exists>store. load_native_roots Macos R S = Ok store \<and>
      set store = {ta. \<exists>c d. permits S d c \<and> anchor_from_der R c = Ok ta}) \<and>
    (permits S SystemDomain c \<and> anchor_from_der R c = Ok ta \<and> tls_trust_settings S UserDomain c = Ok (Some DenyTrust) \<longrightarrow>
      (\<exists>store. load_native_roots Macos R S = Ok store \<and> ta \<in> set store)) \<and>
    (load_native_roots Linux R S = Ok store' \<longleftrightarrow>
      (\<exists>path bs. find (\<lambda>p. is_ok (fs_read S p)) PATHS = Some path \<and> fs_read S path = Ok bs \<and>
         store' = anchors_of R (pem_decoded S bs))) \<and>
    (\<not> is_ok (load_native_roots Linux R S) \<longleftrightarrow> (\<forall>p \<in> set PATHS. \<not> is_ok (fs_read S p)))"
proof (intro conjI)
  have dom: "d \<in> set [UserDomain, AdminDomain, SystemDomain]" for d by (cases d) simp_all
  then have any: "(\<exists>d \<in> set [UserDomain, AdminDomain, SystemDomain]. permits S d c) \<longleftrightarrow> (\<exists>d. permits S d c)" for c
    by blast
  have mac: "load_native_roots Macos R S = Ok (anchors_of R (collect_domains S [UserDomain, AdminDomain, SystemDomain] []))"
    using assms by (simp add: load_macos_roots_def blocking_def macos_collect_trusted_ders_def add_parsable_def add_certs_eq
        del: collect_domains.simps)
  moreover have trusted: "set (anchors_of R (collect_domains S [UserDomain, AdminDomain, SystemDomain] [])) =
    {ta. \<exists>c d. permits S d c \<and> anchor_from_der R c = Ok ta}"
    unfolding set_anchors_of set_collect_domains any by auto
  ultimately show "\<exists>store. load_native_roots Macos R S = Ok store \<and>
      set store = {ta. \<exists>c d. permits S d c \<and> anchor_from_der R c = Ok ta}" by blast
  from mac trusted show "permits S SystemDomain c \<and> anchor_from_der R c = Ok ta \<and>
      tls_trust_settings S UserDomain c = Ok (Some DenyTrust) \<longrightarrow>
      (\<exists>store. load_native_roots Macos R S = Ok store \<and> ta \<in> set store)" by blast
  have linux: "linux_loop R S ps e = Ok store' \<longleftrightarrow> (\<exists>path bs. find (\<lambda>p. is_ok (fs_read S p)) ps = Some path \<and>
      fs_read S path = Ok bs \<and> store' = anchors_of R (pem_decoded S bs))" for ps e
    by (induction ps arbitrary: e) (auto simp: add_parsable_def add_certs_eq split: result.splits)
  show "load_native_roots Linux R S = Ok store' \<longleftrightarrow>
      (\<exists>path bs. find (\<lambda>p. is_ok (fs_read S p)) PATHS = Some path \<and> fs_read S path = Ok bs \<and>
         store' = anchors_of R (pem_decoded S bs))"
    by (simp only: load_native_roots.simps load_linux_roots_def linux)
  have "\<not> is_ok (linux_loop R S ps e) \<longleftrightarrow> (\<forall>p \<in> set ps. \<not> is_ok (fs_read S p))" for ps e
    by (induction ps arbitrary: e) (auto split: result.splits)
  then show "\<not> is_ok (load_native_roots Linux R S) \<longleftrightarrow> (\<forall>p \<in> set PATHS. \<not> is_ok (fs_read S p))"
    by (simp add: load_linux_roots_def)
qed

section \<open>Witness\<close>

definition example_os :: os_lib where
  "example_os =
     \<lparr> trust_iter = (\<lambda>d. if d = AdminDomain then None else Some [[1]]),
       tls_trust_settings = (\<lambda>d c. Ok (if d = UserDomain then Some DenyTrust else Some TrustRoot)),
       fs_read = (\<lambda>p. Err ''missing''), pem_decoded = (\<lambda>b. []), windows_root_certs = Ok [], join_error = None \<rparr>"

definition example_roots :: root_lib where
  "example_roots =
     \<lparr> tls_server_roots = [], anchor_from_der = (\<lambda>c. Ok \<lparr> ta_subject = c, ta_spki = [] \<rparr>), pem_certs = (\<lambda>b. Ok []),
       view_from_der = (\<lambda>c. None), digest_sha256 = (\<lambda>b. b), max_time = 0 \<rparr>"

theorem native_roots_trusted_witness:
  "\<exists>store. load_native_roots Macos example_roots example_os = Ok store \<and> \<lparr> ta_subject = [1], ta_spki = [] \<rparr> \<in> set store"
  using native_roots_trusted [of example_os example_roots "[1]" "\<lparr> ta_subject = [1], ta_spki = [] \<rparr>"]
  by (simp add: permits_def) (simp add: example_os_def example_roots_def)

end
