(* ===== verification/Http2.thy ===== *)
theory Http2
  imports Core_Types
begin

text \<open>
  The HTTP/2 layer (\<open>oxitls-h2\<close>): the ALPN check and the settings given to the h2 crate (\<open>lib.rs\<close>), the client and server
  builders (\<open>builder.rs\<close>), errors and their conversions, and the life of a client connection (\<open>connection.rs\<close>).
  The h2 crate is a parameter: \<open>h2_lib\<close> holds its builder and handshake, a predicate \<open>driver_done\<close> says when the
  task that drives a connection has ended. A result is \<open>None\<close> where h2 panics.
  The file \<open>error.rs\<close> of the crate is not one of its modules; the errors modelled are those of \<open>lib.rs\<close>.
\<close>

section \<open>Errors\<close>

text \<open>\<open>h2::Error\<close>, with the reason of a reset and the rendered text; \<open>rs_debug\<close> is the debug form of a reason.\<close>

record h2_crate_error =
  he_is_reset :: bool
  he_reason :: "nat option"
  he_text :: string

datatype h2_error =
    AlpnNotH2 string
  | H2 h2_crate_error
  | H2Io io_error_kind string
  | GracefulShutdownTimeout
  | H2Settings string
  | StreamReset nat
  | H2Timeout

fun is_alpn_not_h2 :: "h2_error \<Rightarrow> bool" where
  "is_alpn_not_h2 (AlpnNotH2 _) = True"
| "is_alpn_not_h2 _ = False"

fun is_h2 :: "h2_error \<Rightarrow> bool" where
  "is_h2 (H2 _) = True"
| "is_h2 _ = False"

fun is_h2_io :: "h2_error \<Rightarrow> bool" where
  "is_h2_io (H2Io _ _) = True"
| "is_h2_io _ = False"

fun is_graceful_shutdown_timeout :: "h2_error \<Rightarrow> bool" where
  "is_graceful_shutdown_timeout GracefulShutdownTimeout = True"
| "is_graceful_shutdown_timeout _ = False"

fun is_stream_reset :: "h2_error \<Rightarrow> bool" where
  "is_stream_reset (StreamReset _) = True"
| "is_stream_reset _ = False"

fun is_h2_timeout :: "h2_error \<Rightarrow> bool" where
  "is_h2_timeout H2Timeout = True"
| "is_h2_timeout GracefulShutdownTimeout = True"
| "is_h2_timeout _ = False"

fun h2_error_display :: "(nat \<Rightarrow> string) \<Rightarrow> h2_error \<Rightarrow> string" where
  "h2_error_display rs_debug (AlpnNotH2 got) = ''ALPN protocol is not \"h2\" (got '' @ got @ '')''"
| "h2_error_display rs_debug (H2 e) = ''h2 error: '' @ he_text e"
| "h2_error_display rs_debug (H2Io k e) = ''I/O error: '' @ e"
| "h2_error_display rs_debug GracefulShutdownTimeout = ''graceful shutdown timed out''"
| "h2_error_display rs_debug (H2Settings s) = ''settings error: '' @ s"
| "h2_error_display rs_debug (StreamReset r) = ''H2 stream reset: '' @ rs_debug r"
| "h2_error_display rs_debug H2Timeout = ''operation timed out''"

definition h2_error_from :: "h2_crate_error \<Rightarrow> h2_error" where
  "h2_error_from e =
     (if he_is_reset e then (case he_reason e of Some reason \<Rightarrow> StreamReset reason | None \<Rightarrow> H2 e) else H2 e)"

fun h2_error_to_tls :: "(nat \<Rightarrow> string) \<Rightarrow> h2_error \<Rightarrow> tls_error" where
  "h2_error_to_tls rs_debug (AlpnNotH2 s) = Handshake (''ALPN not h2: '' @ s)"
| "h2_error_to_tls rs_debug (H2 e) = Other (''h2: '' @ he_text e)"
| "h2_error_to_tls rs_debug (H2Io k e) = Io k"
| "h2_error_to_tls rs_debug GracefulShutdownTimeout = Other ''graceful shutdown timed out''"
| "h2_error_to_tls rs_debug (H2Settings s) = InvalidConfig s"
| "h2_error_to_tls rs_debug (StreamReset r) = Other (''H2 stream reset: '' @ rs_debug r)"
| "h2_error_to_tls rs_debug H2Timeout = Other ''h2 operation timed out''"

section \<open>Settings\<close>

record h2_settings =
  st_initial_window_size :: "u32 option"
  st_max_frame_size :: "u32 option"
  st_max_concurrent_streams :: "u32 option"
  st_max_header_list_size :: "u32 option"
  st_header_table_size :: "u32 option"
  st_initial_connection_window_size :: "u32 option"

definition h2_settings_new :: h2_settings where
  "h2_settings_new =
     \<lparr> st_initial_window_size = None, st_max_frame_size = None, st_max_concurrent_streams = None,
       st_max_header_list_size = None, st_header_table_size = None, st_initial_connection_window_size = None \<rparr>"

definition st_with_initial_window_size :: "u32 \<Rightarrow> h2_settings \<Rightarrow> h2_settings" where
  "st_with_initial_window_size size_v s = s \<lparr> st_initial_window_size := Some size_v \<rparr>"

definition st_with_max_frame_size :: "u32 \<Rightarrow> h2_settings \<Rightarrow> h2_settings" where
  "st_with_max_frame_size size_v s = s \<lparr> st_max_frame_size := Some size_v \<rparr>"

definition st_with_max_concurrent_streams :: "u32 \<Rightarrow> h2_settings \<Rightarrow> h2_settings" where
  "st_with_max_concurrent_streams m s = s \<lparr> st_max_concurrent_streams := Some m \<rparr>"

definition st_with_max_header_list_size :: "u32 \<Rightarrow> h2_settings \<Rightarrow> h2_settings" where
  "st_with_max_header_list_size size_v s = s \<lparr> st_max_header_list_size := Some size_v \<rparr>"

definition st_with_header_table_size :: "u32 \<Rightarrow> h2_settings \<Rightarrow> h2_settings" where
  "st_with_header_table_size size_v s = s \<lparr> st_header_table_size := Some size_v \<rparr>"

definition st_with_initial_connection_window_size :: "u32 \<Rightarrow> h2_settings \<Rightarrow> h2_settings" where
  "st_with_initial_connection_window_size size_v s = s \<lparr> st_initial_connection_window_size := Some size_v \<rparr>"

section \<open>The h2 crate\<close>

text \<open>What has been set on a builder of h2, and the builder's methods: they take the place of both \<open>h2::client::Builder\<close> and
  \<open>h2::server::Builder\<close>, which have the same setters. A connection is represented by the builder it was made with.\<close>

record h2_builder =
  hb_initial_window_size :: "u32 option"
  hb_max_frame_size :: "u32 option"
  hb_max_concurrent_streams :: "u32 option"
  hb_max_header_list_size :: "u32 option"
  hb_header_table_size :: "u32 option"
  hb_initial_connection_window_size :: "u32 option"
  hb_max_send_buffer_size :: "nat option"

record h2_lib =
  builder_new :: h2_builder
  set_initial_window_size :: "u32 \<Rightarrow> h2_builder \<Rightarrow> h2_builder option"
  set_max_frame_size :: "u32 \<Rightarrow> h2_builder \<Rightarrow> h2_builder option"
  set_max_concurrent_streams :: "u32 \<Rightarrow> h2_builder \<Rightarrow> h2_builder option"
  set_max_header_list_size :: "u32 \<Rightarrow> h2_builder \<Rightarrow> h2_builder option"
  set_header_table_size :: "u32 \<Rightarrow> h2_builder \<Rightarrow> h2_builder option"
  set_initial_connection_window_size :: "u32 \<Rightarrow> h2_builder \<Rightarrow> h2_builder option"
  set_max_send_buffer_size :: "nat \<Rightarrow> h2_builder \<Rightarrow> h2_builder option"
  h2_handshake :: "h2_builder \<Rightarrow> (h2_builder, h2_crate_error) result"

text \<open>\<open>if let Some(v) = x { builder.set(v); }\<close>.\<close>

definition if_given :: "'a option \<Rightarrow> ('a \<Rightarrow> 'b \<Rightarrow> 'b option) \<Rightarrow> 'b \<Rightarrow> 'b option" where
  "if_given x set_v b = (case x of Some v \<Rightarrow> set_v v b | None \<Rightarrow> Some b)"

section \<open>Handshakes\<close>

fun join_debug :: "string list \<Rightarrow> string" where
  "join_debug [] = []"
| "join_debug [x] = x"
| "join_debug (x # y # ys) = x @ '', '' @ join_debug (y # ys)"

definition debug_alpn :: "bytes option \<Rightarrow> string" where
  "debug_alpn x = (case x of None \<Rightarrow> ''None''
     | Some bs \<Rightarrow> ''Some(['' @ join_debug (map (\<lambda>b. show_nat (unat b)) bs) @ ''])'')"

definition verify_alpn :: "bytes option \<Rightarrow> (unit, h2_error) result" where
  "verify_alpn alpn = (if alpn = Some (ascii ''h2'') then Ok () else Err (AlpnNotH2 (debug_alpn alpn)))"

text \<open>The client and the server functions check the same value of their session.\<close>

definition verify_client_alpn :: "bytes option \<Rightarrow> (unit, h2_error) result" where
  "verify_client_alpn alpn = verify_alpn alpn"

definition verify_server_alpn :: "bytes option \<Rightarrow> (unit, h2_error) result" where
  "verify_server_alpn alpn = verify_alpn alpn"

definition h2_client_handshake :: "h2_lib \<Rightarrow> bytes option \<Rightarrow> (h2_builder, h2_error) result" where
  "h2_client_handshake C alpn =
     rbind (verify_client_alpn alpn) (\<lambda>_. rmap_err H2 (h2_handshake C (builder_new C)))"

definition h2_server_handshake :: "h2_lib \<Rightarrow> bytes option \<Rightarrow> (h2_builder, h2_error) result" where
  "h2_server_handshake S alpn =
     rbind (verify_server_alpn alpn) (\<lambda>_. rmap_err H2 (h2_handshake S (builder_new S)))"

definition h2_client_handshake_with_settings ::
    "h2_lib \<Rightarrow> bytes option \<Rightarrow> h2_settings \<Rightarrow> (h2_builder, h2_error) result option" where
  "h2_client_handshake_with_settings C alpn settings =
     (case verify_client_alpn alpn of
        Err e \<Rightarrow> Some (Err e)
      | Ok _ \<Rightarrow>
          let b = Some (builder_new C);
              b = Option.bind b (if_given (st_initial_window_size settings) (set_initial_window_size C));
              b = Option.bind b (if_given (st_max_frame_size settings) (set_max_frame_size C));
              b = Option.bind b (if_given (st_max_header_list_size settings) (set_max_header_list_size C));
              b = Option.bind b (if_given (st_header_table_size settings) (set_header_table_size C));
              b = Option.bind b (if_given (st_initial_connection_window_size settings) (set_initial_connection_window_size C)) in
          map_option (\<lambda>b. rmap_err H2 (h2_handshake C b)) b)"

definition h2_server_handshake_with_settings ::
    "h2_lib \<Rightarrow> bytes option \<Rightarrow> h2_settings \<Rightarrow> (h2_builder, h2_error) result option" where
  "h2_server_handshake_with_settings S alpn settings =
     (case verify_server_alpn alpn of
        Err e \<Rightarrow> Some (Err e)
      | Ok _ \<Rightarrow>
          let b = Some (builder_new S);
              b = Option.bind b (if_given (st_initial_window_size settings) (set_initial_window_size S));
              b = Option.bind b (if_given (st_max_frame_size settings) (set_max_frame_size S));
              b = Option.bind b (if_given (st_max_concurrent_streams settings) (set_max_concurrent_streams S));
              b = Option.bind b (if_given (st_max_header_list_size settings) (set_max_header_list_size S));
              b = Option.bind b (if_given (st_header_table_size settings) (set_header_table_size S));
              b = Option.bind b (if_given (st_initial_connection_window_size settings) (set_initial_connection_window_size S)) in
          map_option (\<lambda>b. rmap_err H2 (h2_handshake S b)) b)"

section \<open>Builders\<close>

record h2_client_builder =
  cl_max_concurrent_streams :: "u32 option"
  cl_initial_window_size :: "u32 option"
  cl_max_header_list_size :: "u32 option"
  cl_hpack_table_size :: "u32 option"
  cl_max_send_buffer_size :: "nat option"
  cl_keepalive :: "nat option"

definition h2_client_builder_new :: h2_client_builder where
  "h2_client_builder_new =
     \<lparr> cl_max_concurrent_streams = None, cl_initial_window_size = None, cl_max_header_list_size = None,
       cl_hpack_table_size = None, cl_max_send_buffer_size = None, cl_keepalive = None \<rparr>"

definition cl_with_max_concurrent_streams :: "u32 \<Rightarrow> h2_client_builder \<Rightarrow> h2_client_builder" where
  "cl_with_max_concurrent_streams n b = b \<lparr> cl_max_concurrent_streams := Some n \<rparr>"

definition cl_with_initial_window_size :: "u32 \<Rightarrow> h2_client_builder \<Rightarrow> h2_client_builder" where
  "cl_with_initial_window_size n b = b \<lparr> cl_initial_window_size := Some n \<rparr>"

definition cl_with_max_header_list_size :: "u32 \<Rightarrow> h2_client_builder \<Rightarrow> h2_client_builder" where
  "cl_with_max_header_list_size n b = b \<lparr> cl_max_header_list_size := Some n \<rparr>"

definition cl_with_hpack_table_size :: "u32 \<Rightarrow> h2_client_builder \<Rightarrow> h2_client_builder" where
  "cl_with_hpack_table_size n b = b \<lparr> cl_hpack_table_size := Some n \<rparr>"

definition cl_with_max_send_buffer_size :: "nat \<Rightarrow> h2_client_builder \<Rightarrow> h2_client_builder" where
  "cl_with_max_send_buffer_size n b = b \<lparr> cl_max_send_buffer_size := Some n \<rparr>"

definition cl_with_keepalive :: "nat \<Rightarrow> h2_client_builder \<Rightarrow> h2_client_builder" where
  "cl_with_keepalive d b = b \<lparr> cl_keepalive := Some d \<rparr>"

record h2_server_builder =
  sv_max_concurrent_streams :: "u32 option"
  sv_initial_window_size :: "u32 option"
  sv_max_header_list_size :: "u32 option"
  sv_hpack_table_size :: "u32 option"
  sv_max_send_buffer_size :: "nat option"
  sv_push_enabled :: "bool option"
  sv_keepalive :: "nat option"

definition h2_server_builder_new :: h2_server_builder where
  "h2_server_builder_new =
     \<lparr> sv_max_concurrent_streams = None, sv_initial_window_size = None, sv_max_header_list_size = None,
       sv_hpack_table_size = None, sv_max_send_buffer_size = None, sv_push_enabled = None, sv_keepalive = None \<rparr>"

definition sv_with_max_concurrent_streams :: "u32 \<Rightarrow> h2_server_builder \<Rightarrow> h2_server_builder" where
  "sv_with_max_concurrent_streams n b = b \<lparr> sv_max_concurrent_streams := Some n \<rparr>"

definition sv_with_initial_window_size :: "u32 \<Rightarrow> h2_server_builder \<Rightarrow> h2_server_builder" where
  "sv_with_initial_window_size n b = b \<lparr> sv_initial_window_size := Some n \<rparr>"

definition sv_with_max_header_list_size :: "u32 \<Rightarrow> h2_server_builder \<Rightarrow> h2_server_builder" where
  "sv_with_max_header_list_size n b = b \<lparr> sv_max_header_list_size := Some n \<rparr>"

definition sv_with_hpack_table_size :: "u32 \<Rightarrow> h2_server_builder \<Rightarrow> h2_server_builder" where
  "sv_with_hpack_table_size n b = b \<lparr> sv_hpack_table_size := Some n \<rparr>"

definition sv_with_max_send_buffer_size :: "nat \<Rightarrow> h2_server_builder \<Rightarrow> h2_server_builder" where
  "sv_with_max_send_buffer_size n b = b \<lparr> sv_max_send_buffer_size := Some n \<rparr>"

definition sv_with_push_enabled :: "bool \<Rightarrow> h2_server_builder \<Rightarrow> h2_server_builder" where
  "sv_with_push_enabled p b = b \<lparr> sv_push_enabled := Some p \<rparr>"

definition sv_with_keepalive :: "nat \<Rightarrow> h2_server_builder \<Rightarrow> h2_server_builder" where
  "sv_with_keepalive d b = b \<lparr> sv_keepalive := Some d \<rparr>"

text \<open>The settings a builder applies, in its order.\<close>

definition configure ::
    "h2_lib \<Rightarrow> u32 option \<Rightarrow> u32 option \<Rightarrow> u32 option \<Rightarrow> u32 option \<Rightarrow> nat option \<Rightarrow> h2_builder option" where
  "configure C max_concurrent_streams initial_window_size max_header_list_size hpack_table_size max_send_buffer_size =
     (let b = Some (builder_new C);
          b = Option.bind b (if_given max_concurrent_streams (set_max_concurrent_streams C));
          b = Option.bind b (if_given initial_window_size (set_initial_window_size C));
          b = Option.bind b (if_given max_header_list_size (set_max_header_list_size C));
          b = Option.bind b (if_given hpack_table_size (set_header_table_size C)) in
      Option.bind b (if_given max_send_buffer_size (set_max_send_buffer_size C)))"

section \<open>Connections\<close>

text \<open>A client connection: the \<open>SendRequest\<close> handles the callers hold, the clone that \<open>H2Connection\<close> holds, the open streams, whether
  the connection has ended (closed by the peer or an error), whether the driver was aborted, the interval of the
  keepalive task while it runs, and the ping handle.\<close>

record h2_connection =
  cn_handles :: nat
  cn_own_handle :: bool
  cn_streams :: nat
  cn_closed :: bool
  cn_aborted :: bool
  cn_keepalive :: "nat option"
  cn_ping_pong :: bool

text \<open>\<open>H2Connection::new\<close> after a handshake that returned one handle to the caller.\<close>

definition h2_connection_new :: "bool \<Rightarrow> nat option \<Rightarrow> h2_connection" where
  "h2_connection_new ping_pong keepalive =
     \<lparr> cn_handles = 1, cn_own_handle = True, cn_streams = 0, cn_closed = False, cn_aborted = False,
       cn_keepalive = keepalive, cn_ping_pong = ping_pong \<rparr>"

definition client_handshake ::
    "h2_lib \<Rightarrow> bool \<Rightarrow> h2_client_builder \<Rightarrow> (h2_builder \<times> h2_connection, h2_error) result option" where
  "client_handshake C ping_pong c =
     map_option
       (\<lambda>b. rbind (rmap_err h2_error_from (h2_handshake C b)) (\<lambda>conn. Ok (conn, h2_connection_new ping_pong (cl_keepalive c))))
       (configure C (cl_max_concurrent_streams c) (cl_initial_window_size c) (cl_max_header_list_size c)
          (cl_hpack_table_size c) (cl_max_send_buffer_size c))"

definition server_accept :: "h2_lib \<Rightarrow> h2_server_builder \<Rightarrow> (h2_builder, h2_error) result option" where
  "server_accept S c =
     map_option (\<lambda>b. rmap_err h2_error_from (h2_handshake S b))
       (configure S (sv_max_concurrent_streams c) (sv_initial_window_size c) (sv_max_header_list_size c)
          (sv_hpack_table_size c) (sv_max_send_buffer_size c))"

definition stream_count :: "h2_connection \<Rightarrow> nat" where
  "stream_count c = cn_streams c"

definition is_idle :: "h2_connection \<Rightarrow> bool" where
  "is_idle c \<longleftrightarrow> stream_count c = 0"

text \<open>\<open>ping\<close>, with the outcome of the ping frame: the round-trip time or an error of h2.\<close>

definition h2_ping :: "h2_connection \<Rightarrow> (nat, h2_crate_error) result \<Rightarrow> (nat, h2_error) result" where
  "h2_ping c outcome =
     (if \<not> cn_ping_pong c then Err (H2Settings ''PingPong handle already consumed'')
      else rmap_err h2_error_from outcome)"

text \<open>What may happen while \<open>graceful_shutdown\<close> waits: callers clone, use and drop their handles, streams end, the
  connection ends. The clone inside \<open>H2Connection\<close> lives as long as the call.\<close>

datatype conn_event = CloneHandle | DropHandle | OpenStream | EndStream | ConnectionEnds

fun conn_step :: "conn_event \<Rightarrow> h2_connection \<Rightarrow> h2_connection" where
  "conn_step CloneHandle c = (if 0 < cn_handles c then c \<lparr> cn_handles := cn_handles c + 1 \<rparr> else c)"
| "conn_step DropHandle c = c \<lparr> cn_handles := cn_handles c - 1 \<rparr>"
| "conn_step OpenStream c = (if 0 < cn_handles c then c \<lparr> cn_streams := cn_streams c + 1 \<rparr> else c)"
| "conn_step EndStream c = c \<lparr> cn_streams := cn_streams c - 1 \<rparr>"
| "conn_step ConnectionEnds c = c \<lparr> cn_closed := True \<rparr>"

text \<open>\<open>tokio::time::timeout(timeout, &mut driver_handle)\<close>: the events until the deadline; \<open>True\<close> when the driver ended.\<close>

fun await_driver :: "(h2_connection \<Rightarrow> bool) \<Rightarrow> conn_event list \<Rightarrow> h2_connection \<Rightarrow> bool \<times> h2_connection" where
  "await_driver driver_done [] c = (driver_done c, c)"
| "await_driver driver_done (e # es) c =
     (if driver_done c then (True, c) else await_driver driver_done es (conn_step e c))"

definition graceful_shutdown ::
    "(h2_connection \<Rightarrow> bool) \<Rightarrow> conn_event list \<Rightarrow> h2_connection \<Rightarrow> (unit, h2_error) result \<times> h2_connection" where
  "graceful_shutdown driver_done events c =
     (let c = c \<lparr> cn_keepalive := None \<rparr> in
      case await_driver driver_done events c of
        (True, c') \<Rightarrow> (Ok (), c' \<lparr> cn_own_handle := False \<rparr>)
      | (False, c') \<Rightarrow> (Err GracefulShutdownTimeout, c' \<lparr> cn_aborted := True, cn_own_handle := False \<rparr>))"

definition conn_abort :: "h2_connection \<Rightarrow> h2_connection" where
  "conn_abort c = c \<lparr> cn_aborted := True, cn_keepalive := None, cn_own_handle := False \<rparr>"

section \<open>Priorities and counters\<close>

record stream_priority =
  dependency :: u32
  exclusive :: bool
  weight :: byte

definition stream_priority_new :: "u32 \<Rightarrow> bool \<Rightarrow> byte \<Rightarrow> stream_priority" where
  "stream_priority_new dep excl w = \<lparr> dependency = dep, exclusive = excl, weight = w \<rparr>"

definition stream_priority_default :: stream_priority where
  "stream_priority_default = \<lparr> dependency = 0, exclusive = False, weight = 16 \<rparr>"

text \<open>\<open>StreamCounter\<close>: an atomic \<open>usize\<close>, 64 bits wide, that wraps around.\<close>

definition counter_new :: u64 where
  "counter_new = 0"

definition counter_get :: "u64 \<Rightarrow> u64" where
  "counter_get n = n"

definition counter_increment :: "u64 \<Rightarrow> u64" where
  "counter_increment n = n + 1"

definition counter_decrement :: "u64 \<Rightarrow> u64" where
  "counter_decrement n = n - 1"

section \<open>What h2 promises\<close>

text \<open>A setter sets its value and nothing else. The frame size must be between 16384 and 16777215 and the send buffer at most
  \<open>u32::MAX\<close>, else their setters panic; the documentation names no panic of the others.\<close>

definition frame_size_ok :: "u32 \<Rightarrow> bool" where
  "frame_size_ok n \<longleftrightarrow> 16384 \<le> unat n \<and> unat n \<le> 16777215"

definition h2_lib_ok :: "h2_lib \<Rightarrow> bool" where
  "h2_lib_ok C \<longleftrightarrow>
     builder_new C = \<lparr> hb_initial_window_size = None, hb_max_frame_size = None, hb_max_concurrent_streams = None,
       hb_max_header_list_size = None, hb_header_table_size = None, hb_initial_connection_window_size = None,
       hb_max_send_buffer_size = None \<rparr> \<and>
     (\<forall>n b. set_initial_window_size C n b = Some (b \<lparr> hb_initial_window_size := Some n \<rparr>)) \<and>
     (\<forall>n b. set_max_frame_size C n b = (if frame_size_ok n then Some (b \<lparr> hb_max_frame_size := Some n \<rparr>) else None)) \<and>
     (\<forall>n b. set_max_concurrent_streams C n b = Some (b \<lparr> hb_max_concurrent_streams := Some n \<rparr>)) \<and>
     (\<forall>n b. set_max_header_list_size C n b = Some (b \<lparr> hb_max_header_list_size := Some n \<rparr>)) \<and>
     (\<forall>n b. set_header_table_size C n b = Some (b \<lparr> hb_header_table_size := Some n \<rparr>)) \<and>
     (\<forall>n b. set_initial_connection_window_size C n b = Some (b \<lparr> hb_initial_connection_window_size := Some n \<rparr>)) \<and>
     (\<forall>n b. set_max_send_buffer_size C n b =
        (if n \<le> 4294967295 then Some (b \<lparr> hb_max_send_buffer_size := Some n \<rparr>) else None))"

definition given :: "'a option \<Rightarrow> 'a option \<Rightarrow> 'a option" where
  "given x d = (if x = None then d else x)"

lemma given_None: "given x None = x"
  by (simp add: given_def)

definition fits :: "('a \<Rightarrow> bool) \<Rightarrow> 'a option \<Rightarrow> bool" where
  "fits ok x \<longleftrightarrow> (case x of None \<Rightarrow> True | Some v \<Rightarrow> ok v)"

lemma if_given_set:
  assumes "h2_lib_ok C"
  shows "if_given x (set_initial_window_size C) b = Some (b \<lparr> hb_initial_window_size := given x (hb_initial_window_size b) \<rparr>)"
    and "if_given x (set_max_frame_size C) b =
      (if fits frame_size_ok x then Some (b \<lparr> hb_max_frame_size := given x (hb_max_frame_size b) \<rparr>) else None)"
    and "if_given x (set_max_concurrent_streams C) b = Some (b \<lparr> hb_max_concurrent_streams := given x (hb_max_concurrent_streams b) \<rparr>)"
    and "if_given x (set_max_header_list_size C) b = Some (b \<lparr> hb_max_header_list_size := given x (hb_max_header_list_size b) \<rparr>)"
    and "if_given x (set_header_table_size C) b = Some (b \<lparr> hb_header_table_size := given x (hb_header_table_size b) \<rparr>)"
    and "if_given x (set_initial_connection_window_size C) b =
      Some (b \<lparr> hb_initial_connection_window_size := given x (hb_initial_connection_window_size b) \<rparr>)"
    and "if_given y (set_max_send_buffer_size C) b =
      (if fits (\<lambda>n. n \<le> 4294967295) y then Some (b \<lparr> hb_max_send_buffer_size := given y (hb_max_send_buffer_size b) \<rparr>) else None)"
  using assms by (simp_all add: h2_lib_ok_def if_given_def given_def fits_def split: option.splits)

text \<open>The builder that a settings record asks for; \<open>streams\<close> is the limit that is passed on.\<close>

definition builder_for :: "u32 option \<Rightarrow> h2_settings \<Rightarrow> h2_builder" where
  "builder_for streams s =
     \<lparr> hb_initial_window_size = st_initial_window_size s, hb_max_frame_size = st_max_frame_size s,
       hb_max_concurrent_streams = streams, hb_max_header_list_size = st_max_header_list_size s,
       hb_header_table_size = st_header_table_size s,
       hb_initial_connection_window_size = st_initial_connection_window_size s, hb_max_send_buffer_size = None \<rparr>"

text \<open>The builder that the client and the server builder ask for.\<close>

definition builder_with ::
    "u32 option \<Rightarrow> u32 option \<Rightarrow> u32 option \<Rightarrow> u32 option \<Rightarrow> nat option \<Rightarrow> h2_builder" where
  "builder_with streams window headers table buffer =
     \<lparr> hb_initial_window_size = window, hb_max_frame_size = None, hb_max_concurrent_streams = streams,
       hb_max_header_list_size = headers, hb_header_table_size = table,
       hb_initial_connection_window_size = None, hb_max_send_buffer_size = buffer \<rparr>"

lemma builder_new_for: "h2_lib_ok C \<Longrightarrow> builder_new C = builder_for None h2_settings_new"
  by (simp add: h2_lib_ok_def builder_for_def h2_settings_new_def)

lemma configure_eq:
  assumes "h2_lib_ok C"
  shows "configure C streams window headers table buffer =
    (if fits (\<lambda>n. n \<le> 4294967295) buffer then Some (builder_with streams window headers table buffer) else None)"
  by (simp add: configure_def Let_def if_given_set [OF assms] builder_new_for [OF assms] builder_for_def h2_settings_new_def
      builder_with_def given_None)

lemma with_settings_eq:
  assumes "h2_lib_ok C"
  shows "h2_client_handshake_with_settings C (Some (ascii ''h2'')) s =
      (if fits frame_size_ok (st_max_frame_size s) then Some (rmap_err H2 (h2_handshake C (builder_for None s))) else None)"
    and "h2_server_handshake_with_settings C (Some (ascii ''h2'')) s =
      (if fits frame_size_ok (st_max_frame_size s)
       then Some (rmap_err H2 (h2_handshake C (builder_for (st_max_concurrent_streams s) s))) else None)"
  by (simp_all add: h2_client_handshake_with_settings_def h2_server_handshake_with_settings_def verify_client_alpn_def
      verify_server_alpn_def verify_alpn_def Let_def if_given_set [OF assms] builder_new_for [OF assms] builder_for_def
      h2_settings_new_def given_None)

text \<open>C33: What reaches h2, exactly. The four handshake functions refuse a session whose ALPN protocol is not h2 before h2 is called. Otherwise
  the settings reach h2 one by one, but the client function never passes on the limit on concurrent streams, and a frame size outside the
  range of RFC 9113 is a panic rather than an error. The client and the server builder look at no ALPN protocol and pass on all the limits they
  hold, the stream limit included, panicking only on a send buffer above \<open>u32::MAX\<close>; the push flag and the
  keepalive interval of a server have no effect.\<close>

theorem h2_settings_applied:
  assumes "h2_lib_ok C"
  shows "h2_client_handshake C alpn =
      (if alpn = Some (ascii ''h2'') then rmap_err H2 (h2_handshake C (builder_for None h2_settings_new))
       else Err (AlpnNotH2 (debug_alpn alpn))) \<and>
    h2_server_handshake C alpn =
      (if alpn = Some (ascii ''h2'') then rmap_err H2 (h2_handshake C (builder_for None h2_settings_new))
       else Err (AlpnNotH2 (debug_alpn alpn))) \<and>
    h2_client_handshake_with_settings C alpn s =
      (if alpn \<noteq> Some (ascii ''h2'') then Some (Err (AlpnNotH2 (debug_alpn alpn)))
       else if fits frame_size_ok (st_max_frame_size s) then Some (rmap_err H2 (h2_handshake C (builder_for None s)))
       else None) \<and>
    h2_server_handshake_with_settings C alpn s =
      (if alpn \<noteq> Some (ascii ''h2'') then Some (Err (AlpnNotH2 (debug_alpn alpn)))
       else if fits frame_size_ok (st_max_frame_size s)
         then Some (rmap_err H2 (h2_handshake C (builder_for (st_max_concurrent_streams s) s)))
       else None) \<and>
    client_handshake C pp c =
      (if fits (\<lambda>n. n \<le> 4294967295) (cl_max_send_buffer_size c)
       then Some (case h2_handshake C (builder_with (cl_max_concurrent_streams c) (cl_initial_window_size c)
                    (cl_max_header_list_size c) (cl_hpack_table_size c) (cl_max_send_buffer_size c)) of
                    Err e \<Rightarrow> Err (h2_error_from e)
                  | Ok conn \<Rightarrow> Ok (conn, h2_connection_new pp (cl_keepalive c)))
       else None) \<and>
    server_accept C v =
      (if fits (\<lambda>n. n \<le> 4294967295) (sv_max_send_buffer_size v)
       then Some (rmap_err h2_error_from (h2_handshake C (builder_with (sv_max_concurrent_streams v) (sv_initial_window_size v)
                    (sv_max_header_list_size v) (sv_hpack_table_size v) (sv_max_send_buffer_size v))))
       else None)"
proof -
  have plain: "h2_client_handshake C alpn = h2_server_handshake C alpn"
    "h2_server_handshake C alpn =
      (if alpn = Some (ascii ''h2'') then rmap_err H2 (h2_handshake C (builder_for None h2_settings_new))
       else Err (AlpnNotH2 (debug_alpn alpn)))"
    by (simp_all add: h2_client_handshake_def h2_server_handshake_def verify_client_alpn_def verify_server_alpn_def
        verify_alpn_def builder_new_for [OF assms])
  have refused: "h2_client_handshake_with_settings C alpn s = Some (Err (AlpnNotH2 (debug_alpn alpn)))"
    "h2_server_handshake_with_settings C alpn s = Some (Err (AlpnNotH2 (debug_alpn alpn)))" if "alpn \<noteq> Some (ascii ''h2'')"
    using that by (simp_all add: h2_client_handshake_with_settings_def h2_server_handshake_with_settings_def
        verify_client_alpn_def verify_server_alpn_def verify_alpn_def)
  have builders: "client_handshake C pp c =
      (if fits (\<lambda>n. n \<le> 4294967295) (cl_max_send_buffer_size c)
       then Some (case h2_handshake C (builder_with (cl_max_concurrent_streams c) (cl_initial_window_size c)
                    (cl_max_header_list_size c) (cl_hpack_table_size c) (cl_max_send_buffer_size c)) of
                    Err e \<Rightarrow> Err (h2_error_from e)
                  | Ok conn \<Rightarrow> Ok (conn, h2_connection_new pp (cl_keepalive c)))
       else None)"
    by (simp add: client_handshake_def configure_eq [OF assms] split: result.split)
  show ?thesis
    using plain refused with_settings_eq [OF assms, of s] builders
    by (auto simp: server_accept_def configure_eq [OF assms])
qed

section \<open>Shutting down\<close>

text \<open>h2's driver of a client ends when the connection has ended or was aborted, or when no \<open>SendRequest\<close> handle
  is left and no stream is open.\<close>

definition driver_ok :: "(h2_connection \<Rightarrow> bool) \<Rightarrow> bool" where
  "driver_ok driver_done \<longleftrightarrow>
     (\<forall>c. driver_done c \<longrightarrow> cn_closed c \<or> cn_aborted c \<or> cn_handles c = 0 \<and> \<not> cn_own_handle c \<and> cn_streams c = 0)"

lemma conn_step_keeps:
  "cn_own_handle (conn_step e c) = cn_own_handle c" "cn_aborted (conn_step e c) = cn_aborted c"
  "cn_closed (conn_step e c) \<longleftrightarrow> cn_closed c \<or> e = ConnectionEnds"
  by (cases e; simp)+

lemma await_driver_needs_end:
  "driver_ok D \<Longrightarrow> cn_own_handle c \<Longrightarrow> \<not> cn_aborted c \<Longrightarrow> fst (await_driver D es c) \<Longrightarrow>
   cn_closed c \<or> ConnectionEnds \<in> set es"
proof (induction es arbitrary: c)
  case (Cons e es)
  show ?case
  proof (cases "D c")
    case True
    then show ?thesis using Cons.prems by (auto simp: driver_ok_def)
  next
    case False
    with Cons.prems Cons.IH [of "conn_step e c"] show ?thesis by (auto simp: conn_step_keeps)
  qed
qed (auto simp: driver_ok_def)

text \<open>C32: A graceful shutdown succeeds only when the connection ends from the other side: the connection object keeps a
  request handle of its own while it waits, so with a peer that stays connected the call runs into its deadline and
  aborts the driver, even on an idle connection whose callers have dropped all handles.\<close>

theorem graceful_shutdown_needs_peer:
  assumes "driver_ok D" "cn_own_handle c" "\<not> cn_aborted c"
  shows "(fst (graceful_shutdown D es c) = Ok () \<longrightarrow> cn_closed c \<or> ConnectionEnds \<in> set es) \<and>
    (\<not> cn_closed c \<and> ConnectionEnds \<notin> set es \<longrightarrow>
      fst (graceful_shutdown D es c) = Err GracefulShutdownTimeout \<and> cn_aborted (snd (graceful_shutdown D es c)))"
proof -
  have "fst (await_driver D es (c \<lparr> cn_keepalive := None \<rparr>)) \<Longrightarrow> cn_closed c \<or> ConnectionEnds \<in> set es"
    using await_driver_needs_end [of D "c \<lparr> cn_keepalive := None \<rparr>" es] assms by simp
  then show ?thesis
    by (cases "await_driver D es (c \<lparr> cn_keepalive := None \<rparr>)") (auto simp: graceful_shutdown_def split: bool.splits)
qed

section \<open>Witnesses\<close>

definition example_h2 :: h2_lib where
  "example_h2 =
     \<lparr> builder_new = \<lparr> hb_initial_window_size = None, hb_max_frame_size = None, hb_max_concurrent_streams = None,
         hb_max_header_list_size = None, hb_header_table_size = None, hb_initial_connection_window_size = None,
         hb_max_send_buffer_size = None \<rparr>,
       set_initial_window_size = (\<lambda>n b. Some (b \<lparr> hb_initial_window_size := Some n \<rparr>)),
       set_max_frame_size =
         (\<lambda>n b. if unat n < 16384 \<or> 16777215 < unat n then None else Some (b \<lparr> hb_max_frame_size := Some n \<rparr>)),
       set_max_concurrent_streams = (\<lambda>n b. Some (b \<lparr> hb_max_concurrent_streams := Some n \<rparr>)),
       set_max_header_list_size = (\<lambda>n b. Some (b \<lparr> hb_max_header_list_size := Some n \<rparr>)),
       set_header_table_size = (\<lambda>n b. Some (b \<lparr> hb_header_table_size := Some n \<rparr>)),
       set_initial_connection_window_size = (\<lambda>n b. Some (b \<lparr> hb_initial_connection_window_size := Some n \<rparr>)),
       set_max_send_buffer_size =
         (\<lambda>n b. if 4294967295 < n then None else Some (b \<lparr> hb_max_send_buffer_size := Some n \<rparr>)),
       h2_handshake = (\<lambda>b. Ok b) \<rparr>"

lemma example_h2_ok: "h2_lib_ok example_h2"
  by (auto simp: h2_lib_ok_def example_h2_def frame_size_ok_def)

definition example_settings :: h2_settings where
  "example_settings = st_with_max_concurrent_streams 5 h2_settings_new"

lemma example_frame_sizes:
  "fits frame_size_ok (st_max_frame_size example_settings)"
  "\<not> fits frame_size_ok (st_max_frame_size (st_with_max_frame_size 1 example_settings))"
  by (simp_all add: fits_def frame_size_ok_def example_settings_def st_with_max_frame_size_def h2_settings_new_def
      st_with_max_concurrent_streams_def)

theorem h2_settings_applied_witness:
  "h2_client_handshake_with_settings example_h2 (Some (ascii ''h2'')) example_settings = Some (Ok (builder_for None example_settings)) \<and>
   h2_client_handshake_with_settings example_h2 (Some (ascii ''h2'')) (st_with_max_frame_size 1 example_settings) = None \<and>
   server_accept example_h2 (sv_with_max_concurrent_streams 5 h2_server_builder_new) =
     Some (Ok (builder_with (Some 5) None None None None))"
proof -
  have "h2_handshake example_h2 b = Ok b" for b by (simp add: example_h2_def)
  then show ?thesis
    using h2_settings_applied [OF example_h2_ok, of "Some (ascii ''h2'')" example_settings True h2_client_builder_new
        "sv_with_max_concurrent_streams 5 h2_server_builder_new"]
      h2_settings_applied [OF example_h2_ok, of "Some (ascii ''h2'')" "st_with_max_frame_size 1 example_settings" True
        h2_client_builder_new h2_server_builder_new] example_frame_sizes
    by (simp add: fits_def sv_with_max_concurrent_streams_def h2_server_builder_new_def)
qed

definition example_driver :: "h2_connection \<Rightarrow> bool" where
  "example_driver c \<longleftrightarrow>
     cn_closed c \<or> cn_aborted c \<or> cn_handles c = 0 \<and> \<not> cn_own_handle c \<and> cn_streams c = 0"

theorem graceful_shutdown_needs_peer_witness:
  "fst (graceful_shutdown example_driver [DropHandle] (h2_connection_new True None)) = Err GracefulShutdownTimeout"
  using graceful_shutdown_needs_peer [of example_driver "h2_connection_new True None" "[DropHandle]"]
  by (simp add: driver_ok_def example_driver_def h2_connection_new_def)

end
