(* ===== verification/Connections.thy ===== *)
theory Connections
  imports Server_Builder Crypto_Provider
begin

text \<open>
  From a configuration to a stream: the connector, the acceptor and the one-call functions of the adapter (\<open>lib.rs\<close> of
  \<open>oxitls-adapter-rustls-rustcrypto\<close>), the generic connector and acceptor of the facade and its connection
  information (\<open>oxitls/src/lib.rs\<close>), and the unified stream (\<open>oxitls/src/stream.rs\<close>). The handshakes belong to tokio-rustls
  and are the record \<open>tokio_lib\<close>; a transport is any type. An \<open>io::Error\<close> is its kind and its text.
  The server that the generic acceptor serves is a state: its builder, whose rotating ticketer all configurations share,
  and the rotation tasks that were spawned.
\<close>

section \<open>Streams of tokio-rustls\<close>

type_synonym io_failure = "io_error_kind \<times> string"

type_synonym exporter = "nat \<Rightarrow> bytes \<Rightarrow> bytes option \<Rightarrow> (bytes, string) result"

datatype ech_status = EchNotOffered | EchGreased | EchOffered | EchAccepted | EchRejected

record 'io client_stream =
  cs_transport :: 'io
  cs_common :: common_state
  cs_peer_certificates :: "bytes list option"
  cs_early_data :: "nat option"
  cs_ech_status :: ech_status
  cs_exporter :: exporter

record 'io server_stream =
  ss_transport :: 'io
  ss_common :: common_state
  ss_peer_certificates :: "bytes list option"
  ss_server_name :: "string option"
  ss_exporter :: exporter

text \<open>\<open>TlsConnector::connect\<close>, \<open>TlsAcceptor::accept\<close> and \<open>ServerName::try_from\<close>.\<close>

record 'io tokio_lib =
  tls_connect :: "client_config \<Rightarrow> string \<Rightarrow> 'io \<Rightarrow> ('io client_stream, io_failure) result"
  tls_accept :: "server_config \<Rightarrow> 'io \<Rightarrow> ('io server_stream, io_failure) result"
  server_name_try_from :: "string \<Rightarrow> (string, string) result"

section \<open>Configurations of the adapter\<close>

definition client_config_fn :: "rustls_lib \<Rightarrow> root_store \<Rightarrow> (client_config, tls_error) result" where
  "client_config_fn S root_store =
     (let provider = pure_provider S in
      rbind (rmap_err InvalidConfig (versions_ok S provider (default_versions S))) (\<lambda>_.
      Ok (new_config provider (default_versions S) None (roots_verifier S root_store provider) NoClientAuth)))"

definition server_config_fn ::
    "rustls_lib \<Rightarrow> rustls_server_lib \<Rightarrow> bytes list \<Rightarrow> private_key_der \<Rightarrow> (server_config, tls_error) result" where
  "server_config_fn S T certs key =
     (let provider = pure_provider S in
      rbind (rmap_err InvalidConfig (versions_ok S provider (default_versions S))) (\<lambda>_.
      rbind (rmap_err BadCert (single_cert_ok T provider certs key None)) (\<lambda>_.
      Ok (new_server_config provider (default_versions S) NoClientCert (SingleCert certs key None)))))"

fun rustls_suite_str :: "rustls_suite \<Rightarrow> string option" where
  "rustls_suite_str RS_TLS13_AES_128_GCM_SHA256 = Some ''TLS13_AES_128_GCM_SHA256''"
| "rustls_suite_str RS_TLS13_AES_256_GCM_SHA384 = Some ''TLS13_AES_256_GCM_SHA384''"
| "rustls_suite_str RS_TLS13_CHACHA20_POLY1305_SHA256 = Some ''TLS13_CHACHA20_POLY1305_SHA256''"
| "rustls_suite_str RS_TLS_ECDHE_ECDSA_WITH_AES_128_GCM_SHA256 = Some ''TLS_ECDHE_ECDSA_WITH_AES_128_GCM_SHA256''"
| "rustls_suite_str RS_TLS_ECDHE_ECDSA_WITH_AES_256_GCM_SHA384 = Some ''TLS_ECDHE_ECDSA_WITH_AES_256_GCM_SHA384''"
| "rustls_suite_str RS_TLS_ECDHE_RSA_WITH_AES_128_GCM_SHA256 = Some ''TLS_ECDHE_RSA_WITH_AES_128_GCM_SHA256''"
| "rustls_suite_str RS_TLS_ECDHE_RSA_WITH_AES_256_GCM_SHA384 = Some ''TLS_ECDHE_RSA_WITH_AES_256_GCM_SHA384''"
| "rustls_suite_str RS_TLS_ECDHE_ECDSA_WITH_CHACHA20_POLY1305_SHA256 = Some ''TLS_ECDHE_ECDSA_WITH_CHACHA20_POLY1305_SHA256''"
| "rustls_suite_str RS_TLS_ECDHE_RSA_WITH_CHACHA20_POLY1305_SHA256 = Some ''TLS_ECDHE_RSA_WITH_CHACHA20_POLY1305_SHA256''"
| "rustls_suite_str (OtherRustlsSuite c) = None"

definition supported_cipher_suites :: "bool \<Rightarrow> string list" where
  "supported_cipher_suites feature_tls12 =
     map (\<lambda>cs. case rustls_suite_str (se_suite cs) of Some s \<Rightarrow> s | None \<Rightarrow> ''unknown'') (pv_cipher_suites (provider feature_tls12))"

definition supported_versions :: "string list" where
  "supported_versions = [''TLSv1_3'', ''TLSv1_2'']"

section \<open>Connector and acceptor of the adapter\<close>

text \<open>A connector is its configuration, and so is an acceptor.\<close>

definition connector_new :: "client_config \<Rightarrow> client_config" where
  "connector_new cfg = cfg"

definition connector_connect ::
    "'io tokio_lib \<Rightarrow> client_config \<Rightarrow> string \<Rightarrow> 'io \<Rightarrow> ('io client_stream, io_failure) result" where
  "connector_connect N connector sname stream = tls_connect N connector sname stream"

record 'io rustcrypto_client_stream =
  rx_inner :: "'io client_stream"
  rx_info :: connection_info

definition connect_tcp ::
    "'io tokio_lib \<Rightarrow> client_config \<Rightarrow> string \<Rightarrow> 'io \<Rightarrow> ('io rustcrypto_client_stream, tls_error) result" where
  "connect_tcp N connector host stream =
     rbind (rmap_err (\<lambda>e. InvalidConfig (''invalid SNI: '' @ e)) (server_name_try_from N host)) (\<lambda>sni.
     rbind (rmap_err (\<lambda>e. Handshake (snd e)) (tls_connect N connector sni stream)) (\<lambda>tls.
     let info = connection_info_from_state (cs_common tls) in
     Ok \<lparr> rx_inner = tls, rx_info = info \<rparr>))"

text \<open>\<open>oxitls_core::TlsConnector::connect\<close>; the boxed stream is the stream.\<close>

definition core_connect ::
    "'io tokio_lib \<Rightarrow> client_config \<Rightarrow> 'io \<Rightarrow> string \<Rightarrow> ('io client_stream, tls_error) result" where
  "core_connect N connector stream sname =
     rmap_err (\<lambda>e. Handshake (snd e)) (tls_connect N connector sname stream)"

definition rx_connection_info :: "'io rustcrypto_client_stream \<Rightarrow> connection_info option" where
  "rx_connection_info s = Some (rx_info s)"

definition acceptor_new :: "server_config \<Rightarrow> server_config" where
  "acceptor_new cfg = cfg"

definition acceptor_accept :: "'io tokio_lib \<Rightarrow> server_config \<Rightarrow> 'io \<Rightarrow> ('io server_stream, io_failure) result" where
  "acceptor_accept N acceptor stream = tls_accept N acceptor stream"

definition accept_tcp :: "'io tokio_lib \<Rightarrow> server_config \<Rightarrow> 'io \<Rightarrow> ('io server_stream, tls_error) result" where
  "accept_tcp N acceptor stream = rmap_err (\<lambda>e. Handshake (snd e)) (tls_accept N acceptor stream)"

definition core_accept :: "'io tokio_lib \<Rightarrow> server_config \<Rightarrow> 'io \<Rightarrow> ('io server_stream, tls_error) result" where
  "core_accept N acceptor stream = rmap_err (\<lambda>e. Handshake (snd e)) (tls_accept N acceptor stream)"

definition connect_with_alpn ::
    "rustls_lib \<Rightarrow> 'io tokio_lib \<Rightarrow> 'io \<Rightarrow> string \<Rightarrow> bytes list \<Rightarrow> root_store \<Rightarrow>
      ('io rustcrypto_client_stream, tls_error) result" where
  "connect_with_alpn S N stream host alpn roots =
     (let provider = pure_provider S in
      rbind (rmap_err InvalidConfig (versions_ok S provider (default_versions S))) (\<lambda>_.
      let cfg = new_config provider (default_versions S) None (roots_verifier S roots provider) NoClientAuth;
          cfg = cfg\<lparr> cc_alpn := alpn \<rparr>;
          connector = connector_new cfg in
      connect_tcp N connector host stream))"

text \<open>\<open>elapsed\<close> says that the timeout ends before the handshake.\<close>

definition accept_with_timeout ::
    "'io tokio_lib \<Rightarrow> server_config \<Rightarrow> 'io \<Rightarrow> bool \<Rightarrow> ('io server_stream, tls_error) result" where
  "accept_with_timeout N acceptor stream elapsed =
     (if elapsed then Err (Other ''TLS handshake timed out'') else accept_tcp N acceptor stream)"

definition from_config_with_sni ::
    "'io tokio_lib \<Rightarrow> 'io \<Rightarrow> client_config \<Rightarrow> string \<Rightarrow> ('io rustcrypto_client_stream, tls_error) result" where
  "from_config_with_sni N stream config sni = connect_tcp N (connector_new config) sni stream"

section \<open>The unified stream of the facade\<close>

datatype 'io inner_stream = ClientInner "'io client_stream" | ServerInner "'io server_stream"

record 'io oxi_tls_stream =
  ox_inner :: "'io inner_stream"
  ox_info :: "connection_info option"

definition early_data :: "'io oxi_tls_stream \<Rightarrow> nat option" where
  "early_data s = (case ox_inner s of ClientInner c \<Rightarrow> cs_early_data c | ServerInner _ \<Rightarrow> None)"

definition ox_ech_status :: "'io oxi_tls_stream \<Rightarrow> ech_status option" where
  "ox_ech_status s = (case ox_inner s of ClientInner c \<Rightarrow> Some (cs_ech_status c) | ServerInner _ \<Rightarrow> None)"

definition from_client :: "'io client_stream \<Rightarrow> connection_info option \<Rightarrow> 'io oxi_tls_stream" where
  "from_client stream info = \<lparr> ox_inner = ClientInner stream, ox_info = info \<rparr>"

definition from_server :: "'io server_stream \<Rightarrow> connection_info option \<Rightarrow> 'io oxi_tls_stream" where
  "from_server stream info = \<lparr> ox_inner = ServerInner stream, ox_info = info \<rparr>"

definition ox_connection_info :: "'io oxi_tls_stream \<Rightarrow> connection_info option" where
  "ox_connection_info s = ox_info s"

definition get_ref :: "'io oxi_tls_stream \<Rightarrow> 'io" where
  "get_ref s = (case ox_inner s of ClientInner c \<Rightarrow> cs_transport c | ServerInner v \<Rightarrow> ss_transport v)"

definition into_inner :: "'io oxi_tls_stream \<Rightarrow> 'io" where
  "into_inner s = (case ox_inner s of ClientInner c \<Rightarrow> cs_transport c | ServerInner v \<Rightarrow> ss_transport v)"

text \<open>The result is the bytes that fill the output buffer.\<close>

definition export_keying_material ::
    "'io oxi_tls_stream \<Rightarrow> nat \<Rightarrow> bytes \<Rightarrow> bytes option \<Rightarrow> (bytes, tls_error) result" where
  "export_keying_material s output_len label context =
     (case ox_inner s of
        ClientInner c \<Rightarrow> rmap_err Other (cs_exporter c output_len label context)
      | ServerInner v \<Rightarrow> rmap_err Other (ss_exporter v output_len label context))"

definition ox_from_client :: "'io client_stream \<Rightarrow> 'io oxi_tls_stream" where
  "ox_from_client stream = \<lparr> ox_inner = ClientInner stream, ox_info = None \<rparr>"

definition ox_from_server :: "'io server_stream \<Rightarrow> 'io oxi_tls_stream" where
  "ox_from_server stream = \<lparr> ox_inner = ServerInner stream, ox_info = None \<rparr>"

text \<open>\<open>TlsConnectionExt\<close> for both kinds of stream.\<close>

definition client_tls_connection_info :: "'io client_stream \<Rightarrow> connection_info" where
  "client_tls_connection_info s =
     (let info = connection_info_from_state (cs_common s) in
      case cs_peer_certificates s of Some certs \<Rightarrow> with_peer_certificates certs info | None \<Rightarrow> info)"

definition server_tls_connection_info :: "'io server_stream \<Rightarrow> connection_info" where
  "server_tls_connection_info s =
     (let info = connection_info_from_state (ss_common s);
          info = (case ss_peer_certificates s of Some certs \<Rightarrow> with_peer_certificates certs info | None \<Rightarrow> info) in
      case ss_server_name s of Some sni \<Rightarrow> with_sni sni info | None \<Rightarrow> info)"

section \<open>Polling\<close>

datatype 'a poll = Pending | Ready "('a, io_failure) result"

text \<open>The \<open>poll\<close> functions of tokio-rustls: a read returns the buffer after it, and each returns the stream after it.\<close>

record 'io poll_lib =
  client_poll_read :: "'io client_stream \<Rightarrow> bytes \<Rightarrow> unit poll \<times> bytes \<times> 'io client_stream"
  server_poll_read :: "'io server_stream \<Rightarrow> bytes \<Rightarrow> unit poll \<times> bytes \<times> 'io server_stream"
  client_poll_write :: "'io client_stream \<Rightarrow> bytes \<Rightarrow> nat poll \<times> 'io client_stream"
  server_poll_write :: "'io server_stream \<Rightarrow> bytes \<Rightarrow> nat poll \<times> 'io server_stream"
  client_poll_flush :: "'io client_stream \<Rightarrow> unit poll \<times> 'io client_stream"
  server_poll_flush :: "'io server_stream \<Rightarrow> unit poll \<times> 'io server_stream"
  client_poll_shutdown :: "'io client_stream \<Rightarrow> unit poll \<times> 'io client_stream"
  server_poll_shutdown :: "'io server_stream \<Rightarrow> unit poll \<times> 'io server_stream"

definition ox_poll_read :: "'io poll_lib \<Rightarrow> 'io oxi_tls_stream \<Rightarrow> bytes \<Rightarrow> unit poll \<times> bytes \<times> 'io oxi_tls_stream" where
  "ox_poll_read P s buf =
     (case ox_inner s of
        ClientInner c \<Rightarrow> (case client_poll_read P c buf of (r, b, c') \<Rightarrow> (r, b, s\<lparr> ox_inner := ClientInner c' \<rparr>))
      | ServerInner v \<Rightarrow> (case server_poll_read P v buf of (r, b, v') \<Rightarrow> (r, b, s\<lparr> ox_inner := ServerInner v' \<rparr>)))"

definition ox_poll_write :: "'io poll_lib \<Rightarrow> 'io oxi_tls_stream \<Rightarrow> bytes \<Rightarrow> nat poll \<times> 'io oxi_tls_stream" where
  "ox_poll_write P s buf =
     (case ox_inner s of
        ClientInner c \<Rightarrow> (case client_poll_write P c buf of (r, c') \<Rightarrow> (r, s\<lparr> ox_inner := ClientInner c' \<rparr>))
      | ServerInner v \<Rightarrow> (case server_poll_write P v buf of (r, v') \<Rightarrow> (r, s\<lparr> ox_inner := ServerInner v' \<rparr>)))"

definition ox_poll_flush :: "'io poll_lib \<Rightarrow> 'io oxi_tls_stream \<Rightarrow> unit poll \<times> 'io oxi_tls_stream" where
  "ox_poll_flush P s =
     (case ox_inner s of
        ClientInner c \<Rightarrow> (case client_poll_flush P c of (r, c') \<Rightarrow> (r, s\<lparr> ox_inner := ClientInner c' \<rparr>))
      | ServerInner v \<Rightarrow> (case server_poll_flush P v of (r, v') \<Rightarrow> (r, s\<lparr> ox_inner := ServerInner v' \<rparr>)))"

definition ox_poll_shutdown :: "'io poll_lib \<Rightarrow> 'io oxi_tls_stream \<Rightarrow> unit poll \<times> 'io oxi_tls_stream" where
  "ox_poll_shutdown P s =
     (case ox_inner s of
        ClientInner c \<Rightarrow> (case client_poll_shutdown P c of (r, c') \<Rightarrow> (r, s\<lparr> ox_inner := ClientInner c' \<rparr>))
      | ServerInner v \<Rightarrow> (case server_poll_shutdown P v of (r, v') \<Rightarrow> (r, s\<lparr> ox_inner := ServerInner v' \<rparr>)))"

definition rx_poll_read ::
    "'io poll_lib \<Rightarrow> 'io rustcrypto_client_stream \<Rightarrow> bytes \<Rightarrow> unit poll \<times> bytes \<times> 'io rustcrypto_client_stream" where
  "rx_poll_read P s buf = (case client_poll_read P (rx_inner s) buf of (r, b, c) \<Rightarrow> (r, b, s\<lparr> rx_inner := c \<rparr>))"

definition rx_poll_write ::
    "'io poll_lib \<Rightarrow> 'io rustcrypto_client_stream \<Rightarrow> bytes \<Rightarrow> nat poll \<times> 'io rustcrypto_client_stream" where
  "rx_poll_write P s buf = (case client_poll_write P (rx_inner s) buf of (r, c) \<Rightarrow> (r, s\<lparr> rx_inner := c \<rparr>))"

definition rx_poll_flush :: "'io poll_lib \<Rightarrow> 'io rustcrypto_client_stream \<Rightarrow> unit poll \<times> 'io rustcrypto_client_stream" where
  "rx_poll_flush P s = (case client_poll_flush P (rx_inner s) of (r, c) \<Rightarrow> (r, s\<lparr> rx_inner := c \<rparr>))"

definition rx_poll_shutdown :: "'io poll_lib \<Rightarrow> 'io rustcrypto_client_stream \<Rightarrow> unit poll \<times> 'io rustcrypto_client_stream" where
  "rx_poll_shutdown P s = (case client_poll_shutdown P (rx_inner s) of (r, c) \<Rightarrow> (r, s\<lparr> rx_inner := c \<rparr>))"

section \<open>Connecting and accepting with the builders of the facade\<close>

definition connector_with_webpki_roots :: "rustls_lib \<Rightarrow> root_lib \<Rightarrow> (client_config, tls_error) result" where
  "connector_with_webpki_roots S R =
     rbind (client_config_fn S (fst (webpki_root_certs R None))) (\<lambda>cfg. Ok (connector_new cfg))"

text \<open>The clone of a client builder shares the client key with the original.\<close>

definition cb_clone :: "client_builder \<Rightarrow> client_builder" where
  "cb_clone b = b\<lparr> cb_client_cert := map_option (\<lambda>(certs, key, shared). (certs, key, True)) (cb_client_cert b) \<rparr>"

text \<open>\<open>GenericTlsConnector::connect\<close> of a client builder.\<close>

definition cb_connect ::
    "rustls_lib \<Rightarrow> ext_lib \<Rightarrow> root_lib \<Rightarrow> bool \<Rightarrow> 'io tokio_lib \<Rightarrow> client_builder \<Rightarrow> 'io \<Rightarrow> string \<Rightarrow>
      ('io oxi_tls_stream, tls_error) result" where
  "cb_connect S L R post_quantum N b stream sname =
     (case cb_build S L R post_quantum (cb_clone b) of
        Err e \<Rightarrow> Err e
      | Ok cfg \<Rightarrow>
          rbind (rmap_err (\<lambda>e. Other (snd e)) (tls_connect N cfg sname stream)) (\<lambda>tls_stream.
          Ok (from_client tls_stream None)))"

text \<open>A server builder that is accepting, with the intervals of the rotation tasks that were spawned.\<close>

record accepting_server =
  as_builder :: server_builder
  as_tasks :: "nat list"

text \<open>\<open>GenericTlsAcceptor::accept\<close> of a server builder; \<open>build\<close> spawns a task for a rotating ticketer.\<close>

definition sb_accept ::
    "rustls_lib \<Rightarrow> rustls_server_lib \<Rightarrow> bool \<Rightarrow> 'io tokio_lib \<Rightarrow> accepting_server \<Rightarrow> 'io \<Rightarrow>
      ('io oxi_tls_stream, tls_error) result \<times> accepting_server" where
  "sb_accept S T post_quantum N srv stream =
     (case sb_build S T post_quantum (sb_clone (as_builder srv)) of
        Err e \<Rightarrow> (Err e, srv)
      | Ok cfg \<Rightarrow>
          let srv' = (case sc_rotation cfg of Some i \<Rightarrow> srv\<lparr> as_tasks := as_tasks srv @ [i] \<rparr> | None \<Rightarrow> srv) in
          (rbind (rmap_err (\<lambda>e. Other (snd e)) (tls_accept N cfg stream)) (\<lambda>tls_stream.
           Ok (from_server tls_stream None)), srv'))"

text \<open>One tick of the \<open>j\<close>-th rotation task; there is none when no such task was spawned. The task holds a weak
  reference to the ticketer, which is alive because the builder holds it. A failed draw of the key leaves it as it is.\<close>

definition task_tick :: "nat \<Rightarrow> (bytes, string) result \<Rightarrow> accepting_server \<Rightarrow> accepting_server option" where
  "task_tick j rnd srv =
     (if length (as_tasks srv) \<le> j then None
      else case sb_rotation_ticketer (as_builder srv) of
        None \<Rightarrow> None
      | Some (t, i) \<Rightarrow>
          map_option (\<lambda>t'. srv\<lparr> as_builder := (as_builder srv)\<lparr> sb_rotation_ticketer := Some (t', i) \<rparr> \<rparr>)
            (rotation_turn True rnd t))"

text \<open>Ticks one after the other, each of some task with the key it draws.\<close>

fun task_ticks :: "(nat \<times> (bytes, string) result) list \<Rightarrow> accepting_server \<Rightarrow> accepting_server option" where
  "task_ticks [] srv = Some srv"
| "task_ticks ((j, rnd) # ticks) srv = Option.bind (task_tick j rnd srv) (task_ticks ticks)"

section \<open>Who is connected\<close>

text \<open>What rustls documents of a client handshake: it ends well only after the verifier of the configuration has accepted the
  certificates of the peer for the requested name. With a resumed session that was in an earlier handshake.\<close>

definition handshake_verifies :: "'io tokio_lib \<Rightarrow> bool" where
  "handshake_verifies N \<longleftrightarrow>
     (\<forall>cfg name io s. tls_connect N cfg name io = Ok s \<longrightarrow>
        (\<exists>a. cs_peer_certificates s = Some (end_entity a # intermediates a) \<and> server_name a = name \<and>
             verify_server_cert (cc_verifier cfg) a = Ok ()))"

lemma cb_clone_fields:
  "cb_server_rpk (cb_clone b) = cb_server_rpk b" "cb_danger_certs (cb_clone b) = cb_danger_certs b"
  "cb_danger_hostnames (cb_clone b) = cb_danger_hostnames b" "cb_cert_pins (cb_clone b) = cb_cert_pins b"
  "cb_crls (cb_clone b) = cb_crls b" "cb_ct_logs (cb_clone b) = cb_ct_logs b"
  "cb_use_adapter (cb_clone b) = cb_use_adapter b" "cb_root_store R (cb_clone b) = cb_root_store R b"
  by (simp_all add: cb_clone_def cb_use_adapter_def cb_root_store_def)

text \<open>C2: Whoever is at the other end of a stream that the connector of a client builder returns, without raw public keys and
  danger flags, presented certificates for the requested name that the web-PKI verifier over the configured roots
  accepted; its leaf is pinned when pins are set, and its SCTs satisfy the transparency policy when there is one. The
  stream carries no connection information.\<close>

theorem connected_peer_verified:
  assumes "handshake_verifies N" "cb_connect S L R pq N b io name = Ok s"
    and "cb_server_rpk b = None" "\<not> cb_danger_certs b" "\<not> cb_danger_hostnames b"
  shows "\<exists>store w a c. ox_inner s = ClientInner c \<and> ox_connection_info s = None \<and>
     cs_peer_certificates c = Some (end_entity a # intermediates a) \<and> server_name a = name \<and>
     cb_root_store R b = Ok store \<and>
     (if cb_use_adapter b
      then webpki_verifier S store (pure_provider S) (if cb_cert_pins b = [] then cb_crls b else []) = Ok w
      else w \<in> range (roots_verifier S store)) \<and>
     verify_server_cert w a = Ok () \<and>
     (cb_cert_pins b \<noteq> [] \<longrightarrow> sha256 L (end_entity a) \<in> set (cb_cert_pins b)) \<and>
     sct_pass L (map_option (\<lambda>(logs, policy). (policy, logs)) (cb_ct_logs b)) a"
proof -
  obtain cfg c where cfg: "cb_build S L R pq (cb_clone b) = Ok cfg" and c: "tls_connect N cfg name io = Ok c"
    and s: "s = from_client c None"
    using assms(2) by (auto simp: cb_connect_def result_simps split: result.splits)
  obtain a where a: "cs_peer_certificates c = Some (end_entity a # intermediates a)" "server_name a = name"
    "verify_server_cert (cc_verifier cfg) a = Ok ()"
    using assms(1) c unfolding handshake_verifies_def by blast
  from cb_build_accepts [OF cfg, of a] assms(3-) obtain store w where
    "cb_root_store R b = Ok store"
    "if cb_use_adapter b
     then webpki_verifier S store (pure_provider S) (if cb_cert_pins b = [] then cb_crls b else []) = Ok w
     else w = roots_verifier S store (cc_provider cfg)"
    "verify_server_cert w a = Ok ()" "cb_cert_pins b \<noteq> [] \<longrightarrow> sha256 L (end_entity a) \<in> set (cb_cert_pins b)"
    "sct_pass L (map_option (\<lambda>(logs, policy). (policy, logs)) (cb_ct_logs b)) a"
    using a(3) unfolding cb_clone_fields by blast
  with a(1,2) s show ?thesis
    by (intro exI [of _ store] exI [of _ w] exI [of _ a] exI [of _ c])
      (auto simp: from_client_def ox_connection_info_def split: if_splits)
qed

section \<open>Rotation under the generic acceptor\<close>

lemma rotations:
  assumes "\<not> poisoned t"
  shows "let t' = foldl (\<lambda>t k. snd (oxi_rotate (Ok k) t)) t ks in
    \<not> poisoned t' \<and> current t' = last (current t # ks) \<and>
    previous t' = (if ks = [] then previous t else Some (last (current t # butlast ks)))"
  using assms
proof (induction ks rule: rev_induct)
  case (snoc k ks)
  then show ?case by (auto simp: oxi_rotate_def Let_def)
qed simp

text \<open>Whatever tasks tick, the shared ticketer is rotated once for each tick.\<close>

lemma task_ticks_rotate:
  assumes "sb_rotation_ticketer (as_builder srv) = Some (t, i)" "\<forall>(j, k) \<in> set ticks. j < length (as_tasks srv)"
  shows "\<exists>srv'. task_ticks (map (\<lambda>(j, k). (j, Ok k)) ticks) srv = Some srv' \<and> as_tasks srv' = as_tasks srv \<and>
    sb_rotation_ticketer (as_builder srv') = Some (foldl (\<lambda>t k. snd (oxi_rotate (Ok k) t)) t (map snd ticks), i)"
  using assms
proof (induction ticks arbitrary: srv t)
  case (Cons jk ticks)
  obtain j k where jk: "jk = (j, k)" by fastforce
  let ?srv = "srv\<lparr> as_builder := (as_builder srv)\<lparr> sb_rotation_ticketer := Some (snd (oxi_rotate (Ok k) t), i) \<rparr> \<rparr>"
  have "task_tick j (Ok k) srv = Some ?srv"
    using Cons.prems jk by (simp add: task_tick_def rotation_turn_def)
  with Cons.IH [of ?srv "snd (oxi_rotate (Ok k) t)"] Cons.prems jk show ?case by simp
qed simp

lemma sb_rotation_built:
  assumes "sb_rotation_ticketer b = Some (t, i)" "sb_build S T pq (sb_clone b) = Ok cfg"
  shows "sc_rotation cfg = Some (max i one_second)"
  using sb_build_Ok(2) [OF assms(2)] assms(1) by (simp add: sb_clone_def)

lemma accepts_spawn:
  assumes "sb_rotation_ticketer b = Some (t, i)" "sb_build S T pq (sb_clone b) = Ok cfg"
  shows "foldl (\<lambda>s io. snd (sb_accept S T pq N s io)) \<lparr> as_builder = b, as_tasks = tasks \<rparr> ios =
    \<lparr> as_builder = b, as_tasks = tasks @ replicate (length ios) (max i one_second) \<rparr>"
  using sb_rotation_built [OF assms] assms(2)
  by (induction ios arbitrary: tasks) (simp_all add: sb_accept_def Let_def)

lemma oxi_decrypt_keys: "\<not> poisoned t \<Longrightarrow> oxi_decrypt A t tk = first_open (\<lambda>k. decrypt_with_key A k tk) (oxi_keys t)"
  by (rule oxi.decrypt_first)

lemma rotated_ticket:
  assumes "\<not> poisoned t" "decrypt_with_key A (current t) tk = Some p" "\<forall>k \<in> set ks. decrypt_with_key A k tk = None"
  shows "oxi_decrypt A (foldl (\<lambda>t k. snd (oxi_rotate (Ok k) t)) t ks) tk = (if length ks < 2 then Some p else None)"
proof -
  define t' where "t' = foldl (\<lambda>t k. snd (oxi_rotate (Ok k) t)) t ks"
  have t': "\<not> poisoned t'" "current t' = last (current t # ks)"
    "previous t' = (if ks = [] then previous t else Some (last (current t # butlast ks)))"
    using rotations [OF assms(1), of ks] by (simp_all add: t'_def Let_def)
  have "oxi_decrypt A t' tk = (if length ks < 2 then Some p else None)"
  proof (cases ks rule: rev_cases)
    case Nil
    with t' assms(2) show ?thesis by (simp add: oxi_decrypt_keys oxi_keys_def)
  next
    case (snoc ks' k)
    have "ks' \<noteq> [] \<Longrightarrow> last ks' \<in> set ks" using snoc by simp
    with snoc t' assms(2,3) show ?thesis
      by (cases "ks' = []") (auto simp: oxi_decrypt_keys oxi_keys_def)
  qed
  then show ?thesis by (simp add: t'_def)
qed

text \<open>C34: Every connection that the generic acceptor of a server builder accepts starts another task that rotates the one shared
  ticketer, and the tasks never end while the builder lives. Whichever of the spawned tasks tick, and in whatever order, a ticket opens
  after fewer than two ticks and no longer after two or more, since the new keys do not open it. In particular, when each task ticks
  once, as it does in a rotation interval, a ticket survives only while at most one connection was accepted.\<close>

theorem rotation_tasks_pile_up:
  assumes "sb_rotation_ticketer b = Some (t, i)" "\<not> poisoned t" "sb_build S T pq (sb_clone b) = Ok cfg"
    and "srv = foldl (\<lambda>s io. snd (sb_accept S T pq N s io)) \<lparr> as_builder = b, as_tasks = [] \<rparr> ios"
    and "\<forall>(j, k) \<in> set ticks. j < length (as_tasks srv)"
    and "aead_correct A" "oxi_encrypt A t (Some n) p = Some tk" "length n = 12"
    and "\<forall>(j, k) \<in> set ticks. decrypt_with_key A k tk = None"
  shows "as_tasks srv = replicate (length ios) (max i one_second) \<and>
    (\<exists>srv' t'. task_ticks (map (\<lambda>(j, k). (j, Ok k)) ticks) srv = Some srv' \<and> as_tasks srv' = as_tasks srv \<and>
       sb_rotation_ticketer (as_builder srv') = Some (t', i) \<and>
       oxi_decrypt A t' tk = (if length ticks < 2 then Some p else None) \<and>
       (distinct (map fst ticks) \<and> fst ` set ticks = {..<length (as_tasks srv)} \<longrightarrow>
          oxi_decrypt A t' tk = (if length ios < 2 then Some p else None)))"
proof -
  have srv: "srv = \<lparr> as_builder = b, as_tasks = replicate (length ios) (max i one_second) \<rparr>"
    using accepts_spawn [OF assms(1,3), of N "[]" ios] assms(4) by simp
  define ks where "ks = map snd ticks"
  define t' where "t' = foldl (\<lambda>t k. snd (oxi_rotate (Ok k) t)) t ks"
  obtain srv' where run: "task_ticks (map (\<lambda>(j, k). (j, Ok k)) ticks) srv = Some srv'" "as_tasks srv' = as_tasks srv"
    "sb_rotation_ticketer (as_builder srv') = Some (t', i)"
    using task_ticks_rotate [of srv t i ticks] assms(1,5) by (auto simp: srv t'_def ks_def)
  have "decrypt_with_key A (current t) tk = Some p"
    using oxi.encrypt_newest [OF assms(6-8)] by (simp add: oxi_keys_def)
  moreover have "\<forall>k \<in> set ks. decrypt_with_key A k tk = None"
    using assms(9) by (auto simp: ks_def)
  ultimately have opens: "oxi_decrypt A t' tk = (if length ticks < 2 then Some p else None)"
    using rotated_ticket [OF assms(2), of A tk p ks] by (simp add: t'_def ks_def)
  moreover have "length ticks = length ios" if "distinct (map fst ticks)" "fst ` set ticks = {..<length (as_tasks srv)}"
    using distinct_card [OF that(1)] that(2) by (simp add: srv)
  ultimately show ?thesis using run srv by auto
qed

section \<open>Metadata\<close>

text \<open>The information kept by the adapter's stream leaves out the peer certificates that the facade's extension reports;
  on the server the extension adds the name the client asked for.\<close>

lemma connection_metadata:
  assumes "connect_tcp N cfg host io = Ok s"
  shows "rx_connection_info s = Some ((client_tls_connection_info (rx_inner s))\<lparr> ci_peer_certificates := [] \<rparr>)"
    and "ci_peer_certificates (client_tls_connection_info (rx_inner s)) =
      (case cs_peer_certificates (rx_inner s) of Some certs \<Rightarrow> certs | None \<Rightarrow> [])"
    and "ci_sni (server_tls_connection_info v) = ss_server_name v"
proof -
  have i: "ci_peer_certificates (connection_info_from_state st) = []" "ci_sni (connection_info_from_state st) = None" for st
    by (simp_all add: connection_info_defs Let_def split: option.split)
  show "rx_connection_info s = Some ((client_tls_connection_info (rx_inner s))\<lparr> ci_peer_certificates := [] \<rparr>)"
    using assms i(1) [of "cs_common (rx_inner s)"]
    by (auto simp: connect_tcp_def result_simps rx_connection_info_def client_tls_connection_info_def
        with_peer_certificates_def Let_def split: option.split)
  show "ci_peer_certificates (client_tls_connection_info (rx_inner s)) =
      (case cs_peer_certificates (rx_inner s) of Some certs \<Rightarrow> certs | None \<Rightarrow> [])"
    by (simp add: client_tls_connection_info_def with_peer_certificates_def i split: option.split)
  show "ci_sni (server_tls_connection_info v) = ss_server_name v"
    by (simp add: server_tls_connection_info_def with_sni_def with_peer_certificates_def i Let_def split: option.split)
qed

section \<open>Witnesses\<close>

text \<open>A network with one server, whose certificate is a single byte.\<close>

definition example_peer :: "unit client_stream" where
  "example_peer =
     \<lparr> cs_transport = (), cs_common = \<lparr> protocol_version = Some TLSv1_3, negotiated_cipher_suite = None, alpn_protocol = None \<rparr>,
       cs_peer_certificates = Some [[1]], cs_early_data = None, cs_ech_status = EchNotOffered,
       cs_exporter = (\<lambda>n label context. Ok (replicate n 0)) \<rparr>"

definition example_net :: "unit tokio_lib" where
  "example_net =
     \<lparr> tls_connect =
         (\<lambda>cfg name io.
            case verify_server_cert (cc_verifier cfg)
                   \<lparr> end_entity = [1], intermediates = [], server_name = name, ocsp_response = [], now = 0 \<rparr> of
              Ok _ \<Rightarrow> Ok example_peer
            | Err e \<Rightarrow> Err (InvalidData, ''bad certificate'')),
       tls_accept = (\<lambda>cfg io. Err (ConnectionAborted, ''closed'')), server_name_try_from = Ok \<rparr>"

lemma example_net_verifies: "handshake_verifies example_net"
  unfolding handshake_verifies_def
proof (intro allI impI)
  fix cfg name io s
  assume "tls_connect example_net cfg name io = Ok s"
  then show "\<exists>a. cs_peer_certificates s = Some (end_entity a # intermediates a) \<and> server_name a = name \<and>
             verify_server_cert (cc_verifier cfg) a = Ok ()"
    by (intro exI [of _ "\<lparr> end_entity = [1], intermediates = [], server_name = name, ocsp_response = [], now = 0 \<rparr>"])
      (auto simp: example_net_def example_peer_def split: result.splits)
qed

definition example_pinned :: client_builder where
  "example_pinned = cb_with_cert_pinning [[1]] (cb_with_webpki_roots cb_new)"

lemma example_connects:
  "cb_connect example_rustls lib_no_certs example_root_lib False example_net example_pinned () ''x'' =
   Ok (from_client example_peer None)"
proof -
  have "cb_build example_rustls lib_no_certs example_root_lib False (cb_clone example_pinned) = Ok example_config"
    by (simp add: cb_build_def cb_clone_def example_pinned_def example_builder_defs cb_has_roots_def cb_use_adapter_def
        cb_build_adapter_def cb_root_store_def webpki_root_certs_def rc_build_def rc_verifier_def rc_base_verifier_def
        example_rustls_def example_root_lib_def example_config_def new_config_def pure_provider_def cb_resumption_def Let_def
        cb_adapter_def rc_with_alpn_def rc_with_crl_def rc_with_pinned_certs_def rc_with_roots_def rc_new_def)
  moreover have "tls_connect example_net example_config ''x'' () = Ok example_peer"
    by (simp add: example_net_def example_config_def new_config_def cert_pin_verifier_def cert_pin_verify_def
        lib_no_certs_def accept_all_def)
  ultimately show ?thesis by (simp add: cb_connect_def)
qed

theorem connected_peer_verified_witness:
  "\<exists>a :: verify_args. Some [[1]] = Some (end_entity a # intermediates a) \<and> server_name a = ''x'' \<and>
     sha256 lib_no_certs (end_entity a) \<in> set [[1]]"
proof -
  have b: "cb_server_rpk example_pinned = None" "\<not> cb_danger_certs example_pinned" "\<not> cb_danger_hostnames example_pinned"
    "cb_cert_pins example_pinned = [[1]]"
    by (simp_all add: example_pinned_def example_builder_defs)
  obtain a :: verify_args and c where "ox_inner (from_client example_peer None) = ClientInner c"
    "cs_peer_certificates c = Some (end_entity a # intermediates a)" "server_name a = ''x''"
    "sha256 lib_no_certs (end_entity a) \<in> set [[1]]"
    using connected_peer_verified [OF example_net_verifies example_connects b(1-3)] unfolding b(4) by fastforce
  then show ?thesis
    by (intro exI [of _ a]) (auto simp: from_client_def example_peer_def)
qed

definition example_rotating :: server_builder where
  "example_rotating =
     (sb_with_der_cert_and_key [[1]] (Pkcs8 [2]) sb_new)\<lparr> sb_rotation_ticketer := Some (example_ticketer, 5) \<rparr>"

theorem rotation_tasks_pile_up_witness:
  "\<exists>srv' t'. task_ticks [(1, Ok [4]), (1, Ok [7])]
       (foldl (\<lambda>s io. snd (sb_accept example_rustls example_server_lib False example_net s io))
          \<lparr> as_builder = example_rotating, as_tasks = [] \<rparr> [(), ()]) = Some srv' \<and>
     sb_rotation_ticketer (as_builder srv') = Some (t', 5) \<and> oxi_decrypt example_aead t' example_ticket = None"
proof -
  have r: "sb_rotation_ticketer example_rotating = Some (example_ticketer, 5)"
    by (simp add: example_rotating_def)
  obtain cfg where c: "sb_build example_rustls example_server_lib False (sb_clone example_rotating) = Ok cfg"
    using example_server_builds [of "sb_clone example_rotating" "[[1]]" "Pkcs8 [2]"]
    by (auto simp: sb_clone_def example_rotating_def sb_with_der_cert_and_key_def sb_new_def)
  define srv where "srv = foldl (\<lambda>s io. snd (sb_accept example_rustls example_server_lib False example_net s io))
      \<lparr> as_builder = example_rotating, as_tasks = [] \<rparr> [(), ()]"
  have tasks: "length (as_tasks srv) = 2"
    unfolding srv_def accepts_spawn [OF r c] by simp
  have "\<forall>(j, k) \<in> set [(1 :: nat, [4]), (1, [7])]. decrypt_with_key example_aead k example_ticket = None"
    by (simp add: decrypt_with_key_def example_aead_def example_ticket_def ticket_consts slice_def)
  then show ?thesis
    using rotation_tasks_pile_up [OF r _ c srv_def _ example_aead_correct(1) example_ticket_encrypted,
        of "[(1, [4]), (1, [7])]"] tasks
    unfolding srv_def [symmetric] by (auto simp: example_ticketer_def simp del: task_ticks.simps)
qed

end
