(* ===== verification/Core_Conversions.thy ===== *)
theory Core_Conversions
  imports Core_Types
begin

text \<open>
  The rest of \<open>oxitls-core/src/lib.rs\<close>: the text of errors, the conversion of rustls errors, the builder of connection
  information and the text form of an ALPN protocol; and the second conversion of rustls errors, in
  \<open>oxitls-adapter-aws-lc/src/error.rs\<close>, which says that it mirrors the first.
\<close>

section \<open>Errors as text\<close>

fun io_kind_debug :: "io_error_kind \<Rightarrow> string" where
  "io_kind_debug ConnectionAborted = ''ConnectionAborted''"
| "io_kind_debug InvalidData = ''InvalidData''"
| "io_kind_debug InvalidInput = ''InvalidInput''"
| "io_kind_debug PermissionDenied = ''PermissionDenied''"
| "io_kind_debug OtherIo = ''Other''"
| "io_kind_debug (NamedIoKind s) = s"

fun tls_error_display :: "tls_error \<Rightarrow> string" where
  "tls_error_display (Io k) = ''I/O error: '' @ io_kind_debug k"
| "tls_error_display (Handshake s) = ''handshake error: '' @ s"
| "tls_error_display (BadCert s) = ''bad certificate: '' @ s"
| "tls_error_display (InvalidConfig s) = ''invalid config: '' @ s"
| "tls_error_display (CertRevokedErr s) = ''certificate revoked: '' @ s"
| "tls_error_display (CertInvalid s) = ''invalid certificate: '' @ s"
| "tls_error_display (ProtocolViolation s) = ''protocol violation: '' @ s"
| "tls_error_display (AlertReceived d) = ''TLS alert received: '' @ alert_display d"
| "tls_error_display (Other s) = ''TLS error: '' @ s"

section \<open>Errors of rustls\<close>

text \<open>\<open>rustls::Error\<close>: the variants the conversions name, with the debug form of their reason; an alert also has its
  code. The display form is an argument of the conversions.\<close>

datatype rustls_failure =
    NoCertificatesPresented
  | UnsupportedNameType
  | InvalidCertificateErr string
  | PeerIncompatibleErr string
  | PeerMisbehavedErr string
  | AlertReceivedErr byte string
  | BadMaxFragmentSize
  | GeneralErr string
  | OtherFailure string

definition tls_error_from_rustls :: "(rustls_failure \<Rightarrow> string) \<Rightarrow> rustls_failure \<Rightarrow> tls_error" where
  "tls_error_from_rustls to_string e =
     (case e of
        NoCertificatesPresented \<Rightarrow> CertInvalid ''no certificates presented''
      | UnsupportedNameType \<Rightarrow> CertInvalid ''unsupported name type''
      | InvalidCertificateErr reason \<Rightarrow> CertInvalid reason
      | PeerIncompatibleErr reason \<Rightarrow> ProtocolViolation reason
      | PeerMisbehavedErr reason \<Rightarrow> ProtocolViolation reason
      | AlertReceivedErr code alert \<Rightarrow> Handshake (''alert: '' @ alert)
      | BadMaxFragmentSize \<Rightarrow> InvalidConfig ''bad max fragment size''
      | GeneralErr s \<Rightarrow> Other s
      | _ \<Rightarrow> Other (to_string e))"

text \<open>\<open>rustls_error_to_tls_error\<close> of the aws-lc adapter, and its conversions of aws-lc errors.\<close>

definition rustls_error_to_tls_error :: "(rustls_failure \<Rightarrow> string) \<Rightarrow> rustls_failure \<Rightarrow> tls_error" where
  "rustls_error_to_tls_error to_string e =
     (case e of
        InvalidCertificateErr reason \<Rightarrow> CertInvalid reason
      | AlertReceivedErr code alert \<Rightarrow> AlertReceived (alert_from_u8 code)
      | PeerIncompatibleErr reason \<Rightarrow> ProtocolViolation reason
      | PeerMisbehavedErr reason \<Rightarrow> ProtocolViolation reason
      | GeneralErr msg \<Rightarrow> Other msg
      | other \<Rightarrow> Other (to_string other))"

definition unspecified_to_tls_error :: "string \<Rightarrow> tls_error" where
  "unspecified_to_tls_error e = Other (''aws-lc-rs error: '' @ e)"

definition key_rejected_to_tls_error :: "string \<Rightarrow> tls_error" where
  "key_rejected_to_tls_error e = InvalidConfig (''aws-lc-rs key rejected: '' @ e)"

lemma alert_code_kept: "alert_to_u8 (alert_from_u8 c) = c"
  by (simp add: alert_from_u8_def)

text \<open>The two conversions of rustls errors agree exactly on the errors that are not alerts, missing certificates, unsupported
  name types or bad fragment sizes. The conversion of the core never reports a received alert as such, while
  that of the aws-lc adapter keeps the code of the alert.\<close>

theorem rustls_error_conversions:
  "(rustls_error_to_tls_error d e = tls_error_from_rustls d e \<longleftrightarrow>
      e \<notin> {NoCertificatesPresented, UnsupportedNameType, BadMaxFragmentSize} \<and> (\<nexists>code dbg. e = AlertReceivedErr code dbg)) \<and>
   (\<nexists>a. tls_error_from_rustls d e = AlertReceived a) \<and>
   (\<exists>a. rustls_error_to_tls_error d (AlertReceivedErr code dbg) = AlertReceived a \<and> alert_to_u8 a = code)"
proof (intro conjI)
  show "rustls_error_to_tls_error d e = tls_error_from_rustls d e \<longleftrightarrow>
      e \<notin> {NoCertificatesPresented, UnsupportedNameType, BadMaxFragmentSize} \<and> (\<nexists>code dbg. e = AlertReceivedErr code dbg)"
    by (cases e) (simp_all add: rustls_error_to_tls_error_def tls_error_from_rustls_def)
  show "\<nexists>a. tls_error_from_rustls d e = AlertReceived a"
    by (cases e) (simp_all add: tls_error_from_rustls_def)
  show "\<exists>a. rustls_error_to_tls_error d (AlertReceivedErr code dbg) = AlertReceived a \<and> alert_to_u8 a = code"
    by (simp add: rustls_error_to_tls_error_def alert_code_kept)
qed

section \<open>Building connection information\<close>

record connection_info_builder =
  cib_inner :: connection_info

definition cib_new :: connection_info_builder where
  "cib_new = \<lparr> cib_inner = connection_info_new \<rparr>"

definition cib_version :: "tls_version \<Rightarrow> connection_info_builder \<Rightarrow> connection_info_builder" where
  "cib_version v b = b\<lparr> cib_inner := (cib_inner b)\<lparr> ci_version := Some v \<rparr> \<rparr>"

definition cib_cipher_suite :: "cipher_suite \<Rightarrow> connection_info_builder \<Rightarrow> connection_info_builder" where
  "cib_cipher_suite s b = b\<lparr> cib_inner := (cib_inner b)\<lparr> ci_cipher_suite := Some s \<rparr> \<rparr>"

definition cib_alpn_protocol :: "bytes \<Rightarrow> connection_info_builder \<Rightarrow> connection_info_builder" where
  "cib_alpn_protocol p b = b\<lparr> cib_inner := (cib_inner b)\<lparr> ci_alpn_protocol := Some p \<rparr> \<rparr>"

definition cib_sni :: "string \<Rightarrow> connection_info_builder \<Rightarrow> connection_info_builder" where
  "cib_sni s b = b\<lparr> cib_inner := (cib_inner b)\<lparr> ci_sni := Some s \<rparr> \<rparr>"

definition cib_peer_certificates :: "bytes list \<Rightarrow> connection_info_builder \<Rightarrow> connection_info_builder" where
  "cib_peer_certificates cs b = b\<lparr> cib_inner := (cib_inner b)\<lparr> ci_peer_certificates := cs \<rparr> \<rparr>"

definition cib_build :: "connection_info_builder \<Rightarrow> connection_info" where
  "cib_build b = cib_inner b"

section \<open>ALPN as text\<close>

text \<open>\<open>std::str::from_utf8\<close>: well-formed UTF-8 by the table of the Unicode standard; the text is its bytes.\<close>

definition continuation :: "byte \<Rightarrow> bool" where
  "continuation b \<longleftrightarrow> 0x80 \<le> b \<and> b \<le> 0xBF"

fun valid_utf8 :: "bytes \<Rightarrow> bool" where
  "valid_utf8 [] = True"
| "valid_utf8 [a] \<longleftrightarrow> a \<le> 0x7F"
| "valid_utf8 [a, b] \<longleftrightarrow>
     (if a \<le> 0x7F then valid_utf8 [b] else 0xC2 \<le> a \<and> a \<le> 0xDF \<and> continuation b)"
| "valid_utf8 [a, b, c] \<longleftrightarrow>
     (if a \<le> 0x7F then valid_utf8 [b, c]
      else if 0xC2 \<le> a \<and> a \<le> 0xDF then continuation b \<and> valid_utf8 [c]
      else 0xE0 \<le> a \<and> a \<le> 0xEF \<and> continuation b \<and> continuation c \<and>
        (a = 0xE0 \<longrightarrow> 0xA0 \<le> b) \<and> (a = 0xED \<longrightarrow> b \<le> 0x9F))"
| "valid_utf8 (a # b # c # d # bs) \<longleftrightarrow>
     (if a \<le> 0x7F then valid_utf8 (b # c # d # bs)
      else if 0xC2 \<le> a \<and> a \<le> 0xDF then continuation b \<and> valid_utf8 (c # d # bs)
      else if 0xE0 \<le> a \<and> a \<le> 0xEF then
        continuation b \<and> continuation c \<and> (a = 0xE0 \<longrightarrow> 0xA0 \<le> b) \<and> (a = 0xED \<longrightarrow> b \<le> 0x9F) \<and> valid_utf8 (d # bs)
      else 0xF0 \<le> a \<and> a \<le> 0xF4 \<and> continuation b \<and> continuation c \<and> continuation d \<and>
        (a = 0xF0 \<longrightarrow> 0x90 \<le> b) \<and> (a = 0xF4 \<longrightarrow> b \<le> 0x8F) \<and> valid_utf8 bs)"

definition alpn_protocol_str :: "connection_info \<Rightarrow> bytes option" where
  "alpn_protocol_str i = Option.bind (ci_alpn_protocol i) (\<lambda>p. if valid_utf8 p then Some p else None)"

text \<open>Every protocol name of ASCII characters has a text form; h2 is one.\<close>

lemma ascii_valid_utf8: "list_all (\<lambda>b. b \<le> 0x7F) bs \<Longrightarrow> valid_utf8 bs"
  by (induction bs rule: valid_utf8.induct) auto

lemma alpn_str_of_built:
  "list_all (\<lambda>b. b \<le> 0x7F) p \<Longrightarrow> alpn_protocol_str (cib_build (cib_alpn_protocol p b)) = Some p"
  by (simp add: alpn_protocol_str_def cib_build_def cib_alpn_protocol_def ascii_valid_utf8)

section \<open>The order of versions\<close>

text \<open>Protocol versions are ordered by their age, and \<open>TlsVersion::ALL\<close> lists all of them in ascending order, as its comment says.\<close>

instantiation tls_version :: linorder
begin

definition less_eq_tls_version :: "tls_version \<Rightarrow> tls_version \<Rightarrow> bool" where
  "less_eq_tls_version v w \<longleftrightarrow> v = Tls12 \<or> w = Tls13"

definition less_tls_version :: "tls_version \<Rightarrow> tls_version \<Rightarrow> bool" where
  "less_tls_version v w \<longleftrightarrow> v = Tls12 \<and> w = Tls13"

instance
proof
  fix u v w :: tls_version
  show "u < v \<longleftrightarrow> u \<le> v \<and> \<not> v \<le> u" "u \<le> v \<or> v \<le> u" "u \<le> u"
    by (cases u; cases v; simp add: less_eq_tls_version_def less_tls_version_def)+
  show "u \<le> v \<Longrightarrow> v \<le> w \<Longrightarrow> u \<le> w" "u \<le> v \<Longrightarrow> v \<le> u \<Longrightarrow> u = v"
    by (cases u; cases v; cases w; simp add: less_eq_tls_version_def)+
qed

end

lemma all_versions_ascending: "all_tls_versions = sorted_list_of_set UNIV"
proof -
  have "(UNIV :: tls_version set) = {Tls12, Tls13}"
    using tls_version.exhaust by blast
  then have "sorted_list_of_set (UNIV :: tls_version set) = sorted_list_of_set {Tls12, Tls13}" by (rule arg_cong)
  then show ?thesis
    by (simp add: all_tls_versions_def less_eq_tls_version_def)
qed

section \<open>The random generator of the operating system\<close>

text \<open>\<open>OsRng\<close> of \<open>os_rng.rs\<close>. \<open>getrandom\<close> returns the filled buffer or fails; \<open>None\<close> is the panic of \<open>expect\<close>. The words are read in the
  byte order of the machine, \<open>big\<close> or little.\<close>

definition os_fill_bytes :: "(bytes \<Rightarrow> (bytes, string) result) \<Rightarrow> bytes \<Rightarrow> bytes option" where
  "os_fill_bytes getrandom dest = (case getrandom dest of Ok b \<Rightarrow> Some b | Err _ \<Rightarrow> None)"

definition os_try_fill_bytes :: "(bytes \<Rightarrow> (bytes, string) result) \<Rightarrow> bytes \<Rightarrow> (bytes, string) result option" where
  "os_try_fill_bytes getrandom dest = map_option Ok (os_fill_bytes getrandom dest)"

definition from_ne_bytes :: "bool \<Rightarrow> bytes \<Rightarrow> nat" where
  "from_ne_bytes big b = (if big then be_decode b else be_decode (rev b))"

definition os_next_u32 :: "bool \<Rightarrow> (bytes \<Rightarrow> (bytes, string) result) \<Rightarrow> u32 option" where
  "os_next_u32 big getrandom = map_option (\<lambda>b. of_nat (from_ne_bytes big b)) (os_fill_bytes getrandom (replicate 4 0))"

definition os_next_u64 :: "bool \<Rightarrow> (bytes \<Rightarrow> (bytes, string) result) \<Rightarrow> u64 option" where
  "os_next_u64 big getrandom = map_option (\<lambda>b. of_nat (from_ne_bytes big b)) (os_fill_bytes getrandom (replicate 8 0))"

text \<open>The fallible variant never reports an error: a failure of the generator is a panic there too.\<close>

lemma try_fill_never_fails:
  "os_try_fill_bytes getrandom dest \<noteq> Some (Err e)"
  "\<not> is_ok (getrandom dest) \<Longrightarrow> os_try_fill_bytes getrandom dest = None"
  by (auto simp: os_try_fill_bytes_def os_fill_bytes_def split: result.splits)

end
