(* ===== verification/Aws_Lc.thy ===== *)
theory Aws_Lc
  imports Server_Builder
begin

text \<open>
  The configuration side of \<open>oxitls-adapter-aws-lc\<close> (\<open>lib.rs\<close>, \<open>provider.rs\<close>, \<open>client.rs\<close>, \<open>server.rs\<close>, \<open>fips.rs\<close>,
  \<open>provider_type.rs\<close>). The provider of aws-lc-rs and its FIPS state are the record \<open>aws_lc_lib\<close>; the configurations are those of
  the builders. Suites and groups are their names.
\<close>

section \<open>Providers\<close>

record aws_lc_lib =
  aws_default_provider :: crypto_provider
  try_fips_mode :: "(unit, string) result"

definition aws_lc_provider :: "aws_lc_lib \<Rightarrow> crypto_provider" where
  "aws_lc_provider W = aws_default_provider W"

definition aws_lc_provider_tls12_only :: "aws_lc_lib \<Rightarrow> crypto_provider \<times> tls_version list" where
  "aws_lc_provider_tls12_only W = (aws_lc_provider W, [Tls12])"

definition aws_lc_provider_with_cipher_suites :: "aws_lc_lib \<Rightarrow> string list \<Rightarrow> crypto_provider" where
  "aws_lc_provider_with_cipher_suites W suites = (aws_default_provider W)\<lparr> cipher_suites := suites \<rparr>"

definition aws_supported_cipher_suites :: "aws_lc_lib \<Rightarrow> string list" where
  "aws_supported_cipher_suites W = cipher_suites (aws_lc_provider W)"

definition aws_supported_kx_groups :: "aws_lc_lib \<Rightarrow> string list" where
  "aws_supported_kx_groups W = kx_groups (aws_lc_provider W)"

definition is_fips_mode :: "aws_lc_lib \<Rightarrow> bool" where
  "is_fips_mode W = is_ok (try_fips_mode W)"

section \<open>Configurations\<close>

definition aws_lc_client_config ::
    "rustls_lib \<Rightarrow> aws_lc_lib \<Rightarrow> root_store \<Rightarrow> bytes list \<Rightarrow> (client_config, tls_error) result" where
  "aws_lc_client_config S W roots alpn =
     (let provider = aws_lc_provider W in
      rbind (rmap_err InvalidConfig (versions_ok S provider (default_versions S))) (\<lambda>_.
      let cfg = new_config provider (default_versions S) None (roots_verifier S roots provider) NoClientAuth in
      Ok (if alpn \<noteq> [] then cfg\<lparr> cc_alpn := alpn \<rparr> else cfg)))"

definition aws_lc_mtls_client_config ::
    "rustls_lib \<Rightarrow> aws_lc_lib \<Rightarrow> root_store \<Rightarrow> bytes list \<Rightarrow> private_key_der \<Rightarrow> (client_config, tls_error) result" where
  "aws_lc_mtls_client_config S W roots client_cert_chain client_key =
     (let provider = aws_lc_provider W in
      rbind (rmap_err InvalidConfig (versions_ok S provider (default_versions S))) (\<lambda>_.
      rbind (rmap_err BadCert (client_auth_cert S provider client_cert_chain client_key)) (\<lambda>_.
      Ok (new_config provider (default_versions S) None (roots_verifier S roots provider)
            (ClientAuthCert client_cert_chain client_key)))))"

definition aws_lc_server_config ::
    "rustls_lib \<Rightarrow> rustls_server_lib \<Rightarrow> aws_lc_lib \<Rightarrow> bytes list \<Rightarrow> private_key_der \<Rightarrow> bytes list \<Rightarrow>
      (server_config, tls_error) result" where
  "aws_lc_server_config S T W certs key alpn =
     (let provider = aws_lc_provider W in
      rbind (rmap_err InvalidConfig (versions_ok S provider (default_versions S))) (\<lambda>_.
      rbind (rmap_err BadCert (single_cert_ok T provider certs key None)) (\<lambda>_.
      let cfg = new_server_config provider (default_versions S) NoClientCert (SingleCert certs key None) in
      Ok (if alpn \<noteq> [] then cfg\<lparr> sc_alpn := alpn \<rparr> else cfg))))"

section \<open>AwsLcTlsProvider\<close>

record aws_tls_provider =
  atp_inner :: crypto_provider

definition atp_new :: "aws_lc_lib \<Rightarrow> aws_tls_provider" where
  "atp_new W = \<lparr> atp_inner = aws_lc_provider W \<rparr>"

definition atp_with_cipher_suites :: "aws_lc_lib \<Rightarrow> string list \<Rightarrow> aws_tls_provider" where
  "atp_with_cipher_suites W suites = \<lparr> atp_inner = aws_lc_provider_with_cipher_suites W suites \<rparr>"

definition atp_tls12_only :: "aws_lc_lib \<Rightarrow> aws_tls_provider \<Rightarrow> aws_tls_provider \<times> tls_version list" where
  "atp_tls12_only W self = (let (provider, versions) = aws_lc_provider_tls12_only W in (\<lparr> atp_inner = provider \<rparr>, versions))"

definition atp_is_fips :: "aws_lc_lib \<Rightarrow> aws_tls_provider \<Rightarrow> bool" where
  "atp_is_fips W self = is_fips_mode W"

definition atp_cipher_suites :: "aws_tls_provider \<Rightarrow> string list" where
  "atp_cipher_suites self = cipher_suites (atp_inner self)"

definition atp_kx_groups :: "aws_tls_provider \<Rightarrow> string list" where
  "atp_kx_groups self = kx_groups (atp_inner self)"

definition atp_client_config ::
    "rustls_lib \<Rightarrow> aws_lc_lib \<Rightarrow> aws_tls_provider \<Rightarrow> root_store \<Rightarrow> (client_config, tls_error) result" where
  "atp_client_config S W self roots = aws_lc_client_config S W roots []"

definition atp_mtls_client_config ::
    "rustls_lib \<Rightarrow> aws_lc_lib \<Rightarrow> aws_tls_provider \<Rightarrow> root_store \<Rightarrow> bytes list \<Rightarrow> private_key_der \<Rightarrow>
      (client_config, tls_error) result" where
  "atp_mtls_client_config S W self roots cert_chain key = aws_lc_mtls_client_config S W roots cert_chain key"

definition atp_server_config ::
    "rustls_lib \<Rightarrow> rustls_server_lib \<Rightarrow> aws_lc_lib \<Rightarrow> aws_tls_provider \<Rightarrow> bytes list \<Rightarrow> private_key_der \<Rightarrow>
      (server_config, tls_error) result" where
  "atp_server_config S T W self cert_chain key = aws_lc_server_config S T W cert_chain key []"

definition atp_as_provider :: "aws_tls_provider \<Rightarrow> crypto_provider" where
  "atp_as_provider self = atp_inner self"

section \<open>What a restriction restricts\<close>

lemma aws_configs:
  "aws_lc_client_config S W roots alpn = Ok cfg \<Longrightarrow>
     cc_provider cfg = aws_default_provider W \<and> cc_alpn cfg = alpn \<and>
     cc_verifier cfg = roots_verifier S roots (aws_default_provider W) \<and> cc_client_auth cfg = NoClientAuth"
  "aws_lc_mtls_client_config S W roots chain key = Ok cfg' \<Longrightarrow>
     cc_provider cfg' = aws_default_provider W \<and> cc_client_auth cfg' = ClientAuthCert chain key \<and>
     cc_verifier cfg' = roots_verifier S roots (aws_default_provider W)"
  "aws_lc_server_config S T W chain key alpn = Ok srv \<Longrightarrow>
     sc_provider srv = aws_default_provider W \<and> sc_alpn srv = alpn \<and> sc_cert srv = SingleCert chain key None"
  by (auto simp: aws_lc_client_config_def aws_lc_mtls_client_config_def aws_lc_server_config_def aws_lc_provider_def
      new_config_def new_server_config_def result_simps Let_def split: if_splits)

text \<open>A provider restricted to some cipher suites reports those suites and hands them out, but every client and server configuration
  made from it, and its TLS 1.2 form, has the default provider with all suites.\<close>

theorem aws_restriction_lost:
  assumes "p = atp_with_cipher_suites W suites"
  shows "atp_cipher_suites p = suites \<and> cipher_suites (atp_as_provider p) = suites \<and>
    (atp_client_config S W p roots = Ok cfg \<longrightarrow> cc_provider cfg = aws_lc_provider W) \<and>
    (atp_mtls_client_config S W p roots chain key = Ok cfg' \<longrightarrow> cc_provider cfg' = aws_lc_provider W) \<and>
    (atp_server_config S T W p chain key = Ok srv \<longrightarrow> sc_provider srv = aws_lc_provider W) \<and>
    atp_tls12_only W p = (atp_new W, [Tls12]) \<and>
    (suites \<noteq> aws_supported_cipher_suites W \<longrightarrow> atp_cipher_suites (fst (atp_tls12_only W p)) \<noteq> suites)"
  using assms
  by (auto simp: atp_client_config_def atp_mtls_client_config_def atp_server_config_def atp_cipher_suites_def atp_as_provider_def
      atp_with_cipher_suites_def aws_lc_provider_with_cipher_suites_def atp_tls12_only_def aws_lc_provider_tls12_only_def
      atp_new_def aws_lc_provider_def aws_supported_cipher_suites_def dest: aws_configs)

definition example_aws :: aws_lc_lib where
  "example_aws =
     \<lparr> aws_default_provider = \<lparr> provider_name = ''aws-lc'', cipher_suites = [''A'', ''B''], kx_groups = [], provider_schemes = [] \<rparr>,
       try_fips_mode = Err '''' \<rparr>"

theorem aws_restriction_lost_witness:
  "\<exists>cfg. atp_client_config example_rustls example_aws (atp_with_cipher_suites example_aws [''A'']) [] = Ok cfg \<and>
     cipher_suites (cc_provider cfg) = [''A'', ''B'']"
proof -
  obtain cfg where c: "atp_client_config example_rustls example_aws (atp_with_cipher_suites example_aws [''A'']) [] = Ok cfg"
    by (simp add: atp_client_config_def aws_lc_client_config_def example_rustls_def Let_def)
  with aws_restriction_lost [OF refl, of example_aws "[''A'']" example_rustls "[]" cfg] show ?thesis
    by (simp add: aws_lc_provider_def example_aws_def)
qed

end
