(* ===== verification/Ct_Logs.thy ===== *)
theory Ct_Logs
  imports Client_Builder
begin

text \<open>
  The table of known transparency logs (\<open>verifier/ct_logs.rs\<close>), used with the SCT verifier. What matters of it: the
  identifiers are distinct and 32 bytes long, the keys have the form of P-256 keys, and a verifier over the
  table can never see more logs than the table has.
\<close>

section \<open>The table\<close>

definition GOOGLE_ARGON_2026H1_SPKI_DER :: bytes where
  "GOOGLE_ARGON_2026H1_SPKI_DER =
    [0x30, 0x59, 0x30, 0x13, 0x06, 0x07, 0x2A, 0x86, 0x48, 0xCE, 0x3D, 0x02, 0x01, 0x06, 0x08, 0x2A,
     0x86, 0x48, 0xCE, 0x3D, 0x03, 0x01, 0x07, 0x03, 0x42, 0x00, 0x04, 0x07, 0xFC, 0x1E, 0xE8, 0x63,
     0x8E, 0xFF, 0x1C, 0x31, 0x8A, 0xFC, 0xB8, 0x1E, 0x19, 0x2B, 0x60, 0x50, 0x00, 0x3E, 0x8E, 0x9E,
     0xDA, 0x77, 0x37, 0xE3, 0xA5, 0xA8, 0xDA, 0x8D, 0x94, 0xF8, 0x6B, 0xE8, 0x3D, 0x64, 0x8F, 0x27,
     0x3F, 0x75, 0xB3, 0xFC, 0x6B, 0x12, 0xF0, 0x37, 0x06, 0x4F, 0x64, 0x58, 0x75, 0x14, 0x5D, 0x56,
     0x52, 0xE6, 0x6A, 0x2B, 0x14, 0x4C, 0xEC, 0x81, 0xD1, 0xEA, 0x3E]"

definition GOOGLE_ARGON_2026H1_LOG_ID :: bytes where
  "GOOGLE_ARGON_2026H1_LOG_ID =
    [0x0E, 0x57, 0x94, 0xBC, 0xF3, 0xAE, 0xA9, 0x3E, 0x33, 0x1B, 0x2C, 0x99, 0x07, 0xB3, 0xF7, 0x90,
     0xDF, 0x9B, 0xC2, 0x3D, 0x71, 0x32, 0x25, 0xDD, 0x21, 0xA9, 0x25, 0xAC, 0x61, 0xC5, 0x4E, 0x21]"

definition GOOGLE_ARGON_2026H2_SPKI_DER :: bytes where
  "GOOGLE_ARGON_2026H2_SPKI_DER =
    [0x30, 0x59, 0x30, 0x13, 0x06, 0x07, 0x2A, 0x86, 0x48, 0xCE, 0x3D, 0x02, 0x01, 0x06, 0x08, 0x2A,
     0x86, 0x48, 0xCE, 0x3D, 0x03, 0x01, 0x07, 0x03, 0x42, 0x00, 0x04, 0x2A, 0x3A, 0x67, 0x8B, 0xFE,
     0xBA, 0x0C, 0x86, 0x2B, 0x4A, 0x51, 0x8A, 0xE9, 0x17, 0xFE, 0x7B, 0xA1, 0x76, 0x73, 0xFD, 0xBC,
     0x65, 0x4B, 0xC3, 0x27, 0xBF, 0x4D, 0xF3, 0x5F, 0xA0, 0xCA, 0x29, 0x80, 0x11, 0x20, 0x32, 0x78,
     0xD6, 0x7E, 0xF9, 0x34, 0x60, 0x8C, 0x75, 0xA0, 0xF5, 0x35, 0x50, 0x9C, 0xA1, 0xD3, 0x49, 0x4D,
     0x13, 0xD5, 0x3B, 0x6A, 0x0E, 0xEA, 0x45, 0x9D, 0x24, 0x13, 0x22]"

definition GOOGLE_ARGON_2026H2_LOG_ID :: bytes where
  "GOOGLE_ARGON_2026H2_LOG_ID =
    [0xD7, 0x6D, 0x7D, 0x10, 0xD1, 0xA7, 0xF5, 0x77, 0xC2, 0xC7, 0xE9, 0x5F, 0xD7, 0x00, 0xBF, 0xF9,
     0x82, 0xC9, 0x33, 0x5A, 0x65, 0xE1, 0xD0, 0xB3, 0x01, 0x73, 0x17, 0xC0, 0xC8, 0xC5, 0x69, 0x77]"

definition GOOGLE_XENON_2026H1_SPKI_DER :: bytes where
  "GOOGLE_XENON_2026H1_SPKI_DER =
    [0x30, 0x59, 0x30, 0x13, 0x06, 0x07, 0x2A, 0x86, 0x48, 0xCE, 0x3D, 0x02, 0x01, 0x06, 0x08, 0x2A,
     0x86, 0x48, 0xCE, 0x3D, 0x03, 0x01, 0x07, 0x03, 0x42, 0x00, 0x04, 0x3A, 0x1F, 0xC8, 0xBB, 0xCE,
     0xD5, 0x90, 0x47, 0x34, 0xCA, 0xCA, 0x01, 0x04, 0x27, 0x21, 0x1C, 0xE2, 0x29, 0x3D, 0x92, 0xBB,
     0x91, 0x45, 0xC7, 0x5A, 0x3E, 0xA5, 0xD4, 0xF2, 0x12, 0xE6, 0xE8, 0xE6, 0x43, 0xBA, 0xF3, 0x7B,
     0xC2, 0x38, 0xAF, 0xFC, 0x23, 0x8A, 0x05, 0x56, 0xEB, 0x03, 0x0A, 0x30, 0xCC, 0x63, 0x6C, 0xD9,
     0x3C, 0xBE, 0xF5, 0x7B, 0x94, 0xBA, 0x94, 0xD3, 0xBF, 0x88, 0x4C]"

definition GOOGLE_XENON_2026H1_LOG_ID :: bytes where
  "GOOGLE_XENON_2026H1_LOG_ID =
    [0x96, 0x97, 0x64, 0xBF, 0x55, 0x58, 0x97, 0xAD, 0xF7, 0x43, 0x87, 0x68, 0x37, 0x08, 0x42, 0x77,
     0xE9, 0xF0, 0x3A, 0xD5, 0xF6, 0xA4, 0xF3, 0x36, 0x6E, 0x46, 0xA4, 0x3F, 0x0F, 0xCA, 0xA9, 0xC6]"

definition CLOUDFLARE_NIMBUS_2026_SPKI_DER :: bytes where
  "CLOUDFLARE_NIMBUS_2026_SPKI_DER =
    [0x30, 0x59, 0x30, 0x13, 0x06, 0x07, 0x2A, 0x86, 0x48, 0xCE, 0x3D, 0x02, 0x01, 0x06, 0x08, 0x2A,
     0x86, 0x48, 0xCE, 0x3D, 0x03, 0x01, 0x07, 0x03, 0x42, 0x00, 0x04, 0xD8, 0x5C, 0x61, 0x4F, 0xAC,
     0x6A, 0xD2, 0x20, 0x80, 0x4E, 0x8A, 0x42, 0xF6, 0x04, 0xAD, 0x4B, 0xD4, 0xB1, 0x1C, 0x79, 0x8E,
     0x29, 0x32, 0xDE, 0x69, 0x53, 0x59, 0xEB, 0xAD, 0x78, 0xF3, 0xC0, 0x2A, 0xF2, 0xD0, 0x11, 0x5D,
     0x05, 0x7E, 0xEB, 0xE8, 0xC1, 0xD3, 0xDF, 0x37, 0xBF, 0x91, 0x64, 0x46, 0x6E, 0x0E, 0x27, 0x13,
     0xEA, 0xBB, 0x6F, 0x46, 0x27, 0x58, 0x86, 0xEF, 0x40, 0x21, 0xA3]"

definition CLOUDFLARE_NIMBUS_2026_LOG_ID :: bytes where
  "CLOUDFLARE_NIMBUS_2026_LOG_ID =
    [0xCB, 0x38, 0xF7, 0x15, 0x89, 0x7C, 0x84, 0xA1, 0x44, 0x5F, 0x5B, 0xC1, 0xDD, 0xFB, 0xC9, 0x6E,
     0xF2, 0x9A, 0x59, 0xCD, 0x47, 0x0A, 0x69, 0x05, 0x85, 0xB0, 0xCB, 0x14, 0xC3, 0x14, 0x58, 0xE7]"

definition CLOUDFLARE_NIMBUS_2027_SPKI_DER :: bytes where
  "CLOUDFLARE_NIMBUS_2027_SPKI_DER =
    [0x30, 0x59, 0x30, 0x13, 0x06, 0x07, 0x2A, 0x86, 0x48, 0xCE, 0x3D, 0x02, 0x01, 0x06, 0x08, 0x2A,
     0x86, 0x48, 0xCE, 0x3D, 0x03, 0x01, 0x07, 0x03, 0x42, 0x00, 0x04, 0x62, 0x37, 0x7F, 0x8C, 0x4D,
     0x04, 0xA0, 0x08, 0x4D, 0x05, 0xB7, 0xDC, 0x36, 0x1A, 0xD3, 0x6F, 0xB1, 0x74, 0xC7, 0x5D, 0x0A,
     0x64, 0xAF, 0x2B, 0xD9, 0x20, 0xE3, 0xC7, 0x51, 0x9D, 0x8C, 0x9E, 0xF9, 0x84, 0x9A, 0xC7, 0xC7,
     0x63, 0x82, 0x43, 0xE0, 0x57, 0x46, 0x35, 0xE2, 0xF9, 0xCC, 0xE8, 0x44, 0x43, 0x75, 0xBB, 0x48,
     0xFD, 0x71, 0x69, 0x7C, 0x77, 0xA3, 0xA8, 0x3C, 0xC3, 0xE8, 0x81]"

definition CLOUDFLARE_NIMBUS_2027_LOG_ID :: bytes where
  "CLOUDFLARE_NIMBUS_2027_LOG_ID =
    [0x4C, 0x63, 0xDC, 0x98, 0xE5, 0x9C, 0x1D, 0xAB, 0x88, 0xF6, 0x1E, 0x8A, 0x3D, 0xDE, 0xAE, 0x8F,
     0xAB, 0x44, 0xA3, 0x37, 0x7B, 0x5F, 0x9B, 0x94, 0xC3, 0xFB, 0xA1, 0x9C, 0xFC, 0xC1, 0xBE, 0x26]"

definition GOOGLE_ARGON_2027H1_SPKI_DER :: bytes where
  "GOOGLE_ARGON_2027H1_SPKI_DER =
    [0x30, 0x59, 0x30, 0x13, 0x06, 0x07, 0x2A, 0x86, 0x48, 0xCE, 0x3D, 0x02, 0x01, 0x06, 0x08, 0x2A,
     0x86, 0x48, 0xCE, 0x3D, 0x03, 0x01, 0x07, 0x03, 0x42, 0x00, 0x04, 0x28, 0x74, 0x66, 0xD0, 0x7F,
     0xF3, 0x51, 0xA1, 0x40, 0xE8, 0x87, 0x73, 0xE5, 0xC1, 0xAF, 0x18, 0xED, 0xED, 0x08, 0xF4, 0x32,
     0x7C, 0x63, 0x20, 0x26, 0x65, 0x41, 0x38, 0xFC, 0x8A, 0x00, 0xFE, 0xA6, 0x18, 0xCD, 0x48, 0x88,
     0xD5, 0xE2, 0xE0, 0x22, 0xE8, 0x98, 0xE5, 0x32, 0x62, 0x3D, 0x18, 0x37, 0xBE, 0x29, 0xF9, 0xE1,
     0x95, 0x02, 0x91, 0x4C, 0xB0, 0xCE, 0x21, 0xFE, 0x3C, 0xC2, 0xB0]"

definition GOOGLE_ARGON_2027H1_LOG_ID :: bytes where
  "GOOGLE_ARGON_2027H1_LOG_ID =
    [0xD6, 0xD5, 0x8D, 0xA9, 0xD0, 0x17, 0x53, 0xF3, 0x6A, 0x4A, 0xA0, 0xC7, 0x57, 0x49, 0x02, 0xAF,
     0xEB, 0xC7, 0xDC, 0x2C, 0xD3, 0x8C, 0xD9, 0xF7, 0x64, 0xC8, 0x0C, 0x89, 0x19, 0x1E, 0x9F, 0x02]"

definition known_ct_logs :: ct_log_list where
  "known_ct_logs =
     [\<lparr> ct_id = GOOGLE_ARGON_2026H1_LOG_ID, public_key_der = GOOGLE_ARGON_2026H1_SPKI_DER, key_alg = EcdsaP256Sha256 \<rparr>,
      \<lparr> ct_id = GOOGLE_ARGON_2026H2_LOG_ID, public_key_der = GOOGLE_ARGON_2026H2_SPKI_DER, key_alg = EcdsaP256Sha256 \<rparr>,
      \<lparr> ct_id = GOOGLE_XENON_2026H1_LOG_ID, public_key_der = GOOGLE_XENON_2026H1_SPKI_DER, key_alg = EcdsaP256Sha256 \<rparr>,
      \<lparr> ct_id = CLOUDFLARE_NIMBUS_2026_LOG_ID, public_key_der = CLOUDFLARE_NIMBUS_2026_SPKI_DER, key_alg = EcdsaP256Sha256 \<rparr>,
      \<lparr> ct_id = CLOUDFLARE_NIMBUS_2027_LOG_ID, public_key_der = CLOUDFLARE_NIMBUS_2027_SPKI_DER, key_alg = EcdsaP256Sha256 \<rparr>,
      \<lparr> ct_id = GOOGLE_ARGON_2027H1_LOG_ID, public_key_der = GOOGLE_ARGON_2027H1_SPKI_DER, key_alg = EcdsaP256Sha256 \<rparr>]"

lemmas log_bytes = GOOGLE_ARGON_2026H1_SPKI_DER_def GOOGLE_ARGON_2026H1_LOG_ID_def GOOGLE_ARGON_2026H2_SPKI_DER_def GOOGLE_ARGON_2026H2_LOG_ID_def GOOGLE_XENON_2026H1_SPKI_DER_def GOOGLE_XENON_2026H1_LOG_ID_def CLOUDFLARE_NIMBUS_2026_SPKI_DER_def CLOUDFLARE_NIMBUS_2026_LOG_ID_def CLOUDFLARE_NIMBUS_2027_SPKI_DER_def CLOUDFLARE_NIMBUS_2027_LOG_ID_def GOOGLE_ARGON_2027H1_SPKI_DER_def GOOGLE_ARGON_2027H1_LOG_ID_def

section \<open>Well-formedness\<close>

text \<open>A SubjectPublicKeyInfo of P-256: the DER header of the algorithm and of the bit string, then an uncompressed point.\<close>

definition p256_spki_header :: bytes where
  "p256_spki_header =
     [0x30, 0x59, 0x30, 0x13, 0x06, 0x07, 0x2A, 0x86, 0x48, 0xCE, 0x3D, 0x02, 0x01, 0x06, 0x08, 0x2A,
      0x86, 0x48, 0xCE, 0x3D, 0x03, 0x01, 0x07, 0x03, 0x42, 0x00]"

definition wf_ct_log :: "ct_log \<Rightarrow> bool" where
  "wf_ct_log l \<longleftrightarrow> length (ct_id l) = 32 \<and> key_alg l = EcdsaP256Sha256 \<and> length (public_key_der l) = 91 \<and>
     take 26 (public_key_der l) = p256_spki_header \<and> public_key_der l ! 26 = 4"

lemma known_logs_wf: "list_all wf_ct_log known_ct_logs"
  by (simp add: known_ct_logs_def wf_ct_log_def p256_spki_header_def log_bytes)

lemma known_ids_distinct: "distinct (map ct_id known_ct_logs)"
  by (simp add: known_ct_logs_def log_bytes)

lemma find_by_id: "distinct (map ct_id logs) \<Longrightarrow> l \<in> set logs \<Longrightarrow> find (\<lambda>x. ct_id x = ct_id l) logs = Some l"
  by (induction logs) auto

lemma trusted_logs_bound: "card (trusted_logs L scts logs leaf issuer) \<le> length logs"
proof -
  have "card (trusted_logs L scts logs leaf issuer) \<le> card (ct_id ` set logs)"
    using trusted_logs_known by (intro card_mono) auto
  also have "\<dots> \<le> length logs"
    by (metis card_length length_map set_map)
  finally show ?thesis .
qed

text \<open>C35: The table of known logs is well-formed, with distinct identifiers, so every log is found under its identifier. A
  strict policy over any list of logs that asks for more logs than the list has accepts no certificate; over
  the table that is every policy that asks for seven or more.\<close>

theorem known_logs_bound:
  "list_all wf_ct_log known_ct_logs \<and> distinct (map ct_id known_ct_logs) \<and>
   (\<forall>l \<in> set known_ct_logs. find (\<lambda>x. ct_id x = ct_id l) known_ct_logs = Some l) \<and>
   (length logs < unat n \<longrightarrow> verify_server_cert (sct_verifier (L, Strict n, logs) inner) a \<noteq> Ok ()) \<and>
   (6 < unat n \<longrightarrow> verify_server_cert (sct_verifier (L, Strict n, known_ct_logs) inner) a \<noteq> Ok ())"
proof -
  have over: "length logs < unat n \<Longrightarrow> verify_server_cert (sct_verifier (L, Strict n, logs) inner) a \<noteq> Ok ()" for logs
  proof
    assume less: "length logs < unat n" and "verify_server_cert (sct_verifier (L, Strict n, logs) inner) a = Ok ()"
    then obtain scts where "unat n \<le> card (trusted_logs L scts logs (end_entity a) (issuer_of a))"
      by (auto simp: strict_accepts_iff)
    with trusted_logs_bound [of L scts logs "end_entity a" "issuer_of a"] less show False by linarith
  qed
  have six: "length known_ct_logs = 6" by (simp add: known_ct_logs_def)
  show ?thesis
    using known_logs_wf known_ids_distinct find_by_id [OF known_ids_distinct] over [of logs] over [of known_ct_logs]
    unfolding six by blast
qed

theorem known_logs_bound_witness:
  "verify_server_cert (sct_verifier (lib_no_certs, Strict 7, known_ct_logs) accept_all) example_args \<noteq> Ok ()"
  using known_logs_bound [where n = 7 and L = lib_no_certs and inner = accept_all and a = example_args and logs = "[]"] by simp

end
