(* ===== verification/Cert_Compression.thy ===== *)
theory Cert_Compression
  imports Server_Builder
begin

text \<open>
  Certificate compression with zlib (\<open>cert_compression.rs\<close> of \<open>oxitls-adapter-rustls-rustcrypto\<close>): the compressor and
  decompressor that rustls calls, and their installation. The zlib crate is the record \<open>zlib_lib\<close>.
  rustls hands the decompressor a buffer of the announced length; the model returns the buffer after the call.
\<close>

datatype compression_level = Interactive | Amortized

record zlib_lib =
  zlib_compress :: "bytes \<Rightarrow> nat \<Rightarrow> bytes option"
  zlib_decompress :: "bytes \<Rightarrow> bytes option"

datatype compression_failed = CompressionFailed

datatype decompression_failed = DecompressionFailed

definition compress :: "zlib_lib \<Rightarrow> bytes \<Rightarrow> compression_level \<Rightarrow> (bytes, compression_failed) result" where
  "compress Z input level =
     (let lvl = (case level of Interactive \<Rightarrow> 1 | Amortized \<Rightarrow> 9) in
      ok_or (zlib_compress Z input lvl) CompressionFailed)"

definition decompress :: "zlib_lib \<Rightarrow> bytes \<Rightarrow> bytes \<Rightarrow> (unit, decompression_failed) result \<times> bytes" where
  "decompress Z input out_buf =
     (case zlib_decompress Z input of
        None \<Rightarrow> (Err DecompressionFailed, out_buf)
      | Some decoded \<Rightarrow>
          if length decoded \<noteq> length out_buf then (Err DecompressionFailed, out_buf)
          else (Ok (), decoded))"

text \<open>The algorithm code point of zlib in RFC 8879.\<close>

definition compression_algorithm :: u16 where
  "compression_algorithm = 1"

definition install_cert_compression_client :: "client_config \<Rightarrow> client_config" where
  "install_cert_compression_client config = config\<lparr> cc_compression := True \<rparr>"

definition install_cert_compression_server :: "server_config \<Rightarrow> server_config" where
  "install_cert_compression_server config = config\<lparr> sc_compression := True \<rparr>"

text \<open>What the zlib crate promises: decompressing what was compressed gives it back.\<close>

definition zlib_ok :: "zlib_lib \<Rightarrow> bool" where
  "zlib_ok Z \<longleftrightarrow> (\<forall>x lvl c. zlib_compress Z x lvl = Some c \<longrightarrow> zlib_decompress Z c = Some x)"

text \<open>A compressed certificate message is restored exactly into a buffer of its length, at both levels, and into no other
  buffer; whatever is decompressed, the buffer keeps its length, and a failure leaves it unchanged.\<close>

theorem compression_roundtrip:
  assumes "zlib_ok Z" "compress Z x level = Ok c"
  shows "(decompress Z c buf = (Ok (), x) \<longleftrightarrow> length buf = length x) \<and>
    (length buf \<noteq> length x \<longrightarrow> decompress Z c buf = (Err DecompressionFailed, buf)) \<and>
    length (snd (decompress Z d buf)) = length buf \<and>
    (\<not> is_ok (fst (decompress Z d buf)) \<longrightarrow> snd (decompress Z d buf) = buf)"
proof -
  have "zlib_decompress Z c = Some x"
    using assms by (auto simp: zlib_ok_def compress_def Let_def result_simps)
  then show ?thesis by (auto simp: decompress_def split: option.split)
qed

definition example_zlib :: zlib_lib where
  "example_zlib = \<lparr> zlib_compress = (\<lambda>x lvl. Some (of_nat lvl # x)), zlib_decompress = (\<lambda>c. Some (tl c)) \<rparr>"

theorem compression_roundtrip_witness:
  "compress example_zlib [4, 5] Amortized = Ok [9, 4, 5] \<and> decompress example_zlib [9, 4, 5] [0, 0] = (Ok (), [4, 5])"
proof -
  have "compress example_zlib [4, 5] Amortized = Ok [9, 4, 5]" by (simp add: compress_def example_zlib_def)
  with compression_roundtrip [of example_zlib "[4, 5]" Amortized "[9, 4, 5]" "[0, 0]"] show ?thesis
    by (simp add: zlib_ok_def) (simp add: example_zlib_def)
qed

end
