(* ===== verification/Ticket_Service.thy ===== *)
theory Ticket_Service
  imports Anti_Replay
begin

text \<open>
  The session tickets of a server as rustls sees them: the trait \<open>ProducesTickets\<close> with its implementations
  \<open>OxiTicketer\<close>, \<open>AwsLcTicketRotator\<close>, \<open>ArcTicketer\<close> and \<open>AntiReplayTicketer\<close>
  (\<open>oxitls/src/ticketer.rs\<close>, \<open>oxitls/src/anti_replay.rs\<close>, \<open>oxitls-adapter-aws-lc/src/ticketer.rs\<close>), key
  generation and clocks. A ticketer behind the replay guard, as \<open>with_anti_replay\<close> installs it, whose keys are rotated while tickets
  are issued and redeemed, refines an abstract ticket office that knows nothing of keys.
\<close>

section \<open>Keys and clocks\<close>

text \<open>\<open>getrandom::fill\<close> and \<open>aws_lc_rs::rand::fill\<close> overwrite the buffer they are given. The error they report becomes
  a \<open>TlsError\<close> in \<open>oxi_new_with_lifetime\<close>, \<open>oxi_rotate\<close>, \<open>aws_generate\<close> and \<open>aws_rotate\<close>.\<close>

definition ticket_key_generate :: "(bytes \<Rightarrow> (bytes, string) result) \<Rightarrow> (bytes, string) result" where
  "ticket_key_generate random_fill = random_fill (replicate KEY_LEN 0)"

definition random_key :: "(bytes \<Rightarrow> (bytes, string) result) \<Rightarrow> (bytes, string) result" where
  "random_key fill = fill (replicate KEY_LEN 0)"

definition fills :: "(bytes \<Rightarrow> (bytes, string) result) \<Rightarrow> bool" where
  "fills fill \<longleftrightarrow> (\<forall>b b'. fill b = Ok b' \<longrightarrow> length b' = length b)"

text \<open>The system time in seconds, which may lie before the epoch.\<close>

definition system_unix_seconds :: "int \<Rightarrow> u64" where
  "system_unix_seconds t = (if t < 0 then 0 else of_int t)"

type_synonym mock_clock = u64

definition mock_new :: mock_clock where
  "mock_new = 0"

text \<open>\<open>+=\<close> panics on overflow when checks are on; \<open>None\<close> is the panic.\<close>

definition mock_advance_secs :: "u64 \<Rightarrow> mock_clock \<Rightarrow> mock_clock option" where
  "mock_advance_secs secs c = (if unat c + unat secs < 2 ^ 64 then Some (c + secs) else None)"

definition mock_unix_seconds :: "mock_clock \<Rightarrow> u64" where
  "mock_unix_seconds c = c"

section \<open>The trait and its implementations\<close>

text \<open>\<open>encrypt\<close> draws a nonce, \<open>decrypt\<close> may read the clock; both are arguments.\<close>

record 's produces_tickets =
  pt_enabled :: "'s \<Rightarrow> bool"
  pt_lifetime :: "'s \<Rightarrow> u32"
  pt_encrypt :: "'s \<Rightarrow> bytes option \<Rightarrow> bytes \<Rightarrow> bytes option"
  pt_decrypt :: "'s \<Rightarrow> u64 \<Rightarrow> bytes \<Rightarrow> bytes option \<times> 's"

definition oxi_produces :: "aead \<Rightarrow> oxi_ticketer produces_tickets" where
  "oxi_produces A =
     \<lparr> pt_enabled = (\<lambda>_. True), pt_lifetime = lifetime_secs, pt_encrypt = oxi_encrypt A,
       pt_decrypt = (\<lambda>s t ticket. (oxi_decrypt A s ticket, s)) \<rparr>"

definition aws_produces :: "aws_aead \<Rightarrow> aws_rotator produces_tickets" where
  "aws_produces A =
     \<lparr> pt_enabled = (\<lambda>_. True), pt_lifetime = aws_lifetime, pt_encrypt = aws_encrypt A,
       pt_decrypt = (\<lambda>s t ticket. (aws_decrypt A s ticket, s)) \<rparr>"

definition arc_ticketer :: "'s produces_tickets \<Rightarrow> 's produces_tickets" where
  "arc_ticketer P =
     \<lparr> pt_enabled = (\<lambda>s. pt_enabled P s), pt_lifetime = (\<lambda>s. pt_lifetime P s),
       pt_encrypt = (\<lambda>s n plain. pt_encrypt P s n plain), pt_decrypt = (\<lambda>s t ticket. pt_decrypt P s t ticket) \<rparr>"

definition anti_replay_ticketer :: "(bytes \<Rightarrow> bytes) \<Rightarrow> 's produces_tickets \<Rightarrow> ('s \<times> replay_guard) produces_tickets" where
  "anti_replay_ticketer sha P =
     \<lparr> pt_enabled = (\<lambda>(s, g). pt_enabled P s), pt_lifetime = (\<lambda>(s, g). pt_lifetime P s),
       pt_encrypt = (\<lambda>(s, g) n plain. pt_encrypt P s n plain),
       pt_decrypt = (\<lambda>(s, g) t ticket.
         case pt_decrypt P s t ticket of
           (None, s') \<Rightarrow> (None, (s', g))
         | (Some plaintext, s') \<Rightarrow>
             (case check_and_record sha t ticket g of
                (Fresh, g') \<Rightarrow> (Some plaintext, (s', g'))
              | (Replayed, g') \<Rightarrow> (None, (s', g')))) \<rparr>"

definition anti_replay_ticketer_new :: "'s produces_tickets \<Rightarrow> 's \<Rightarrow> 's \<times> replay_guard" where
  "anti_replay_ticketer_new P inner = (inner, replay_guard_new (ucast (pt_lifetime P inner)))"

text \<open>The wrapper around a ticketer whose \<open>decrypt\<close> keeps the state is \<open>anti_replay_decrypt\<close>.\<close>

lemma anti_replay_ticketer_decrypt:
  assumes "\<And>tk. pt_decrypt P s t tk = (d tk, s)"
  shows "pt_decrypt (anti_replay_ticketer sha P) (s, g) t tk =
    (fst (anti_replay_decrypt sha d t tk g), (s, snd (anti_replay_decrypt sha d t tk g)))"
  by (simp add: anti_replay_ticketer_def anti_replay_decrypt_def assms split: option.split prod.split replay_verdict.split)

section \<open>The background task of the aws-lc rotator\<close>

datatype task = Running | Stopped | Aborted

record aws_rotation =
  aw_state :: aws_rotator
  aw_interval :: nat
  aw_task :: "task option"

text \<open>The interval is in nanoseconds. A timer of length zero panics in the task, which then never rotates.\<close>

definition aws_rotator_new :: "(bytes \<Rightarrow> (bytes, string) result) \<Rightarrow> nat \<Rightarrow> (aws_rotation, tls_error) result" where
  "aws_rotator_new fill rotation_interval =
     rbind (aws_generate (random_key fill) (of_nat (rotation_interval div 10 ^ 9))) (\<lambda>state.
     Ok \<lparr> aw_state = state, aw_interval = rotation_interval,
          aw_task = Some (if rotation_interval = 0 then Stopped else Running) \<rparr>)"

definition aws_task_tick :: "(bytes \<Rightarrow> (bytes, string) result) \<Rightarrow> aws_rotation \<Rightarrow> aws_rotation" where
  "aws_task_tick fill r =
     (if aw_task r = Some Running
      then if aws_poisoned (aw_state r) then r\<lparr> aw_task := Some Stopped \<rparr>
           else r\<lparr> aw_state := aws_tick (random_key fill) (aw_state r) \<rparr>
      else r)"

definition aws_rotator_drop :: "aws_rotation \<Rightarrow> aws_rotation \<times> task option" where
  "aws_rotator_drop r = (r\<lparr> aw_task := None \<rparr>, map_option (\<lambda>_. Aborted) (aw_task r))"

section \<open>Types and sizes\<close>

lemma rotations_keep_typed:
  assumes "fills fill" "list_all (\<lambda>k. length k = 32) (oxi_keys st)"
  shows "list_all (\<lambda>k. length k = 32) (oxi_keys (snd (oxi_rotate (ticket_key_generate fill) st)))"
  using assms
  by (auto simp: oxi_keys_def oxi_rotate_def ticket_key_generate_def fills_def KEY_LEN_def split: result.splits option.splits)

lemma aws_ticks_keep_typed:
  assumes "fills fill" "list_all (\<lambda>k. length k = 32) (aws_keys (aw_state r))"
  shows "list_all (\<lambda>k. length k = 32) (aws_keys (aw_state (aws_task_tick fill r)))"
  using assms
  by (auto simp: aws_keys_def aws_task_tick_def aws_tick_def aws_rotate_def random_key_def fills_def KEY_LEN_def
      split: result.splits option.splits)

lemma short_tickets:
  "length tk < 29 \<Longrightarrow> decrypt_with_key A k tk = None" "length tk < 28 \<Longrightarrow> decrypt_ticket W k tk = None"
  by (simp_all add: decrypt_with_key_def decrypt_ticket_def ticket_consts Let_def)

lemma ticket_sizes:
  "aead_correct A \<Longrightarrow> encrypt_with_key A k (Some n) p = Some tk \<Longrightarrow> length tk = 17 + length n + length p"
  "aws_aead_correct W \<Longrightarrow> encrypt_ticket W k (Some n) p = Some tk \<Longrightarrow> length tk = 16 + length n + length p"
  by (auto simp: encrypt_with_key_def encrypt_ticket_def aead_correct_def aws_aead_correct_def split: option.splits)

lemma iterate_keeps:
  assumes "Q s" "\<And>s x. Q s \<Longrightarrow> x \<in> set xs \<Longrightarrow> Q (f x s)"
  shows "Q (fold f xs s)"
  using assms by (induction xs arbitrary: s) auto

text \<open>C36: A ticketer from the constructor keeps one or two keys of 32 bytes through any sequence of rotations whose
  draws may fail, and so does the aws-lc rotator through any ticks of its task. Tickets under them are 29 (28) bytes
  longer than the session state, and nothing shorter than that is opened.\<close>

theorem ticket_keys_typed:
  assumes "list_all fills draws" "fills fill" "aead_correct A" "aws_aead_correct W"
    and "oxi_new_with_lifetime (ticket_key_generate fill) lifetime = Ok st" "aws_rotator_new fill interval = Ok r"
  shows "(let st' = fold (\<lambda>d s. snd (oxi_rotate (ticket_key_generate d) s)) draws st;
              r' = fold aws_task_tick draws r in
     length (oxi_keys st') \<in> {1, 2} \<and> list_all (\<lambda>k. length k = 32) (oxi_keys st') \<and>
     length (aws_keys (aw_state r')) \<in> {1, 2} \<and> list_all (\<lambda>k. length k = 32) (aws_keys (aw_state r')) \<and>
     (length n = 12 \<longrightarrow> oxi_encrypt A st' (Some n) p = Some tk \<longrightarrow> length tk = 29 + length p) \<and>
     (length n = 12 \<longrightarrow> aws_encrypt W (aw_state r') (Some n) p = Some tw \<longrightarrow> length tw = 28 + length p) \<and>
     (length x < 29 \<longrightarrow> oxi_decrypt A st' x = None) \<and> (length x < 28 \<longrightarrow> aws_decrypt W (aw_state r') x = None))"
proof -
  define st' where "st' = fold (\<lambda>d s. snd (oxi_rotate (ticket_key_generate d) s)) draws st"
  define r' where "r' = fold aws_task_tick draws r"
  have "list_all (\<lambda>k. length k = 32) (oxi_keys st)"
    using assms(2,5)
    by (auto simp: oxi_new_with_lifetime_def ticket_key_generate_def fills_def KEY_LEN_def oxi_keys_def result_simps)
  then have "list_all (\<lambda>k. length k = 32) (oxi_keys st')"
    unfolding st'_def by (rule iterate_keeps) (use assms(1) rotations_keep_typed in \<open>auto simp: list_all_iff\<close>)
  moreover have "list_all (\<lambda>k. length k = 32) (aws_keys (aw_state r))"
    using assms(2,6)
    by (auto simp: aws_rotator_new_def aws_generate_def random_key_def fills_def KEY_LEN_def aws_keys_def result_simps)
  then have "list_all (\<lambda>k. length k = 32) (aws_keys (aw_state r'))"
    unfolding r'_def by (rule iterate_keeps) (use assms(1) aws_ticks_keep_typed in \<open>auto simp: list_all_iff\<close>)
  moreover have "length (oxi_keys s) \<in> {1, 2}" "length (aws_keys w) \<in> {1, 2}" for s w
    by (simp_all add: oxi_keys_def aws_keys_def split: option.split)
  moreover have "length n = 12 \<longrightarrow> oxi_encrypt A st' (Some n) p = Some tk \<longrightarrow> length tk = 29 + length p"
    using ticket_sizes(1) [OF assms(3)] by (auto simp: oxi_encrypt_def split: if_splits)
  moreover have "length n = 12 \<longrightarrow> aws_encrypt W (aw_state r') (Some n) p = Some tw \<longrightarrow> length tw = 28 + length p"
    using ticket_sizes(2) [OF assms(4)] by (auto simp: aws_encrypt_def split: if_splits)
  moreover have "length x < 29 \<longrightarrow> oxi_decrypt A st' x = None" "length x < 28 \<longrightarrow> aws_decrypt W (aw_state r') x = None"
    using short_tickets by (simp_all add: oxi_decrypt_def aws_decrypt_def split: option.split)
  ultimately show ?thesis unfolding Let_def st'_def r'_def by blast
qed

section \<open>A server that issues, redeems and rotates\<close>

datatype ticket_event = Issue "bytes option" bytes | Redeem u64 bytes | Rotate "(bytes, string) result"

text \<open>One call on a ticketer behind the guard that \<open>with_anti_replay\<close> installs, with what it returns. The owner of the ticketer or
  the background task rotates the keys of the wrapped ticketer.\<close>

definition service_step ::
    "(bytes \<Rightarrow> bytes) \<Rightarrow> 's produces_tickets \<Rightarrow> ((bytes, string) result \<Rightarrow> 's \<Rightarrow> (unit, tls_error) result \<times> 's) \<Rightarrow>
      ticket_event \<Rightarrow> 's \<times> replay_guard \<Rightarrow> bytes option \<times> 's \<times> replay_guard" where
  "service_step sha P rot ev sg =
     (let T = anti_replay_ticketer sha (arc_ticketer P) in
      case ev of
        Issue nonce plain \<Rightarrow> (pt_encrypt T sg nonce plain, sg)
      | Redeem t ticket \<Rightarrow> pt_decrypt T sg t ticket
      | Rotate rnd \<Rightarrow> (None, (snd (rot rnd (fst sg)), snd sg)))"

fun service_run ::
    "(bytes \<Rightarrow> bytes) \<Rightarrow> 's produces_tickets \<Rightarrow> ((bytes, string) result \<Rightarrow> 's \<Rightarrow> (unit, tls_error) result \<times> 's) \<Rightarrow>
      ticket_event list \<Rightarrow> 's \<times> replay_guard \<Rightarrow> (ticket_event \<times> bytes option) list" where
  "service_run sha P rot [] sg = []"
| "service_run sha P rot (ev # evs) sg =
     (case service_step sha P rot ev sg of (out, sg') \<Rightarrow> (ev, out) # service_run sha P rot evs sg')"

section \<open>The ticket office\<close>

text \<open>The specification: tickets with the session state they stand for and the generation they were issued in, newest first, and when
  each ticket was last accepted.\<close>

record office =
  of_generation :: nat
  of_issued :: "(bytes \<times> bytes \<times> nat) list"
  of_used :: "bytes \<rightharpoonup> u64"
  of_window :: u64
  of_now :: u64

definition office_new :: "u32 \<Rightarrow> office" where
  "office_new lifetime =
     \<lparr> of_generation = 0, of_issued = [], of_used = Map.empty, of_window = ucast lifetime, of_now = 0 \<rparr>"

text \<open>A ticket of this generation or the one before is accepted unless it was accepted within the window.\<close>

definition redeem_answer :: "office \<Rightarrow> u64 \<Rightarrow> bytes \<Rightarrow> bytes option" where
  "redeem_answer b t ticket =
     (case find (\<lambda>(tk, p, i). tk = ticket \<and> of_generation b \<le> Suc i) (of_issued b) of
        None \<Rightarrow> None
      | Some (_, p, _) \<Rightarrow>
          (case of_used b ticket of
             Some r \<Rightarrow> if unat t \<le> unat r + unat (of_window b) then None else Some p
           | None \<Rightarrow> Some p))"

definition office_step :: "ticket_event \<Rightarrow> bytes option \<Rightarrow> office \<Rightarrow> office" where
  "office_step ev out b =
     (case ev of
        Issue _ plain \<Rightarrow>
          (case out of
             Some ticket \<Rightarrow> b\<lparr> of_issued := (ticket, plain, of_generation b) # of_issued b \<rparr>
           | None \<Rightarrow> b)
      | Redeem t ticket \<Rightarrow>
          (case out of
             Some _ \<Rightarrow> b\<lparr> of_now := t, of_used := (of_used b)(ticket \<mapsto> t) \<rparr>
           | None \<Rightarrow> b\<lparr> of_now := t \<rparr>)
      | Rotate rnd \<Rightarrow> (if is_ok rnd then b\<lparr> of_generation := Suc (of_generation b) \<rparr> else b))"

fun office_trace :: "(ticket_event \<times> bytes option) list \<Rightarrow> office \<Rightarrow> bool" where
  "office_trace [] b = True"
| "office_trace ((ev, out) # tr) b =
     ((case ev of Redeem t ticket \<Rightarrow> out = redeem_answer b t ticket | _ \<Rightarrow> True) \<and> office_trace tr (office_step ev out b))"

text \<open>What the AEAD, the random generator and the clock are relied on for in a run, \<open>K\<close> being the keys drawn so far, newest
  first: a presented ticket opens under a live key only when it was issued under that key for that session state, keys are
  not drawn twice, nonces have their 12 bytes, and the clock does not go back.\<close>

definition drawn :: "ticket_event \<Rightarrow> bytes list \<Rightarrow> bytes list" where
  "drawn ev K = (case ev of Rotate (Ok k) \<Rightarrow> k # K | _ \<Rightarrow> K)"

fun honest :: "(bytes \<Rightarrow> bytes \<Rightarrow> bytes option) \<Rightarrow> bytes list \<Rightarrow> office \<Rightarrow> (ticket_event \<times> bytes option) list \<Rightarrow> bool" where
  "honest opn K b [] = True"
| "honest opn K b ((ev, out) # tr) =
     ((case ev of
         Issue nonce plain \<Rightarrow> (case nonce of Some n \<Rightarrow> length n = 12 | None \<Rightarrow> True)
       | Redeem t ticket \<Rightarrow>
           of_now b \<le> t \<and>
           list_all (\<lambda>k. case opn k ticket of
               Some p \<Rightarrow> list_ex (\<lambda>(tk, q, i). tk = ticket \<and> q = p \<and> rev K ! i = k) (of_issued b)
             | None \<Rightarrow> True) (take 2 K)
       | Rotate rnd \<Rightarrow> (case rnd of Ok k \<Rightarrow> k \<notin> set K | Err _ \<Rightarrow> True)) \<and>
      honest opn (drawn ev K) (office_step ev out b) tr)"

definition redeemed :: "ticket_event list \<Rightarrow> bytes set" where
  "redeemed evs = {tk. \<exists>t. Redeem t tk \<in> set evs}"

section \<open>The service refines the office\<close>

text \<open>The keys of the generations, oldest first, are \<open>rev K\<close>; \<open>X\<close> is the set of tickets that are presented.\<close>

definition represents ::
    "(bytes \<Rightarrow> bytes \<Rightarrow> bytes option) \<Rightarrow> (bytes \<Rightarrow> bytes) \<Rightarrow> bytes set \<Rightarrow> bytes list \<Rightarrow> replay_guard \<Rightarrow> office \<Rightarrow> bool" where
  "represents opn sha X K g b \<longleftrightarrow>
     length K = Suc (of_generation b) \<and> distinct K \<and> window_secs g = of_window b \<and>
     (\<forall>(tk, p, i) \<in> set (of_issued b). i \<le> of_generation b \<and> opn (rev K ! i) tk = Some p) \<and>
     sorted_wrt (\<lambda>x y. snd (snd y) \<le> snd (snd x)) (of_issued b) \<and>
     (\<forall>tk \<in> X. \<forall>r. seen g (sha tk) = Some r \<longrightarrow> of_used b tk = Some r) \<and>
     (\<forall>tk \<in> X. \<forall>r. of_used b tk = Some r \<longrightarrow>
        seen g (sha tk) = Some r \<or> unat r + unat (of_window b) < unat (of_now b))"

lemma represents_new: "represents opn sha X [k] (anti_replay_new lifetime) (office_new lifetime)"
  by (simp add: represents_def anti_replay_new_def replay_guard_new_def office_new_def)

lemma find_newest:
  assumes "sorted_wrt (\<lambda>x y. f y \<le> (f x :: nat)) xs" "find Q xs = Some x" "y \<in> set xs" "Q y"
  shows "f y \<le> f x"
  using assms by (induction xs) (auto split: if_splits)

lemma find_mem: "find Q xs = Some x \<Longrightarrow> x \<in> set xs \<and> Q x"
  by (induction xs) (auto split: if_splits)

text \<open>The generation of a live key is the current one or the one before.\<close>

lemma represents_index:
  assumes "represents opn sha X K g b" "rev K ! i = K ! j" "i \<le> of_generation b" "j \<le> of_generation b"
  shows "i = of_generation b - j"
  using assms by (auto simp: represents_def rev_nth nth_eq_iff_index_eq)

lemma live_generation:
  assumes rep: "represents opn sha X K g b" and "k \<in> set (take 2 K)" "(tk, p, i) \<in> set (of_issued b)" "rev K ! i = k"
  shows "of_generation b \<le> Suc i"
proof -
  have len: "length K = Suc (of_generation b)" and "i \<le> of_generation b"
    using rep assms(3) by (auto simp: represents_def)
  moreover obtain j where "j < length (take 2 K)" "take 2 K ! j = k"
    using assms(2) by (metis in_set_conv_nth)
  then have "j < 2" "j \<le> of_generation b" "K ! j = k"
    using len by simp_all
  ultimately show ?thesis using represents_index [OF rep, of i j] assms(4) by auto
qed

text \<open>A ticket opens under a live key exactly when the office finds it.\<close>

lemma live_key_opens:
  assumes rep: "represents opn sha X K g b"
    and auth: "\<And>k p. k \<in> set (take 2 K) \<Longrightarrow> opn k ticket = Some p \<Longrightarrow> \<exists>i. (ticket, p, i) \<in> set (of_issued b) \<and> rev K ! i = k"
  shows "first_open (\<lambda>k. opn k ticket) (take 2 K) =
    map_option (\<lambda>(_, p, _). p) (find (\<lambda>(tk, p, i). tk = ticket \<and> of_generation b \<le> Suc i) (of_issued b))"
    (is "_ = map_option _ (find ?Q _)")
proof (cases "find ?Q (of_issued b)")
  case None
  have "opn k ticket = None" if k: "k \<in> set (take 2 K)" for k
  proof (rule ccontr)
    assume "opn k ticket \<noteq> None"
    then obtain p i where i: "(ticket, p, i) \<in> set (of_issued b)" "rev K ! i = k"
      using auth [OF k] by auto
    from live_generation [OF rep k i] None i(1) show False by (auto simp: find_None_iff)
  qed
  with None show ?thesis by (simp add: first_open_None_iff)
next
  case (Some e)
  let ?G = "of_generation b"
  have len: "length K = Suc ?G" and issued: "\<And>tk p i. (tk, p, i) \<in> set (of_issued b) \<Longrightarrow> i \<le> ?G \<and> opn (rev K ! i) tk = Some p"
    and sorted: "sorted_wrt (\<lambda>x y. snd (snd y) \<le> snd (snd x)) (of_issued b)"
    using rep by (auto simp: represents_def)
  obtain p i where e: "e = (ticket, p, i)" "(ticket, p, i) \<in> set (of_issued b)" "?G \<le> Suc i"
    using Some by (cases e) (auto dest: find_mem)
  have op: "opn (rev K ! i) ticket = Some p" and le: "i \<le> ?G"
    using issued [OF e(2)] by auto
  show ?thesis
  proof (cases "i = ?G")
    case True
    with op len have "opn (K ! 0) ticket = Some p" by (simp add: rev_nth)
    with Some e(1) len show ?thesis by (cases K) (auto simp: numeral_2_eq_2)
  next
    case False
    with e(3) le have i: "Suc i = ?G" by simp
    obtain newest second K' where K: "K = newest # second # K'"
      using len i by (metis length_Suc_conv)
    have "opn newest ticket = None"
    proof (rule ccontr)
      assume "opn newest ticket \<noteq> None"
      then obtain q j where j: "(ticket, q, j) \<in> set (of_issued b)" "rev K ! j = K ! 0"
        using auth [of newest] K by auto
      then have "j = ?G" using represents_index [OF rep, of j 0] issued by auto
      then show False
        using find_newest [OF sorted Some j(1)] e(1) i by simp
    qed
    moreover have "rev K ! i = second" using i len K by (simp add: rev_nth nth_append)
    ultimately show ?thesis using Some e(1) op K by (simp add: numeral_2_eq_2)
  qed
qed

lemma fresh_iff_office:
  assumes "represents opn sha X K g b" "ticket \<in> X" "of_now b \<le> t"
  shows "fst (check_and_record sha t ticket g) = Fresh \<longleftrightarrow>
    (\<forall>r. of_used b ticket = Some r \<longrightarrow> unat r + unat (of_window b) < unat t)"
proof -
  have seen: "seen g (sha ticket) = Some r \<Longrightarrow> of_used b ticket = Some r" and
    used: "of_used b ticket = Some r \<Longrightarrow> seen g (sha ticket) = Some r \<or> unat r + unat (of_window b) < unat t" for r
    using assms by (auto simp: represents_def word_le_nat_alt)
  show ?thesis
    using assms(1) by (auto simp: check_Fresh_iff represents_def dest: seen used)
qed

text \<open>The three kinds of event keep the relation.\<close>

lemma represents_issue:
  assumes "represents opn sha X K g b" "opn (hd K) ticket = Some plain"
  shows "represents opn sha X K g (office_step (Issue n plain) (Some ticket) b)"
proof -
  have "rev K ! of_generation b = hd K"
    using assms(1) by (cases K) (auto simp: represents_def nth_append)
  with assms show ?thesis
    by (auto simp: represents_def office_step_def)
qed

lemma represents_rotate:
  assumes "represents opn sha X K g b" "k \<notin> set K"
  shows "represents opn sha X (k # K) g (office_step (Rotate (Ok k)) out b)"
proof -
  have "rev (k # K) ! i = rev K ! i" if "i \<le> of_generation b" for i
    using that assms(1) by (simp add: represents_def nth_append)
  with assms show ?thesis
    by (fastforce simp: represents_def office_step_def)
qed

lemma represents_refused:
  assumes "represents opn sha X K g b" "of_now b \<le> t"
  shows "represents opn sha X K g (office_step (Redeem t ticket) None b)"
proof -
  have "x < unat t" if "x < unat (of_now b)" for x
    using that assms(2) by (simp add: word_le_nat_alt)
  with assms(1) show ?thesis unfolding represents_def office_step_def by (simp; blast)
qed

lemma represents_checked:
  assumes rep: "represents opn sha X K g b" and "of_now b \<le> t" "inj_on sha X" "ticket \<in> X"
    and chk: "check_and_record sha t ticket g = (v, g')"
  shows "represents opn sha X K g' (office_step (Redeem t ticket) (if v = Fresh then Some p else None) b)"
proof -
  define b' where "b' = office_step (Redeem t ticket) (if v = Fresh then Some p else None) b"
  have now: "unat (of_now b) \<le> unat t" using assms(2) by (simp add: word_le_nat_alt)
  have g': "seen g' = (if v = Fresh then (prune t (window_secs g) (seen g))(sha ticket \<mapsto> t) else prune t (window_secs g) (seen g))"
      "window_secs g' = window_secs g"
    using chk by (auto simp: check_and_record_def Let_def split: option.splits)
  have b: "of_used b' = (if v = Fresh then (of_used b)(ticket \<mapsto> t) else of_used b)" "of_now b' = t"
      "of_window b' = of_window b" "of_issued b' = of_issued b" "of_generation b' = of_generation b"
    by (simp_all add: b'_def office_step_def)
  have w: "window_secs g = of_window b" using rep by (simp add: represents_def)
  have eq: "sha tk = sha ticket \<longleftrightarrow> tk = ticket" if "tk \<in> X" for tk
    using assms(3,4) that by (auto dest: inj_onD)
  have "of_used b' tk = Some r" if "tk \<in> X" "seen g' (sha tk) = Some r" for tk r
    using that rep by (auto simp: g' b eq represents_def prune_Some_iff split: if_splits)
  moreover have "seen g' (sha tk) = Some r \<or> unat r + unat (of_window b) < unat t" if "tk \<in> X" "of_used b' tk = Some r" for tk r
  proof (cases "v = Fresh \<and> tk = ticket")
    case True
    with that show ?thesis by (simp add: g' b)
  next
    case False
    with that have "seen g (sha tk) = Some r \<or> unat r + unat (of_window b) < unat (of_now b)"
      using rep by (auto simp: b represents_def split: if_splits)
    with False that(1) now show ?thesis
      by (auto simp: g' eq w prune_Some_iff)
  qed
  ultimately show ?thesis
    using rep unfolding b'_def [symmetric] by (auto simp: represents_def b g')
qed

locale guarded_ticketer = rotating_ticketer good usable keys open_with encrypt decrypt rotate
  for good :: "'a \<Rightarrow> bool" and usable :: "'s \<Rightarrow> bool" and keys open_with encrypt decrypt rotate +
  fixes produces :: "'a \<Rightarrow> 's produces_tickets"
  assumes produces_encrypt: "pt_encrypt (produces A) = encrypt A"
    and produces_decrypt: "pt_decrypt (produces A) s t tk = (decrypt A s tk, s)"
    and no_nonce: "encrypt A s None p = None"
begin

lemma redeem_step:
  "service_step sha (produces A) rotate (Redeem t ticket) (s, g) =
     (case decrypt A s ticket of
        None \<Rightarrow> (None, (s, g))
      | Some p \<Rightarrow> (case check_and_record sha t ticket g of (v, g') \<Rightarrow> (if v = Fresh then Some p else None, (s, g'))))"
  by (simp add: service_step_def anti_replay_ticketer_def arc_ticketer_def produces_decrypt
      split: option.split prod.split replay_verdict.split)

lemma redeem_simulated:
  assumes "represents (open_with A) sha X K g b" "keys s = take 2 K" "usable s" "inj_on sha X" "ticket \<in> X" "of_now b \<le> t"
    and auth: "\<And>k p. k \<in> set (take 2 K) \<Longrightarrow> open_with A k ticket = Some p \<Longrightarrow>
      \<exists>i. (ticket, p, i) \<in> set (of_issued b) \<and> rev K ! i = k"
    and step: "service_step sha (produces A) rotate (Redeem t ticket) (s, g) = (out, (s', g'))"
  shows "out = redeem_answer b t ticket \<and> s' = s \<and> represents (open_with A) sha X K g' (office_step (Redeem t ticket) out b)"
proof -
  have dec: "decrypt A s ticket =
      map_option (\<lambda>(_, p, _). p) (find (\<lambda>(tk, p, i). tk = ticket \<and> of_generation b \<le> Suc i) (of_issued b))"
    using live_key_opens [OF assms(1) auth] decrypt_first [OF assms(3)] assms(2) by simp
  show ?thesis
  proof (cases "decrypt A s ticket")
    case None
    with dec step assms(1,6) show ?thesis
      by (auto simp: redeem_step redeem_answer_def represents_refused)
  next
    case (Some p)
    obtain v where chk: "check_and_record sha t ticket g = (v, g')" and out: "out = (if v = Fresh then Some p else None)" "s' = s"
      using step Some by (auto simp: redeem_step split: prod.splits)
    have "v = Fresh \<longleftrightarrow> (\<forall>r. of_used b ticket = Some r \<longrightarrow> unat r + unat (of_window b) < unat t)"
      using fresh_iff_office [OF assms(1,5,6)] chk by simp
    moreover have "\<exists>tk i. find (\<lambda>(tk, p, i). tk = ticket \<and> of_generation b \<le> Suc i) (of_issued b) = Some (tk, p, i)"
      using dec Some by (auto simp: map_option_case split: option.splits)
    ultimately have "out = redeem_answer b t ticket"
      by (auto simp: out redeem_answer_def split: option.splits)
    with represents_checked [OF assms(1,6,4,5) chk, of p] out show ?thesis by simp
  qed
qed

lemma issue_simulated:
  assumes rep: "represents (open_with A) sha X K g b" and keys: "keys s = take 2 K" and good: "good A"
    and nonce: "\<And>n. nonce = Some n \<Longrightarrow> length n = 12"
  shows "represents (open_with A) sha X K g (office_step (Issue nonce plain) (encrypt A s nonce plain) b)"
proof (cases "encrypt A s nonce plain")
  case None
  with rep show ?thesis by (simp add: office_step_def)
next
  case (Some ticket)
  then obtain n where n: "nonce = Some n" "length n = 12"
    using nonce no_nonce by (cases nonce) auto
  have "hd (keys s) = hd K" using rep keys by (cases K) (simp_all add: represents_def numeral_2_eq_2)
  then have "open_with A (hd K) ticket = Some plain"
    using encrypt_newest [OF good, of s n plain ticket] n Some by simp
  with Some rep show ?thesis by (simp add: represents_issue)
qed

text \<open>One event, \<open>tr\<close> being what follows.\<close>

lemma step_refines:
  assumes rep: "represents (open_with A) sha X K g b" and keys: "keys s = take 2 K" and "usable s" "good A" "inj_on sha X"
    and X: "\<And>t ticket. ev = Redeem t ticket \<Longrightarrow> ticket \<in> X"
    and hon: "honest (open_with A) K b ((ev, out) # tr)" and step: "service_step sha (produces A) rotate ev (s, g) = (out, (s', g'))"
  shows "represents (open_with A) sha X (drawn ev K) g' (office_step ev out b) \<and> keys s' = take 2 (drawn ev K) \<and> usable s' \<and>
    (case ev of Redeem t ticket \<Rightarrow> out = redeem_answer b t ticket | _ \<Rightarrow> True)"
proof -
  have head: "hd (keys s) = hd K" "K \<noteq> []"
    using rep keys by (cases K; simp add: represents_def numeral_2_eq_2)+
  show ?thesis
  proof (cases ev)
    case (Issue nonce plain)
    then have same: "s' = s" "g' = g" and out: "out = encrypt A s nonce plain"
      using step by (auto simp: service_step_def anti_replay_ticketer_def arc_ticketer_def produces_encrypt Let_def)
    have "\<And>n. nonce = Some n \<Longrightarrow> length n = 12" using hon Issue by simp
    with issue_simulated [OF rep keys assms(4)] Issue same out keys assms(3) show ?thesis by (simp add: drawn_def)
  next
    case (Redeem t ticket)
    have "\<exists>i. (ticket, p, i) \<in> set (of_issued b) \<and> rev K ! i = k" if "k \<in> set (take 2 K)" "open_with A k ticket = Some p" for k p
      using hon Redeem that by (fastforce simp: list_all_iff list_ex_iff)
    moreover have "of_now b \<le> t" using hon Redeem by simp
    ultimately have "out = redeem_answer b t ticket \<and> s' = s \<and> represents (open_with A) sha X K g' (office_step ev out b)"
      using redeem_simulated [OF rep keys assms(3,5), of ticket t out s' g'] step Redeem X by auto
    with Redeem keys assms(3) show ?thesis by (auto simp: drawn_def)
  next
    case (Rotate rnd)
    then have g: "g' = g" and s': "s' = snd (rotate rnd s)"
      using step by (auto simp: service_step_def Let_def)
    show ?thesis
    proof (cases rnd)
      case (Ok k)
      have "keys s' = [k, hd K] \<and> usable s'"
        using rotate_keys [OF assms(3), of k "fst (rotate (Ok k) s)" s'] s' Ok head by simp
      moreover have "k \<notin> set K" using hon Rotate Ok by simp
      ultimately show ?thesis
        using Rotate Ok g head rep by (cases K) (simp_all add: drawn_def represents_rotate)
    next
      case (Err e)
      with Rotate s' g assms show ?thesis
        by (simp add: drawn_def rotate_rng_failure office_step_def)
    qed
  qed
qed

lemma run_refines:
  assumes "represents (open_with A) sha X K g b" "keys s = take 2 K" "usable s" "good A" "inj_on sha X" "redeemed evs \<subseteq> X"
    and "honest (open_with A) K b (service_run sha (produces A) rotate evs (s, g))"
  shows "office_trace (service_run sha (produces A) rotate evs (s, g)) b"
  using assms
proof (induction evs arbitrary: K s g b)
  case Nil
  then show ?case by simp
next
  case (Cons ev evs)
  obtain out s' g' where step: "service_step sha (produces A) rotate ev (s, g) = (out, (s', g'))"
    by (cases "service_step sha (produces A) rotate ev (s, g)") auto
  have hon: "honest (open_with A) K b ((ev, out) # service_run sha (produces A) rotate evs (s', g'))"
    using Cons.prems(7) step by simp
  have X: "ticket \<in> X" if "ev = Redeem t ticket" for t ticket
    using that Cons.prems(6) by (auto simp: redeemed_def)
  have "redeemed evs \<subseteq> X" using Cons.prems(6) by (auto simp: redeemed_def)
  with step_refines [OF Cons.prems(1-5) X hon step] Cons.IH [of "drawn ev K" g' "office_step ev out b" s'] Cons.prems(4,5) hon step
  show ?case by simp
qed

end

interpretation oxi_service: guarded_ticketer aead_correct "\<lambda>st. \<not> poisoned st" oxi_keys decrypt_with_key
  oxi_encrypt oxi_decrypt oxi_rotate oxi_produces
  by unfold_locales (simp_all add: oxi_produces_def oxi_encrypt_def encrypt_with_key_def)

interpretation aws_service: guarded_ticketer aws_aead_correct "\<lambda>st. \<not> aws_poisoned st" aws_keys decrypt_ticket
  aws_encrypt aws_decrypt aws_rotate aws_produces
  by unfold_locales (simp_all add: aws_produces_def aws_encrypt_def encrypt_ticket_def)

lemma new_service:
  "anti_replay_ticketer_new (arc_ticketer P) s = (s, anti_replay_new (pt_lifetime P s))"
  by (simp add: anti_replay_ticketer_new_def arc_ticketer_def anti_replay_new_def)

lemma oxi_service_refines:
  assumes "oxi_new_with_lifetime (Ok k) lifetime = Ok st" "aead_correct A" "inj_on sha (redeemed evs)"
    and "tr = service_run sha (oxi_produces A) oxi_rotate evs (anti_replay_ticketer_new (arc_ticketer (oxi_produces A)) st)"
    and "honest (decrypt_with_key A) [k] (office_new lifetime) tr"
  shows "office_trace tr (office_new lifetime)"
proof -
  have st: "lifetime_secs st = lifetime" "oxi_keys st = take 2 [k]" "\<not> poisoned st"
    using assms(1) by (auto simp: oxi_new_with_lifetime_def oxi_keys_def result_simps)
  then have tr: "tr = service_run sha (oxi_produces A) oxi_rotate evs (st, anti_replay_new lifetime)"
    using assms(4) by (simp add: new_service oxi_produces_def)
  show ?thesis
    using assms(5) unfolding tr by (intro oxi_service.run_refines [OF represents_new st(2,3) assms(2,3) order.refl])
qed

lemma aws_service_refines:
  assumes "aws_generate (Ok k) interval = Ok st" "aws_aead_correct A" "inj_on sha (redeemed evs)"
    and "tr = service_run sha (aws_produces A) aws_rotate evs (anti_replay_ticketer_new (arc_ticketer (aws_produces A)) st)"
    and "honest (decrypt_ticket A) [k] (office_new (aws_lifetime_of interval)) tr"
  shows "office_trace tr (office_new (aws_lifetime_of interval))"
proof -
  have st: "aws_lifetime st = aws_lifetime_of interval" "aws_keys st = take 2 [k]" "\<not> aws_poisoned st"
    using assms(1) by (auto simp: aws_generate_def aws_keys_def result_simps)
  then have tr: "tr = service_run sha (aws_produces A) aws_rotate evs (st, anti_replay_new (aws_lifetime_of interval))"
    using assms(4) by (simp add: new_service aws_produces_def)
  show ?thesis
    using assms(5) unfolding tr by (intro aws_service.run_refines [OF represents_new st(2,3) assms(2,3) order.refl])
qed

section \<open>What the office promises\<close>

definition office_after :: "(ticket_event \<times> bytes option) list \<Rightarrow> office \<Rightarrow> office" where
  "office_after tr b = fold (\<lambda>(ev, out). office_step ev out) tr b"

definition rotations_in :: "(ticket_event \<times> bytes option) list \<Rightarrow> nat" where
  "rotations_in tr = length (filter (\<lambda>(ev, _). case ev of Rotate rnd \<Rightarrow> is_ok rnd | _ \<Rightarrow> False) tr)"

lemma trace_append: "office_trace (xs @ ys) b \<longleftrightarrow> office_trace xs b \<and> office_trace ys (office_after xs b)"
  by (induction xs b rule: office_trace.induct) (simp_all add: office_after_def)

lemma office_window: "of_window (office_after tr b) = of_window b"
  by (induction tr arbitrary: b)
    (auto simp: office_after_def office_step_def split: ticket_event.split option.split)

lemma office_generation: "of_generation (office_after tr b) = of_generation b + rotations_in tr"
  by (induction tr arbitrary: b)
    (auto simp: office_after_def rotations_in_def office_step_def split: ticket_event.split option.split)

lemma after_snoc: "office_after (tr @ [(ev, out)]) b = office_step ev out (office_after tr b)"
  by (simp add: office_after_def)

lemma issued_step:
  "of_issued (office_step ev out b) =
     (case (ev, out) of (Issue _ plain, Some tk) \<Rightarrow> (tk, plain, of_generation b) # of_issued b | _ \<Rightarrow> of_issued b)"
  by (simp add: office_step_def split: ticket_event.split option.split)

lemma issued_in_trace:
  assumes "(tk, p, i) \<in> set (of_issued (office_after tr (office_new lifetime)))"
  shows "\<exists>xs n ys. tr = xs @ (Issue n p, Some tk) # ys \<and> i = rotations_in xs"
  using assms
proof (induction tr rule: rev_induct)
  case Nil
  then show ?case by (simp add: office_after_def office_new_def)
next
  case (snoc x tr)
  obtain ev out where x: "x = (ev, out)" by (cases x)
  consider (new) n where "ev = Issue n p" "out = Some tk" "i = of_generation (office_after tr (office_new lifetime))"
    | (old) "(tk, p, i) \<in> set (of_issued (office_after tr (office_new lifetime)))"
    using snoc.prems unfolding x after_snoc issued_step by (cases ev; cases out) auto
  then show ?case
  proof cases
    case new
    then show ?thesis
      using office_generation [of tr "office_new lifetime"] x by (auto simp: office_new_def)
  next
    case old
    with snoc.IH show ?thesis by fastforce
  qed
qed

lemma use_recorded:
  assumes "honest opn K b tr" "of_used b tk = Some r" "\<And>r. of_used b tk = Some r \<Longrightarrow> r \<le> of_now b"
  shows "\<exists>r'. of_used (office_after tr b) tk = Some r' \<and> r \<le> r'"
  using assms
proof (induction tr arbitrary: K b r)
  case Nil
  then show ?case by (simp add: office_after_def)
next
  case (Cons x tr)
  obtain ev out where x: "x = (ev, out)" by (cases x)
  have le: "r \<le> of_now b" using Cons.prems(2,3) by blast
  have tail: "honest opn (drawn ev K) (office_step ev out b) tr" using Cons.prems(1) x by simp
  have "\<exists>r'. of_used (office_step ev out b) tk = Some r' \<and> r \<le> r' \<and> r' \<le> of_now (office_step ev out b)"
    using Cons.prems(1,2) le x
    by (auto simp: office_step_def split: ticket_event.splits option.splits if_splits result.splits)
  then obtain r' where r': "of_used (office_step ev out b) tk = Some r'" "r \<le> r'" "r' \<le> of_now (office_step ev out b)"
    by blast
  then have "\<exists>u. of_used (office_after tr (office_step ev out b)) tk = Some u \<and> r' \<le> u"
    by (intro Cons.IH [OF tail]) auto
  with r'(2) show ?case by (auto simp: x office_after_def)
qed

lemma honest_prefix: "honest opn K b (xs @ ys) \<Longrightarrow> honest opn K b xs"
  by (induction opn K b xs rule: honest.induct) simp_all

lemma honest_suffix: "honest opn K b (xs @ ys) \<Longrightarrow> \<exists>K'. honest opn K' (office_after xs b) ys"
  by (induction opn K b xs rule: honest.induct) (auto simp: office_after_def)

lemma unat_lifetime: "unat (ucast (l :: u32) :: u64) = unat l"
proof -
  have "unat l < 2 ^ 64" using unsigned_less [of l, where 'a = nat] by (rule less_le_trans) simp
  then show ?thesis by (simp add: unsigned_ucast_eq take_bit_nat_eq_self)
qed

lemma accepted_redemption:
  assumes "office_trace (xs @ (Redeem t tk, Some p) # ys) (office_new lifetime)"
  shows "\<exists>us n vs. xs = us @ (Issue n p, Some tk) # vs \<and> rotations_in vs \<le> 1"
    and "\<And>r. of_used (office_after xs (office_new lifetime)) tk = Some r \<Longrightarrow> unat r + unat lifetime < unat t"
proof -
  let ?b = "office_after xs (office_new lifetime)"
  have ans: "redeem_answer ?b t tk = Some p" using assms by (simp add: trace_append)
  then obtain i where i: "(tk, p, i) \<in> set (of_issued ?b)" "of_generation ?b \<le> Suc i"
    by (auto simp: redeem_answer_def dest!: find_mem split: option.splits if_splits)
  from issued_in_trace [OF i(1)] obtain us n vs where xs: "xs = us @ (Issue n p, Some tk) # vs" "i = rotations_in us"
    by blast
  moreover have "rotations_in xs = rotations_in us + rotations_in vs"
    by (simp add: xs(1) rotations_in_def)
  moreover have "of_generation ?b = rotations_in xs" by (simp add: office_generation office_new_def)
  ultimately show "\<exists>us n vs. xs = us @ (Issue n p, Some tk) # vs \<and> rotations_in vs \<le> 1"
    using i(2) by (intro exI [of _ us] exI [of _ n] exI [of _ vs]) simp
  have w: "unat (of_window ?b) = unat lifetime"
    by (simp add: office_window office_new_def unat_lifetime)
  show "unat r + unat lifetime < unat t" if "of_used ?b tk = Some r" for r
    using ans that w by (auto simp: redeem_answer_def split: option.splits if_splits)
qed

lemma earlier_use_expired:
  assumes "office_trace (xs @ (Redeem t tk, Some p) # ys) (office_new lifetime)"
    and "honest opn K (office_new lifetime) (xs @ (Redeem t tk, Some p) # ys)" "xs = us @ (Redeem u tk, Some q) # vs"
  shows "unat u + unat lifetime < unat t"
proof -
  let ?b = "office_after us (office_new lifetime)"
  let ?c = "office_step (Redeem u tk) (Some q) ?b"
  have "honest opn K (office_new lifetime) (us @ (Redeem u tk, Some q) # vs)"
    using honest_prefix [OF assms(2)] assms(3) by simp
  then obtain K' where "honest opn K' ?b ((Redeem u tk, Some q) # vs)"
    using honest_suffix by blast
  then have "honest opn (drawn (Redeem u tk) K') ?c vs" by simp
  then have "\<exists>r. of_used (office_after vs ?c) tk = Some r \<and> u \<le> r"
    by (rule use_recorded) (simp_all add: office_step_def)
  moreover have "office_after vs ?c = office_after xs (office_new lifetime)"
    by (simp add: assms(3) office_after_def)
  ultimately obtain r where r: "of_used (office_after xs (office_new lifetime)) tk = Some r" "u \<le> r" by auto
  from accepted_redemption(2) [OF assms(1) r(1)] r(2) show ?thesis by (simp add: word_le_nat_alt)
qed

section \<open>Properties\<close>

text \<open>C4: A ticketer behind the replay guard, with tickets issued and redeemed and keys rotated in any order, answers like the ticket
  office: a ticket is accepted, for the session state it was issued for, exactly when at most one rotation happened since and it was
  not accepted within its lifetime.\<close>

theorem ticket_service_refines:
  assumes "oxi_new_with_lifetime (Ok k) lifetime = Ok st" "aead_correct A" "inj_on sha (redeemed evs)"
    and "honest (decrypt_with_key A) [k] (office_new lifetime)
      (service_run sha (oxi_produces A) oxi_rotate evs (anti_replay_ticketer_new (arc_ticketer (oxi_produces A)) st))"
  shows "office_trace
    (service_run sha (oxi_produces A) oxi_rotate evs (anti_replay_ticketer_new (arc_ticketer (oxi_produces A)) st))
    (office_new lifetime)"
  using assms by (intro oxi_service_refines [OF assms(1-3) refl])

text \<open>In such a run of the aws-lc rotator, every redemption that is accepted returns the session state for which the server issued that
  ticket at most one rotation earlier, and lies more than the ticket lifetime after every earlier redemption of it.\<close>

theorem redeemed_once_per_lifetime:
  assumes "aws_generate (Ok k) interval = Ok st" "aws_aead_correct A" "inj_on sha (redeemed evs)"
    and "service_run sha (aws_produces A) aws_rotate evs (anti_replay_ticketer_new (arc_ticketer (aws_produces A)) st) =
      xs @ (Redeem t tk, Some p) # ys"
    and "honest (decrypt_ticket A) [k] (office_new (aws_lifetime_of interval)) (xs @ (Redeem t tk, Some p) # ys)"
  shows "(\<exists>us n vs. xs = us @ (Issue n p, Some tk) # vs \<and> rotations_in vs \<le> 1) \<and>
    (\<forall>us u q vs. xs = us @ (Redeem u tk, Some q) # vs \<longrightarrow> unat u + unat (aws_lifetime_of interval) < unat t)"
proof -
  have trace: "office_trace (xs @ (Redeem t tk, Some p) # ys) (office_new (aws_lifetime_of interval))"
    using aws_service_refines [OF assms(1-3) assms(4) [symmetric] assms(5)] .
  show ?thesis
    using accepted_redemption(1) [OF trace] earlier_use_expired [OF trace assms(5)] by blast
qed

definition example_events :: "ticket_event list" where
  "example_events =
     [Issue (Some (replicate 12 0)) [5, 6], Rotate (Ok [4]), Redeem 100 example_ticket, Redeem 105 example_ticket,
      Redeem 161 example_ticket, Rotate (Err ''rng''), Rotate (Ok [7]), Redeem 300 example_ticket]"

definition example_trace :: "(ticket_event \<times> bytes option) list" where
  "example_trace = zip example_events [Some example_ticket, None, Some [5, 6], None, Some [5, 6], None, None, None]"

lemmas service_eval = service_step_def anti_replay_ticketer_def arc_ticketer_def oxi_produces_def oxi_encrypt_def encrypt_with_key_def
  oxi_decrypt_def decrypt_with_key_def oxi_rotate_def example_aead_def ticket_consts slice_def check_and_record_def prune_def
  saturating_sub_def Let_def

lemma example_service:
  "service_run example_sha (oxi_produces example_aead) oxi_rotate example_events
     (anti_replay_ticketer_new (arc_ticketer (oxi_produces example_aead)) example_ticketer) = example_trace"
  by (simp add: example_events_def example_trace_def example_ticket_def example_ticketer_def anti_replay_ticketer_new_def
      replay_guard_new_def example_sha_def service_eval)

lemma example_honest: "honest (decrypt_with_key example_aead) [[3]] (office_new 60) example_trace"
  by (simp add: example_trace_def example_events_def example_ticket_def office_new_def office_step_def drawn_def
      decrypt_with_key_def example_aead_def ticket_consts slice_def Let_def)

theorem ticket_service_refines_witness:
  "office_trace example_trace (office_new 60)"
proof -
  have "oxi_new_with_lifetime (Ok [3]) 60 = Ok example_ticketer"
    by (simp add: oxi_new_with_lifetime_def example_ticketer_def result_simps)
  then show ?thesis
    using ticket_service_refines [of "[3]" 60 example_ticketer example_aead example_sha example_events]
      example_service example_honest example_aead_correct(1)
    by (simp add: example_sha_def)
qed

definition example_aws_ticket :: bytes where
  "example_aws_ticket = replicate 12 0 @ [5] @ replicate 16 3"

definition example_aws_before :: "(ticket_event \<times> bytes option) list" where
  "example_aws_before = [(Issue (Some (replicate 12 0)) [5], Some example_aws_ticket), (Redeem 100 example_aws_ticket, Some [5]), (Rotate (Ok [4]), None)]"

lemma example_aws_service:
  "service_run example_sha (aws_produces example_aws_aead) aws_rotate
     [Issue (Some (replicate 12 0)) [5], Redeem 100 example_aws_ticket, Rotate (Ok [4]), Redeem 161 example_aws_ticket]
     (anti_replay_ticketer_new (arc_ticketer (aws_produces example_aws_aead)) (example_rotator)) =
   example_aws_before @ [(Redeem 161 example_aws_ticket, Some [5])]"
  by (simp add: example_aws_before_def example_aws_ticket_def example_rotator_def anti_replay_ticketer_new_def replay_guard_new_def
      example_sha_def service_step_def anti_replay_ticketer_def arc_ticketer_def aws_produces_def aws_encrypt_def encrypt_ticket_def
      aws_decrypt_def decrypt_ticket_def aws_rotate_def example_aws_aead_def ticket_consts check_and_record_def prune_def
      saturating_sub_def Let_def)

lemma example_aws_honest:
  "honest (decrypt_ticket example_aws_aead) [[3]] (office_new 60) (example_aws_before @ [(Redeem 161 example_aws_ticket, Some [5])])"
  by (simp add: example_aws_before_def example_aws_ticket_def office_new_def office_step_def drawn_def
      decrypt_ticket_def example_aws_aead_def ticket_consts Let_def)

theorem redeemed_once_per_lifetime_witness:
  "\<exists>us n vs. example_aws_before = us @ (Issue n [5], Some example_aws_ticket) # vs \<and> rotations_in vs \<le> 1"
proof -
  have life: "aws_lifetime_of 30 = 60" by (simp add: aws_lifetime_of_def Let_def)
  have "aws_generate (Ok [3]) 30 = Ok example_rotator"
    by (simp add: aws_generate_def example_rotator_def life result_simps)
  from redeemed_once_per_lifetime [OF this example_aead_correct(2) _ example_aws_service] example_aws_honest
  show ?thesis by (simp add: life example_sha_def)
qed

definition example_fill :: "bytes \<Rightarrow> (bytes, string) result" where
  "example_fill b = Ok (map (\<lambda>_. 9) b)"

theorem ticket_keys_typed_witness:
  "\<exists>st r. oxi_new_with_lifetime (ticket_key_generate example_fill) 60 = Ok st \<and> aws_rotator_new example_fill 30000000000 = Ok r \<and>
     list_all (\<lambda>k. length k = 32) (oxi_keys (snd (oxi_rotate (ticket_key_generate example_fill) st))) \<and>
     list_all (\<lambda>k. length k = 32) (aws_keys (aw_state (aws_task_tick example_fill r)))"
proof -
  obtain st r where new: "oxi_new_with_lifetime (ticket_key_generate example_fill) 60 = Ok st"
      "aws_rotator_new example_fill 30000000000 = Ok r"
    by (simp add: oxi_new_with_lifetime_def ticket_key_generate_def aws_rotator_new_def aws_generate_def random_key_def
        example_fill_def result_simps)
  have "list_all fills [example_fill]" "fills example_fill" by (simp_all add: fills_def example_fill_def)
  note typed = ticket_keys_typed [OF this example_aead_correct new, unfolded Let_def, simplified fold.simps comp_def id_def]
  show ?thesis
    using new typed [of "[]" "[]" "[]" "[]" "[]"] by (intro exI [of _ st] exI [of _ r] conjI) simp_all
qed

end
