(* ===== verification/Key_Log.thy ===== *)
theory Key_Log
  imports Client_Builder
begin

text \<open>
  The key log bridges of the facade (\<open>oxitls/src/tls13/client.rs\<close> and \<open>server.rs\<close>), which repeat that of the adapter
  (\<open>key_log\<close> of \<open>Client_Builder\<close>), and the file they write together: a reader of the NSS key log format gets back every secret
  in the order it was logged.
\<close>

section \<open>The bridges of the facade\<close>

definition facade_hex_bytes :: "bytes \<Rightarrow> string" where
  "facade_hex_bytes bs = foldl (\<lambda>acc b. acc @ hex2 b) [] bs"

definition facade_key_log :: "(string \<Rightarrow> bool) \<Rightarrow> key_log_policy \<Rightarrow> string \<Rightarrow> bytes \<Rightarrow> bytes \<Rightarrow> log_effect" where
  "facade_key_log opens policy label client_random secret =
     (case policy of
        KlDisabled \<Rightarrow> LogNothing
      | KlFile path \<Rightarrow>
          if opens path
          then let line = label @ '' '' @ facade_hex_bytes client_random @ '' '' @ facade_hex_bytes secret @ [char_of (10 :: nat)] in
               LogAppend path line
          else LogNothing
      | KlCustom arc \<Rightarrow> LogForward arc label client_random secret)"

definition facade_will_log :: "key_log_policy \<Rightarrow> bool" where
  "facade_will_log policy = (case policy of KlDisabled \<Rightarrow> False | _ \<Rightarrow> True)"

definition server_hex_bytes :: "bytes \<Rightarrow> string" where
  "server_hex_bytes bs = foldl (\<lambda>acc b. acc @ hex2 b) [] bs"

definition server_key_log :: "(string \<Rightarrow> bool) \<Rightarrow> key_log_policy \<Rightarrow> string \<Rightarrow> bytes \<Rightarrow> bytes \<Rightarrow> log_effect" where
  "server_key_log opens policy label client_random secret =
     (case policy of
        KlDisabled \<Rightarrow> LogNothing
      | KlFile path \<Rightarrow>
          let line = label @ '' '' @ server_hex_bytes client_random @ '' '' @ server_hex_bytes secret @ [char_of (10 :: nat)] in
          if opens path then LogAppend path line else LogNothing
      | KlCustom arc \<Rightarrow> LogForward arc label client_random secret)"

definition server_will_log :: "key_log_policy \<Rightarrow> bool" where
  "server_will_log policy = (case policy of KlDisabled \<Rightarrow> False | _ \<Rightarrow> True)"

lemma bridges_agree:
  "facade_key_log = key_log" "server_key_log = key_log" "facade_will_log = will_log" "server_will_log = will_log"
  by (intro ext; simp add: facade_key_log_def server_key_log_def key_log_def key_log_line_def facade_hex_bytes_def
      server_hex_bytes_def hex_bytes_def facade_will_log_def server_will_log_def will_log_def Let_def split: key_log_policy.split)+

section \<open>The file and its reader\<close>

text \<open>The files by path; opening with \<open>create\<close> and \<open>append\<close> makes a missing file and writes at its end.\<close>

definition run_effect :: "log_effect \<Rightarrow> (string \<rightharpoonup> string) \<Rightarrow> (string \<rightharpoonup> string)" where
  "run_effect e fs =
     (case e of
        LogAppend path line \<Rightarrow> fs(path \<mapsto> (case fs path of Some text \<Rightarrow> text | None \<Rightarrow> []) @ line)
      | _ \<Rightarrow> fs)"

datatype bridge = AdapterBridge | FacadeBridge | ServerBridge

fun bridge_log :: "bridge \<Rightarrow> (string \<Rightarrow> bool) \<Rightarrow> key_log_policy \<Rightarrow> string \<Rightarrow> bytes \<Rightarrow> bytes \<Rightarrow> log_effect" where
  "bridge_log AdapterBridge = key_log"
| "bridge_log FacadeBridge = facade_key_log"
| "bridge_log ServerBridge = server_key_log"

type_synonym log_call = "bridge \<times> string \<times> bytes \<times> bytes"

definition log_all :: "(string \<Rightarrow> bool) \<Rightarrow> key_log_policy \<Rightarrow> log_call list \<Rightarrow> (string \<rightharpoonup> string) \<Rightarrow> (string \<rightharpoonup> string)" where
  "log_all opens policy calls fs =
     fold (\<lambda>(b, label, cr, s). run_effect (bridge_log b opens policy label cr s)) calls fs"

text \<open>A reader of the format: lines ended by a newline, of a label and two hexadecimal fields.\<close>

fun lines_from :: "string \<Rightarrow> string \<Rightarrow> string list" where
  "lines_from acc [] = (if acc = [] then [] else [rev acc])"
| "lines_from acc (c # cs) = (if c = char_of (10 :: nat) then rev acc # lines_from [] cs else lines_from (c # acc) cs)"

definition unhex_digit :: "char \<Rightarrow> nat option" where
  "unhex_digit c =
     (let n = of_char c :: nat in
      if 48 \<le> n \<and> n \<le> 57 then Some (n - 48) else if 97 \<le> n \<and> n \<le> 102 then Some (n - 87) else None)"

fun unhex :: "string \<Rightarrow> bytes option" where
  "unhex [] = Some []"
| "unhex [c] = None"
| "unhex (c # d # cs) =
     (case (unhex_digit c, unhex_digit d, unhex cs) of
        (Some h, Some l, Some bs) \<Rightarrow> Some (of_nat (16 * h + l) # bs)
      | _ \<Rightarrow> None)"

definition read_line :: "string \<Rightarrow> (string \<times> bytes \<times> bytes) option" where
  "read_line l =
     (let label = takeWhile (\<lambda>c. c \<noteq> CHR '' '') l; rest = drop (length label + 1) l;
          cr = takeWhile (\<lambda>c. c \<noteq> CHR '' '') rest; s = drop (length cr + 1) rest in
      case (unhex cr, unhex s) of (Some a, Some b) \<Rightarrow> Some (label, a, b) | _ \<Rightarrow> None)"

definition read_key_log :: "string \<Rightarrow> (string \<times> bytes \<times> bytes) option list" where
  "read_key_log text = map read_line (lines_from [] text)"

lemma unhex_digit_hex: "d < 16 \<Longrightarrow> unhex_digit (hex_digit_lower d) = Some d"
  by (simp add: unhex_digit_def hex_digit_lower_def Let_def)

lemma hex_bytes_concat: "hex_bytes bs = concat (map hex2 bs)"
proof -
  have "foldl (\<lambda>acc b. acc @ hex2 b) acc bs = acc @ concat (map hex2 bs)" for acc
    by (induction bs arbitrary: acc) simp_all
  then show ?thesis by (simp add: hex_bytes_def)
qed

lemma byte_div16: "unat (b :: byte) div 16 < 16"
proof -
  have "unat b < 16 * 16" by simp
  then show ?thesis by (simp only: div_less_iff_less_mult)
qed

lemma unhex_hex_bytes: "unhex (hex_bytes bs) = Some bs"
proof -
  have "unhex_digit (hex_digit_lower (unat b div 16)) = Some (unat b div 16)" for b :: byte
    by (intro unhex_digit_hex byte_div16)
  moreover have "unhex_digit (hex_digit_lower (unat b mod 16)) = Some (unat b mod 16)" for b :: byte
    by (intro unhex_digit_hex) simp
  ultimately show ?thesis
    unfolding hex_bytes_concat by (induction bs) (simp_all add: hex2_def)
qed

lemma hex_digit_clean: "d < 16 \<Longrightarrow> hex_digit_lower d \<noteq> CHR '' '' \<and> hex_digit_lower d \<noteq> char_of (10 :: nat)"
  using unhex_digit_hex [of d] by (auto simp: unhex_digit_def)

lemma hex_bytes_clean: "c \<in> set (hex_bytes bs) \<Longrightarrow> c \<noteq> CHR '' '' \<and> c \<noteq> char_of (10 :: nat)"
proof -
  assume "c \<in> set (hex_bytes bs)"
  then obtain b where "c = hex_digit_lower (unat b div 16) \<or> c = hex_digit_lower (unat (b :: byte) mod 16)"
    by (auto simp: hex_bytes_concat hex2_def)
  moreover have "unat b div 16 < 16" by (rule byte_div16)
  ultimately show ?thesis using hex_digit_clean by auto
qed

definition plain_label :: "string \<Rightarrow> bool" where
  "plain_label label \<longleftrightarrow> CHR '' '' \<notin> set label \<and> char_of (10 :: nat) \<notin> set label"

lemma takeWhile_sep: "(\<And>c. c \<in> set xs \<Longrightarrow> c \<noteq> z) \<Longrightarrow> takeWhile (\<lambda>c. c \<noteq> z) (xs @ z # ys) = xs"
  by (induction xs) auto

lemma read_written:
  assumes "plain_label label"
  shows "read_line (label @ '' '' @ hex_bytes cr @ '' '' @ hex_bytes s) = Some (label, cr, s)"
proof -
  have "takeWhile (\<lambda>c. c \<noteq> CHR '' '') (label @ CHR '' '' # hex_bytes cr @ CHR '' '' # hex_bytes s) = label"
    using assms by (intro takeWhile_sep) (auto simp: plain_label_def)
  moreover have "takeWhile (\<lambda>c. c \<noteq> CHR '' '') (hex_bytes cr @ CHR '' '' # hex_bytes s) = hex_bytes cr"
    using hex_bytes_clean by (intro takeWhile_sep) blast
  ultimately show ?thesis by (simp add: read_line_def unhex_hex_bytes)
qed

lemma lines_written:
  "(\<And>c. c \<in> set l \<Longrightarrow> c \<noteq> char_of (10 :: nat)) \<Longrightarrow>
   lines_from acc (l @ char_of (10 :: nat) # rest) = (rev acc @ l) # lines_from [] rest"
  by (induction l arbitrary: acc) auto

lemma lines_append:
  "lines_from acc (w @ char_of (10 :: nat) # rest) = lines_from acc (w @ [char_of (10 :: nat)]) @ lines_from [] rest"
  by (induction w arbitrary: acc) auto

definition contents :: "(string \<rightharpoonup> string) \<Rightarrow> string \<Rightarrow> string" where
  "contents fs path = (case fs path of Some t \<Rightarrow> t | None \<Rightarrow> [])"

lemma bridge_log_eq: "bridge_log b = key_log"
  by (cases b) (simp_all add: bridges_agree)

lemma log_all_nothing:
  assumes "\<And>label cr s. run_effect (key_log opens policy label cr s) fs = fs"
  shows "log_all opens policy calls fs = fs"
  unfolding log_all_def by (induction calls) (auto simp: assms bridge_log_eq)

lemma log_all_contents:
  assumes "opens path"
  shows "contents (log_all opens (KlFile path) calls fs) path =
      contents fs path @ concat (map (\<lambda>(b, label, cr, s). key_log_line label cr s) calls) \<and>
    (\<forall>q. q \<noteq> path \<longrightarrow> log_all opens (KlFile path) calls fs q = fs q)"
proof (induction calls arbitrary: fs)
  case Nil
  then show ?case by (simp add: log_all_def)
next
  case (Cons c calls)
  obtain b label cr s where c: "c = (b, label, cr, s)" by (cases c)
  have "log_all opens (KlFile path) (c # calls) fs =
      log_all opens (KlFile path) calls (fs(path \<mapsto> contents fs path @ key_log_line label cr s))"
    using assms by (simp add: log_all_def c bridge_log_eq key_log_def run_effect_def contents_def)
  with Cons show ?case by (simp add: c contents_def)
qed

lemma lines_of_log:
  assumes "list_all (\<lambda>(b, label, cr, s). plain_label label) calls"
  shows "map read_line (lines_from [] (concat (map (\<lambda>(b, label, cr, s). key_log_line label cr s) calls))) =
    map (\<lambda>(b, label, cr, s). Some (label, cr, s)) calls"
  using assms
proof (induction calls)
  case Nil
  then show ?case by simp
next
  case (Cons c calls)
  obtain b label cr s where c: "c = (b, label, cr, s)" by (cases c)
  let ?l = "label @ '' '' @ hex_bytes cr @ '' '' @ hex_bytes s"
  have clean: "x \<noteq> char_of (10 :: nat)" if "x \<in> set ?l" for x
    using that Cons.prems hex_bytes_clean [of x] by (auto simp: c plain_label_def char_of_def)
  have "read_line ?l = Some (label, cr, s)" using Cons.prems by (intro read_written) (simp add: c)
  with Cons lines_written [OF clean, of ?l "[]"] show ?case
    by (simp add: c key_log_line_def)
qed

text \<open>C37: Whatever bridges of adapter, client and server log to a file, in whatever order, a reader of the format finds after the lines that
  were there exactly the logged secrets in order, and no other file is touched. A file that does not open, a disabled
  policy and a custom logger write nothing.\<close>

theorem key_log_read_back:
  assumes "list_all (\<lambda>(b, label, cr, s). plain_label label) calls" "contents fs path = [] \<or> last (contents fs path) = char_of (10 :: nat)"
  shows "(opens path \<longrightarrow>
      read_key_log (contents (log_all opens (KlFile path) calls fs) path) =
        read_key_log (contents fs path) @ map (\<lambda>(b, label, cr, s). Some (label, cr, s)) calls \<and>
      (\<forall>q. q \<noteq> path \<longrightarrow> log_all opens (KlFile path) calls fs q = fs q)) \<and>
    (\<not> opens path \<longrightarrow> log_all opens (KlFile path) calls fs = fs) \<and>
    log_all opens KlDisabled calls fs = fs \<and> log_all opens (KlCustom k) calls fs = fs"
proof (intro conjI impI)
  show "log_all opens (KlFile path) calls fs = fs" if "\<not> opens path"
    by (rule log_all_nothing) (use that in \<open>simp add: key_log_def run_effect_def\<close>)
  show "log_all opens KlDisabled calls fs = fs" "log_all opens (KlCustom k) calls fs = fs"
    by (rule log_all_nothing; simp add: key_log_def run_effect_def)+
  assume opens: "opens path"
  show "\<forall>q. q \<noteq> path \<longrightarrow> log_all opens (KlFile path) calls fs q = fs q"
    using log_all_contents [of opens path, OF opens] by blast
  let ?new = "concat (map (\<lambda>(b, label, cr, s). key_log_line label cr s) calls)"
  have "lines_from [] (contents fs path @ ?new) = lines_from [] (contents fs path) @ lines_from [] ?new"
  proof (cases "contents fs path = []")
    case False
    with assms(2) obtain w where "contents fs path = w @ [char_of (10 :: nat)]"
      by (metis append_butlast_last_id)
    with lines_append [of "[]" w ?new] show ?thesis by simp
  qed simp
  then show "read_key_log (contents (log_all opens (KlFile path) calls fs) path) =
        read_key_log (contents fs path) @ map (\<lambda>(b, label, cr, s). Some (label, cr, s)) calls"
    using log_all_contents [of opens path, OF opens] lines_of_log [OF assms(1)] by (simp add: read_key_log_def)
qed

theorem key_log_read_back_witness:
  "read_key_log (contents (log_all (\<lambda>_. True) (KlFile ''keys'') [(AdapterBridge, ''CLIENT_RANDOM'', [1, 0xAB], [2]), (ServerBridge, ''EXPORTER_SECRET'', [], [7])]
     Map.empty) ''keys'') = [Some (''CLIENT_RANDOM'', [1, 0xAB], [2]), Some (''EXPORTER_SECRET'', [], [7])]"
  using key_log_read_back [of "[(AdapterBridge, ''CLIENT_RANDOM'', [1, 0xAB], [2]), (ServerBridge, ''EXPORTER_SECRET'', [], [7])]" Map.empty
      "''keys''" "\<lambda>_. True"]
  by (simp add: contents_def read_key_log_def plain_label_def char_of_def)

end
