(* ===== verification/H2_Keepalive.thy ===== *)
theory H2_Keepalive
  imports Http2
begin

text \<open>
  Pings on an HTTP/2 connection (\<open>oxitls-h2/src/connection.rs\<close>): the keepalive task and the callers of
  \<open>H2Connection::ping\<close> share one handle of h2 behind an asynchronous lock, which is held until the peer answers. Also the
  wrappers of server connections, pushed streams and flow control (\<open>connection.rs\<close>, \<open>server_push.rs\<close>, \<open>flow_control.rs\<close>).
  The handle is a parameter; what is known of it is \<open>ping_pong_ok\<close>. The transition relation has the steps of all tasks.
\<close>

section \<open>Server connections, pushes and flow control\<close>

text \<open>The objects of h2 that the wrappers hold, and their methods. \<open>poll_accept\<close> is awaited: \<open>None\<close> is the end of the connection.\<close>

record ('c, 'r, 's, 'f) h2_objects =
  poll_accept :: "'c \<Rightarrow> ('r, h2_crate_error) result option \<times> 'c"
  start_goaway :: "'c \<Rightarrow> 'c"
  conn_has_streams :: "'c \<Rightarrow> bool"
  push_request :: "'r \<Rightarrow> string \<Rightarrow> ('s, h2_crate_error) result \<times> 'r"
  pushed_send_response :: "'s \<Rightarrow> string \<Rightarrow> bool \<Rightarrow> ('s, h2_crate_error) result"
  flow_available :: "'f \<Rightarrow> int"
  flow_used :: "'f \<Rightarrow> nat"
  flow_release :: "nat \<Rightarrow> 'f \<Rightarrow> (unit, h2_crate_error) result \<times> 'f"

record 'c h2_server_conn =
  sc_inner :: 'c

definition h2_server_conn_new :: "'c \<Rightarrow> 'c h2_server_conn" where
  "h2_server_conn_new conn = \<lparr> sc_inner = conn \<rparr>"

definition accept_request ::
    "('c, 'r, 's, 'f) h2_objects \<Rightarrow> 'c h2_server_conn \<Rightarrow> ('r, h2_error) result option \<times> 'c h2_server_conn" where
  "accept_request H c =
     (case poll_accept H (sc_inner c) of (r, inner) \<Rightarrow> (map_option (rmap_err h2_error_from) r, c\<lparr> sc_inner := inner \<rparr>))"

definition server_graceful_shutdown :: "('c, 'r, 's, 'f) h2_objects \<Rightarrow> 'c h2_server_conn \<Rightarrow> 'c h2_server_conn" where
  "server_graceful_shutdown H c = c\<lparr> sc_inner := start_goaway H (sc_inner c) \<rparr>"

definition has_streams :: "('c, 'r, 's, 'f) h2_objects \<Rightarrow> 'c h2_server_conn \<Rightarrow> bool" where
  "has_streams H c = conn_has_streams H (sc_inner c)"

definition server_push_new :: "'r \<Rightarrow> 'r" where
  "server_push_new send_response = send_response"

definition server_push_push :: "('c, 'r, 's, 'f) h2_objects \<Rightarrow> 'r \<Rightarrow> string \<Rightarrow> ('s, h2_error) result \<times> 'r" where
  "server_push_push H p request = (case push_request H p request of (r, p') \<Rightarrow> (rmap_err h2_error_from r, p'))"

definition server_push_into_inner :: "'r \<Rightarrow> 'r" where
  "server_push_into_inner p = p"

definition pushed_stream_send_response :: "('c, 'r, 's, 'f) h2_objects \<Rightarrow> 's \<Rightarrow> string \<Rightarrow> bool \<Rightarrow> ('s, h2_error) result" where
  "pushed_stream_send_response H s response end_of_stream = rmap_err h2_error_from (pushed_send_response H s response end_of_stream)"

definition flow_control_new :: "'f \<Rightarrow> 'f" where
  "flow_control_new inner = inner"

definition available_capacity :: "('c, 'r, 's, 'f) h2_objects \<Rightarrow> 'f \<Rightarrow> int" where
  "available_capacity H f = flow_available H f"

definition used_capacity :: "('c, 'r, 's, 'f) h2_objects \<Rightarrow> 'f \<Rightarrow> nat" where
  "used_capacity H f = flow_used H f"

definition release_capacity :: "('c, 'r, 's, 'f) h2_objects \<Rightarrow> nat \<Rightarrow> 'f \<Rightarrow> (unit, h2_error) result \<times> 'f" where
  "release_capacity H n f = (case flow_release H n f of (r, f') \<Rightarrow> (rmap_err h2_error_from r, f'))"

section \<open>The shared ping handle\<close>

text \<open>\<open>h2::PingPong\<close>. Its \<open>ping\<close> sends when it is first polled (\<open>ping_send\<close>) and is then ready when the answer or the end of the
  connection is seen (\<open>ping_take\<close>, \<open>None\<close> while there is nothing to see). The driver of the connection changes the handle at any time:
  \<open>ping_ack\<close> when the answer of the peer arrives, \<open>ping_close\<close> when the connection ends.\<close>

record 'p ping_lib =
  ping_send :: "'p \<Rightarrow> (unit, h2_crate_error) result \<times> 'p"
  ping_take :: "'p \<Rightarrow> (unit, h2_crate_error) result option \<times> 'p"
  ping_ack :: "'p \<Rightarrow> 'p"
  ping_close :: "'p \<Rightarrow> 'p"

datatype owner = KeepaliveTask | Caller nat

text \<open>The handle behind the lock, the task that holds the lock, whether that task has sent its ping, the tasks queued for the lock
  in order, whether the keepalive task runs, and what callers were answered, the last one first (the measured time is left out).\<close>

record 'p pinging =
  pg_handle :: "'p option"
  pg_holder :: "owner option"
  pg_sent :: bool
  pg_queue :: "owner list"
  pg_keepalive :: bool
  pg_answers :: "(nat \<times> (unit, h2_error) result) list"

text \<open>The task starts with \<open>tokio::time::interval\<close>, which panics on a period of zero: then the task is over before its first
  tick, and only the task.\<close>

definition pinging_new :: "'p option \<Rightarrow> nat option \<Rightarrow> 'p pinging" where
  "pinging_new ping_pong keepalive =
     \<lparr> pg_handle = ping_pong, pg_holder = None, pg_sent = False, pg_queue = [],
       pg_keepalive = (case keepalive of Some interval \<Rightarrow> interval \<noteq> 0 | None \<Rightarrow> False), pg_answers = [] \<rparr>"

text \<open>What a task does with the result of its turn: the keepalive task goes on to its next tick or leaves its loop, a caller returns.\<close>

fun conclude :: "owner \<Rightarrow> (unit, h2_error) result \<Rightarrow> 'p pinging \<Rightarrow> 'p pinging" where
  "conclude KeepaliveTask (Ok _) s = s"
| "conclude KeepaliveTask (Err e) s = s\<lparr> pg_keepalive := False \<rparr>"
| "conclude (Caller i) r s = s\<lparr> pg_answers := (i, r) # pg_answers s \<rparr>"

text \<open>The guard is dropped: the lock goes to the task that waited longest, which runs when it is next polled.\<close>

definition release_lock :: "'p pinging \<Rightarrow> 'p pinging" where
  "release_lock s =
     (case pg_queue s of
        [] \<Rightarrow> s\<lparr> pg_holder := None, pg_sent := False \<rparr>
      | t # ts \<Rightarrow> s\<lparr> pg_holder := Some t, pg_sent := False, pg_queue := ts \<rparr>)"

text \<open>One poll of the task that holds the lock, from the guard to the end of its turn: the body of the loop of \<open>H2Connection::new\<close>
  and of \<open>H2Connection::ping\<close>.\<close>

definition poll_holder :: "'p ping_lib \<Rightarrow> owner \<Rightarrow> 'p pinging \<Rightarrow> 'p pinging" where
  "poll_holder P t s =
     (case pg_handle s of
        None \<Rightarrow> release_lock (conclude t (Err (H2Settings ''PingPong handle already consumed'')) s)
      | Some pp \<Rightarrow>
          (case (if pg_sent s then (Ok (), pp) else ping_send P pp) of
             (Err e, pp') \<Rightarrow> release_lock (conclude t (Err (h2_error_from e)) (s\<lparr> pg_handle := Some pp' \<rparr>))
           | (Ok _, pp') \<Rightarrow>
               (case ping_take P pp' of
                  (None, pp'') \<Rightarrow> s\<lparr> pg_handle := Some pp'', pg_sent := True \<rparr>
                | (Some r, pp'') \<Rightarrow> release_lock (conclude t (rmap_err h2_error_from r) (s\<lparr> pg_handle := Some pp'' \<rparr>)))))"

text \<open>A task asks for the lock: it goes on at once when the lock is free and queues otherwise.\<close>

definition request_lock :: "'p ping_lib \<Rightarrow> owner \<Rightarrow> 'p pinging \<Rightarrow> 'p pinging" where
  "request_lock P t s =
     (if pg_holder s = None then poll_holder P t (s\<lparr> pg_holder := Some t, pg_sent := False \<rparr>)
      else s\<lparr> pg_queue := pg_queue s @ [t] \<rparr>)"

definition engaged :: "owner \<Rightarrow> 'p pinging \<Rightarrow> bool" where
  "engaged t s \<longleftrightarrow> pg_holder s = Some t \<or> t \<in> set (pg_queue s)"

text \<open>The steps: the timer of the keepalive task, a call of \<open>ping\<close>, the answer of the peer to a ping in flight, the end of the
  connection, a poll of the task that holds the lock, a caller that drops its future after its ping was sent (\<open>Cancel\<close>) or before
  (\<open>Leave\<close>). Answer and end come at any time, whoever holds the lock or nobody. The keepalive task is only aborted by the methods
  that consume the connection; no caller is left then.\<close>

datatype ping_event = Tick | Ping nat | Ack | Close | Wake | Cancel nat | Leave nat

inductive ping_step :: "'p ping_lib \<Rightarrow> 'p pinging \<Rightarrow> ping_event \<Rightarrow> 'p pinging \<Rightarrow> bool" for P where
  tick: "pg_keepalive s \<Longrightarrow> \<not> engaged KeepaliveTask s \<Longrightarrow> ping_step P s Tick (request_lock P KeepaliveTask s)"
| call: "\<not> engaged (Caller i) s \<Longrightarrow> ping_step P s (Ping i) (request_lock P (Caller i) s)"
| ack: "ping_step P s Ack (s\<lparr> pg_handle := map_option (ping_ack P) (pg_handle s) \<rparr>)"
| close: "ping_step P s Close (s\<lparr> pg_handle := map_option (ping_close P) (pg_handle s) \<rparr>)"
| wake: "pg_holder s = Some t \<Longrightarrow> ping_step P s Wake (poll_holder P t s)"
| cancel: "pg_holder s = Some (Caller i) \<Longrightarrow> pg_sent s \<Longrightarrow> ping_step P s (Cancel i) (release_lock s)"
| leave_lock: "pg_holder s = Some (Caller i) \<Longrightarrow> \<not> pg_sent s \<Longrightarrow> ping_step P s (Leave i) (release_lock s)"
| leave_queue: "Caller i \<in> set (pg_queue s) \<Longrightarrow>
    ping_step P s (Leave i) (s\<lparr> pg_queue := filter (\<lambda>t. t \<noteq> Caller i) (pg_queue s) \<rparr>)"

inductive ping_run :: "'p ping_lib \<Rightarrow> 'p pinging \<Rightarrow> ping_event list \<Rightarrow> 'p pinging \<Rightarrow> bool" for P where
  start: "ping_run P s [] s"
| step: "ping_run P s evs s' \<Longrightarrow> ping_step P s' ev s'' \<Longrightarrow> ping_run P s (evs @ [ev]) s''"

inductive_cases ping_step_cases: "ping_step P s ev s'"

text \<open>What is known of the handle of h2: it admits one ping at a time. While a ping is in flight, or its answer has arrived but nobody
  has looked at it, another is refused; an answer is seen once; a connection that has ended fails every ping. \<open>st\<close> tells these
  situations apart.\<close>

datatype pp_state = PpIdle | PpInFlight | PpAcked | PpClosed

definition ping_pong_ok ::
    "'p ping_lib \<Rightarrow> ('p \<Rightarrow> pp_state) \<Rightarrow> h2_crate_error \<Rightarrow> h2_crate_error \<Rightarrow> bool" where
  "ping_pong_ok P st refused broken \<longleftrightarrow>
     (\<forall>p. case st p of
        PpIdle \<Rightarrow> (\<exists>p'. ping_send P p = (Ok (), p') \<and> st p' = PpInFlight) \<and> ping_take P p = (None, p)
      | PpInFlight \<Rightarrow> ping_send P p = (Err refused, p) \<and> ping_take P p = (None, p)
      | PpAcked \<Rightarrow> ping_send P p = (Err refused, p) \<and> (\<exists>p'. ping_take P p = (Some (Ok ()), p') \<and> st p' = PpIdle)
      | PpClosed \<Rightarrow> ping_send P p = (Err broken, p) \<and> ping_take P p = (Some (Err broken), p)) \<and>
     (\<forall>p. st (ping_ack P p) = (if st p = PpInFlight then PpAcked else st p)) \<and>
     (\<forall>p. st (ping_close P p) = PpClosed)"

lemma ping_pong_laws:
  assumes "ping_pong_ok P st refused broken"
  shows "st p = PpIdle \<Longrightarrow> \<exists>p'. ping_send P p = (Ok (), p') \<and> st p' = PpInFlight"
    "st p \<in> {PpInFlight, PpAcked} \<Longrightarrow> ping_send P p = (Err refused, p)"
    "st p = PpClosed \<Longrightarrow> ping_send P p = (Err broken, p)"
    "st p \<in> {PpIdle, PpInFlight} \<Longrightarrow> ping_take P p = (None, p)"
    "st p = PpAcked \<Longrightarrow> \<exists>p'. ping_take P p = (Some (Ok ()), p') \<and> st p' = PpIdle"
    "st p = PpClosed \<Longrightarrow> ping_take P p = (Some (Err broken), p)"
    "st (ping_ack P p) = (if st p = PpInFlight then PpAcked else st p)" "st (ping_close P p) = PpClosed"
  using assms unfolding ping_pong_ok_def by (force split: pp_state.splits)+

section \<open>The lock\<close>

text \<open>The lock is free only when nobody waits for it, nobody waits for it twice, and only the task that holds it waits for an answer.\<close>

definition lock_ok :: "'p pinging \<Rightarrow> bool" where
  "lock_ok s \<longleftrightarrow> (pg_holder s = None \<longrightarrow> pg_queue s = [] \<and> \<not> pg_sent s) \<and> distinct (pg_queue s) \<and>
     (\<forall>t. pg_holder s = Some t \<longrightarrow> t \<notin> set (pg_queue s))"

lemma conclude_simps [simp]:
  "pg_holder (conclude t r s) = pg_holder s" "pg_queue (conclude t r s) = pg_queue s"
  "pg_handle (conclude t r s) = pg_handle s" "pg_sent (conclude t r s) = pg_sent s"
  by (cases "(t, r, s)" rule: conclude.cases; simp)+

lemma conclude_answers:
  "pg_answers (conclude t r s) = (case t of KeepaliveTask \<Rightarrow> [] | Caller i \<Rightarrow> [(i, r)]) @ pg_answers s"
  "pg_keepalive (conclude t r s) = (pg_keepalive s \<and> (t = KeepaliveTask \<longrightarrow> r = Ok ()))"
  by (cases "(t, r, s)" rule: conclude.cases; simp)+

lemma release_lock_simps [simp]:
  "pg_handle (release_lock s) = pg_handle s" "pg_sent (release_lock s) = False"
  "pg_keepalive (release_lock s) = pg_keepalive s" "pg_answers (release_lock s) = pg_answers s"
  by (simp_all add: release_lock_def split: list.split)

lemma release_lock_ok: "distinct (pg_queue s) \<Longrightarrow> lock_ok (release_lock s)"
  by (auto simp: release_lock_def lock_ok_def split: list.split)

lemma engaged_release: "engaged t (release_lock s) \<longleftrightarrow> t \<in> set (pg_queue s)"
  by (auto simp: release_lock_def engaged_def split: list.split)

lemma poll_lock_ok:
  assumes "lock_ok s" "pg_holder s = Some t"
  shows "lock_ok (poll_holder P t s)"
proof -
  have "lock_ok (release_lock (conclude t r (s\<lparr> pg_handle := h \<rparr>)))" "lock_ok (release_lock (conclude t r s))" for r h
    using assms(1) by (intro release_lock_ok; simp add: lock_ok_def)+
  moreover have "lock_ok (s\<lparr> pg_handle := h, pg_sent := b \<rparr>)" for h b
    using assms by (simp add: lock_ok_def)
  ultimately show ?thesis
    by (auto simp: poll_holder_def split: option.split prod.split result.split)
qed

lemma lock_ok_step:
  assumes "lock_ok s" "ping_step P s ev s'"
  shows "lock_ok s'"
proof -
  have req: "lock_ok (request_lock P t s)" if "\<not> engaged t s" for t
    using assms(1) that by (auto simp: request_lock_def engaged_def lock_ok_def intro!: poll_lock_ok [unfolded lock_ok_def])
  show ?thesis
    using assms(2)
  proof cases
    case (wake t)
    with assms(1) poll_lock_ok show ?thesis by blast
  qed (use assms(1) req release_lock_ok [of s] in \<open>auto simp: lock_ok_def\<close>)
qed

lemma run_lock_ok:
  assumes "ping_run P s evs s'" "lock_ok s"
  shows "lock_ok s'"
  using assms by (induction rule: ping_run.induct) (auto intro: lock_ok_step)

lemma new_lock_ok: "lock_ok (pinging_new h keepalive)"
  by (simp add: pinging_new_def lock_ok_def)

section \<open>A turn of the holder\<close>

definition handle_in :: "('p \<Rightarrow> pp_state) \<Rightarrow> pp_state set \<Rightarrow> 'p pinging \<Rightarrow> bool" where
  "handle_in st A s \<longleftrightarrow> (\<exists>p. pg_handle s = Some p \<and> st p \<in> A)"

lemma same_handle: "pg_handle s = Some p \<Longrightarrow> s\<lparr> pg_handle := Some p \<rparr> = s"
  by (cases s) simp

lemma same_handle_sent: "pg_handle s = Some p \<Longrightarrow> pg_sent s \<Longrightarrow> s\<lparr> pg_handle := Some p, pg_sent := True \<rparr> = s"
  by (cases s) simp

lemma poll_sends:
  assumes "ping_pong_ok P st refused broken" "handle_in st {PpIdle} s" "\<not> pg_sent s"
  shows "\<exists>p. poll_holder P t s = s\<lparr> pg_handle := Some p, pg_sent := True \<rparr> \<and> st p = PpInFlight"
proof -
  obtain p p' where p: "pg_handle s = Some p" "ping_send P p = (Ok (), p')" "st p' = PpInFlight"
    using assms(2) ping_pong_laws(1) [OF assms(1)] unfolding handle_in_def by blast
  with ping_pong_laws(4) [OF assms(1), of p'] assms(3)
  have "poll_holder P t s = s\<lparr> pg_handle := Some p', pg_sent := True \<rparr>" by (simp add: poll_holder_def)
  with p(3) show ?thesis by blast
qed

lemma poll_waits:
  assumes "ping_pong_ok P st refused broken" "handle_in st {PpInFlight} s" "pg_sent s"
  shows "poll_holder P t s = s"
  using assms(2,3) ping_pong_laws(4) [OF assms(1)]
  by (auto simp: handle_in_def poll_holder_def same_handle_sent)

lemma poll_answered:
  assumes "ping_pong_ok P st refused broken" "handle_in st {PpAcked} s" "pg_sent s"
  shows "\<exists>p. poll_holder P t s = release_lock (conclude t (Ok ()) (s\<lparr> pg_handle := Some p \<rparr>)) \<and> st p = PpIdle"
proof -
  obtain p p' where p: "pg_handle s = Some p" "ping_take P p = (Some (Ok ()), p')" "st p' = PpIdle"
    using assms(2) ping_pong_laws(5) [OF assms(1)] unfolding handle_in_def by blast
  with assms(3) have "poll_holder P t s = release_lock (conclude t (Ok ()) (s\<lparr> pg_handle := Some p' \<rparr>))"
    by (simp add: poll_holder_def)
  with p(3) show ?thesis by blast
qed

lemma poll_refused:
  assumes "ping_pong_ok P st refused broken" "handle_in st {PpInFlight, PpAcked} s" "\<not> pg_sent s"
  shows "poll_holder P t s = release_lock (conclude t (Err (h2_error_from refused)) s)"
proof -
  obtain p where "pg_handle s = Some p" "ping_send P p = (Err refused, p)"
    using assms(2) ping_pong_laws(2) [OF assms(1)] by (auto simp: handle_in_def)
  with assms(3) show ?thesis by (simp add: poll_holder_def same_handle)
qed

lemma poll_broken:
  assumes "ping_pong_ok P st refused broken" "handle_in st {PpClosed} s"
  shows "poll_holder P t s = release_lock (conclude t (Err (h2_error_from broken)) s)"
proof -
  obtain p where "pg_handle s = Some p" "ping_send P p = (Err broken, p)" "ping_take P p = (Some (Err broken), p)"
    using assms(2) ping_pong_laws(3,6) [OF assms(1)] by (auto simp: handle_in_def)
  then show ?thesis by (simp add: poll_holder_def same_handle)
qed

lemma handle_after_ack:
  assumes "ping_pong_ok P st refused broken"
  shows "handle_in st A (s\<lparr> pg_handle := map_option (ping_ack P) (pg_handle s) \<rparr>) \<longleftrightarrow>
      handle_in st {x. (if x = PpInFlight then PpAcked else x) \<in> A} s"
  using ping_pong_laws(7) [OF assms] by (auto simp: handle_in_def)

lemma handle_after_close:
  assumes "ping_pong_ok P st refused broken"
  shows "handle_in st A (s\<lparr> pg_handle := map_option (ping_close P) (pg_handle s) \<rparr>) \<longleftrightarrow> PpClosed \<in> A \<and> pg_handle s \<noteq> None"
  using ping_pong_laws(8) [OF assms] by (auto simp: handle_in_def)

lemma handle_in_mono: "handle_in st A s \<Longrightarrow> A \<subseteq> B \<Longrightarrow> handle_in st B s"
  by (auto simp: handle_in_def)

lemma UNIV_pp_state: "- {PpIdle} = {PpInFlight, PpAcked, PpClosed}"
  using pp_state.exhaust by auto

text \<open>Whoever waits for an answer has a ping outstanding, or the connection has ended.\<close>

definition awaited :: "('p \<Rightarrow> pp_state) \<Rightarrow> 'p pinging \<Rightarrow> bool" where
  "awaited st s \<longleftrightarrow> handle_in st (if pg_sent s then - {PpIdle} else UNIV) s"

lemma poll_awaited:
  assumes law: "ping_pong_ok P st refused broken" and s: "awaited st s"
  shows "awaited st (poll_holder P t s)"
proof -
  obtain p where p: "pg_handle s = Some p" "pg_sent s \<Longrightarrow> st p \<noteq> PpIdle"
    using s by (auto simp: awaited_def handle_in_def split: if_splits)
  show ?thesis
  proof (cases "st p")
    case PpIdle
    with p have "handle_in st {PpIdle} s" "\<not> pg_sent s" by (auto simp: handle_in_def)
    from poll_sends [OF law this, of t] show ?thesis by (auto simp: awaited_def handle_in_def)
  next
    case PpInFlight
    with p s poll_waits [OF law, of s t] poll_refused [OF law, of s t] show ?thesis
      by (cases "pg_sent s") (auto simp: awaited_def handle_in_def)
  next
    case PpAcked
    with p poll_answered [OF law, of s t] poll_refused [OF law, of s t] show ?thesis
      by (cases "pg_sent s") (auto simp: awaited_def handle_in_def)
  next
    case PpClosed
    with p poll_broken [OF law, of s t] show ?thesis by (auto simp: awaited_def handle_in_def)
  qed
qed

lemma awaited_step:
  assumes law: "ping_pong_ok P st refused broken" and s: "awaited st s" and step: "ping_step P s ev s'"
  shows "awaited st s'"
proof -
  have some: "handle_in st UNIV s" using s by (auto simp: awaited_def intro: handle_in_mono)
  have "awaited st (s\<lparr> pg_holder := Some t, pg_sent := False \<rparr>)" for t
    using some by (simp add: awaited_def handle_in_def)
  then have req: "awaited st (request_lock P t s)" for t
    using s poll_awaited [OF law] by (auto simp: request_lock_def) (auto simp: awaited_def handle_in_def)
  show ?thesis
    using step
  proof cases
    case (wake t)
    with s poll_awaited [OF law] show ?thesis by blast
  next
    case ack
    with s show ?thesis
      by (auto simp: awaited_def handle_after_ack [OF law] intro: handle_in_mono split: if_splits)
  next
    case close
    with some show ?thesis by (auto simp: awaited_def handle_after_close [OF law]) (auto simp: handle_in_def)
  qed (use s some req in \<open>auto simp: awaited_def handle_in_def split: if_splits\<close>)
qed

lemma run_awaited:
  assumes "ping_run P s evs s'" "ping_pong_ok P st refused broken" "awaited st s"
  shows "awaited st s'"
  using assms by (induction rule: ping_run.induct) (auto intro: awaited_step)

section \<open>Runs in which no ping is dropped in flight\<close>

text \<open>A ping is outstanding exactly while a task waits for it, so no ping is refused. \<open>C\<close> holds \<open>PpClosed\<close> when the connection may
  have ended.\<close>

definition orderly ::
    "('p \<Rightarrow> pp_state) \<Rightarrow> h2_crate_error \<Rightarrow> pp_state set \<Rightarrow> bool \<Rightarrow> 'p pinging \<Rightarrow> bool" where
  "orderly st broken C k s \<longleftrightarrow>
     handle_in st ((if pg_sent s then {PpInFlight, PpAcked} else {PpIdle}) \<union> C) s \<and>
     (\<forall>(i, r) \<in> set (pg_answers s). r = Ok () \<or> C \<noteq> {} \<and> r = Err (h2_error_from broken)) \<and>
     (C = {} \<longrightarrow> pg_keepalive s = k)"

lemma poll_orderly:
  assumes law: "ping_pong_ok P st refused broken" and C: "C \<subseteq> {PpClosed}" and s: "orderly st broken C k s"
  shows "orderly st broken C k (poll_holder P t s)"
proof -
  obtain p where p: "pg_handle s = Some p" "st p \<in> (if pg_sent s then {PpInFlight, PpAcked} else {PpIdle}) \<union> C"
    using s by (auto simp: orderly_def handle_in_def)
  show ?thesis
  proof (cases "st p")
    case PpIdle
    with p C have "\<not> pg_sent s" by (auto split: if_splits)
    with PpIdle p s poll_sends [OF law, of s t] show ?thesis by (auto simp: orderly_def handle_in_def)
  next
    case PpInFlight
    with p C have "pg_sent s" by (auto split: if_splits)
    with PpInFlight p s poll_waits [OF law, of s t] show ?thesis by (auto simp: handle_in_def)
  next
    case PpAcked
    with p C have "pg_sent s" by (auto split: if_splits)
    with PpAcked p s poll_answered [OF law, of s t] show ?thesis
      by (auto simp: orderly_def handle_in_def conclude_answers split: owner.splits)
  next
    case PpClosed
    with p have "C \<noteq> {}" by (auto split: if_splits)
    with PpClosed p s C poll_broken [OF law, of s t] show ?thesis
      by (auto simp: orderly_def handle_in_def conclude_answers split: owner.splits)
  qed
qed

lemma orderly_step:
  assumes law: "ping_pong_ok P st refused broken" and C: "C \<subseteq> {PpClosed}" and s: "orderly st broken C k s"
    and lock: "lock_ok s" and step: "ping_step P s ev s'" and ev: "\<forall>i. ev \<noteq> Cancel i" "C = {} \<longrightarrow> ev \<noteq> Close"
  shows "orderly st broken C k s'"
proof -
  have "orderly st broken C k (s\<lparr> pg_holder := Some t, pg_sent := False \<rparr>)" if "pg_holder s = None" for t
    using s lock that by (simp add: orderly_def handle_in_def lock_ok_def)
  then have "orderly st broken C k (request_lock P t s)" if "pg_holder s = None" for t
    using that poll_orderly [OF law C] by (simp add: request_lock_def)
  moreover have "orderly st broken C k (request_lock P t s)" if "pg_holder s \<noteq> None" for t
    using s that by (auto simp: request_lock_def) (auto simp: orderly_def handle_in_def)
  ultimately have req: "orderly st broken C k (request_lock P t s)" for t by blast
  show ?thesis
    using step
  proof cases
    case (wake t)
    with s poll_orderly [OF law C] show ?thesis by blast
  next
    case ack
    with s C show ?thesis
      by (auto simp: orderly_def handle_after_ack [OF law] intro: handle_in_mono split: if_splits)
  next
    case close
    with s C ev(2) show ?thesis by (auto simp: orderly_def handle_after_close [OF law]) (auto simp: handle_in_def)
  qed (use s req ev in \<open>auto simp: orderly_def handle_in_def\<close>)
qed

lemma orderly_run:
  assumes "ping_run P s evs s'" "ping_pong_ok P st refused broken" "C \<subseteq> {PpClosed}" "orderly st broken C k s" "lock_ok s"
    and "\<forall>i. Cancel i \<notin> set evs" "C = {} \<longrightarrow> Close \<notin> set evs"
  shows "orderly st broken C k s'"
  using assms
proof (induction rule: ping_run.induct)
  case (start s)
  then show ?case by simp
next
  case (step s evs s' ev s'')
  then have "orderly st broken C k s'" "lock_ok s'" by (auto intro: run_lock_ok)
  moreover from step.prems(5,6) have "\<forall>i. ev \<noteq> Cancel i" "C = {} \<longrightarrow> ev \<noteq> Close" by auto
  ultimately show ?case using orderly_step [OF step.prems(1,2)] step.hyps(2) by blast
qed

section \<open>A ping dropped in flight\<close>

text \<open>Nobody waits, and yet the handle admits no ping.\<close>

definition dead :: "('p \<Rightarrow> pp_state) \<Rightarrow> 'p pinging \<Rightarrow> bool" where
  "dead st s \<longleftrightarrow> \<not> pg_sent s \<and> handle_in st (- {PpIdle}) s"

definition only_failures :: "h2_crate_error set \<Rightarrow> (nat \<times> (unit, h2_error) result) list \<Rightarrow> bool" where
  "only_failures E rs \<longleftrightarrow> (\<forall>(i, r) \<in> set rs. \<exists>e \<in> E. r = Err (h2_error_from e))"

lemma poll_dead:
  assumes law: "ping_pong_ok P st refused broken" and s: "dead st s"
  shows "\<exists>e \<in> {refused, broken}. poll_holder P t s = release_lock (conclude t (Err (h2_error_from e)) s)"
proof -
  obtain p where p: "pg_handle s = Some p" "st p \<noteq> PpIdle" "\<not> pg_sent s"
    using s by (auto simp: dead_def handle_in_def)
  then consider "handle_in st {PpInFlight, PpAcked} s" | "handle_in st {PpClosed} s"
    by (cases "st p") (auto simp: handle_in_def)
  then show ?thesis
    using poll_refused [OF law, of s t] poll_broken [OF law, of s t] p(3) by cases auto
qed

text \<open>What a step adds: failures, and the end of the keepalive task at its turn.\<close>

definition declines :: "h2_crate_error set \<Rightarrow> 'p pinging \<Rightarrow> 'p pinging \<Rightarrow> bool" where
  "declines E s s' \<longleftrightarrow> (\<exists>rs. pg_answers s' = rs @ pg_answers s \<and> only_failures E rs) \<and>
     (pg_keepalive s' \<longrightarrow> pg_keepalive s) \<and>
     (pg_keepalive s' \<and> engaged KeepaliveTask s \<longrightarrow> engaged KeepaliveTask s')"

lemma declines_refl: "declines E s s"
  by (simp add: declines_def only_failures_def)

lemma only_failures_append: "only_failures E rs \<Longrightarrow> only_failures E rs' \<Longrightarrow> only_failures E (rs @ rs')"
  by (auto simp: only_failures_def)

lemma declines_trans:
  assumes "declines E s s'" "declines E s' s''"
  shows "declines E s s''"
proof -
  obtain rs rs' where "pg_answers s' = rs @ pg_answers s" "pg_answers s'' = rs' @ pg_answers s'"
    "only_failures E rs" "only_failures E rs'"
    using assms unfolding declines_def by blast
  then have "\<exists>rs. pg_answers s'' = rs @ pg_answers s \<and> only_failures E rs"
    by (intro exI [of _ "rs' @ rs"]) (simp add: only_failures_append)
  with assms show ?thesis unfolding declines_def by blast
qed

lemma poll_declines:
  assumes law: "ping_pong_ok P st refused broken" and s: "dead st s" "pg_holder s = Some t"
  shows "dead st (poll_holder P t s) \<and> declines {refused, broken} s (poll_holder P t s) \<and>
    (pg_keepalive (poll_holder P t s) \<longrightarrow> t \<noteq> KeepaliveTask)"
proof -
  obtain e where "e \<in> {refused, broken}" "poll_holder P t s = release_lock (conclude t (Err (h2_error_from e)) s)"
    using poll_dead [OF law s(1)] by blast
  moreover have "engaged KeepaliveTask s \<longleftrightarrow> t = KeepaliveTask \<or> KeepaliveTask \<in> set (pg_queue s)"
    using s(2) by (auto simp: engaged_def)
  ultimately show ?thesis
    using s(1) by (auto simp: dead_def handle_in_def declines_def only_failures_def conclude_answers engaged_release
        split: owner.splits)
qed

lemma dead_step:
  assumes law: "ping_pong_ok P st refused broken" and s: "dead st s" and step: "ping_step P s ev s'"
  shows "dead st s' \<and> declines {refused, broken} s s' \<and> (ev = Tick \<and> pg_keepalive s' \<longrightarrow> engaged KeepaliveTask s')"
proof -
  have req: "dead st (request_lock P t s) \<and> declines {refused, broken} s (request_lock P t s) \<and>
      (t = KeepaliveTask \<and> pg_keepalive (request_lock P t s) \<longrightarrow> engaged KeepaliveTask (request_lock P t s))"
    if "\<not> engaged t s" for t
  proof (cases "pg_holder s")
    case None
    let ?s = "s\<lparr> pg_holder := Some t, pg_sent := False \<rparr>"
    have "dead st ?s" using s by (simp add: dead_def handle_in_def)
    from poll_declines [OF law this, of t] have polled:
      "dead st (poll_holder P t ?s)" "declines {refused, broken} ?s (poll_holder P t ?s)"
      "pg_keepalive (poll_holder P t ?s) \<longrightarrow> t \<noteq> KeepaliveTask" by simp_all
    moreover from polled(2,3) None have "declines {refused, broken} s (poll_holder P t ?s)"
      using that unfolding declines_def engaged_def by auto
    ultimately show ?thesis using None by (auto simp: request_lock_def)
  next
    case (Some u)
    with s show ?thesis
      by (auto simp: request_lock_def declines_def engaged_def dead_def handle_in_def only_failures_def)
  qed
  show ?thesis
    using step
  proof cases
    case (wake t)
    with poll_declines [OF law s] show ?thesis by blast
  next
    case ack
    with s show ?thesis
      by (auto simp: dead_def handle_after_ack [OF law] declines_def only_failures_def engaged_def intro: handle_in_mono)
  next
    case close
    with s show ?thesis
      by (auto simp: dead_def handle_after_close [OF law] declines_def only_failures_def engaged_def) (auto simp: handle_in_def)
  next
    case (leave_lock i)
    with s show ?thesis
      by (auto simp: dead_def handle_in_def declines_def only_failures_def engaged_release) (auto simp: engaged_def)
  qed (use s req in \<open>auto simp: dead_def handle_in_def declines_def only_failures_def engaged_def\<close>)
qed

lemma dead_run:
  assumes "ping_run P s evs s'" "ping_pong_ok P st refused broken" "dead st s"
  shows "dead st s' \<and> declines {refused, broken} s s' \<and> (Tick \<in> set evs \<and> pg_keepalive s' \<longrightarrow> engaged KeepaliveTask s')"
  using assms
proof (induction rule: ping_run.induct)
  case (start s)
  then show ?case by (simp add: declines_refl)
next
  case (step s evs s' ev s'')
  then have ih: "dead st s'" "declines {refused, broken} s s'" "Tick \<in> set evs \<and> pg_keepalive s' \<longrightarrow> engaged KeepaliveTask s'"
    by auto
  note next_step = dead_step [OF step.prems(1) ih(1) step.hyps(2)]
  moreover from this ih(2) have "declines {refused, broken} s s''" by (blast intro: declines_trans)
  moreover from next_step ih(3) have "Tick \<in> set evs \<and> pg_keepalive s'' \<longrightarrow> engaged KeepaliveTask s''"
    unfolding declines_def by blast
  ultimately show ?case by auto
qed

section \<open>Properties\<close>

text \<open>A peer that neither answers nor closes, and a task \<open>t\<close> that is not dropped.\<close>

definition silent_for :: "owner \<Rightarrow> ping_event list \<Rightarrow> bool" where
  "silent_for t evs \<longleftrightarrow> Ack \<notin> set evs \<and> Close \<notin> set evs \<and> (\<forall>i. t = Caller i \<longrightarrow> Cancel i \<notin> set evs)"

lemma silent_run:
  assumes "ping_run P s evs s'" "ping_pong_ok P st refused broken" "handle_in st {PpInFlight} s"
    and "pg_holder s = Some t" "pg_sent s" "silent_for t evs"
  shows "pg_holder s' = Some t \<and> pg_sent s' \<and> handle_in st {PpInFlight} s' \<and>
    pg_answers s' = pg_answers s \<and> pg_keepalive s' = pg_keepalive s"
  using assms
proof (induction rule: ping_run.induct)
  case (start s)
  then show ?case by simp
next
  case (step s evs s' ev s'')
  then have ih: "pg_holder s' = Some t" "pg_sent s'" "handle_in st {PpInFlight} s'"
    "pg_answers s' = pg_answers s" "pg_keepalive s' = pg_keepalive s" by (auto simp: silent_for_def)
  from step.hyps(2) show ?case
  proof cases
    case (wake u)
    with ih poll_waits [OF step.prems(1) ih(3,2)] show ?thesis by simp
  qed (use ih step.prems(5) in \<open>auto simp: silent_for_def request_lock_def handle_in_def\<close>)
qed

text \<open>C38: Under every interleaving of the keepalive timer, callers that come and go, polls, answers of the peer at any time and the end of the
  connection: the lock of the ping handle is free only when nobody waits for it, nobody waits twice, and a task that waits for an answer has
  a ping outstanding or the connection has ended. When no caller dropped a ping in flight, no ping is refused because of another: callers are
  answered by success or, once the connection ended, by its error; and if it has not ended, a ping is outstanding exactly while
  a task waits for it, every answer is a success and the keepalive task is as it was started. While the peer is silent the task that waits
  waits on, nobody is answered and the keepalive task does not end, whatever ticks and calls come.\<close>

theorem ping_lock_invariant:
  assumes "ping_pong_ok P st refused broken" "st p = PpIdle" "ping_run P (pinging_new (Some p) keepalive) evs s"
  shows "lock_ok s \<and> (pg_sent s \<longrightarrow> \<not> handle_in st {PpIdle} s) \<and>
    ((\<forall>i. Cancel i \<notin> set evs) \<longrightarrow>
       (\<forall>(i, r) \<in> set (pg_answers s). r \<in> {Ok (), Err (h2_error_from broken)}) \<and>
       (Close \<notin> set evs \<longrightarrow>
          (handle_in st {PpInFlight, PpAcked} s \<longleftrightarrow> pg_sent s) \<and> (\<forall>(i, r) \<in> set (pg_answers s). r = Ok ()) \<and>
          pg_keepalive s = pg_keepalive (pinging_new (Some p) keepalive))) \<and>
    (\<forall>t evs' s'. pg_holder s = Some t \<and> pg_sent s \<and> handle_in st {PpInFlight} s \<and> silent_for t evs' \<and> ping_run P s evs' s' \<longrightarrow>
       pg_holder s' = Some t \<and> pg_answers s' = pg_answers s \<and> pg_keepalive s' = pg_keepalive s)"
proof -
  let ?s = "pinging_new (Some p) keepalive"
  have orderly: "orderly st broken C (pg_keepalive ?s) ?s" for C
    using assms(2) by (simp add: orderly_def handle_in_def pinging_new_def)
  have "awaited st ?s" by (simp add: awaited_def handle_in_def pinging_new_def)
  then have "awaited st s" by (rule run_awaited [OF assms(3,1)])
  then have sent: "pg_sent s \<longrightarrow> \<not> handle_in st {PpIdle} s" by (auto simp: awaited_def handle_in_def)
  have run: "orderly st broken C (pg_keepalive ?s) s"
    if "\<forall>i. Cancel i \<notin> set evs" "C \<subseteq> {PpClosed}" "C = {} \<longrightarrow> Close \<notin> set evs" for C
    using orderly_run [OF assms(3,1) that(2) orderly new_lock_ok that(1,3)] .
  have answers: "\<forall>(i, r) \<in> set (pg_answers s). r \<in> {Ok (), Err (h2_error_from broken)}" if "\<forall>i. Cancel i \<notin> set evs"
    using run [OF that, of "{PpClosed}"] by (auto simp: orderly_def)
  have live: "(handle_in st {PpInFlight, PpAcked} s \<longleftrightarrow> pg_sent s) \<and> (\<forall>(i, r) \<in> set (pg_answers s). r = Ok ()) \<and>
      pg_keepalive s = pg_keepalive ?s" if "\<forall>i. Cancel i \<notin> set evs" "Close \<notin> set evs"
    using run [OF that(1), of "{}"] that(2) by (auto simp: orderly_def handle_in_def split: if_splits)
  show ?thesis
    using run_lock_ok [OF assms(3) new_lock_ok] sent answers live silent_run [OF _ assms(1)] by blast
qed

text \<open>C39: When a caller drops a ping in flight, for example at a timeout of its own, no ping on the connection succeeds any more, whatever
  happened before and whatever comes later, the answer to the dropped ping and the end of the connection included: nobody waits for an answer
  again, the handle never becomes free, every later call is answered with an error (the refusal of h2, or the error of an ended
  connection), whoever gets the lock fails at its next poll, and the keepalive task, once it ticks, ends at its turn although the
  connection may live.\<close>

theorem cancelled_ping_sticks:
  assumes "ping_pong_ok P st refused broken" "st p = PpIdle" "ping_run P (pinging_new (Some p) keepalive) before s"
    and "ping_step P s (Cancel i) s'" "ping_run P s' later s''"
  shows "\<not> pg_sent s'' \<and> handle_in st {PpInFlight, PpAcked, PpClosed} s'' \<and>
    (\<exists>rs. pg_answers s'' = rs @ pg_answers s \<and>
       (\<forall>(j, r) \<in> set rs. r \<in> {Err (h2_error_from refused), Err (h2_error_from broken)})) \<and>
    (\<forall>t. pg_holder s'' = Some t \<longrightarrow>
       (\<exists>e \<in> {refused, broken}. poll_holder P t s'' = release_lock (conclude t (Err (h2_error_from e)) s''))) \<and>
    (Tick \<in> set later \<and> pg_keepalive s'' \<longrightarrow> engaged KeepaliveTask s'')"
proof -
  have "awaited st (pinging_new (Some p) keepalive)" by (simp add: awaited_def handle_in_def pinging_new_def)
  then have "awaited st s" by (rule run_awaited [OF assms(3,1)])
  moreover from assms(4) have "pg_sent s" "s' = release_lock s" by (auto elim: ping_step_cases)
  ultimately have s': "dead st s'" "pg_answers s' = pg_answers s" by (simp_all add: dead_def awaited_def handle_in_def)
  note dead_later = dead_run [OF assms(5,1) s'(1)]
  then have "\<exists>rs. pg_answers s'' = rs @ pg_answers s \<and>
       (\<forall>(j, r) \<in> set rs. r \<in> {Err (h2_error_from refused), Err (h2_error_from broken)})"
    using s'(2) by (auto simp: declines_def only_failures_def)
  moreover have "handle_in st {PpInFlight, PpAcked, PpClosed} s''"
    using dead_later UNIV_pp_state by (auto simp: dead_def intro: handle_in_mono)
  moreover have "\<not> pg_sent s''" using dead_later by (simp add: dead_def)
  ultimately show ?thesis using dead_later poll_dead [OF assms(1)] by blast
qed

section \<open>Witnesses\<close>

text \<open>A handle that is nothing but its situation.\<close>

definition example_refusal :: h2_crate_error where
  "example_refusal = \<lparr> he_is_reset = False, he_reason = None, he_text = ''send_ping before received previous pong'' \<rparr>"

definition example_broken_pipe :: h2_crate_error where
  "example_broken_pipe = \<lparr> he_is_reset = False, he_reason = None, he_text = ''broken pipe'' \<rparr>"

definition example_pings :: "pp_state ping_lib" where
  "example_pings =
     \<lparr> ping_send = (\<lambda>p. case p of PpIdle \<Rightarrow> (Ok (), PpInFlight) | PpClosed \<Rightarrow> (Err example_broken_pipe, p)
                              | _ \<Rightarrow> (Err example_refusal, p)),
       ping_take = (\<lambda>p. case p of PpAcked \<Rightarrow> (Some (Ok ()), PpIdle) | PpClosed \<Rightarrow> (Some (Err example_broken_pipe), p)
                              | _ \<Rightarrow> (None, p)),
       ping_ack = (\<lambda>p. if p = PpInFlight then PpAcked else p), ping_close = (\<lambda>_. PpClosed) \<rparr>"

lemma example_pings_ok: "ping_pong_ok example_pings (\<lambda>p. p) example_refusal example_broken_pipe"
  by (auto simp: ping_pong_ok_def example_pings_def split: pp_state.split)

text \<open>A caller waits; the answer arrives after it has dropped its ping, and the next call is refused all the same.\<close>

definition example_waiting :: "pp_state pinging" where
  "example_waiting = \<lparr> pg_handle = Some PpInFlight, pg_holder = Some (Caller 1), pg_sent = True, pg_queue = [],
     pg_keepalive = True, pg_answers = [] \<rparr>"

definition example_late :: "(nat \<times> (unit, h2_error) result) list \<Rightarrow> bool \<Rightarrow> pp_state pinging" where
  "example_late rs k = \<lparr> pg_handle = Some PpAcked, pg_holder = None, pg_sent = False, pg_queue = [],
     pg_keepalive = k, pg_answers = rs \<rparr>"

lemma run_one: "ping_step P s ev s' \<Longrightarrow> ping_run P s [ev] s'"
  using ping_run.step [OF ping_run.start] by fastforce

lemma example_ping_run: "ping_run example_pings (pinging_new (Some PpIdle) (Some 5)) [Ping 1] example_waiting"
proof -
  let ?s = "pinging_new (Some PpIdle) (Some 5)"
  have "ping_step example_pings ?s (Ping 1) (request_lock example_pings (Caller 1) ?s)"
    by (rule ping_step.call) (simp add: engaged_def pinging_new_def)
  moreover have "request_lock example_pings (Caller 1) ?s = example_waiting"
    by (simp add: request_lock_def pinging_new_def poll_holder_def example_pings_def example_waiting_def)
  ultimately show ?thesis by (simp add: run_one)
qed

lemma example_late_run:
  "ping_step example_pings example_waiting (Cancel 1) (release_lock example_waiting)"
  "ping_run example_pings (release_lock example_waiting) [Ack, Ping 2, Tick]
     (example_late [(2, Err (h2_error_from example_refusal))] False)"
proof -
  show "ping_step example_pings example_waiting (Cancel 1) (release_lock example_waiting)"
    by (rule ping_step.cancel) (simp_all add: example_waiting_def)
  have "ping_step example_pings (release_lock example_waiting) Ack (example_late [] True)"
    using ping_step.ack [of example_pings "release_lock example_waiting"]
    by (simp add: release_lock_def example_waiting_def example_late_def example_pings_def)
  moreover have "ping_step example_pings (example_late [] True) (Ping 2)
      (example_late [(2, Err (h2_error_from example_refusal))] True)"
    using ping_step.call [of 2 "example_late [] True" example_pings]
    by (simp add: engaged_def request_lock_def poll_holder_def release_lock_def example_late_def example_pings_def)
  moreover have "ping_step example_pings (example_late rs True) Tick (example_late rs False)" for rs
    using ping_step.tick [of "example_late rs True" example_pings]
    by (simp add: engaged_def request_lock_def poll_holder_def release_lock_def example_late_def example_pings_def)
  ultimately show "ping_run example_pings (release_lock example_waiting) [Ack, Ping 2, Tick]
     (example_late [(2, Err (h2_error_from example_refusal))] False)"
    using ping_run.step [OF ping_run.step [OF run_one]] by fastforce
qed

theorem ping_lock_invariant_witness:
  "lock_ok example_waiting \<and> (handle_in (\<lambda>p. p) {PpInFlight, PpAcked} example_waiting \<longleftrightarrow> pg_sent example_waiting)"
  using ping_lock_invariant [OF example_pings_ok _ example_ping_run] by simp

theorem cancelled_ping_sticks_witness:
  "\<exists>s' s''. ping_step example_pings example_waiting (Cancel 1) s' \<and> ping_run example_pings s' [Ack, Ping 2, Tick] s'' \<and>
     \<not> pg_keepalive s'' \<and> \<not> pg_sent s'' \<and> pg_answers s'' = [(2, Err (h2_error_from example_refusal))]"
  using example_late_run cancelled_ping_sticks [OF example_pings_ok _ example_ping_run example_late_run]
  by (intro exI conjI) (auto simp: example_late_def)

end
