(* ===== verification/Traffic_Keys.thy ===== *)
theory Traffic_Keys
  imports Record_Layer Crypto_Provider
begin

text \<open>
  The other half of \<open>aead/gcm.rs\<close> and \<open>aead/chacha20.rs\<close> of \<open>oxitls-rustcrypto-provider\<close>: the constructors
  \<open>encrypter\<close> and \<open>decrypter\<close> with which rustls turns the keys of a connection into record ciphers, and the buffer
  adapters of \<open>aead.rs\<close> through which the ciphers of the crates work on a record. The crates are the record
  \<open>cipher_crates\<close>: for each cipher its key size and its methods. The locale \<open>cipher_factory\<close> is what rustls relies on
  when it calls the constructors of an algorithm with keys of the announced lengths; it is interpreted for AES-GCM
  (each key size) and ChaCha20-Poly1305 in TLS 1.3 and 1.2. A panic is \<open>None\<close>.
\<close>

section \<open>Buffers\<close>

text \<open>The calls a cipher makes on a buffer of the crate aead: writing through \<open>as_mut\<close>, which keeps the length,
  \<open>extend_from_slice\<close> and \<open>truncate\<close>.\<close>

datatype buffer_call = AsMut "bytes \<Rightarrow> bytes" | ExtendFromSlice bytes | Truncate nat

text \<open>\<open>EncryptBufferAdapter\<close> hands each to the payload under construction; \<open>DecryptBufferAdapter\<close> wraps a borrowed
  payload that cannot grow and panics when it is asked to.\<close>

fun encrypt_buffer_adapter :: "buffer_call \<Rightarrow> bytes \<Rightarrow> bytes option" where
  "encrypt_buffer_adapter (AsMut f) payload = Some (f payload)"
| "encrypt_buffer_adapter (ExtendFromSlice other) payload = Some (payload @ other)"
| "encrypt_buffer_adapter (Truncate len) payload = Some (take len payload)"

fun decrypt_buffer_adapter :: "buffer_call \<Rightarrow> bytes \<Rightarrow> bytes option" where
  "decrypt_buffer_adapter (AsMut f) payload = Some (f payload)"
| "decrypt_buffer_adapter (ExtendFromSlice other) payload = None"
| "decrypt_buffer_adapter (Truncate len) payload = Some (take len payload)"

fun run_buffer_calls :: "(buffer_call \<Rightarrow> bytes \<Rightarrow> bytes option) \<Rightarrow> buffer_call list \<Rightarrow> bytes \<Rightarrow> bytes option" where
  "run_buffer_calls adapter [] payload = Some payload"
| "run_buffer_calls adapter (c # cs) payload = Option.bind (adapter c payload) (run_buffer_calls adapter cs)"

fun grows :: "buffer_call \<Rightarrow> bool" where
  "grows (ExtendFromSlice _) = True"
| "grows _ = False"

text \<open>On calls that do not grow the buffer the adapters agree; the adapter for opening panics on exactly the others.\<close>

lemma decrypt_adapter_iff:
  "decrypt_buffer_adapter c payload = (if grows c then None else encrypt_buffer_adapter c payload)"
  by (cases c) simp_all

lemma encrypt_adapter_total: "run_buffer_calls encrypt_buffer_adapter cs payload \<noteq> None"
proof (induction cs arbitrary: payload)
  case (Cons c cs)
  then show ?case by (cases c) simp_all
qed simp

lemma decrypt_adapter_panics_iff:
  "run_buffer_calls decrypt_buffer_adapter cs payload =
     (if list_ex grows cs then None else run_buffer_calls encrypt_buffer_adapter cs payload)"
proof (induction cs arbitrary: payload)
  case (Cons c cs)
  then show ?case by (cases c) simp_all
qed simp

text \<open>A cipher with a detached tag, put on a buffer the way the crate documents it: sealing writes the ciphertext over
  the plaintext and appends the tag; opening writes the plaintext over the ciphertext and truncates the tag away.\<close>

definition seal_calls :: "(bytes \<times> bytes) \<Rightarrow> buffer_call list" where
  "seal_calls = (\<lambda>(ct, tag). [AsMut (\<lambda>_. ct), ExtendFromSlice tag])"

definition open_calls :: "bytes \<Rightarrow> buffer_call list" where
  "open_calls msg = [AsMut (\<lambda>buf. msg @ drop (length msg) buf), Truncate (length msg)]"

definition in_place :: "rc_aead \<Rightarrow> rc_aead" where
  "in_place A = A\<lparr>
     encrypt_in_place := (\<lambda>k n a p. Option.bind (encrypt_detached A k n a p) (\<lambda>ctag.
        run_buffer_calls encrypt_buffer_adapter (seal_calls ctag) p)),
     decrypt_in_place := (\<lambda>k n a c. if length c < 16 then None
        else Option.bind (decrypt_detached A k n a (take (length c - 16) c) (drop (length c - 16) c)) (\<lambda>msg.
        run_buffer_calls decrypt_buffer_adapter (open_calls msg) c)) \<rparr>"

definition detached_ok :: "rc_aead \<Rightarrow> bool" where
  "detached_ok A \<longleftrightarrow>
     (\<forall>k n a p c t. encrypt_detached A k n a p = Some (c, t) \<longrightarrow>
        length c = length p \<and> length t = 16 \<and> decrypt_detached A k n a c t = Some p) \<and>
     (\<forall>k n a c t p. decrypt_detached A k n a c t = Some p \<longrightarrow> length p = length c)"

lemma detached_laws:
  assumes "detached_ok A"
  shows "encrypt_detached A k n a p = Some (c, t) \<Longrightarrow> length c = length p"
    and "encrypt_detached A k n a p = Some (c, t) \<Longrightarrow> length t = 16"
    and "encrypt_detached A k n a p = Some (c, t) \<Longrightarrow> decrypt_detached A k n a c t = Some p"
    and "decrypt_detached A k n a c t = Some p \<Longrightarrow> length p = length c"
  using assms unfolding detached_ok_def by blast+

lemma in_place_encrypt:
  "encrypt_in_place (in_place A) k n a p = map_option (\<lambda>(ct, tag). ct @ tag) (encrypt_detached A k n a p)"
  by (cases "encrypt_detached A k n a p") (auto simp: in_place_def seal_calls_def)

lemma in_place_decrypt:
  "decrypt_in_place (in_place A) k n a c =
     (if length c < 16 then None
      else decrypt_detached A k n a (take (length c - 16) c) (drop (length c - 16) c))"
  by (auto simp: in_place_def open_calls_def split: bind_split)

text \<open>Through the adapters the laws of the detached cipher give those of the cipher in place.\<close>

lemma in_place_ok:
  assumes "detached_ok A"
  shows "rc_aead_ok (in_place A)"
  unfolding rc_aead_ok_def
proof (intro conjI allI impI; (elim conjE)?)
  fix k n a p c
  assume "encrypt_in_place (in_place A) k n a p = Some c"
  then obtain ct t where e: "encrypt_detached A k n a p = Some (ct, t)" and c: "c = ct @ t"
    by (auto simp: in_place_encrypt)
  show "length c = length p + 16" "decrypt_in_place (in_place A) k n a c = Some p"
    using detached_laws(1-3) [OF assms e] by (simp_all add: c in_place_decrypt)
next
  fix k n a c p
  assume "decrypt_in_place (in_place A) k n a c = Some p"
  then show "length c = length p + 16"
    by (auto simp: in_place_decrypt dest: detached_laws(4) [OF assms] split: if_splits)
next
  fix k n a p c t
  assume "encrypt_detached (in_place A) k n a p = Some (c, t)"
  then have e: "encrypt_detached A k n a p = Some (c, t)" by (simp add: in_place_def)
  show "length c = length p" "length t = 16" "decrypt_detached (in_place A) k n a c t = Some p"
    using detached_laws(1-3) [OF assms e] by (simp_all add: in_place_def)
qed

section \<open>Constructors\<close>

record cipher_crates =
  cc_aead :: "suite_cipher \<Rightarrow> rc_aead"
  cc_key_size :: "suite_cipher \<Rightarrow> nat"

definition cipher_crates_ok :: "cipher_crates \<Rightarrow> bool" where
  "cipher_crates_ok K \<longleftrightarrow>
     (\<forall>c. rc_aead_ok (cc_aead K c)) \<and>
     cc_key_size K Aes128 = 16 \<and> cc_key_size K Aes256 = 32 \<and> cc_key_size K Chacha = 32"

text \<open>\<open>KeyInit::new_from_slice\<close> takes a key of exactly the key size. \<open>Iv::copy\<close> of rustls copies into an array of 12
  bytes.\<close>

definition new_from_slice :: "cipher_crates \<Rightarrow> suite_cipher \<Rightarrow> bytes \<Rightarrow> bytes option" where
  "new_from_slice K c key = (if length key = cc_key_size K c then Some key else None)"

definition iv_copy :: "bytes \<Rightarrow> bytes option" where
  "iv_copy iv = (if length iv = 12 then Some iv else None)"

text \<open>The boxed ciphers: the structs \<open>Tls13CipherAes128Gcm\<close> and so on of the macros, with the cipher they are
  generated for, and those of \<open>chacha20.rs\<close>.\<close>

datatype message_encrypter =
    Tls13GcmEncrypter suite_cipher bytes bytes
  | Tls13ChachaEncrypter bytes bytes
  | Tls12GcmEncrypter suite_cipher bytes bytes
  | Tls12ChachaEncrypter bytes bytes

datatype message_decrypter =
    Tls13GcmDecrypter suite_cipher bytes bytes
  | Tls13ChachaDecrypter bytes bytes
  | Tls12GcmDecrypter suite_cipher bytes bytes
  | Tls12ChachaDecrypter bytes bytes

definition gcm_tls13_encrypter :: "suite_cipher \<Rightarrow> cipher_crates \<Rightarrow> bytes \<Rightarrow> bytes \<Rightarrow> message_encrypter option" where
  "gcm_tls13_encrypter c K key iv = map_option (\<lambda>k. Tls13GcmEncrypter c k iv) (new_from_slice K c key)"

definition gcm_tls13_decrypter :: "suite_cipher \<Rightarrow> cipher_crates \<Rightarrow> bytes \<Rightarrow> bytes \<Rightarrow> message_decrypter option" where
  "gcm_tls13_decrypter c K key iv = map_option (\<lambda>k. Tls13GcmDecrypter c k iv) (new_from_slice K c key)"

definition gcm_tls13_key_len :: "suite_cipher \<Rightarrow> cipher_crates \<Rightarrow> nat" where
  "gcm_tls13_key_len c K = cc_key_size K c"

definition chacha_tls13_encrypter :: "cipher_crates \<Rightarrow> bytes \<Rightarrow> bytes \<Rightarrow> message_encrypter option" where
  "chacha_tls13_encrypter K key iv = map_option (\<lambda>k. Tls13ChachaEncrypter k iv) (new_from_slice K Chacha key)"

definition chacha_tls13_decrypter :: "cipher_crates \<Rightarrow> bytes \<Rightarrow> bytes \<Rightarrow> message_decrypter option" where
  "chacha_tls13_decrypter K key iv = map_option (\<lambda>k. Tls13ChachaDecrypter k iv) (new_from_slice K Chacha key)"

definition chacha_tls13_key_len :: "cipher_crates \<Rightarrow> nat" where
  "chacha_tls13_key_len K = cc_key_size K Chacha"

definition gcm_tls12_encrypter ::
    "suite_cipher \<Rightarrow> cipher_crates \<Rightarrow> bytes \<Rightarrow> bytes \<Rightarrow> bytes \<Rightarrow> message_encrypter option" where
  "gcm_tls12_encrypter c K key write_iv explicit =
     Option.bind (new_from_slice K c key) (\<lambda>k.
     map_option (Tls12GcmEncrypter c k) (gcm_tls12_encrypter_iv write_iv explicit))"

definition gcm_tls12_decrypter :: "suite_cipher \<Rightarrow> cipher_crates \<Rightarrow> bytes \<Rightarrow> bytes \<Rightarrow> message_decrypter option" where
  "gcm_tls12_decrypter c K dec_key dec_iv =
     Option.bind (new_from_slice K c dec_key) (\<lambda>k.
     map_option (Tls12GcmDecrypter c k) (gcm_tls12_decrypter_iv dec_iv))"

definition chacha_tls12_encrypter :: "cipher_crates \<Rightarrow> bytes \<Rightarrow> bytes \<Rightarrow> bytes \<Rightarrow> message_encrypter option" where
  "chacha_tls12_encrypter K key iv explicit =
     Option.bind (new_from_slice K Chacha key) (\<lambda>k. map_option (Tls12ChachaEncrypter k) (iv_copy iv))"

definition chacha_tls12_decrypter :: "cipher_crates \<Rightarrow> bytes \<Rightarrow> bytes \<Rightarrow> message_decrypter option" where
  "chacha_tls12_decrypter K key iv =
     Option.bind (new_from_slice K Chacha key) (\<lambda>k. map_option (Tls12ChachaDecrypter k) (iv_copy iv))"

lemmas constructor_defs = gcm_tls13_encrypter_def gcm_tls13_decrypter_def chacha_tls13_encrypter_def chacha_tls13_decrypter_def
  gcm_tls12_encrypter_def gcm_tls12_decrypter_def chacha_tls12_encrypter_def chacha_tls12_decrypter_def
  gcm_tls12_encrypter_iv_def gcm_tls12_decrypter_iv_def new_from_slice_def iv_copy_def

text \<open>The methods of a boxed cipher.\<close>

fun message_encrypt :: "cipher_crates \<Rightarrow> rustls_cipher \<Rightarrow> message_encrypter \<Rightarrow> tls_message \<Rightarrow> u64 \<Rightarrow> (tls_message, rustls_error) result" where
  "message_encrypt K C (Tls13GcmEncrypter c k iv) = gcm_tls13_encrypt (cc_aead K c) C k iv"
| "message_encrypt K C (Tls13ChachaEncrypter k iv) = chacha_tls13_encrypt (cc_aead K Chacha) C k iv"
| "message_encrypt K C (Tls12GcmEncrypter c k iv) = gcm_tls12_encrypt (cc_aead K c) C k iv"
| "message_encrypt K C (Tls12ChachaEncrypter k iv) = chacha_tls12_encrypt (cc_aead K Chacha) C k iv"

fun encrypted_payload_len :: "message_encrypter \<Rightarrow> nat \<Rightarrow> nat" where
  "encrypted_payload_len (Tls13GcmEncrypter c k iv) = gcm_tls13_payload_len"
| "encrypted_payload_len (Tls13ChachaEncrypter k iv) = chacha_tls13_payload_len"
| "encrypted_payload_len (Tls12GcmEncrypter c k iv) = gcm_tls12_payload_len"
| "encrypted_payload_len (Tls12ChachaEncrypter k iv) = chacha_tls12_payload_len"

fun message_decrypt ::
    "bool \<Rightarrow> cipher_crates \<Rightarrow> rustls_cipher \<Rightarrow> message_decrypter \<Rightarrow> tls_message \<Rightarrow> u64 \<Rightarrow> (tls_message, rustls_error) result option" where
  "message_decrypt checks K C (Tls13GcmDecrypter c k iv) = (\<lambda>m s. Some (gcm_tls13_decrypt (cc_aead K c) C k iv m s))"
| "message_decrypt checks K C (Tls13ChachaDecrypter k iv) = (\<lambda>m s. Some (chacha_tls13_decrypt (cc_aead K Chacha) C k iv m s))"
| "message_decrypt checks K C (Tls12GcmDecrypter c k iv) = (\<lambda>m s. Some (gcm_tls12_decrypt (cc_aead K c) C k iv m s))"
| "message_decrypt checks K C (Tls12ChachaDecrypter k iv) = chacha_tls12_decrypt checks (cc_aead K Chacha) C k iv"

section \<open>What rustls relies on\<close>

text \<open>\<open>carries\<close>: whatever list of acceptable messages the one protects, the other opens it again, and the protected
  records have the announced lengths.\<close>

definition carries ::
    "(tls_message \<Rightarrow> bool) \<Rightarrow> cipher_crates \<Rightarrow> rustls_cipher \<Rightarrow> message_encrypter \<Rightarrow> message_decrypter \<Rightarrow> bool" where
  "carries okm K C e d \<longleftrightarrow>
     (\<forall>checks seq ms cs. list_all okm ms \<longrightarrow> protect_all (message_encrypt K C e) seq ms = Ok cs \<longrightarrow>
        unprotect_all (message_decrypt checks K C d) seq cs = Some (Ok ms) \<and>
        map (length \<circ> msg_payload) cs = map (encrypted_payload_len e \<circ> length \<circ> msg_payload) ms)"

locale cipher_factory =
  fixes new_encrypter :: "cipher_crates \<Rightarrow> bytes \<Rightarrow> bytes \<Rightarrow> bytes \<Rightarrow> message_encrypter option"
    and new_decrypter :: "cipher_crates \<Rightarrow> bytes \<Rightarrow> bytes \<Rightarrow> message_decrypter option"
    and shape :: "cipher_crates \<Rightarrow> key_block_shape"
    and okm :: "tls_message \<Rightarrow> bool"
  assumes encrypter_iff: "cipher_crates_ok K \<Longrightarrow> fixed_iv_len (shape K) = length iv \<Longrightarrow> explicit_nonce_len (shape K) = length ex \<Longrightarrow>
            (\<exists>e. new_encrypter K key iv ex = Some e) \<longleftrightarrow> length key = enc_key_len (shape K)"
    and decrypter_iff: "cipher_crates_ok K \<Longrightarrow> fixed_iv_len (shape K) = length iv \<Longrightarrow>
            (\<exists>d. new_decrypter K key iv = Some d) \<longleftrightarrow> length key = enc_key_len (shape K)"
    and pair_carries: "cipher_crates_ok K \<Longrightarrow> rustls_cipher_ok C \<Longrightarrow> fixed_iv_len (shape K) = length iv \<Longrightarrow>
            new_encrypter K key iv ex = Some e \<Longrightarrow> new_decrypter K key iv = Some d \<Longrightarrow> carries okm K C e d"
begin

lemma connection:
  assumes "cipher_crates_ok K" "rustls_cipher_ok C" "length iv = fixed_iv_len (shape K)" "length ex = explicit_nonce_len (shape K)"
  shows "length key = enc_key_len (shape K) \<Longrightarrow>
           \<exists>e d. new_encrypter K key iv ex = Some e \<and> new_decrypter K key iv = Some d \<and> carries okm K C e d"
    and "length key \<noteq> enc_key_len (shape K) \<Longrightarrow> new_encrypter K key iv ex = None \<and> new_decrypter K key iv = None"
  using encrypter_iff [OF assms(1), of iv ex key] decrypter_iff [OF assms(1), of iv key] pair_carries [OF assms(1,2), of iv key ex] assms(3,4)
  by auto

end

text \<open>In TLS 1.3 the announced lengths are \<open>key_len\<close> and the 12 bytes of the type \<open>Iv\<close>.\<close>

definition tls13_shape :: "nat \<Rightarrow> key_block_shape" where
  "tls13_shape key_len = \<lparr> enc_key_len = key_len, fixed_iv_len = 12, explicit_nonce_len = 0 \<rparr>"

lemma crates_aead: "cipher_crates_ok K \<Longrightarrow> rc_aead_ok (cc_aead K c)"
  by (simp add: cipher_crates_ok_def)

lemma gcm_tls13_carries:
  assumes "cipher_crates_ok K" "rustls_cipher_ok C" "length iv = 12"
  shows "carries tls13_message K C (Tls13GcmEncrypter c k iv) (Tls13GcmDecrypter c k iv)"
  using gcm13.channel [OF crates_aead [OF assms(1)] assms(2), of iv iv] assms(3)
  by (simp add: carries_def list_all_iff same_iv_def)

lemma chacha_tls13_carries:
  assumes "cipher_crates_ok K" "rustls_cipher_ok C" "length iv = 12"
  shows "carries tls13_message K C (Tls13ChachaEncrypter k iv) (Tls13ChachaDecrypter k iv)"
  using chacha13.channel [OF crates_aead [OF assms(1)] assms(2), of iv iv] assms(3)
  by (simp add: carries_def list_all_iff same_iv_def)

lemma gcm_tls12_carries:
  assumes "cipher_crates_ok K" "rustls_cipher_ok C" "length iv = 4" "length ex = 8"
  shows "carries (\<lambda>_. True) K C (Tls12GcmEncrypter c k (iv @ ex)) (Tls12GcmDecrypter c k iv)"
  using gcm12.channel [OF crates_aead [OF assms(1)] assms(2), of "iv @ ex" iv] assms(3,4)
  by (simp add: carries_def fixed_part_def)

lemma chacha_tls12_carries:
  assumes "cipher_crates_ok K" "rustls_cipher_ok C" "length iv = 12"
  shows "carries (\<lambda>_. True) K C (Tls12ChachaEncrypter k iv) (Tls12ChachaDecrypter k iv)"
  using chacha12.channel [OF crates_aead [OF assms(1)] assms(2), of iv iv] assms(3)
  by (simp add: carries_def same_iv_def)

lemmas shape_defs = tls13_shape_def gcm_key_block_shape_def chacha_key_block_shape_def gcm_tls13_key_len_def chacha_tls13_key_len_def

interpretation gcm13f: cipher_factory "\<lambda>K key iv ex. gcm_tls13_encrypter c K key iv" "gcm_tls13_decrypter c"
    "\<lambda>K. tls13_shape (gcm_tls13_key_len c K)" tls13_message
  by unfold_locales
    (auto simp: constructor_defs shape_defs intro: gcm_tls13_carries split: if_splits)

interpretation chacha13f: cipher_factory "\<lambda>K key iv ex. chacha_tls13_encrypter K key iv" chacha_tls13_decrypter
    "\<lambda>K. tls13_shape (chacha_tls13_key_len K)" tls13_message
  by unfold_locales
    (auto simp: constructor_defs shape_defs intro: chacha_tls13_carries split: if_splits)

interpretation gcm12f: cipher_factory "gcm_tls12_encrypter c" "gcm_tls12_decrypter c"
    "\<lambda>K. gcm_key_block_shape (cc_key_size K c)" "\<lambda>_. True"
  by unfold_locales
    (auto simp: constructor_defs shape_defs intro: gcm_tls12_carries split: if_splits)

text \<open>The key block of ChaCha20-Poly1305 states its 32 bytes by number; they are the key size of the crate.\<close>

interpretation chacha12f: cipher_factory chacha_tls12_encrypter chacha_tls12_decrypter "\<lambda>K. chacha_key_block_shape" "\<lambda>_. True"
  by unfold_locales
    (auto simp: constructor_defs shape_defs cipher_crates_ok_def intro: chacha_tls12_carries split: if_splits)

section \<open>The suites of the provider\<close>

text \<open>The constructors that the \<open>aead_alg\<close> of a suite stands for: those of \<open>Tls13AeadAlgorithm\<close> in a TLS 1.3 suite, those of
  \<open>Tls12AeadAlgorithm\<close> in a TLS 1.2 suite. A field of another algorithm would not type in the source (\<open>None\<close> here).\<close>

definition suite_encrypter :: "supported_suite \<Rightarrow> cipher_crates \<Rightarrow> bytes \<Rightarrow> bytes \<Rightarrow> bytes \<Rightarrow> message_encrypter option" where
  "suite_encrypter s K key iv ex =
     (case (se_sign s, se_aead_alg s) of
        (None, Tls13Aes128Gcm) \<Rightarrow> gcm_tls13_encrypter Aes128 K key iv
      | (None, Tls13Aes256Gcm) \<Rightarrow> gcm_tls13_encrypter Aes256 K key iv
      | (None, Chacha20Poly1305) \<Rightarrow> chacha_tls13_encrypter K key iv
      | (Some _, Tls12Aes128Gcm) \<Rightarrow> gcm_tls12_encrypter Aes128 K key iv ex
      | (Some _, Tls12Aes256Gcm) \<Rightarrow> gcm_tls12_encrypter Aes256 K key iv ex
      | (Some _, Chacha20Poly1305) \<Rightarrow> chacha_tls12_encrypter K key iv ex
      | _ \<Rightarrow> None)"

definition suite_decrypter :: "supported_suite \<Rightarrow> cipher_crates \<Rightarrow> bytes \<Rightarrow> bytes \<Rightarrow> message_decrypter option" where
  "suite_decrypter s K key iv =
     (case (se_sign s, se_aead_alg s) of
        (None, Tls13Aes128Gcm) \<Rightarrow> gcm_tls13_decrypter Aes128 K key iv
      | (None, Tls13Aes256Gcm) \<Rightarrow> gcm_tls13_decrypter Aes256 K key iv
      | (None, Chacha20Poly1305) \<Rightarrow> chacha_tls13_decrypter K key iv
      | (Some _, Tls12Aes128Gcm) \<Rightarrow> gcm_tls12_decrypter Aes128 K key iv
      | (Some _, Tls12Aes256Gcm) \<Rightarrow> gcm_tls12_decrypter Aes256 K key iv
      | (Some _, Chacha20Poly1305) \<Rightarrow> chacha_tls12_decrypter K key iv
      | _ \<Rightarrow> None)"

definition suite_shape :: "supported_suite \<Rightarrow> cipher_crates \<Rightarrow> key_block_shape" where
  "suite_shape s K =
     (case (se_sign s, se_aead_alg s) of
        (None, Tls13Aes128Gcm) \<Rightarrow> tls13_shape (gcm_tls13_key_len Aes128 K)
      | (None, Tls13Aes256Gcm) \<Rightarrow> tls13_shape (gcm_tls13_key_len Aes256 K)
      | (None, Chacha20Poly1305) \<Rightarrow> tls13_shape (chacha_tls13_key_len K)
      | (Some _, Tls12Aes128Gcm) \<Rightarrow> gcm_key_block_shape (cc_key_size K Aes128)
      | (Some _, Tls12Aes256Gcm) \<Rightarrow> gcm_key_block_shape (cc_key_size K Aes256)
      | _ \<Rightarrow> chacha_key_block_shape)"

text \<open>The messages a suite carries.\<close>

definition suite_message :: "supported_suite \<Rightarrow> tls_message \<Rightarrow> bool" where
  "suite_message s = (if se_sign s = None then tls13_message else (\<lambda>_. True))"

lemmas suite_field_defs = suite_encrypter_def suite_decrypter_def suite_shape_def suite_message_def

text \<open>Every suite of the provider names an algorithm of its protocol version.\<close>

lemma suite_kinds:
  assumes "s \<in> set (pv_cipher_suites (provider f))"
  shows "(se_sign s, se_aead_alg s) \<in> {(None, Tls13Aes128Gcm), (None, Tls13Aes256Gcm), (None, Chacha20Poly1305)} \<or>
         (\<exists>schemes. (se_sign s, se_aead_alg s) \<in>
            {(Some schemes, Tls12Aes128Gcm), (Some schemes, Tls12Aes256Gcm), (Some schemes, Chacha20Poly1305)})"
  using assms
  by (auto simp: provider_def all_suites TLS_ECDHE_ECDSA_SUITES_def TLS_ECDHE_RSA_SUITES_def TLS13_AES_SUITES_def suite_defs
      split: if_splits)

text \<open>C14: For every suite of the provider, in TLS 1.3 and TLS 1.2: with a key, a fixed IV and an explicit nonce of the
  lengths its algorithm announces, both the encrypter and the decrypter are constructed without a panic, and whatever
  sequence of records the one protects, numbered from any sequence number, the other opens to the same messages, each
  record of the length \<open>encrypted_payload_len\<close> announced. The announced key length is that of the cipher the suite is named
  for, and a key of any other length panics on both sides.\<close>

theorem suite_protects_records:
  assumes K: "cipher_crates_ok K" and C: "rustls_cipher_ok C" and s: "s \<in> set (pv_cipher_suites (provider f))"
    and iv: "length iv = fixed_iv_len (suite_shape s K)" and ex: "length ex = explicit_nonce_len (suite_shape s K)"
  shows "enc_key_len (suite_shape s K) = (if aead_cipher (se_aead_alg s) = Aes128 then 16 else 32) \<and>
         (length key = enc_key_len (suite_shape s K) \<longrightarrow>
            (\<exists>e d. suite_encrypter s K key iv ex = Some e \<and> suite_decrypter s K key iv = Some d \<and>
               (\<forall>checks seq ms cs. list_all (suite_message s) ms \<longrightarrow> protect_all (message_encrypt K C e) seq ms = Ok cs \<longrightarrow>
                  unprotect_all (message_decrypt checks K C d) seq cs = Some (Ok ms) \<and>
                  map (length \<circ> msg_payload) cs = map (encrypted_payload_len e \<circ> length \<circ> msg_payload) ms))) \<and>
         (length key \<noteq> enc_key_len (suite_shape s K) \<longrightarrow>
            suite_encrypter s K key iv ex = None \<and> suite_decrypter s K key iv = None)"
proof -
  have "enc_key_len (suite_shape s K) = (if aead_cipher (se_aead_alg s) = Aes128 then 16 else 32)"
    using suite_kinds [OF s] K by (auto simp: suite_shape_def shape_defs cipher_crates_ok_def)
  moreover have "length key = enc_key_len (suite_shape s K) \<longrightarrow>
      (\<exists>e d. suite_encrypter s K key iv ex = Some e \<and> suite_decrypter s K key iv = Some d \<and> carries (suite_message s) K C e d)"
    using suite_kinds [OF s] iv ex
      gcm13f.connection(1) [OF K C, of iv _ ex key] chacha13f.connection(1) [OF K C, of iv ex key]
      gcm12f.connection(1) [OF K C, of iv _ ex key] chacha12f.connection(1) [OF K C, of iv ex key]
    by (auto simp: suite_field_defs)
  moreover have "length key \<noteq> enc_key_len (suite_shape s K) \<longrightarrow>
      suite_encrypter s K key iv ex = None \<and> suite_decrypter s K key iv = None"
    using suite_kinds [OF s] iv ex
      gcm13f.connection(2) [OF K C, of iv _ ex key] chacha13f.connection(2) [OF K C, of iv ex key]
      gcm12f.connection(2) [OF K C, of iv _ ex key] chacha12f.connection(2) [OF K C, of iv ex key]
    by (auto simp: suite_field_defs)
  ultimately show ?thesis unfolding carries_def by blast
qed

text \<open>The cipher of the example, put on buffers through the adapters.\<close>

definition example_cipher_crates :: cipher_crates where
  "example_cipher_crates =
     \<lparr> cc_aead = (\<lambda>c. in_place example_rc_aead), cc_key_size = (\<lambda>c. if c = Aes128 then 16 else 32) \<rparr>"

lemma example_cipher_crates_ok: "cipher_crates_ok example_cipher_crates"
  by (simp add: cipher_crates_ok_def example_cipher_crates_def in_place_ok detached_ok_def example_rc_aead_def)

theorem suite_protects_records_witness:
  "cipher_crates_ok example_cipher_crates \<and> rustls_cipher_ok example_rustls_cipher \<and>
   (\<exists>e d cs. suite_encrypter TLS_ECDHE_RSA_WITH_AES_128_GCM_SHA256 example_cipher_crates (replicate 16 1) (replicate 4 2) (replicate 8 3) = Some e \<and>
      suite_decrypter TLS_ECDHE_RSA_WITH_AES_128_GCM_SHA256 example_cipher_crates (replicate 16 1) (replicate 4 2) = Some d \<and>
      protect_all (message_encrypt example_cipher_crates example_rustls_cipher e) 5 [example_message, example_message] = Ok cs \<and>
      unprotect_all (message_decrypt True example_cipher_crates example_rustls_cipher d) 5 cs = Some (Ok [example_message, example_message]) \<and>
      map (length \<circ> msg_payload) cs = [27, 27]) \<and>
   suite_encrypter TLS_ECDHE_RSA_WITH_AES_128_GCM_SHA256 example_cipher_crates (replicate 32 1) (replicate 4 2) (replicate 8 3) = None"
proof -
  let ?K = example_cipher_crates and ?C = example_rustls_cipher and ?s = TLS_ECDHE_RSA_WITH_AES_128_GCM_SHA256
  let ?k = "replicate 16 1 :: bytes" and ?iv = "replicate 4 2 :: bytes" and ?ex = "replicate 8 3 :: bytes"
  have shape: "suite_shape ?s ?K = gcm_key_block_shape 16"
    by (simp add: suite_shape_def suite_defs example_cipher_crates_def)
  have s: "?s \<in> set (pv_cipher_suites (provider True))"
    by (simp add: provider_def all_suites TLS_ECDHE_RSA_SUITES_def)
  note prot = suite_protects_records [OF example_cipher_crates_ok example_rustls_cipher_ok s, of ?iv ?ex]
  have e: "suite_encrypter ?s ?K ?k ?iv ?ex = Some (Tls12GcmEncrypter Aes128 ?k (?iv @ ?ex))"
    by (simp add: suite_encrypter_def suite_defs constructor_defs example_cipher_crates_def)
  obtain cs where cs: "protect_all (message_encrypt ?K ?C (Tls12GcmEncrypter Aes128 ?k (?iv @ ?ex))) 5 [example_message, example_message] = Ok cs"
    by (simp add: gcm_tls12_encrypt_def example_cipher_crates_def in_place_def example_rc_aead_def Let_def)
  have ok: "list_all (suite_message ?s) [example_message, example_message]"
    by (simp add: suite_message_def suite_defs)
  have len: "map (encrypted_payload_len (Tls12GcmEncrypter Aes128 ?k (?iv @ ?ex)) \<circ> length \<circ> msg_payload) [example_message, example_message] = [27, 27]"
    by (simp add: gcm_tls12_payload_len_def TLS12_GCM_EXPLICIT_NONCE_LEN_def example_message_def)
  from prot [of ?k] e obtain d where d: "suite_decrypter ?s ?K ?k ?iv = Some d"
    and all: "\<forall>checks seq ms cs. list_all (suite_message ?s) ms \<longrightarrow>
        protect_all (message_encrypt ?K ?C (Tls12GcmEncrypter Aes128 ?k (?iv @ ?ex))) seq ms = Ok cs \<longrightarrow>
        unprotect_all (message_decrypt checks ?K ?C d) seq cs = Some (Ok ms) \<and>
        map (length \<circ> msg_payload) cs =
          map (encrypted_payload_len (Tls12GcmEncrypter Aes128 ?k (?iv @ ?ex)) \<circ> length \<circ> msg_payload) ms"
    by (auto simp: shape gcm_key_block_shape_def)
  have "suite_encrypter ?s ?K (replicate 32 1) ?iv ?ex = None"
    using prot [of "replicate 32 1"] by (simp add: shape gcm_key_block_shape_def)
  then show ?thesis
    using e d cs all ok len example_cipher_crates_ok example_rustls_cipher_ok by metis
qed

end
