(* ===== verification/Hpke_Vectors.thy ===== *)
theory Hpke_Vectors
  imports Hpke
begin

text \<open>
  The known-answer tests of HPKE: the vectors of RFC 9180, appendix A (\<open>hpke/vectors.rs\<close>), the encapsulation with a
  given ephemeral key (\<open>hpke/kem.rs\<close>) and the four harnesses that compare (\<open>run_kat_*\<close> of \<open>hpke/mod.rs\<close>). A failed
  assertion of a harness is \<open>False\<close>. The lemmas say what a passed harness establishes of the code in use: with the
  ephemeral key as its random draw, the sender computes every value of the vector, and the receiver follows.
\<close>

section \<open>Vectors\<close>

record enc_vec =
  ev_seq :: u64
  ev_pt :: bytes
  ev_aad :: bytes
  ev_ct :: bytes

record export_vec =
  xv_context :: bytes
  xv_l :: nat
  xv_exported_value :: bytes

record kat =
  kat_mode :: byte
  kat_info :: bytes
  kat_pk_rm :: bytes
  kat_sk_rm :: bytes
  kat_pk_em :: bytes
  kat_sk_em :: bytes
  kat_enc :: bytes
  kat_shared_secret :: bytes
  kat_key_bytes :: bytes
  kat_base_nonce :: bytes
  kat_exporter_secret :: bytes
  kat_enc_vecs :: "enc_vec list"
  kat_exports :: "export_vec list"

definition KAT_A1 :: kat where
  "KAT_A1 = \<lparr>
       kat_mode = 0,
       kat_info = [0x4f, 0x64, 0x65, 0x20, 0x6f, 0x6e, 0x20, 0x61, 0x20, 0x47, 0x72, 0x65, 0x63, 0x69, 0x61, 0x6e,
                     0x20, 0x55, 0x72, 0x6e],
       kat_pk_rm = [0x39, 0x48, 0xcf, 0xe0, 0xad, 0x1d, 0xdb, 0x69, 0x5d, 0x78, 0x0e, 0x59, 0x07, 0x71, 0x95, 0xda,
                      0x6c, 0x56, 0x50, 0x6b, 0x02, 0x73, 0x29, 0x79, 0x4a, 0xb0, 0x2b, 0xca, 0x80, 0x81, 0x5c, 0x4d],
       kat_sk_rm = [0x46, 0x12, 0xc5, 0x50, 0x26, 0x3f, 0xc8, 0xad, 0x58, 0x37, 0x5d, 0xf3, 0xf5, 0x57, 0xaa, 0xc5,
                      0x31, 0xd2, 0x68, 0x50, 0x90, 0x3e, 0x55, 0xa9, 0xf2, 0x3f, 0x21, 0xd8, 0x53, 0x4e, 0x8a, 0xc8],
       kat_pk_em = [0x37, 0xfd, 0xa3, 0x56, 0x7b, 0xdb, 0xd6, 0x28, 0xe8, 0x86, 0x68, 0xc3, 0xc8, 0xd7, 0xe9, 0x7d,
                      0x1d, 0x12, 0x53, 0xb6, 0xd4, 0xea, 0x6d, 0x44, 0xc1, 0x50, 0xf7, 0x41, 0xf1, 0xbf, 0x44, 0x31],
       kat_sk_em = [0x52, 0xc4, 0xa7, 0x58, 0xa8, 0x02, 0xcd, 0x8b, 0x93, 0x6e, 0xce, 0xea, 0x31, 0x44, 0x32, 0x79,
                      0x8d, 0x5b, 0xaf, 0x2d, 0x7e, 0x92, 0x35, 0xdc, 0x08, 0x4a, 0xb1, 0xb9, 0xcf, 0xa2, 0xf7, 0x36],
       kat_enc = [0x37, 0xfd, 0xa3, 0x56, 0x7b, 0xdb, 0xd6, 0x28, 0xe8, 0x86, 0x68, 0xc3, 0xc8, 0xd7, 0xe9, 0x7d,
                    0x1d, 0x12, 0x53, 0xb6, 0xd4, 0xea, 0x6d, 0x44, 0xc1, 0x50, 0xf7, 0x41, 0xf1, 0xbf, 0x44, 0x31],
       kat_shared_secret = [0xfe, 0x0e, 0x18, 0xc9, 0xf0, 0x24, 0xce, 0x43, 0x79, 0x9a, 0xe3, 0x93, 0xc7, 0xe8, 0xfe, 0x8f,
                              0xce, 0x9d, 0x21, 0x88, 0x75, 0xe8, 0x22, 0x7b, 0x01, 0x87, 0xc0, 0x4e, 0x7d, 0x2e, 0xa1, 0xfc],
       kat_key_bytes = [0x45, 0x31, 0x68, 0x5d, 0x41, 0xd6, 0x5f, 0x03, 0xdc, 0x48, 0xf6, 0xb8, 0x30, 0x2c, 0x05, 0xb0],
       kat_base_nonce = [0x56, 0xd8, 0x90, 0xe5, 0xac, 0xca, 0xaf, 0x01, 0x1c, 0xff, 0x4b, 0x7d],
       kat_exporter_secret = [0x45, 0xff, 0x1c, 0x2e, 0x22, 0x0d, 0xb5, 0x87, 0x17, 0x19, 0x52, 0xc0, 0x59, 0x2d, 0x5f, 0x5e,
                                0xbe, 0x10, 0x3f, 0x15, 0x61, 0xa2, 0x61, 0x4e, 0x38, 0xf2, 0xff, 0xd4, 0x7e, 0x99, 0xe3, 0xf8],
       kat_enc_vecs = [
         \<lparr> ev_seq = 0,
           ev_pt = [0x42, 0x65, 0x61, 0x75, 0x74, 0x79, 0x20, 0x69, 0x73, 0x20, 0x74, 0x72, 0x75, 0x74, 0x68, 0x2c,
                    0x20, 0x74, 0x72, 0x75, 0x74, 0x68, 0x20, 0x62, 0x65, 0x61, 0x75, 0x74, 0x79],
           ev_aad = [0x43, 0x6f, 0x75, 0x6e, 0x74, 0x2d, 0x30],
           ev_ct = [0xf9, 0x38, 0x55, 0x8b, 0x5d, 0x72, 0xf1, 0xa2, 0x38, 0x10, 0xb4, 0xbe, 0x2a, 0xb4, 0xf8, 0x43,
                    0x31, 0xac, 0xc0, 0x2f, 0xc9, 0x7b, 0xab, 0xc5, 0x3a, 0x52, 0xae, 0x82, 0x18, 0xa3, 0x55, 0xa9,
                    0x6d, 0x87, 0x70, 0xac, 0x83, 0xd0, 0x7b, 0xea, 0x87, 0xe1, 0x3c, 0x51, 0x2a] \<rparr>,
         \<lparr> ev_seq = 1,
           ev_pt = [0x42, 0x65, 0x61, 0x75, 0x74, 0x79, 0x20, 0x69, 0x73, 0x20, 0x74, 0x72, 0x75, 0x74, 0x68, 0x2c,
                    0x20, 0x74, 0x72, 0x75, 0x74, 0x68, 0x20, 0x62, 0x65, 0x61, 0x75, 0x74, 0x79],
           ev_aad = [0x43, 0x6f, 0x75, 0x6e, 0x74, 0x2d, 0x31],
           ev_ct = [0xaf, 0x2d, 0x7e, 0x9a, 0xc9, 0xae, 0x7e, 0x27, 0x0f, 0x46, 0xba, 0x1f, 0x97, 0x5b, 0xe5, 0x3c,
                    0x09, 0xf8, 0xd8, 0x75, 0xbd, 0xc8, 0x53, 0x54, 0x58, 0xc2, 0x49, 0x4e, 0x8a, 0x6e, 0xab, 0x25,
                    0x1c, 0x03, 0xd0, 0xc2, 0x2a, 0x56, 0xb8, 0xca, 0x42, 0xc2, 0x06, 0x3b, 0x84] \<rparr>,
         \<lparr> ev_seq = 2,
           ev_pt = [0x42, 0x65, 0x61, 0x75, 0x74, 0x79, 0x20, 0x69, 0x73, 0x20, 0x74, 0x72, 0x75, 0x74, 0x68, 0x2c,
                    0x20, 0x74, 0x72, 0x75, 0x74, 0x68, 0x20, 0x62, 0x65, 0x61, 0x75, 0x74, 0x79],
           ev_aad = [0x43, 0x6f, 0x75, 0x6e, 0x74, 0x2d, 0x32],
           ev_ct = [0x49, 0x8d, 0xfc, 0xab, 0xd9, 0x2e, 0x8a, 0xce, 0xdc, 0x28, 0x1e, 0x85, 0xaf, 0x1c, 0xb4, 0xe3,
                    0xe3, 0x1c, 0x7d, 0xc3, 0x94, 0xa1, 0xca, 0x20, 0xe1, 0x73, 0xcb, 0x72, 0x51, 0x64, 0x91, 0x58,
                    0x8d, 0x96, 0xa1, 0x9a, 0xd4, 0xa6, 0x83, 0x51, 0x89, 0x73, 0xdc, 0xc1, 0x80] \<rparr>],
       kat_exports = [
         \<lparr> xv_context = [], xv_l = 32,
           xv_exported_value = [0x38, 0x53, 0xfe, 0x2b, 0x40, 0x35, 0x19, 0x5a, 0x57, 0x3f, 0xfc, 0x53, 0x85, 0x6e, 0x77, 0x05,
                                0x8e, 0x15, 0xd9, 0xea, 0x06, 0x4d, 0xe3, 0xe5, 0x9f, 0x49, 0x61, 0xd0, 0x09, 0x52, 0x50, 0xee] \<rparr>,
         \<lparr> xv_context = [0x00], xv_l = 32,
           xv_exported_value = [0x2e, 0x8f, 0x0b, 0x54, 0x67, 0x3c, 0x70, 0x29, 0x64, 0x9d, 0x4e, 0xb9, 0xd5, 0xe3, 0x3b, 0xf1,
                                0x87, 0x2c, 0xf7, 0x6d, 0x62, 0x3f, 0xf1, 0x64, 0xac, 0x18, 0x5d, 0xa9, 0xe8, 0x8c, 0x21, 0xa5] \<rparr>,
         \<lparr> xv_context = [0x54, 0x65, 0x73, 0x74, 0x43, 0x6f, 0x6e, 0x74, 0x65, 0x78, 0x74], xv_l = 32,
           xv_exported_value = [0xe9, 0xe4, 0x30, 0x65, 0x10, 0x2c, 0x38, 0x36, 0x40, 0x1b, 0xed, 0x8c, 0x3c, 0x3c, 0x75, 0xae,
                                0x46, 0xbe, 0x16, 0x39, 0x86, 0x93, 0x91, 0xd6, 0x2c, 0x61, 0xf1, 0xec, 0x7a, 0xf5, 0x49, 0x31] \<rparr>] \<rparr>"

definition KAT_A2 :: kat where
  "KAT_A2 = \<lparr>
       kat_mode = 0,
       kat_info = [0x4f, 0x64, 0x65, 0x20, 0x6f, 0x6e, 0x20, 0x61, 0x20, 0x47, 0x72, 0x65, 0x63, 0x69, 0x61, 0x6e,
                     0x20, 0x55, 0x72, 0x6e],
       kat_pk_rm = [0x43, 0x10, 0xee, 0x97, 0xd8, 0x8c, 0xc1, 0xf0, 0x88, 0xa5, 0x57, 0x6c, 0x77, 0xab, 0x0c, 0xf5,
                      0xc3, 0xac, 0x79, 0x7f, 0x3d, 0x95, 0x13, 0x9c, 0x6c, 0x84, 0xb5, 0x42, 0x9c, 0x59, 0x66, 0x2a],
       kat_sk_rm = [0x80, 0x57, 0x99, 0x1e, 0xef, 0x8f, 0x1f, 0x1a, 0xf1, 0x8f, 0x4a, 0x94, 0x91, 0xd1, 0x6a, 0x1c,
                      0xe3, 0x33, 0xf6, 0x95, 0xd4, 0xdb, 0x8e, 0x38, 0xda, 0x75, 0x97, 0x5c, 0x44, 0x78, 0xe0, 0xfb],
       kat_pk_em = [0x1a, 0xfa, 0x08, 0xd3, 0xde, 0xc0, 0x47, 0xa6, 0x43, 0x88, 0x51, 0x63, 0xf1, 0x18, 0x04, 0x76,
                      0xfa, 0x7d, 0xdb, 0x54, 0xc6, 0xa8, 0x02, 0x9e, 0xa3, 0x3f, 0x95, 0x79, 0x6b, 0xf2, 0xac, 0x4a],
       kat_sk_em = [0xf4, 0xec, 0x9b, 0x33, 0xb7, 0x92, 0xc3, 0x72, 0xc1, 0xd2, 0xc2, 0x06, 0x35, 0x07, 0xb6, 0x84,
                      0xef, 0x92, 0x5b, 0x8c, 0x75, 0xa4, 0x2d, 0xbc, 0xbf, 0x57, 0xd6, 0x3c, 0xcd, 0x38, 0x16, 0x00],
       kat_enc = [0x1a, 0xfa, 0x08, 0xd3, 0xde, 0xc0, 0x47, 0xa6, 0x43, 0x88, 0x51, 0x63, 0xf1, 0x18, 0x04, 0x76,
                    0xfa, 0x7d, 0xdb, 0x54, 0xc6, 0xa8, 0x02, 0x9e, 0xa3, 0x3f, 0x95, 0x79, 0x6b, 0xf2, 0xac, 0x4a],
       kat_shared_secret = [0x0b, 0xbe, 0x78, 0x49, 0x04, 0x12, 0xb4, 0xbb, 0xea, 0x48, 0x12, 0x66, 0x6f, 0x79, 0x16, 0x93,
                              0x2b, 0x82, 0x8b, 0xba, 0x79, 0x94, 0x24, 0x24, 0xab, 0xb6, 0x52, 0x44, 0x93, 0x0d, 0x69, 0xa7],
       kat_key_bytes = [0xad, 0x27, 0x44, 0xde, 0x8e, 0x17, 0xf4, 0xeb, 0xba, 0x57, 0x5b, 0x3f, 0x5f, 0x5a, 0x8f, 0xa1,
                          0xf6, 0x9c, 0x2a, 0x07, 0xf6, 0xe7, 0x50, 0x0b, 0xc6, 0x0c, 0xa6, 0xe3, 0xe3, 0xec, 0x1c, 0x91],
       kat_base_nonce = [0x5c, 0x4d, 0x98, 0x15, 0x06, 0x61, 0xb8, 0x48, 0x85, 0x3b, 0x54, 0x7f],
       kat_exporter_secret = [0xa3, 0xb0, 0x10, 0xd4, 0x99, 0x48, 0x90, 0xe2, 0xc6, 0x96, 0x8a, 0x36, 0xf6, 0x44, 0x70, 0xd3,
                                0xc8, 0x24, 0xc8, 0xf5, 0x02, 0x99, 0x42, 0xfe, 0xb1, 0x1e, 0x7a, 0x74, 0xb2, 0x92, 0x19, 0x22],
       kat_enc_vecs = [
         \<lparr> ev_seq = 0,
           ev_pt = [0x42, 0x65, 0x61, 0x75, 0x74, 0x79, 0x20, 0x69, 0x73, 0x20, 0x74, 0x72, 0x75, 0x74, 0x68, 0x2c,
                    0x20, 0x74, 0x72, 0x75, 0x74, 0x68, 0x20, 0x62, 0x65, 0x61, 0x75, 0x74, 0x79],
           ev_aad = [0x43, 0x6f, 0x75, 0x6e, 0x74, 0x2d, 0x30],
           ev_ct = [0x1c, 0x52, 0x50, 0xd8, 0x03, 0x4e, 0xc2, 0xb7, 0x84, 0xba, 0x2c, 0xfd, 0x69, 0xdb, 0xdb, 0x8a,
                    0xf4, 0x06, 0xcf, 0xe3, 0xff, 0x93, 0x8e, 0x13, 0x1f, 0x0d, 0xef, 0x8c, 0x8b, 0x60, 0xb4, 0xdb,
                    0x21, 0x99, 0x3c, 0x62, 0xce, 0x81, 0x88, 0x3d, 0x2d, 0xd1, 0xb5, 0x1a, 0x28] \<rparr>],
       kat_exports = [
         \<lparr> xv_context = [], xv_l = 32,
           xv_exported_value = [0x4b, 0xbd, 0x62, 0x43, 0xb8, 0xbb, 0x54, 0xce, 0xc3, 0x11, 0xfa, 0xc9, 0xdf, 0x81, 0x84, 0x1b,
                                0x6f, 0xd6, 0x1f, 0x56, 0x53, 0x8a, 0x77, 0x5e, 0x7c, 0x80, 0xa9, 0xf4, 0x01, 0x60, 0x60, 0x6e] \<rparr>,
         \<lparr> xv_context = [0x00], xv_l = 32,
           xv_exported_value = [0x8c, 0x1d, 0xf1, 0x47, 0x32, 0x58, 0x0e, 0x55, 0x01, 0xb0, 0x0f, 0x82, 0xb1, 0x0a, 0x16, 0x47,
                                0xb4, 0x07, 0x13, 0x19, 0x1b, 0x7c, 0x12, 0x40, 0xac, 0x80, 0xe2, 0xb6, 0x88, 0x08, 0xba, 0x69] \<rparr>,
         \<lparr> xv_context = [0x54, 0x65, 0x73, 0x74, 0x43, 0x6f, 0x6e, 0x74, 0x65, 0x78, 0x74], xv_l = 32,
           xv_exported_value = [0x5a, 0xcb, 0x09, 0x21, 0x11, 0x39, 0xc4, 0x3b, 0x30, 0x90, 0x48, 0x9a, 0x9d, 0xa4, 0x33, 0xe8,
                                0xa3, 0x0e, 0xe7, 0x18, 0x8b, 0xa8, 0xb0, 0xa9, 0xa1, 0xcc, 0xf0, 0xc2, 0x29, 0x28, 0x3e, 0x53] \<rparr>] \<rparr>"

definition KAT_A3 :: kat where
  "KAT_A3 = \<lparr>
       kat_mode = 0,
       kat_info = [0x4f, 0x64, 0x65, 0x20, 0x6f, 0x6e, 0x20, 0x61, 0x20, 0x47, 0x72, 0x65, 0x63, 0x69, 0x61, 0x6e,
                     0x20, 0x55, 0x72, 0x6e],
       kat_pk_rm = [0x04, 0xfe, 0x8c, 0x19, 0xce, 0x09, 0x05, 0x19, 0x1e, 0xbc, 0x29, 0x8a, 0x92, 0x45, 0x79, 0x25,
                      0x31, 0xf2, 0x6f, 0x0c, 0xec, 0xe2, 0x46, 0x06, 0x39, 0xe8, 0xbc, 0x39, 0xcb, 0x7f, 0x70, 0x6a,
                      0x82, 0x6a, 0x77, 0x9b, 0x4c, 0xf9, 0x69, 0xb8, 0xa0, 0xe5, 0x39, 0xc7, 0xf6, 0x2f, 0xb3, 0xd3,
                      0x0a, 0xd6, 0xaa, 0x8f, 0x80, 0xe3, 0x0f, 0x1d, 0x12, 0x8a, 0xaf, 0xd6, 0x8a, 0x2c, 0xe7, 0x2e,
                      0xa0],
       kat_sk_rm = [0xf3, 0xce, 0x7f, 0xda, 0xe5, 0x7e, 0x1a, 0x31, 0x0d, 0x87, 0xf1, 0xeb, 0xbd, 0xe6, 0xf3, 0x28,
                      0xbe, 0x0a, 0x99, 0xcd, 0xbc, 0xad, 0xf4, 0xd6, 0x58, 0x9c, 0xf2, 0x9d, 0xe4, 0xb8, 0xff, 0xd2],
       kat_pk_em = [0x04, 0xa9, 0x27, 0x19, 0xc6, 0x19, 0x5d, 0x50, 0x85, 0x10, 0x4f, 0x46, 0x9a, 0x8b, 0x98, 0x14,
                      0xd5, 0x83, 0x8f, 0xf7, 0x2b, 0x60, 0x50, 0x1e, 0x2c, 0x44, 0x66, 0xe5, 0xe6, 0x7b, 0x32, 0x5a,
                      0xc9, 0x85, 0x36, 0xd7, 0xb6, 0x1a, 0x1a, 0xf4, 0xb7, 0x8e, 0x5b, 0x7f, 0x95, 0x1c, 0x09, 0x00,
                      0xbe, 0x86, 0x3c, 0x40, 0x3c, 0xe6, 0x5c, 0x9b, 0xfc, 0xb9, 0x38, 0x26, 0x57, 0x22, 0x2d, 0x18,
                      0xc4],
       kat_sk_em = [0x49, 0x95, 0x78, 0x8e, 0xf4, 0xb9, 0xd6, 0x13, 0x2b, 0x24, 0x9c, 0xe5, 0x9a, 0x77, 0x28, 0x14,
                      0x93, 0xeb, 0x39, 0xaf, 0x37, 0x3d, 0x23, 0x6a, 0x1f, 0xe4, 0x15, 0xcb, 0x0c, 0x2d, 0x7b, 0xeb],
       kat_enc = [0x04, 0xa9, 0x27, 0x19, 0xc6, 0x19, 0x5d, 0x50, 0x85, 0x10, 0x4f, 0x46, 0x9a, 0x8b, 0x98, 0x14,
                    0xd5, 0x83, 0x8f, 0xf7, 0x2b, 0x60, 0x50, 0x1e, 0x2c, 0x44, 0x66, 0xe5, 0xe6, 0x7b, 0x32, 0x5a,
                    0xc9, 0x85, 0x36, 0xd7, 0xb6, 0x1a, 0x1a, 0xf4, 0xb7, 0x8e, 0x5b, 0x7f, 0x95, 0x1c, 0x09, 0x00,
                    0xbe, 0x86, 0x3c, 0x40, 0x3c, 0xe6, 0x5c, 0x9b, 0xfc, 0xb9, 0x38, 0x26, 0x57, 0x22, 0x2d, 0x18,
                    0xc4],
       kat_shared_secret = [0xc0, 0xd2, 0x6a, 0xea, 0xb5, 0x36, 0x60, 0x9a, 0x57, 0x2b, 0x07, 0x69, 0x5d, 0x93, 0x3b, 0x58,
                              0x9d, 0xcf, 0x36, 0x3f, 0xf9, 0xd9, 0x3c, 0x93, 0xad, 0xea, 0x53, 0x7a, 0xea, 0xbb, 0x8c, 0xb8],
       kat_key_bytes = [0x86, 0x8c, 0x06, 0x6e, 0xf5, 0x8a, 0xae, 0x6d, 0xc5, 0x89, 0xb6, 0xcf, 0xdd, 0x18, 0xf9, 0x7e],
       kat_base_nonce = [0x4e, 0x0b, 0xc5, 0x01, 0x8b, 0xeb, 0xa4, 0xbf, 0x00, 0x4c, 0xca, 0x59],
       kat_exporter_secret = [0x14, 0xad, 0x94, 0xaf, 0x48, 0x4a, 0x7a, 0xd3, 0xef, 0x40, 0xe9, 0xf3, 0xbe, 0x99, 0xec, 0xc6,
                                0xfa, 0x90, 0x36, 0xdf, 0x9d, 0x49, 0x20, 0x54, 0x84, 0x24, 0xdf, 0x12, 0x7e, 0xe0, 0xd9, 0x9f],
       kat_enc_vecs = [
         \<lparr> ev_seq = 0,
           ev_pt = [0x42, 0x65, 0x61, 0x75, 0x74, 0x79, 0x20, 0x69, 0x73, 0x20, 0x74, 0x72, 0x75, 0x74, 0x68, 0x2c,
                    0x20, 0x74, 0x72, 0x75, 0x74, 0x68, 0x20, 0x62, 0x65, 0x61, 0x75, 0x74, 0x79],
           ev_aad = [0x43, 0x6f, 0x75, 0x6e, 0x74, 0x2d, 0x30],
           ev_ct = [0x5a, 0xd5, 0x90, 0xbb, 0x8b, 0xaa, 0x57, 0x7f, 0x86, 0x19, 0xdb, 0x35, 0xa3, 0x63, 0x11, 0x22,
                    0x6a, 0x89, 0x6e, 0x73, 0x42, 0xa6, 0xd8, 0x36, 0xd8, 0xb7, 0xbc, 0xd2, 0xf2, 0x0b, 0x6c, 0x7f,
                    0x90, 0x76, 0xac, 0x23, 0x2e, 0x3a, 0xb2, 0x52, 0x3f, 0x39, 0x51, 0x34, 0x34] \<rparr>],
       kat_exports = [
         \<lparr> xv_context = [], xv_l = 32,
           xv_exported_value = [0x5e, 0x9b, 0xc3, 0xd2, 0x36, 0xe1, 0x91, 0x1d, 0x95, 0xe6, 0x5b, 0x57, 0x6a, 0x8a, 0x86, 0xd4,
                                0x78, 0xfb, 0x82, 0x7e, 0x8b, 0xdf, 0xe7, 0x7b, 0x74, 0x1b, 0x28, 0x98, 0x90, 0x49, 0x0d, 0x4d] \<rparr>,
         \<lparr> xv_context = [0x00], xv_l = 32,
           xv_exported_value = [0x6c, 0xff, 0x87, 0x65, 0x89, 0x31, 0xbd, 0xa8, 0x3d, 0xc8, 0x57, 0xe6, 0x35, 0x3e, 0xfe, 0x49,
                                0x87, 0xa2, 0x01, 0xb8, 0x49, 0x65, 0x8d, 0x9b, 0x04, 0x7a, 0xab, 0x4c, 0xf2, 0x16, 0xe7, 0x96] \<rparr>,
         \<lparr> xv_context = [0x54, 0x65, 0x73, 0x74, 0x43, 0x6f, 0x6e, 0x74, 0x65, 0x78, 0x74], xv_l = 32,
           xv_exported_value = [0xd8, 0xf1, 0xea, 0x79, 0x42, 0xad, 0xbb, 0xa7, 0x41, 0x2c, 0x6d, 0x43, 0x1c, 0x62, 0xd0, 0x13,
                                0x71, 0xea, 0x47, 0x6b, 0x82, 0x3e, 0xb6, 0x97, 0xe1, 0xf6, 0xe6, 0xca, 0xe1, 0xda, 0xb8, 0x5a] \<rparr>] \<rparr>"

definition KAT_A5 :: kat where
  "KAT_A5 = \<lparr>
       kat_mode = 0,
       kat_info = [0x4f, 0x64, 0x65, 0x20, 0x6f, 0x6e, 0x20, 0x61, 0x20, 0x47, 0x72, 0x65, 0x63, 0x69, 0x61, 0x6e,
                     0x20, 0x55, 0x72, 0x6e],
       kat_pk_rm = [0x04, 0xa6, 0x97, 0xbf, 0xfd, 0xe9, 0x40, 0x5c, 0x99, 0x28, 0x83, 0xc5, 0xc4, 0x39, 0xd6, 0xcc,
                      0x35, 0x81, 0x70, 0xb5, 0x1a, 0xf7, 0x28, 0x12, 0x33, 0x3b, 0x01, 0x56, 0x21, 0xdc, 0x0f, 0x40,
                      0xba, 0xd9, 0xbb, 0x72, 0x6f, 0x68, 0xa5, 0xc0, 0x13, 0x80, 0x6a, 0x79, 0x0e, 0xc7, 0x16, 0xab,
                      0x86, 0x69, 0xf8, 0x4f, 0x6b, 0x69, 0x45, 0x96, 0xc2, 0x98, 0x7c, 0xf3, 0x5b, 0xab, 0xa2, 0xa0,
                      0x06],
       kat_sk_rm = [0xa4, 0xd1, 0xc5, 0x58, 0x36, 0xaa, 0x30, 0xf9, 0xb3, 0xfb, 0xb6, 0xac, 0x98, 0xd3, 0x38, 0xc8,
                      0x77, 0xc2, 0x86, 0x7d, 0xd3, 0xa7, 0x73, 0x96, 0xd1, 0x3f, 0x68, 0xd3, 0xab, 0x15, 0x0d, 0x3b],
       kat_pk_em = [0x04, 0xc0, 0x78, 0x36, 0xa0, 0x20, 0x6e, 0x04, 0xe3, 0x1d, 0x8a, 0xe9, 0x9b, 0xfd, 0x54, 0x93,
                      0x80, 0xb0, 0x72, 0xa1, 0xb1, 0xb8, 0x2e, 0x56, 0x3c, 0x93, 0x5c, 0x09, 0x58, 0x27, 0x82, 0x4f,
                      0xc1, 0x55, 0x9e, 0xac, 0x6f, 0xb9, 0xe3, 0xc7, 0x0c, 0xd3, 0x19, 0x39, 0x68, 0x99, 0x4e, 0x7f,
                      0xe9, 0x78, 0x1a, 0xa1, 0x03, 0xf5, 0xb5, 0x0e, 0x93, 0x4b, 0x5b, 0x2f, 0x38, 0x7e, 0x38, 0x12,
                      0x91],
       kat_sk_em = [0x75, 0x50, 0x25, 0x3e, 0x11, 0x47, 0xaa, 0xe4, 0x88, 0x39, 0xc1, 0xf8, 0xaf, 0x80, 0xd2, 0x77,
                      0x0f, 0xb7, 0xa4, 0xc7, 0x63, 0xaf, 0xe7, 0xd0, 0xaf, 0xa7, 0xe0, 0xf4, 0x2a, 0x5b, 0x36, 0x89],
       kat_enc = [0x04, 0xc0, 0x78, 0x36, 0xa0, 0x20, 0x6e, 0x04, 0xe3, 0x1d, 0x8a, 0xe9, 0x9b, 0xfd, 0x54, 0x93,
                    0x80, 0xb0, 0x72, 0xa1, 0xb1, 0xb8, 0x2e, 0x56, 0x3c, 0x93, 0x5c, 0x09, 0x58, 0x27, 0x82, 0x4f,
                    0xc1, 0x55, 0x9e, 0xac, 0x6f, 0xb9, 0xe3, 0xc7, 0x0c, 0xd3, 0x19, 0x39, 0x68, 0x99, 0x4e, 0x7f,
                    0xe9, 0x78, 0x1a, 0xa1, 0x03, 0xf5, 0xb5, 0x0e, 0x93, 0x4b, 0x5b, 0x2f, 0x38, 0x7e, 0x38, 0x12,
                    0x91],
       kat_shared_secret = [0x80, 0x65, 0x20, 0xf8, 0x2e, 0xf0, 0xb0, 0x3c, 0x82, 0x3b, 0x7f, 0xc5, 0x24, 0xb6, 0xb5, 0x5a,
                              0x08, 0x8f, 0x56, 0x6b, 0x97, 0x51, 0xb8, 0x95, 0x51, 0xc1, 0x70, 0xf4, 0x11, 0x3b, 0xd8, 0x50],
       kat_key_bytes = [0xa8, 0xf4, 0x54, 0x90, 0xa9, 0x2a, 0x3b, 0x04, 0xd1, 0xdb, 0xf6, 0xcf, 0x2c, 0x39, 0x39, 0xad,
                          0x8b, 0xfc, 0x9b, 0xfc, 0xb9, 0x7c, 0x04, 0xbf, 0xfe, 0x11, 0x67, 0x30, 0xc9, 0xdf, 0xe3, 0xfc],
       kat_base_nonce = [0x72, 0x6b, 0x43, 0x90, 0xed, 0x22, 0x09, 0x80, 0x9f, 0x58, 0xc6, 0x93],
       kat_exporter_secret = [0x4f, 0x9b, 0xd9, 0xb3, 0xa8, 0xdb, 0x7d, 0x7c, 0x3a, 0x5b, 0x9d, 0x44, 0xfd, 0xc1, 0xf6, 0xe3,
                                0x7d, 0x5d, 0x77, 0x68, 0x9a, 0xde, 0x5e, 0xc4, 0x4a, 0x72, 0x42, 0x01, 0x6e, 0x6a, 0xa2, 0x05],
       kat_enc_vecs = [
         \<lparr> ev_seq = 0,
           ev_pt = [0x42, 0x65, 0x61, 0x75, 0x74, 0x79, 0x20, 0x69, 0x73, 0x20, 0x74, 0x72, 0x75, 0x74, 0x68, 0x2c,
                    0x20, 0x74, 0x72, 0x75, 0x74, 0x68, 0x20, 0x62, 0x65, 0x61, 0x75, 0x74, 0x79],
           ev_aad = [0x43, 0x6f, 0x75, 0x6e, 0x74, 0x2d, 0x30],
           ev_ct = [0x64, 0x69, 0xc4, 0x1c, 0x5c, 0x81, 0xd3, 0xaa, 0x85, 0x43, 0x25, 0x31, 0xec, 0xf6, 0x46, 0x0e,
                    0xc9, 0x45, 0xbd, 0xe1, 0xeb, 0x42, 0x8c, 0xb2, 0xfe, 0xdf, 0x7a, 0x29, 0xf5, 0xa6, 0x85, 0xb4,
                    0xcc, 0xb0, 0xd0, 0x57, 0xf0, 0x3e, 0xa2, 0x95, 0x2a, 0x27, 0xbb, 0x45, 0x8b] \<rparr>],
       kat_exports = [
         \<lparr> xv_context = [], xv_l = 32,
           xv_exported_value = [0x9b, 0x13, 0xc5, 0x10, 0x41, 0x6a, 0xc9, 0x77, 0xb5, 0x53, 0xbf, 0x17, 0x41, 0x01, 0x88, 0x09,
                                0xc2, 0x46, 0xa6, 0x95, 0xf4, 0x5e, 0xff, 0x6d, 0x3b, 0x03, 0x56, 0xdb, 0xef, 0xe1, 0xe6, 0x60] \<rparr>,
         \<lparr> xv_context = [0x00], xv_l = 32,
           xv_exported_value = [0x6c, 0x8b, 0x7b, 0xe3, 0xa2, 0x0a, 0x56, 0x84, 0xed, 0xec, 0xb4, 0x25, 0x36, 0x19, 0xd9, 0x05,
                                0x1c, 0xe8, 0x58, 0x3b, 0xaf, 0x85, 0x0e, 0x0c, 0xb5, 0x3c, 0x40, 0x2b, 0xdc, 0xaf, 0x8e, 0xbb] \<rparr>,
         \<lparr> xv_context = [0x54, 0x65, 0x73, 0x74, 0x43, 0x6f, 0x6e, 0x74, 0x65, 0x78, 0x74], xv_l = 32,
           xv_exported_value = [0x47, 0x7a, 0x50, 0xd8, 0x04, 0xc7, 0xc5, 0x19, 0x41, 0xf6, 0x9b, 0x8e, 0x32, 0xfe, 0x82, 0x88,
                                0x38, 0x6e, 0xe1, 0xa8, 0x49, 0x05, 0xfe, 0x49, 0x38, 0xd5, 0x89, 0x72, 0xf2, 0x4a, 0xc9, 0x38] \<rparr>] \<rparr>"

section \<open>Encapsulation with a given ephemeral key\<close>

definition x25519_encap_deterministic :: "hpke_lib \<Rightarrow> bytes \<Rightarrow> bytes \<Rightarrow> (bytes \<times> bytes, rustls_error) result" where
  "x25519_encap_deterministic L sk_em pk_r =
     (if length pk_r \<noteq> 32 then Err (General ''X25519 Encap: recipient pk must be 32 bytes'')
      else let pk_em = x25519_public L sk_em;
               dh = x25519_dh L sk_em pk_r in
      if \<not> x25519_contributory L dh then Err (General ''X25519 Encap: non-contributory DH'')
      else let kem_context = pk_em @ pk_r in
      rbind (extract_and_expand x25519_consts L dh kem_context) (\<lambda>shared_secret.
      Ok (shared_secret, pk_em)))"

definition p256_encap_deterministic :: "hpke_lib \<Rightarrow> bytes \<Rightarrow> bytes \<Rightarrow> (bytes \<times> bytes, rustls_error) result" where
  "p256_encap_deterministic L sk_em_bytes pk_r_bytes =
     rbind (ok_or (p256_pk_from_sec1 L pk_r_bytes) (General ''P-256 Encap: invalid recipient pk'')) (\<lambda>pk_r.
     rbind (ok_or (p256_sk_from_slice L sk_em_bytes) (General ''P-256 Encap: invalid ephemeral sk'')) (\<lambda>sk_em.
     let pk_em = p256_public_key L sk_em;
         dh = p256_dh L sk_em pk_r;
         enc = p256_uncompressed L pk_em;
         kem_context = enc @ p256_uncompressed L pk_r in
     rbind (extract_and_expand p256_consts L dh kem_context) (\<lambda>shared_secret.
     Ok (shared_secret, enc))))"

section \<open>The harnesses\<close>

text \<open>The assertions after the encapsulation, which the four harnesses repeat for their AEAD and suite identifier.\<close>

definition kat_checks :: "hpke_lib \<Rightarrow> aead_suite \<Rightarrow> bytes \<Rightarrow> kat \<Rightarrow> bytes \<times> bytes \<Rightarrow> bool" where
  "kat_checks L A suite_id kat = (\<lambda>(shared_secret, enc).
     enc = kat_enc kat \<and> shared_secret = kat_shared_secret kat \<and>
     (case key_schedule_base L suite_id shared_secret (kat_info kat) (NK A) of
        Err e \<Rightarrow> False
      | Ok km \<Rightarrow>
          km_key km = kat_key_bytes kat \<and> km_base_nonce km = kat_base_nonce kat \<and>
          km_exporter_secret km = kat_exporter_secret kat \<and>
          list_all (\<lambda>x. labeled_expand_checked L suite_id (km_exporter_secret km) (ascii ''sec'') (xv_context x) (xv_l x) =
                        Ok (xv_exported_value x)) (kat_exports kat) \<and>
          list_all (\<lambda>ev. suite_seal A L (km_key km) (compute_nonce (km_base_nonce km) (ev_seq ev)) (ev_aad ev) (ev_pt ev) =
                         Ok (ev_ct ev)) (kat_enc_vecs kat)))"

text \<open>\<open>b"HPKE\x00\x20\x00\x01\x00\x01"\<close> and so on.\<close>

definition kat_suite_id :: "byte \<Rightarrow> byte \<Rightarrow> bytes" where
  "kat_suite_id kem aead = ascii ''HPKE'' @ [0, kem, 0, 0x01, 0, aead]"

definition run_kat_x25519_aes128 :: "hpke_lib \<Rightarrow> kat \<Rightarrow> bool" where
  "run_kat_x25519_aes128 L kat \<longleftrightarrow>
     length (kat_sk_em kat) = 32 \<and>
     (case x25519_encap_deterministic L (kat_sk_em kat) (kat_pk_rm kat) of
        Err e \<Rightarrow> False
      | Ok r \<Rightarrow> kat_checks L AeadAes128Gcm (kat_suite_id 0x20 0x01) kat r) \<and>
     list_all (\<lambda>ev. suite_open AeadAes128Gcm L (kat_key_bytes kat) (compute_nonce (kat_base_nonce kat) (ev_seq ev)) (ev_aad ev) (ev_ct ev) =
                    Ok (ev_pt ev)) (kat_enc_vecs kat)"

definition run_kat_x25519_chacha20 :: "hpke_lib \<Rightarrow> kat \<Rightarrow> bool" where
  "run_kat_x25519_chacha20 L kat \<longleftrightarrow>
     length (kat_sk_em kat) = 32 \<and>
     (case x25519_encap_deterministic L (kat_sk_em kat) (kat_pk_rm kat) of
        Err e \<Rightarrow> False
      | Ok r \<Rightarrow> kat_checks L AeadChacha20 (kat_suite_id 0x20 0x03) kat r)"

definition run_kat_p256_aes128 :: "hpke_lib \<Rightarrow> kat \<Rightarrow> bool" where
  "run_kat_p256_aes128 L kat \<longleftrightarrow>
     (case p256_encap_deterministic L (kat_sk_em kat) (kat_pk_rm kat) of
        Err e \<Rightarrow> False
      | Ok r \<Rightarrow> kat_checks L AeadAes128Gcm (kat_suite_id 0x10 0x01) kat r)"

definition run_kat_p256_chacha20 :: "hpke_lib \<Rightarrow> kat \<Rightarrow> bool" where
  "run_kat_p256_chacha20 L kat \<longleftrightarrow>
     (case p256_encap_deterministic L (kat_sk_em kat) (kat_pk_rm kat) of
        Err e \<Rightarrow> False
      | Ok r \<Rightarrow> kat_checks L AeadChacha20 (kat_suite_id 0x10 0x03) kat r)"

text \<open>The tests \<open>kat_a1_x25519_aes128gcm\<close> to \<open>kat_a5_p256_chacha20\<close>.\<close>

definition kat_tests :: "((hpke_lib \<Rightarrow> kat \<Rightarrow> bool) \<times> kat \<times> dh_kem \<times> aead_suite) list" where
  "kat_tests =
     [(run_kat_x25519_aes128, KAT_A1, KemX25519, AeadAes128Gcm), (run_kat_x25519_chacha20, KAT_A2, KemX25519, AeadChacha20),
      (run_kat_p256_aes128, KAT_A3, KemP256, AeadAes128Gcm), (run_kat_p256_chacha20, KAT_A5, KemP256, AeadChacha20)]"

section \<open>What the tests establish\<close>

text \<open>The values of each vector have the lengths of its suite: keys and encapsulations, the secrets, the AEAD key and
  nonce, ciphertexts longer by the tag, exports of the requested length; the encapsulated key is the ephemeral public key.\<close>

definition kat_fits :: "dh_kem \<Rightarrow> aead_suite \<Rightarrow> kat \<Rightarrow> bool" where
  "kat_fits K A kat \<longleftrightarrow>
     kat_mode kat = 0 \<and> length (kat_pk_rm kat) = NPK K \<and> length (kat_sk_rm kat) = NSK K \<and> length (kat_sk_em kat) = NSK K \<and>
     length (kat_enc kat) = NENC K \<and> kat_pk_em kat = kat_enc kat \<and> length (kat_shared_secret kat) = NSECRET K \<and>
     length (kat_key_bytes kat) = NK A \<and> length (kat_base_nonce kat) = NN A \<and> length (kat_exporter_secret kat) = 32 \<and>
     list_all (\<lambda>ev. length (ev_ct ev) = length (ev_pt ev) + NT A) (kat_enc_vecs kat) \<and>
     map ev_seq (kat_enc_vecs kat) = map of_nat [0..<length (kat_enc_vecs kat)] \<and>
     list_all (\<lambda>x. length (xv_exported_value x) = xv_l x) (kat_exports kat)"

lemma KAT_A1_fits: "kat_fits KemX25519 AeadAes128Gcm KAT_A1"
  by (simp add: kat_fits_def KAT_A1_def KemX25519_def AeadAes128Gcm_def upt_rec)

lemma KAT_A2_fits: "kat_fits KemX25519 AeadChacha20 KAT_A2"
  by (simp add: kat_fits_def KAT_A2_def KemX25519_def AeadChacha20_def upt_rec)

lemma KAT_A3_fits: "kat_fits KemP256 AeadAes128Gcm KAT_A3"
  by (simp add: kat_fits_def KAT_A3_def KemP256_def AeadAes128Gcm_def upt_rec)

lemma KAT_A5_fits: "kat_fits KemP256 AeadChacha20 KAT_A5"
  by (simp add: kat_fits_def KAT_A5_def KemP256_def AeadChacha20_def upt_rec)

lemma kat_vectors_fit: "list_all (\<lambda>(run, kat, K, A). kat_fits K A kat) kat_tests"
  by (simp add: kat_tests_def KAT_A1_fits KAT_A2_fits KAT_A3_fits KAT_A5_fits)

text \<open>The encapsulation of the tests is that of the code when the first random draw is the given key.\<close>

lemma x25519_encap_agrees:
  assumes "rnd 0 = Ok sk" "x25519_encap_deterministic L sk pk = Ok r"
  shows "x25519_encap L rnd pk = Some (Ok r)"
  using assms by (auto simp: x25519_encap_def x25519_encap_deterministic_def Let_def split: if_splits)

lemma p256_encap_agrees:
  assumes "rnd 0 = Ok sk" "p256_encap_deterministic L sk pk = Ok r"
  shows "p256_encap L rnd pk = Some (Ok r)"
proof -
  from assms(2) obtain s where "p256_sk_from_slice L sk = Some s"
    by (auto simp: p256_encap_deterministic_def result_simps)
  then have "p256_rejection_sample L rnd = Some (Ok s)"
    using assms(1) by (simp add: p256_rejection_sample_def p256_rejection_loop.simps [of L rnd 0])
  with assms(2) \<open>p256_sk_from_slice L sk = Some s\<close> show ?thesis
    by (auto simp: p256_encap_def p256_encap_deterministic_def result_simps Let_def)
qed

lemma kat_suite_ids:
  "kat_suite_id 0x20 0x01 = hpke_suite_id KemX25519 AeadAes128Gcm" "kat_suite_id 0x20 0x03 = hpke_suite_id KemX25519 AeadChacha20"
  "kat_suite_id 0x10 0x01 = hpke_suite_id KemP256 AeadAes128Gcm" "kat_suite_id 0x10 0x03 = hpke_suite_id KemP256 AeadChacha20"
  by (simp_all add: kat_suite_id_def hpke_suite_id_def KemX25519_def KemP256_def AeadAes128Gcm_def AeadChacha20_def i2osp2_def
      be_encode_2)

text \<open>A passed harness is an encapsulation of the code followed by the checks.\<close>

lemma run_kat_checks:
  assumes "(run, kat, K, A) \<in> set kat_tests" "run L kat'" "rnd 0 = Ok (kat_sk_em kat')"
  shows "\<exists>r. kem_encap K L rnd (kat_pk_rm kat') = Some (Ok r) \<and> kat_checks L A (hpke_suite_id K A) kat' r"
proof -
  consider "run = run_kat_x25519_aes128" "K = KemX25519" "A = AeadAes128Gcm"
    | "run = run_kat_x25519_chacha20" "K = KemX25519" "A = AeadChacha20"
    | "run = run_kat_p256_aes128" "K = KemP256" "A = AeadAes128Gcm"
    | "run = run_kat_p256_chacha20" "K = KemP256" "A = AeadChacha20"
    using assms(1) unfolding kat_tests_def by auto
  moreover have x: "kem_encap KemX25519 = x25519_encap" "kem_encap KemP256 = p256_encap"
    by (simp_all add: KemX25519_def KemP256_def)
  ultimately show ?thesis
    using assms(2) x25519_encap_agrees [of rnd, OF assms(3)] p256_encap_agrees [of rnd, OF assms(3)]
    by cases (auto simp: x run_kat_x25519_aes128_def run_kat_x25519_chacha20_def run_kat_p256_aes128_def run_kat_p256_chacha20_def
        kat_suite_ids split: result.splits)
qed

text \<open>A library of crates that passes the test of a suite makes the sender of that suite, drawing the ephemeral key
  of the vector, produce the encapsulated key, the AEAD key, the base nonce, the exporter secret, the exports and every
  ciphertext of the vector. A receiver whose key pair is the vector's has the same context.\<close>

theorem kat_determines_session:
  assumes t: "(run, kat', K, A) \<in> set kat_tests" and pass: "run L kat" and draw: "re 0 = Ok (kat_sk_em kat)"
  shows "\<exists>c. setup_sender K A L re (kat_info kat) (kat_pk_rm kat) = Some (Ok (kat_enc kat, c)) \<and>
           s_key c = kat_key_bytes kat \<and> s_base_nonce c = kat_base_nonce kat \<and> s_seq c = 0 \<and>
           s_exporter_secret c = kat_exporter_secret kat \<and>
           list_all (\<lambda>x. sealer_export L c (xv_context x) (xv_l x) = Ok (xv_exported_value x)) (kat_exports kat) \<and>
           list_all (\<lambda>ev. ev_seq ev \<noteq> - 1 \<longrightarrow>
              fst (sealer_seal A L (c\<lparr> s_seq := ev_seq ev \<rparr>) (ev_aad ev) (ev_pt ev)) = Ok (ev_ct ev)) (kat_enc_vecs kat) \<and>
           (hpke_lib_ok L \<and> draws32 rg \<and> generate_key_pair K L rg = Some (Ok (kat_pk_rm kat, kat_sk_rm kat)) \<longrightarrow>
              (\<exists>d. setup_receiver K A L (kat_enc kat) (kat_info kat) (kat_sk_rm kat) = Ok d \<and> ctx_match c d))"
proof -
  obtain ss where e: "kem_encap K L re (kat_pk_rm kat) = Some (Ok (ss, kat_enc kat))"
    and ch: "kat_checks L A (hpke_suite_id K A) kat (ss, kat_enc kat)"
    using run_kat_checks [of run kat' K A L kat re, OF t pass draw] by (auto simp: kat_checks_def)
  then obtain km where km: "key_schedule_base L (hpke_suite_id K A) ss (kat_info kat) (NK A) = Ok km"
      "km_key km = kat_key_bytes kat" "km_base_nonce km = kat_base_nonce kat" "km_exporter_secret km = kat_exporter_secret kat"
    and exports: "list_all (\<lambda>x. labeled_expand_checked L (hpke_suite_id K A) (km_exporter_secret km) (ascii ''sec'') (xv_context x) (xv_l x) =
        Ok (xv_exported_value x)) (kat_exports kat)"
    and encs: "list_all (\<lambda>ev. suite_seal A L (km_key km) (compute_nonce (km_base_nonce km) (ev_seq ev)) (ev_aad ev) (ev_pt ev) =
        Ok (ev_ct ev)) (kat_enc_vecs kat)"
    by (auto simp: kat_checks_def split: result.splits)
  let ?c = "\<lparr> s_key = km_key km, s_base_nonce = km_base_nonce km, s_seq = 0, s_suite_id = hpke_suite_id K A,
      s_exporter_secret = km_exporter_secret km \<rparr>"
  have s: "setup_sender K A L re (kat_info kat) (kat_pk_rm kat) = Some (Ok (kat_enc kat, ?c))"
    using e km(1) by (simp add: setup_sender_def)
  have "hpke_suite K A"
    using t pure_suites_contract [of K A] by (auto simp: kat_tests_def pure_hpke_suites_def)
  then have "\<exists>d. setup_receiver K A L (kat_enc kat) (kat_info kat) (kat_sk_rm kat) = Ok d \<and> ctx_match ?c d"
    if "hpke_lib_ok L" "draws32 rg" "generate_key_pair K L rg = Some (Ok (kat_pk_rm kat, kat_sk_rm kat))"
    using hpke_suite.session_setup(1) [OF _ that s] by blast
  moreover have "fst (sealer_seal A L (?c\<lparr> s_seq := ev_seq ev \<rparr>) (ev_aad ev) (ev_pt ev)) = Ok (ev_ct ev)"
    if "ev \<in> set (kat_enc_vecs kat)" "ev_seq ev \<noteq> - 1" for ev
    using encs that checked_inc_None [of "ev_seq ev"] by (auto simp: list_all_iff sealer_seal_def Let_def split: option.splits)
  moreover have "list_all (\<lambda>x. sealer_export L ?c (xv_context x) (xv_l x) = Ok (xv_exported_value x)) (kat_exports kat)"
    using exports by (simp add: sealer_export_def)
  ultimately show ?thesis
    using s km by (intro exI [of _ ?c]) (simp add: list_all_iff)
qed

text \<open>No harness reads the recipient's private key: whatever stands there, a test passes or fails the same.\<close>

lemma kat_ignores_sk_rm:
  assumes "(run, kat', K, A) \<in> set kat_tests"
  shows "run L (kat\<lparr> kat_sk_rm := x \<rparr>) = run L kat"
proof -
  have "kat_checks L A i (kat\<lparr> kat_sk_rm := x \<rparr>) = kat_checks L A i kat" for A i
    by (auto simp: kat_checks_def fun_eq_iff split: result.splits)
  then show ?thesis
    using assms by (auto simp: kat_tests_def run_kat_x25519_aes128_def run_kat_x25519_chacha20_def run_kat_p256_aes128_def
        run_kat_p256_chacha20_def split: result.splits)
qed

text \<open>A vector that the example library passes, and the session it determines.\<close>

definition example_kat :: kat where
  "example_kat =
     \<lparr> kat_mode = 0, kat_info = [1], kat_pk_rm = replicate 32 3, kat_sk_rm = replicate 32 0, kat_pk_em = replicate 32 3,
       kat_sk_em = replicate 32 0, kat_enc = replicate 32 3, kat_shared_secret = replicate 32 2, kat_key_bytes = replicate 16 2,
       kat_base_nonce = replicate 12 2, kat_exporter_secret = replicate 32 2,
       kat_enc_vecs = [\<lparr> ev_seq = 0, ev_pt = [2], ev_aad = [1], ev_ct = [2, 8] \<rparr>],
       kat_exports = [\<lparr> xv_context = [7], xv_l = 9, xv_exported_value = replicate 9 2 \<rparr>] \<rparr>"

lemma example_kat_passes: "run_kat_x25519_aes128 example_hpke_lib example_kat"
proof -
  have "x25519_encap_deterministic example_hpke_lib (replicate 32 0) (replicate 32 3) = Ok (replicate 32 2, replicate 32 3)"
    by (simp add: x25519_encap_deterministic_def example_hpke_lib_def x25519_consts_def extract_and_expand_def
        labeled_expand_def labeled_expand_checked_def labeled_extract_def MAX_L_def)
  moreover have "key_schedule_base example_hpke_lib (kat_suite_id 32 1) (replicate 32 2) [1] (NK AeadAes128Gcm) =
      Ok \<lparr> km_key = replicate 16 2, km_base_nonce = replicate 12 2, km_exporter_secret = replicate 32 2 \<rparr>"
    using example_schedule by (simp add: AeadAes128Gcm_def)
  ultimately show ?thesis
    by (simp add: run_kat_x25519_aes128_def example_kat_def kat_checks_def AeadAes128Gcm_def aes128_seal_def aes128_open_def
        labeled_expand_checked_def MAX_L_def example_hpke_lib_def)
qed

lemma example_kat_session:
  "\<exists>c. setup_sender KemX25519 AeadAes128Gcm example_hpke_lib example_draws [1] (replicate 32 3) = Some (Ok (replicate 32 3, c)) \<and>
     s_key c = replicate 16 2"
  using kat_determines_session [of run_kat_x25519_aes128 KAT_A1 KemX25519 AeadAes128Gcm example_hpke_lib example_kat example_draws]
    example_kat_passes
  by (auto simp: kat_tests_def example_draws_def example_kat_def simp del: replicate_Suc)

end
