(* ===== verification/Private_Pki.thy ===== *)
theory Private_Pki
  imports Rcgen_Chain Server_Builder
begin

text \<open>
  The crates of the repository together, for a private certificate authority: a server certificate generated by
  \<open>oxitls-rcgen\<close> under authorities it generated, served with its chain by a server builder of the facade, and a client builder
  of the facade that trusts the root alone. The web-PKI verifier is that of rustls; \<open>webpki_follows\<close> states
  what its documentation promises to accept.
\<close>

section \<open>What rustls and rcgen promise\<close>

text \<open>A certificate that may stand in the path of a server at second \<open>t\<close>.\<close>

definition usable :: "cert_reader \<Rightarrow> int \<Rightarrow> bytes \<Rightarrow> bool" where
  "usable R t der \<longleftrightarrow>
     (case R der of
        None \<Rightarrow> False
      | Some v \<Rightarrow> cv_valid_from v \<le> t \<and> t \<le> cv_valid_until v \<and> cv_name_constraints v = None \<and>
          (cv_ekus v = {} \<or> ServerAuth \<in> cv_ekus v))"

text \<open>A host name of labels of lower-case letters and digits that begin with a letter.\<close>

fun dns_labels :: "string \<Rightarrow> string list" where
  "dns_labels [] = [[]]"
| "dns_labels (c # cs) =
     (if c = CHR ''.'' then [] # dns_labels cs
      else case dns_labels cs of l # ls \<Rightarrow> (c # l) # ls | [] \<Rightarrow> [[c]])"

definition lower_letter :: "char \<Rightarrow> bool" where
  "lower_letter c \<longleftrightarrow> 97 \<le> (of_char c :: nat) \<and> (of_char c :: nat) \<le> 122"

definition host_name :: "string \<Rightarrow> bool" where
  "host_name n \<longleftrightarrow> length n \<le> 253 \<and>
     list_all (\<lambda>l. l \<noteq> [] \<and> length l \<le> 63 \<and> lower_letter (hd l) \<and>
       list_all (\<lambda>c. lower_letter c \<or> (48 \<le> (of_char c :: nat) \<and> (of_char c :: nat) \<le> 57)) l) (dns_labels n)"

text \<open>The verifier of rustls over the provider \<open>p\<close>, whose algorithms verify the signatures \<open>V\<close>: it accepts an end entity that is no CA for a
  host name it states, when few intermediates are sent, a valid path of signatures that the provider verifies leads from it over some
  of them to a root whose anchor is in the store, and every certificate may stand there.\<close>

definition webpki_follows :: "rustls_lib \<Rightarrow> root_lib \<Rightarrow> cert_reader \<Rightarrow> crypto_provider \<Rightarrow> sig_verify \<Rightarrow> bool" where
  "webpki_follows S A R p V \<longleftrightarrow>
     (\<forall>store a path root ta v.
        anchor_from_der A root = Ok ta \<longrightarrow> ta \<in> set store \<longrightarrow> set path \<subseteq> set (intermediates a) \<longrightarrow> length path \<le> 4 \<longrightarrow>
        length (intermediates a) \<le> 4 \<longrightarrow> host_name (server_name a) \<longrightarrow>
        valid_path R V (end_entity a # path @ [root]) \<longrightarrow>
        list_all (usable R (int (unat (now a)))) (end_entity a # path @ [root]) \<longrightarrow>
        R (end_entity a) = Some v \<longrightarrow> cv_ca v = None \<longrightarrow> SanDnsName (server_name a) \<in> set (cv_names v) \<longrightarrow>
        verify_server_cert (roots_verifier S store p) a = Ok ())"

text \<open>The defaults of rcgen: a validity that covers the time (it runs from 1975 to 4096), no name constraints, no extended key usage.\<close>

definition rcgen_defaults :: "rcgen_lib \<Rightarrow> int \<Rightarrow> bool" where
  "rcgen_defaults L t \<longleftrightarrow>
     encodable_time (cp_not_before (rg_params_default L)) \<and> encodable_time (cp_not_after (rg_params_default L)) \<and>
     cp_not_before (rg_params_default L) \<le> t \<and> t \<le> cp_not_after (rg_params_default L) \<and>
     cp_name_constraints (rg_params_default L) = None \<and> cp_extended_key_usages (rg_params_default L) = []"

section \<open>Generated certificates are usable\<close>

lemma usable_params:
  assumes "R der = Some v" "rcgen_defaults L t" "states_params p v" "cp_custom_extensions p = []"
    "cp_not_before p = cp_not_before (rg_params_default L)" "cp_not_after p = cp_not_after (rg_params_default L)"
    "cp_name_constraints p = cp_name_constraints (rg_params_default L)"
    "cp_extended_key_usages p \<in> {cp_extended_key_usages (rg_params_default L), [ServerAuth]}"
  shows "usable R t der"
proof -
  have "cv_valid_from v = cp_not_before (rg_params_default L)" "cv_valid_until v = cp_not_after (rg_params_default L)"
    "cv_name_constraints v = None"
    using states_paramsD(1,2,9) [OF assms(3)] assms(2,4-7) by (simp_all add: rcgen_defaults_def)
  moreover have "cv_ekus v = {} \<or> ServerAuth \<in> cv_ekus v"
    using states_paramsD(8) [OF assms(3,4)] assms(2,8) by (auto simp: rcgen_defaults_def)
  ultimately show ?thesis using assms(1,2) by (simp add: usable_def rcgen_defaults_def)
qed

lemma build_ca_params_keeps:
  "cp_not_before (build_ca_params L cn spki len) = cp_not_before (rg_params_default L)"
  "cp_not_after (build_ca_params L cn spki len) = cp_not_after (rg_params_default L)"
  "cp_name_constraints (build_ca_params L cn spki len) = cp_name_constraints (rg_params_default L)"
  "cp_extended_key_usages (build_ca_params L cn spki len) = cp_extended_key_usages (rg_params_default L)"
  by (simp_all add: build_ca_params_def Let_def)

lemma chain_sound_reads:
  "chain_sound L R V cas \<Longrightarrow> ca \<in> set cas \<Longrightarrow> \<exists>v. R (ca_der ca) = Some v \<and> states_params (ca_params ca) v"
  by (induction L R V cas rule: chain_sound.induct) (auto simp: ca_sound_def issued_as_def)

lemma issued_usable:
  assumes "rcgen_ok L R" "signature_crates_ok L V" "rcgen_defaults L t" "issued L cas" "ca \<in> set cas"
  shows "usable R t (ca_der ca)"
proof -
  obtain v where "R (ca_der ca) = Some v" "states_params (ca_params ca) v"
    using chain_sound_reads [OF issued_chain_sound [OF assms(4,1,2)] assms(5)] by blast
  moreover obtain cn spki len where "ca_params ca = build_ca_params L cn spki len"
    using issued_params [OF assms(4,5)] by blast
  ultimately show ?thesis
    using usable_params [of R "ca_der ca" v L t "ca_params ca"] assms(3) rcgen_okD(6) [OF assms(1)]
    by (simp add: build_ca_params_keeps)
qed

lemma leaf_reads:
  assumes "rcgen_ok L R" "generate_ca_signed_leaf L rnd sans alg ca = Some (Ok leaf)"
  shows "\<exists>p key spki. issued_as R p key (cp_distinguished_name (ca_params ca)) (ca_key L ca) (ck_cert_der leaf) \<and> build_params L sans spki = Ok p"
  using assms(2) rcgen_okD(2) [OF assms(1)] unfolding ca_key_def
  by (fastforce simp: generate_ca_signed_leaf_def sign_child_def Let_def result_simps)

lemma build_params_keeps:
  assumes "build_params L sans spki = Ok p"
  shows "cp_not_before p = cp_not_before (rg_params_default L)" "cp_not_after p = cp_not_after (rg_params_default L)"
    "cp_name_constraints p = cp_name_constraints (rg_params_default L)" "cp_extended_key_usages p = [ServerAuth]"
    "cp_custom_extensions p = cp_custom_extensions (rg_params_default L)" "cp_is_ca p = NoCa"
    "collect_results (map (san_of L) sans) = Ok (cp_subject_alt_names p)"
  using assms by (auto simp: build_params_def Let_def result_simps split: if_splits)

text \<open>A requested name that is no IP address is stated as a DNS name.\<close>

lemma stated_dns_name:
  assumes "rcgen_ok L R" "collect_results (map (san_of L) sans) = Ok ys" "n \<in> set sans" "parse_ip n = None"
  shows "SanDnsName n \<in> set ys"
proof -
  from assms(3) obtain i where i: "i < length sans" "sans ! i = n" by (auto simp: in_set_conv_nth)
  with assms(2) have "san_of L n = Ok (ys ! i)" "ys ! i \<in> set ys"
    unfolding collect_results_map_Ok by (auto simp: list_all2_conv_all_nth)
  with assms(4) rcgen_okD(3) [OF assms(1), of n] show ?thesis
    by (auto simp: san_of_def dns_san_def result_simps)
qed

section \<open>Server and client\<close>

text \<open>The chain that \<open>CertChainBuilder\<close> gives for a leaf and the authorities above it, the root last.\<close>

definition served_chain :: "rcgen_certified_key \<Rightarrow> ca_certified_key list \<Rightarrow> bytes list" where
  "served_chain leaf cas =
     chain_build (with_root (ca_der (last cas)) (fold with_intermediate (map ca_der (butlast cas)) (with_leaf (ck_cert_der leaf) chain_builder_new)))"

lemma served_chain_eq: "cas \<noteq> [] \<Longrightarrow> served_chain leaf cas = ck_cert_der leaf # map ca_der cas"
  using append_butlast_last_id [of cas] map_append [of ca_der "butlast cas" "[last cas]"]
  by (simp add: served_chain_def chain_builder_order)

lemma webpki_follows_path:
  assumes "webpki_follows S A R p V" "anchor_from_der A (ca_der (last cas)) = Ok ta" "ta \<in> set store" "cas \<noteq> []" "length cas \<le> 2"
    and "end_entity a = der" "intermediates a = map ca_der cas" "valid_path R V (der # map ca_der cas)"
    and "list_all (usable R (int (unat (now a)))) (der # map ca_der cas)"
    and "R der = Some v" "cv_ca v = None" "SanDnsName (server_name a) \<in> set (cv_names v)" "host_name (server_name a)"
  shows "verify_server_cert (roots_verifier S store p) a = Ok ()"
proof -
  have split: "map ca_der cas = map ca_der (butlast cas) @ [ca_der (last cas)]"
    using assms(4) append_butlast_last_id [of cas] by (metis list.map(1) list.map(2) map_append)
  have "set (map ca_der (butlast cas)) \<subseteq> set (intermediates a)" "length (map ca_der (butlast cas)) \<le> 4"
    using assms(5,7) by (auto dest: in_set_butlastD)
  then show ?thesis
    using assms(1) [unfolded webpki_follows_def, rule_format, of "ca_der (last cas)" ta store "map ca_der (butlast cas)" a v] assms
    unfolding split by simp
qed

text \<open>C15: A private authority works through the facade, given that rustls takes the generated certificate and key together, reads the root as a trust
  anchor and has TLS 1.3 in the pure provider. Under a root generated by rcgen and at most one intermediate, a generated
  server certificate and its chain give a server configuration that serves exactly them; a client that trusts the root alone builds,
  and, while the defaults of rcgen cover the time, accepts what the server serves for every requested host name.\<close>

theorem private_authority_works:
  assumes gen: "rcgen_ok L R" "signature_crates_ok L V" "rcgen_defaults L (int (unat (now a)))"
    and cas: "issued L (ca # cas)" "length cas \<le> 1" and leaf: "generate_ca_signed_leaf L rnd sans alg ca = Some (Ok leaf)"
    and rustls: "webpki_follows S A R (pure_provider S) V" "anchor_from_der A (ca_der (last (ca # cas))) = Ok ta" "versions_ok S (pure_provider S) [Tls13] = Ok ()"
    and cert: "single_cert_ok T (pure_provider S) (served_chain leaf (ca # cas)) (Pkcs8 (ck_pkcs8_der leaf)) None = Ok ()"
    and name: "server_name a \<in> set sans" "parse_ip (server_name a) = None" "host_name (server_name a)"
  shows "\<exists>scfg b ccfg.
     sb_build S T False (sb_with_der_cert_and_key (served_chain leaf (ca # cas)) (Pkcs8 (ck_pkcs8_der leaf)) sb_new) = Ok scfg \<and>
     sc_cert scfg = SingleCert (served_chain leaf (ca # cas)) (Pkcs8 (ck_pkcs8_der leaf)) None \<and>
     cb_with_trusted_cert_der (ca_der (last (ca # cas))) cb_new = Ok b \<and>
     cb_build S X A False b = Ok ccfg \<and>
     (end_entity a # intermediates a = served_chain leaf (ca # cas) \<longrightarrow> verify_server_cert (cc_verifier ccfg) a = Ok ())"
proof -
  let ?chain = "served_chain leaf (ca # cas)" and ?t = "int (unat (now a))"
  let ?b = "cb_new\<lparr> cb_trusted_certs := [ca_der (last (ca # cas))] \<rparr>"
  obtain p key spki where p: "issued_as R p key (cp_distinguished_name (ca_params ca)) (ca_key L ca) (ck_cert_der leaf)" "build_params L sans spki = Ok p"
    using leaf_reads [OF gen(1) leaf] by blast
  note keeps = build_params_keeps [OF p(2)]
  obtain v where v: "R (ck_cert_der leaf) = Some v" "states_params p v" using p(1) by (auto simp: issued_as_def)
  have exts: "cp_custom_extensions p = []" using keeps(5) rcgen_okD(6) [OF gen(1)] by simp
  have valid: "valid_path R V (ck_cert_der leaf # map ca_der (ca # cas))"
    using chain_valid_path [OF issued_chain_sound [OF cas(1) gen(1,2)] p(1)] cas(2) by simp
  have "usable R ?t (ck_cert_der leaf)"
    using usable_params [of R "ck_cert_der leaf", OF v(1) gen(3) v(2) exts] keeps by simp
  then have usable: "list_all (usable R ?t) (ck_cert_der leaf # map ca_der (ca # cas))"
    using issued_usable [OF gen cas(1)] by (auto simp: list_all_iff)
  have stated: "cv_ca v = None" "SanDnsName (server_name a) \<in> set (cv_names v)"
    using stated_dns_name [OF gen(1) keeps(7) name(1,2)] states_paramsD(5,6) [OF v(2) exts] keeps(6) sans_wf [OF gen(1) keeps(7)]
    by simp_all
  have "verify_server_cert (roots_verifier S [ta] (pure_provider S)) a = Ok ()" if "end_entity a # intermediates a = ?chain"
    using webpki_follows_path [OF rustls(1,2) _ _ _ _ _ valid usable v(1) stated name(3), of "[ta]"] that cas(2)
    by (simp add: served_chain_eq)
  moreover obtain scfg where "sb_build S T False (sb_with_der_cert_and_key ?chain (Pkcs8 (ck_pkcs8_der leaf)) sb_new) = Ok scfg"
    "sc_cert scfg = SingleCert ?chain (Pkcs8 (ck_pkcs8_der leaf)) None"
    using rustls(3) cert
    by (auto simp: sb_build_def sb_with_der_cert_and_key_def sb_new_def sb_client_verification_def sb_cert_source_def
        new_server_config_def sb_settings_def sb_install_ticketer_def Let_def)
  moreover obtain ccfg where "cb_build S X A False ?b = Ok ccfg" "cc_verifier ccfg = roots_verifier S [ta] (pure_provider S)"
    using rustls(2,3)
    by (auto simp: cb_build_def cb_new_def cb_has_roots_def cb_use_adapter_def cb_root_store_def store_add_def plain_client_auth_def Let_def)
  ultimately show ?thesis
    by (auto simp: cb_with_trusted_cert_der_def cb_new_def)
qed

text \<open>A verifier that looks for the name in the leaf, and the generated certificates of the example.\<close>

definition states_name :: "verify_args \<Rightarrow> bool" where
  "states_name a =
     (case example_reader (end_entity a) of
        None \<Rightarrow> False
      | Some v \<Rightarrow> SanDnsName (server_name a) \<in> set (cv_names v))"

definition example_webpki :: rustls_lib where
  "example_webpki = example_rustls\<lparr> roots_verifier := (\<lambda>_ _. accept_all\<lparr> verify_server_cert :=
     (\<lambda>a. if states_name a then Ok () else Err (InvalidCertificate NotValidForName)) \<rparr>) \<rparr>"

definition example_visit :: verify_args where
  "example_visit = \<lparr> end_entity = [3], intermediates = [[2], [1]], server_name = ''x.y'', ocsp_response = [], now = 0 \<rparr>"

lemma example_webpki_follows: "webpki_follows example_webpki example_root_lib example_reader p example_verify"
  by (simp add: webpki_follows_def example_webpki_def states_name_def)

lemma example_host: "host_name ''x.y''"
  by (simp add: host_name_def lower_letter_def)

theorem private_authority_works_witness:
  "\<exists>b ccfg. cb_with_trusted_cert_der [1] cb_new = Ok b \<and> cb_build example_webpki lib_no_certs example_root_lib False b = Ok ccfg \<and>
     verify_server_cert (cc_verifier ccfg) example_visit = Ok ()"
proof -
  have cas: "issued example_rcgen [example_intermediate, example_root]"
    using example_generated by (intro issued.intros)
  have ders: "ca_der example_root = [1]" "ca_der example_intermediate = [2]" "ck_cert_der example_leaf = [3]"
    by (simp_all add: ca_der_def example_root_def example_intermediate_def example_leaf_def)
  have visit: "server_name example_visit = ''x.y''" "now example_visit = 0" "end_entity example_visit # intermediates example_visit = [[3], [2], [1]]"
    by (simp_all add: example_visit_def)
  have "rcgen_defaults example_rcgen (int (unat (now example_visit)))"
    by (simp add: rcgen_defaults_def example_rcgen_def example_default_def visit encodable_time_def)
  moreover have "anchor_from_der example_root_lib (ca_der (last [example_intermediate, example_root])) = Ok \<lparr> ta_subject = [1], ta_spki = [1] \<rparr>"
    by (simp add: ders example_root_lib_def)
  moreover have "versions_ok example_webpki (pure_provider example_webpki) [Tls13] = Ok ()"
    by (simp add: example_webpki_def example_rustls_def)
  moreover have "single_cert_ok example_server_lib (pure_provider example_webpki) chain key None = Ok ()" for chain key
    by (simp add: example_server_lib_def)
  ultimately show ?thesis
    using private_authority_works [OF example_rcgen_ok _ cas _ example_generated(3) example_webpki_follows, of example_visit _ example_server_lib lib_no_certs]
      example_names example_host visit ders by (auto simp: served_chain_eq)
qed

end
