(* ===== verification/Spec2Isabelle.thy ===== *)
theory Spec2Isabelle
  imports Ech_Config Server_Builder Quic Pkcs11_Provider Rcgen_Csr Hybrid_Kx Native_Certs Http2 Connections Core_Conversions Aws_Lc Ct_Logs Cert_Compression Ticket_Service Key_Log H2_Keepalive Traffic_Keys Hpke_Vectors Private_Pki
begin

text \<open>
  \<^bold>\<open>OxiTLS: a verification library.\<close>

  OxiTLS (\<open>src/crates\<close>) is a TLS stack around rustls: a core crate with the shared types
  (\<open>oxitls-core\<close>), the facade that users call (\<open>oxitls\<close>), the adapter that brings rustls together with
  the RustCrypto primitives and adds its own certificate verifiers and HPKE
  (\<open>oxitls-adapter-rustls-rustcrypto\<close>), trust anchors (\<open>oxitls-webpki-roots\<close>), an adapter for aws-lc, and
  crates for certificates, hardware tokens and HTTP/2. A connection is configured by a builder of the facade;
  the builder stacks verifiers of the adapter over the web-PKI verifier of rustls; during the handshake rustls calls the
  stacked verifier, the ticketer with its replay guard, and the HPKE suites for Encrypted Client Hello.

  \<^bold>\<open>Theories and what they model.\<close>
  \<^item> \<open>Prelude\<close>: Rust's \<open>Result\<close> with \<open>?\<close>, slices, big-endian integers and their inverses, number formatting,
    saturating subtraction; the collections \<open>result_simps\<close> and \<open>codec_simps\<close> carry the component proofs.
  \<^item> \<open>External\<close>: the X.509, OCSP, hash and signature crates the verifiers call, as the record \<open>ext_lib\<close>.
  \<^item> \<open>Core_Types\<close>: \<open>oxitls-core\<close> (alerts, errors, versions, cipher suites, connection information) and
    the extraction of connection information in the facade and in the adapter.
  \<^item> \<open>Verifier\<close>: the trait \<open>ServerCertVerifier\<close> as a record; the pin, custom, CRL, hostname-ignoring and
    raw-public-key verifiers; the locale \<open>verifier_layer\<close>, the contract of a verifier that wraps another (it accepts only
    what the inner one accepts and forwards the signature checks), with \<open>verifier_layers\<close> for two layers.
    Interpreted for the pin, custom, CRL, OCSP and SCT verifiers.
  \<^item> \<open>Sct\<close>: \<open>verifier/sct.rs\<close>, the parser of signed certificate timestamps, the payloads, the signature check,
    the count of distinct trusted logs and the policy.
  \<^item> \<open>Ocsp_Crypto\<close>, \<open>Ocsp\<close>: \<open>verifier/ocsp_crypto.rs\<close> and \<open>verifier/ocsp_client.rs\<close>, from the bytes of a staple
    to the verdict and the policy.
  \<^item> \<open>Ticketer\<close>: \<open>OxiTicketer\<close> and \<open>AwsLcTicketRotator\<close>; the locale \<open>rotating_ticketer\<close> (two live keys, encryption
    under the newest) is interpreted for both.
  \<^item> \<open>Anti_Replay\<close>: the replay guard and the ticketer that wraps another with it, over any sequence of clock readings.
  \<^item> \<open>Hpke_Kem\<close>, \<open>Hpke\<close>: \<open>hpke/kdf.rs\<close>, \<open>hpke/kem.rs\<close>, \<open>hpke/aead.rs\<close>, \<open>hpke/mod.rs\<close>. The traits \<open>DhKem\<close> and
    \<open>AeadSuite\<close> are records; the locales \<open>dh_kem_contract\<close> and \<open>aead_suite_contract\<close> state what the contexts rely on and
    \<open>hpke_suite\<close> joins them; they are interpreted for both KEMs, both AEADs and the four suites.
  \<^item> \<open>Hpke_Vectors\<close>: \<open>hpke/vectors.rs\<close> and the harnesses that compare the code with the vectors of RFC 9180.
  \<^item> \<open>Ech_Config\<close>: \<open>hpke/ech_config.rs\<close>, with a decoder of the documented layout as specification.
  \<^item> \<open>Roots\<close>: \<open>oxitls-webpki-roots\<close>, the root store builder, the expiry query and the LRU cache of intermediates.
  \<^item> \<open>Client_Builder\<close>: the client builders of adapter and facade, and key logging.
  \<^item> \<open>Server_Builder\<close>: the server builders of facade and adapter, with the ticketer fields as a state machine.
  \<^item> \<open>Schemes\<close>: signature schemes, algorithms and private key forms of rustls, shared by the signers.
  \<^item> \<open>Record_Layer\<close>, \<open>Quic\<close>: record protection (\<open>aead/gcm.rs\<close>, \<open>aead/chacha20.rs\<close>) and QUIC packet and header
    protection (\<open>quic.rs\<close>) of \<open>oxitls-rustcrypto-provider\<close>. \<open>Traffic_Keys\<close>: the constructors of the record ciphers and the
    buffer adapters (\<open>aead.rs\<close>); the locale \<open>cipher_factory\<close> (keys of the announced lengths give a pair that carries records) is
    interpreted for AES-GCM and ChaCha20-Poly1305 in both protocol versions.
  \<^item> \<open>Crypto_Provider\<close>: the rest of that crate: key exchange, hashes, HMAC, signing, verification and the tables of
    suites.
  \<^item> \<open>Hybrid_Kx\<close>: \<open>kx.rs\<close> of the adapter, the exchange X25519MLKEM768.
  \<^item> \<open>Pkcs11_Base\<close>, \<open>Pkcs11_Pool\<close>, \<open>Pkcs11_Signer\<close>, \<open>Pkcs11_Provider\<close>: \<open>oxitls-adapter-pkcs11\<close>. The session pool is a
    step relation over the atomic operations of its threads; the signer, the certificate resolver and the provider
    take and return the state of the token.
  \<^item> \<open>Rcgen_Der\<close>, \<open>Rcgen_Keys\<close>, \<open>Rcgen_Cert\<close>, \<open>Rcgen_Chain\<close>, \<open>Rcgen_Csr\<close>: \<open>oxitls-rcgen\<close>: encoders with reference
    decoders, key types (locale \<open>key_type\<close>, five interpretations), certificates, chains of authorities as the
    inductive relation \<open>issued\<close>, and signing requests.
  \<^item> \<open>Private_Pki\<close>: certificates of the generator behind a server builder and in front of a client builder of the facade.
  \<^item> \<open>Native_Certs\<close>: \<open>oxitls-native-certs\<close>. \<open>Http2\<close>: settings, builders and client connections of \<open>oxitls-h2\<close>.
  \<^item> \<open>H2_Keepalive\<close>: pings on an HTTP/2 connection as a step relation over the keepalive task, the callers, their polls and the peer,
    whose answers and end come at any time; all share one handle behind a lock; the wrappers of server connections, pushes and flow control.
  \<^item> \<open>Connections\<close>: the connectors, acceptors and streams of adapter (\<open>lib.rs\<close>) and facade (\<open>lib.rs\<close>, \<open>stream.rs\<close>), and a
    server that accepts one connection after the other while its rotation tasks run.
  \<^item> \<open>Ticket_Service\<close>: the trait \<open>ProducesTickets\<close> with its four implementations, key generation, clocks and the task of the aws-lc rotator. The
    record \<open>office\<close> is the specification of a ticket service; the locale \<open>guarded_ticketer\<close> extends \<open>rotating_ticketer\<close>, carries the
    simulation, and is interpreted for both ticketers.
  \<^item> \<open>Key_Log\<close>: the key log bridges of the facade and the file the bridges write, with a reader of its format.
  \<^item> \<open>Core_Conversions\<close>: texts and conversions of errors, the builder of connection information and the random generator of the core crate, and
    the error conversions of the aws-lc adapter. \<open>Aws_Lc\<close>: the provider and configurations of that adapter.
  \<^item> \<open>Ct_Logs\<close>: the table of \<open>verifier/ct_logs.rs\<close>. \<open>Cert_Compression\<close>: \<open>cert_compression.rs\<close>.

  A struct is a record with the fields of the source, an enum a datatype, a function a definition that takes the
  state and returns the result and the state after the call. Errors are values of \<open>result\<close>. Words keep the width
  of the source where arithmetic could wrap; lengths of buffers in memory are natural numbers. A lock is the flag that a
  holder panicked. Randomness and clock readings are arguments.

  \<^bold>\<open>Crates outside the repository\<close> are arguments: \<open>ext_lib\<close>, \<open>hpke_lib\<close>, \<open>aead\<close>, \<open>aws_aead\<close>, \<open>root_lib\<close>, \<open>lru_ops\<close>,
  \<open>rustls_lib\<close>, \<open>rustls_server_lib\<close>, \<open>rc_aead\<close>, \<open>cipher_crates\<close> and \<open>rustls_cipher\<close> (RustCrypto AEADs and the buffers of rustls), \<open>quic_lib\<close>,
  \<open>cryptoki\<close> (a PKCS#11 token), \<open>rcgen_lib\<close>, \<open>provider_lib\<close>, \<open>hybrid_lib\<close>, \<open>os_lib\<close>, \<open>h2_lib\<close>, \<open>h2_objects\<close>, \<open>ping_lib\<close>,
  \<open>tokio_lib\<close>, \<open>poll_lib\<close> (tokio-rustls), \<open>aws_lc_lib\<close> and \<open>zlib_lib\<close>. What a theorem needs of
  them is a named hypothesis that restates their documentation (\<open>hpke_lib_ok\<close>, \<open>aead_correct\<close>, \<open>lru_correct\<close>,
  \<open>rcgen_ok\<close>, \<open>kx_crates_ok\<close>, \<open>hybrid_crates_ok\<close>, \<open>h2_lib_ok\<close>, \<open>driver_ok\<close>, \<open>handshake_verifies\<close>,
  \<open>ping_pong_ok\<close>, \<open>webpki_follows\<close>, \<open>honest\<close>, \<open>zlib_ok\<close> and others), and the witness of the theorem
  discharges it for a concrete instance.

  \<^bold>\<open>What the theorems show.\<close>
  \<^item> Verification of servers: a good OCSP verdict needs an authentic, current response for the very certificate; a
    revoked one rejects under every policy but the disabled one; the strict SCT policy accepts exactly with enough distinct verified logs; the stacked
    verifier of the adapter accepts exactly when each configured layer does; a facade configuration enforces pins and
    transparency logs unless a documented bypass is on.
  \<^item> Wire formats: SCT lists, DER octet strings, precertificate payloads, ECHConfigList, alert and suite codes are read
    back, or are unambiguous, and lengths stay in bounds.
  \<^item> Tickets: life of a ticket over key rotations, single use within the window, the exact condition under which the
    server builder installs replay protection; a ticketer behind the guard refines a ticket office that knows no keys, under any order of
    issuing, redeeming and rotating.
  \<^item> Connections: whoever is at the other end of a connected stream passed every check of the builder, raw public keys and danger
    flags apart; what accepting
    connections does to the rotation of ticket keys.
  \<^item> Key logs: a reader of the file gets back every secret in order.
  \<^item> HPKE: sender and receiver stay in step over any sequence of messages, nonces never repeat, sequence numbers do not
    wrap, exports have the requested length, P-256 key generation returns exactly when a draw ends it, and a library that
    passes a known-answer test makes the code produce every value of the vector.
  \<^item> Trust anchors: contents of a built root store, retention of recently used intermediates, and which certificates
    of the operating system are trusted.
  \<^item> Records and packets: for every suite of the provider, keys of the announced lengths construct both ciphers, and what one
    side protects the other opens, record by record; QUIC header protection is removed
    exactly.
  \<^item> Provider: both sides of every key exchange agree, also of the hybrid one; a signature made with the chosen scheme
    verifies; the tables have the suites their names say.
  \<^item> Hardware tokens: a session is never lent to two threads, the pool is full again when all threads are done,
    signatures are the DER form of the token's, and certificates are selected by server name as documented.
  \<^item> Certificates: which chains issued by the generator validate, what a signing request keeps, and that a private authority works
    through both builders.
  \<^item> HTTP/2: which handshakes need ALPN h2, which settings reach h2, when a graceful shutdown ends, how pings share their lock, and
    that a ping dropped in flight ends all pings.
  \<^item> Across components, at the end of this theory: signatures of a hardware token under the verifiers of the provider, and
    Encrypted Client Hello from the generator of the server through the client builder and back.

  Some theorems record behaviour that differs from the comments or that cannot be meant: the SCT fallback
  (\<open>Sct.precert_failure_falls_back\<close>), replay protection lost after a rotation interval
  (\<open>Server_Builder.anti_replay_installed_iff\<close>), settings lost on the adapter path
  (\<open>Client_Builder.client_build_adapter_drops\<close>), QUIC packets that panic when they authenticate
  (\<open>Quic.quic_open_panics\<close>), short TLS 1.2 records (\<open>Record_Layer.tls12_short_records\<close>), a provider that no conforming
  token accepts (\<open>Pkcs11_Provider.provider_on_conforming_token\<close>), signature schemes that do not fit the key
  (\<open>Pkcs11_Signer.chosen_scheme_signs\<close>), repeated serial numbers (\<open>Rcgen_Csr.serial_numbers_repeat\<close>), denied roots that are
  trusted (\<open>Native_Certs.native_roots_trusted\<close>), a shutdown that waits for itself
  (\<open>Http2.graceful_shutdown_needs_peer\<close>), pings that stop after one was cancelled (\<open>H2_Keepalive.cancelled_ping_sticks\<close>), rotation tasks
  that pile up (\<open>Connections.rotation_tasks_pile_up\<close>), restrictions of the aws-lc provider that are lost
  (\<open>Aws_Lc.aws_restriction_lost\<close>) and token signatures that no peer accepts (\<open>token_signature_verifies\<close>).

  \<^bold>\<open>Termination and bounds.\<close> Every definition is total but the rejection sampling of P-256 and P-384 scalars, which loops
  until a draw ends it; it is a \<open>partial_function\<close> into \<open>option\<close>, \<open>None\<close> being the endless run. The SCT parser
  terminates by the distance to the end of the list. No fuel is used. A result is \<open>None\<close> where the code panics.

  \<^bold>\<open>Not modelled.\<close> Logging and Debug output; traits without code; accessors that only return a field and \<open>Default\<close> instances; the source files
  that no module declaration includes (\<open>error.rs\<close> of \<open>oxitls-h2\<close>, \<open>accessors.rs\<close> and \<open>pkcs12.rs\<close> of \<open>oxitls-rcgen\<close>); tests
  other than the known-answer tests, benchmarks and fuzz targets. The internals of rustls, tokio, h2 and the cryptographic crates are parameters.

  \<^bold>\<open>Plan.\<close> Every component with decisions of its own is modelled; what can follow are further properties that span components.
\<close>

section \<open>Signatures of a token under the verifiers of the provider\<close>

fun curve_mechanism :: "curve \<Rightarrow> mechanism" where
  "curve_mechanism P256 = EcdsaSha256"
| "curve_mechanism P384 = EcdsaSha384"

fun curve_bytes :: "curve \<Rightarrow> nat" where
  "curve_bytes P256 = 32"
| "curve_bytes P384 = 48"

text \<open>\<open>valid c vk digest (r, s)\<close> is the verification equation of ECDSA. The RustCrypto crates read a signature in DER exactly when it is the
  encoding of two integers in range, and check the equation; the mechanisms of PKCS#11 return the two integers of a signature over
  the hash of the message in full width.\<close>

definition ecdsa_crates_ok :: "provider_lib \<Rightarrow> (curve \<Rightarrow> bytes \<Rightarrow> bytes \<Rightarrow> nat \<times> nat \<Rightarrow> bool) \<Rightarrow> bool" where
  "ecdsa_crates_ok L valid \<longleftrightarrow>
     (\<forall>c vk der d rs. der_ecdsa der = Some rs \<and> valid c vk d rs \<longrightarrow>
        (\<exists>sg. ecdsa_sig_from_der L c der = Some sg \<and> ecdsa_verify_prehash L c vk d sg)) \<and>
     (\<forall>c der. der_ecdsa der = None \<longrightarrow> ecdsa_sig_from_der L c der = None)"

definition token_signs_ecdsa ::
    "'t cryptoki \<Rightarrow> provider_lib \<Rightarrow> (curve \<Rightarrow> bytes \<Rightarrow> bytes \<Rightarrow> nat \<times> nat \<Rightarrow> bool) \<Rightarrow> curve \<Rightarrow> object_handle \<Rightarrow> bytes \<Rightarrow> bool" where
  "token_signs_ecdsa K L valid c h vk \<longleftrightarrow>
     (\<forall>t s m raw. token_sign K t s (curve_mechanism c) h m = Ok raw \<longrightarrow>
        length raw = 2 * curve_bytes c \<and>
        valid c vk (digest_of L (curve_hash c) m) (be_decode (take (curve_bytes c) raw), be_decode (drop (curve_bytes c) raw)))"

lemma curve_scheme:
  "scheme_to_mechanism dbg (ecdsa_scheme c) = Ok (curve_mechanism c)"
  "finalize_signature (ecdsa_scheme c) raw = (if raw \<noteq> [] \<and> hd raw = 0x30 then Ok raw else raw_ecdsa_to_der raw)"
  "0 < curve_bytes c" "curve_bytes c \<le> 60"
  by (cases c; simp add: finalize_signature_def)+

lemma der_ecdsa_length: "der_ecdsa b \<noteq> None \<Longrightarrow> unat (b ! 1) = length b - 2"
  by (cases b rule: der_ecdsa.cases) (auto split: if_splits)

text \<open>C40: A signature that a pooled PKCS#11 signer makes with an ECDSA key under the scheme of its curve (P-256 or P-384) is accepted by the
  first verification algorithm that the provider maps to the scheme, under the public key of the token's key, when the raw signature of
  the token does not start with the byte 0x30. When it does, the raw signature is sent as it is, and refused
  unless its second byte happens to be its length minus two.\<close>

theorem token_signature_verifies:
  assumes "ecdsa_crates_ok L valid" "token_signs_ecdsa K L valid c h vk" "ecdsa_verifying_from_sec1 L c pk = Some vk"
    and pool: "pool_sessions pool = s # ss" "0 < pool_permits pool" and key: "find_private_key_by_label K t s label = Ok h"
    and raw: "token_sign K t s (curve_mechanism c) h m = Ok raw"
  shows "\<exists>sig va vas. fst (signer_sign K dbg (Pkcs11PooledSigner label (ecdsa_scheme c)) m pool t) = Ok sig \<and>
    map_of ALGORITHMS_mapping (ecdsa_scheme c) = Some (va # vas) \<and>
    (hd raw \<noteq> 0x30 \<longrightarrow> va_verify_signature va L pk m sig = Ok ()) \<and>
    (hd raw = 0x30 \<longrightarrow> sig = raw) \<and>
    (hd raw = 0x30 \<and> unat (raw ! 1) \<noteq> 2 * curve_bytes c - 2 \<longrightarrow> va_verify_signature va L pk m sig = Err ())"
proof -
  let ?n = "curve_bytes c"
  have len: "length raw = 2 * ?n" and valid: "valid c vk (digest_of L (curve_hash c) m) (be_decode (take ?n raw), be_decode (drop ?n raw))"
    using assms(2) raw by (auto simp: token_signs_ecdsa_def)
  have "sign_in_session K dbg t s label (ecdsa_scheme c) m = finalize_signature (ecdsa_scheme c) raw"
    using key raw by (simp add: sign_in_session_def curve_scheme sign_internal_def cryptoki_sign_raw_def result_simps)
  then have sign: "fst (signer_sign K dbg (Pkcs11PooledSigner label (ecdsa_scheme c)) m pool t) =
      rmap_err (\<lambda>e. General (pkcs_sign_error_display e)) (finalize_signature (ecdsa_scheme c) raw)"
    by (simp add: sign_via_pool_def with_session_result [OF pool])
  obtain va where va: "map_of ALGORITHMS_mapping (ecdsa_scheme c) = Some [ecdsa_verifier c (curve_hash c), va]"
    using ecdsa_mapping [of c] by blast
  obtain der where der: "raw_ecdsa_to_der raw = Ok der" "der_ecdsa der = Some (be_decode (take ?n raw), be_decode (drop ?n raw))"
    using raw_ecdsa_to_der_decodes [OF len curve_scheme(4)] by blast
  have accepted: "ecdsa_verify_signature c (curve_hash c) L pk m der = Ok ()"
    using assms(1,3) der(2) valid by (fastforce simp: ecdsa_crates_ok_def ecdsa_verify_signature_def result_simps)
  have refused: "ecdsa_verify_signature c (curve_hash c) L pk m raw = Err ()" if "unat (raw ! 1) \<noteq> 2 * ?n - 2"
  proof -
    have "der_ecdsa raw = None" using der_ecdsa_length [of raw] that len by (cases "der_ecdsa raw") simp_all
    with assms(1) show ?thesis by (simp add: ecdsa_crates_ok_def ecdsa_verify_signature_def result_simps)
  qed
  have "raw \<noteq> []" using len curve_scheme(3) [of c] by auto
  then show ?thesis
    using accepted refused sign va der(1)
    by (cases "hd raw = 0x30") (auto simp: curve_scheme(2) ecdsa_verifier_def)
qed

text \<open>A token whose signatures are \<open>b\<close> followed by ones: with 1 they are accepted, with 0x30 they are taken for DER and refused.\<close>

definition example_raw :: "byte \<Rightarrow> bytes" where
  "example_raw b = b # replicate 63 1"

lemma example_raw_bytes:
  "hd (example_raw 0x30) = 0x30" "unat (example_raw 0x30 ! 1) \<noteq> 2 * curve_bytes P256 - 2" "hd (example_raw 1) \<noteq> 0x30"
  by (simp_all add: example_raw_def)

definition example_verifying_lib :: "byte \<Rightarrow> provider_lib" where
  "example_verifying_lib b = example_provider_lib\<lparr>
     ecdsa_sig_from_der := (\<lambda>c der. map_option (\<lambda>_. der) (der_ecdsa der)), ecdsa_verifying_from_sec1 := (\<lambda>c pk. Some pk),
     ecdsa_verify_prehash := (\<lambda>c vk d sg. der_ecdsa sg = Some (be_decode (take 32 (example_raw b)), be_decode (drop 32 (example_raw b)))) \<rparr>"

lemma example_verifying_lib_ok:
  "ecdsa_crates_ok (example_verifying_lib b)
     (\<lambda>c vk d rs. rs = (be_decode (take 32 (example_raw b)), be_decode (drop 32 (example_raw b))))"
  "token_signs_ecdsa (example_token\<lparr> token_sign := \<lambda>t s mech k m. Ok (example_raw b) \<rparr>) (example_verifying_lib b)
     (\<lambda>c vk d rs. rs = (be_decode (take 32 (example_raw b)), be_decode (drop 32 (example_raw b)))) P256 1 [4]"
  "ecdsa_verifying_from_sec1 (example_verifying_lib b) P256 [4] = Some [4]"
  by (auto simp: ecdsa_crates_ok_def token_signs_ecdsa_def example_verifying_lib_def example_raw_def)

lemma example_pooled_key:
  "pool_sessions example_pool = 10 # [11]" "0 < pool_permits example_pool"
  "find_private_key_by_label (example_token\<lparr> token_sign := g \<rparr>) (0, True) 10 ''key'' = Ok 1"
  by (simp_all add: example_pool_def find_private_key_by_label_def example_token_def)

lemma example_token_signs:
  "token_sign (example_token\<lparr> token_sign := \<lambda>t s mech k m. Ok (example_raw b) \<rparr>) (0, True) 10 (curve_mechanism P256) 1 [1, 2, 3] =
     Ok (example_raw b)"
  by simp

theorem token_signature_verifies_witness:
  "(\<exists>sig va vas. fst (signer_sign (example_token\<lparr> token_sign := \<lambda>t s mech k m. Ok (example_raw 1) \<rparr>) (\<lambda>_. [])
        (Pkcs11PooledSigner ''key'' (ecdsa_scheme P256)) [1, 2, 3] example_pool (0, True)) = Ok sig \<and>
      map_of ALGORITHMS_mapping (ecdsa_scheme P256) = Some (va # vas) \<and>
      va_verify_signature va (example_verifying_lib 1) [4] [1, 2, 3] sig = Ok ()) \<and>
   (\<exists>sig va vas. fst (signer_sign (example_token\<lparr> token_sign := \<lambda>t s mech k m. Ok (example_raw 0x30) \<rparr>) (\<lambda>_. [])
        (Pkcs11PooledSigner ''key'' (ecdsa_scheme P256)) [1, 2, 3] example_pool (0, True)) = Ok sig \<and>
      map_of ALGORITHMS_mapping (ecdsa_scheme P256) = Some (va # vas) \<and> sig = example_raw 0x30 \<and>
      va_verify_signature va (example_verifying_lib 0x30) [4] [1, 2, 3] sig = Err ())"
proof (rule conjI)
  show "\<exists>sig va vas. fst (signer_sign (example_token\<lparr> token_sign := \<lambda>t s mech k m. Ok (example_raw 1) \<rparr>) (\<lambda>_. [])
        (Pkcs11PooledSigner ''key'' (ecdsa_scheme P256)) [1, 2, 3] example_pool (0, True)) = Ok sig \<and>
      map_of ALGORITHMS_mapping (ecdsa_scheme P256) = Some (va # vas) \<and>
      va_verify_signature va (example_verifying_lib 1) [4] [1, 2, 3] sig = Ok ()"
    using token_signature_verifies [where dbg = "\<lambda>_. []",
      OF example_verifying_lib_ok [of 1] example_pooled_key example_token_signs [of 1]] example_raw_bytes(3) by blast
  show "\<exists>sig va vas. fst (signer_sign (example_token\<lparr> token_sign := \<lambda>t s mech k m. Ok (example_raw 0x30) \<rparr>) (\<lambda>_. [])
        (Pkcs11PooledSigner ''key'' (ecdsa_scheme P256)) [1, 2, 3] example_pool (0, True)) = Ok sig \<and>
      map_of ALGORITHMS_mapping (ecdsa_scheme P256) = Some (va # vas) \<and> sig = example_raw 0x30 \<and>
      va_verify_signature va (example_verifying_lib 0x30) [4] [1, 2, 3] sig = Err ()"
    using token_signature_verifies [where dbg = "\<lambda>_. []",
      OF example_verifying_lib_ok [of "0x30"] example_pooled_key example_token_signs [of "0x30"]] example_raw_bytes(1,2) by blast
qed

section \<open>Encrypted Client Hello, from the generator to the client and back\<close>

text \<open>The suite of the module that the identifiers of a configuration name.\<close>

definition named_suite :: "ech_fields \<Rightarrow> (dh_kem \<times> aead_suite) option" where
  "named_suite F =
     find (\<lambda>(K, A). unat (KEM_ID K) = ef_kem_id F \<and> (1, unat (AEAD_ID A)) \<in> set (ef_cipher_suites F)) pure_hpke_suites"

lemma suite_codes [simp]:
  "KEM_ID KemX25519 = 0x0020" "KEM_ID KemP256 = 0x0010" "AEAD_ID AeadAes128Gcm = 0x0001" "AEAD_ID AeadChacha20 = 0x0003"
  by (simp_all add: KemX25519_def KemP256_def AeadAes128Gcm_def AeadChacha20_def kem_consts_defs)

lemma named_suite_code:
  assumes "(K, A) \<in> set pure_hpke_suites" "ef_kem_id F = unat (KEM_ID K)" "ef_cipher_suites F = [(1, unat (AEAD_ID A))]"
  shows "named_suite F = Some (K, A)"
proof -
  from assms(1) consider "K = KemX25519" "A = AeadAes128Gcm" | "K = KemX25519" "A = AeadChacha20"
    | "K = KemP256" "A = AeadAes128Gcm" | "K = KemP256" "A = AeadChacha20"
    unfolding pure_hpke_suites_def by auto
  then show ?thesis
    using assms(2,3) by cases (simp_all add: named_suite_def pure_hpke_suites_def)
qed

lemma generated_list:
  assumes "generate_ech_config_list parse K A L rnd cid pn mnl = Some (Ok g)" "(K, A) \<in> set pure_hpke_suites"
  shows "generate_key_pair K L rnd = Some (Ok (ech_public_key g, ech_private_key g))"
    and "parse (ech_config_list g) = Ok ()"
    and "decode_config_list (ech_config_list g) = Some \<lparr> ef_config_id = cid, ef_kem_id = unat (KEM_ID K),
             ef_public_key = ech_public_key g, ef_cipher_suites = [(1, unat (AEAD_ID A))], ef_maximum_name_length = mnl,
             ef_public_name = pn, ef_extensions = [] \<rparr>"
proof -
  obtain k a where names: "hpke_suite_names K A = Some (k, a)" "kem_code k = KEM_ID K" "aead_code a = AEAD_ID A"
    using pure_suite_codes [OF assms(2)] by blast
  from assms(1) names obtain contents where g: "generate_key_pair K L rnd = Some (Ok (ech_public_key g, ech_private_key g))"
      "parse (ech_config_list g) = Ok ()"
    and c: "encode_contents \<lparr> kem_id = KEM_ID K, kdf_id = 1, aead_id = AEAD_ID A \<rparr> cid (ech_public_key g) pn mnl = Ok contents"
    and w: "wrap_config_list contents = Ok (ech_config_list g)"
    by (auto simp: generate_ech_config_list_def result_simps Let_def split: option.splits result.splits)
  show "generate_key_pair K L rnd = Some (Ok (ech_public_key g, ech_private_key g))" "parse (ech_config_list g) = Ok ()"
    by (fact g)+
  have "length contents \<le> 65531"
    using wrap_config_list_big [of contents] w by fastforce
  then show "decode_config_list (ech_config_list g) = Some \<lparr> ef_config_id = cid, ef_kem_id = unat (KEM_ID K),
             ef_public_key = ech_public_key g, ef_cipher_suites = [(1, unat (AEAD_ID A))], ef_maximum_name_length = mnl,
             ef_public_name = pn, ef_extensions = [] \<rparr>"
    using decode_encode_contents(1) [OF c] decode_wrap [OF _ w] by simp
qed

text \<open>A builder with ECH builds a configuration that offers it over TLS 1.3 alone, unless it is routed through the
  adapter, which drops it.\<close>

lemma cb_build_ech:
  assumes "cb_build S X R pq b = Ok cfg" "cb_ech_mode b = Some mode"
    and "\<not> cb_use_adapter b \<or> cb_server_rpk b \<noteq> None \<or> cb_danger_certs b \<or> cb_danger_hostnames b"
  shows "cc_ech cfg = Some mode \<and> cc_versions cfg = [Tls13]"
proof (cases "cb_server_rpk b")
  case (Some spki)
  then obtain provider where "cb_build_rpk S b provider [Tls13] spki = Ok cfg"
    using assms(1,2) by (auto simp: cb_build_def result_simps Let_def)
  then show ?thesis
    using assms(2) by (auto simp: cb_build_rpk_def result_simps Let_def split: option.splits if_splits)
next
  case None
  show ?thesis
  proof (cases "cb_danger_certs b \<or> cb_danger_hostnames b")
    case True
    with None assms(1,2) show ?thesis
      by (auto simp: cb_build_def result_simps Let_def split: if_splits)
  next
    case False
    with None assms show ?thesis
      by (auto simp: cb_build_def result_simps Let_def split: if_splits)
  qed
qed

text \<open>C13: What \<open>generate_ech_config_list\<close> publishes for a suite of the module works end to end. The list decodes, by the
  documented layout, to the chosen id, the public name and the public key, and its identifiers name the very suite. The
  client builder takes the list (it calls the same parser of rustls as the generator), and what it builds offers ECH under it
  and TLS 1.3 alone, unless pins, CRLs or transparency logs route it through the adapter, which drops ECH. Whatever
  a client seals for the decoded key, the server that holds the generated private key opens: it sets up from the
  encapsulated key and opens in order every message the client sealed.\<close>

theorem ech_published_config_works:
  assumes suite: "(K, A) \<in> set pure_hpke_suites" and L: "hpke_lib_ok L" "draws32 rnd"
    and g: "generate_ech_config_list (\<lambda>bs. rbind (ech_config_new S bs) (\<lambda>_. Ok ())) K A L rnd cid pn mnl = Some (Ok g)"
  shows "\<exists>F conf. decode_config_list (ech_config_list g) = Some F \<and>
           ef_config_id F = cid \<and> ef_public_name F = pn \<and> ef_public_key F = ech_public_key g \<and> named_suite F = Some (K, A) \<and>
           cb_with_ech_config_list S (ech_config_list g) b = Ok (b\<lparr> cb_ech_mode := Some (EchEnable conf) \<rparr>) \<and>
           (\<forall>X R pq cfg. cb_build S X R pq (b\<lparr> cb_ech_mode := Some (EchEnable conf) \<rparr>) = Ok cfg \<longrightarrow>
              (if cb_use_adapter b \<and> cb_server_rpk b = None \<and> \<not> cb_danger_certs b \<and> \<not> cb_danger_hostnames b
               then cc_ech cfg = None
               else cc_ech cfg = Some (EchEnable conf) \<and> cc_versions cfg = [Tls13])) \<and>
           (\<forall>re info enc c. setup_sealer K A L re info (ef_public_key F) = Some (Ok (enc, c)) \<longrightarrow>
              (\<exists>d. setup_opener K A L enc info (ech_private_key g) = Ok d \<and>
                 (\<forall>ms. open_all A L d (map (\<lambda>(aad, pt, ct). (aad, ct)) (delivered ms (seal_all A L c ms))) =
                       map (\<lambda>(aad, pt, ct). Ok pt) (delivered ms (seal_all A L c ms)))))"
proof -
  note gen = generated_list [OF g suite]
  let ?F = "\<lparr> ef_config_id = cid, ef_kem_id = unat (KEM_ID K), ef_public_key = ech_public_key g,
      ef_cipher_suites = [(1, unat (AEAD_ID A))], ef_maximum_name_length = mnl, ef_public_name = pn, ef_extensions = [] \<rparr>"
  from gen(2) obtain conf where conf: "ech_config_new S (ech_config_list g) = Ok conf" by (auto simp: result_simps)
  have "named_suite ?F = Some (K, A)" by (rule named_suite_code [OF suite]) simp_all
  moreover have "cb_with_ech_config_list S (ech_config_list g) b = Ok (b\<lparr> cb_ech_mode := Some (EchEnable conf) \<rparr>)"
    by (simp add: cb_with_ech_config_list_def conf)
  moreover have "if cb_use_adapter b \<and> cb_server_rpk b = None \<and> \<not> cb_danger_certs b \<and> \<not> cb_danger_hostnames b
      then cc_ech cfg = None else cc_ech cfg = Some (EchEnable conf) \<and> cc_versions cfg = [Tls13]"
    if built: "cb_build S X R pq (b\<lparr> cb_ech_mode := Some (EchEnable conf) \<rparr>) = Ok cfg" for X R pq cfg
    using cb_build_ech [OF built] client_build_adapter_drops [OF built] by (auto simp: cb_use_adapter_def)
  moreover have "\<exists>d. setup_opener K A L enc info (ech_private_key g) = Ok d \<and>
      (\<forall>ms. open_all A L d (map (\<lambda>(aad, pt, ct). (aad, ct)) (delivered ms (seal_all A L c ms))) =
            map (\<lambda>(aad, pt, ct). Ok pt) (delivered ms (seal_all A L c ms)))"
    if "setup_sealer K A L re info (ech_public_key g) = Some (Ok (enc, c))" for re info enc c
  proof -
    note contract = pure_suites_contract [OF suite]
    from that have s: "setup_sender K A L re info (ech_public_key g) = Some (Ok (enc, c))"
      by (auto simp: setup_sealer_def result_simps)
    obtain d where "setup_receiver K A L enc info (ech_private_key g) = Ok d" "ctx_match c d"
      using hpke_suite.session_setup(1) [OF contract L gen(1) s] by blast
    then show ?thesis
      using hpke_suite.run_in_sync [OF contract L(1)] by (auto simp: setup_opener_def)
  qed
  ultimately show ?thesis using gen(3) by (intro exI [of _ ?F] exI [of _ conf]) simp
qed

definition example_ech_builder :: client_builder where
  "example_ech_builder = cb_with_webpki_roots cb_new"

lemma example_ech_generated:
  "\<exists>g. generate_ech_config_list (\<lambda>bs. rbind (ech_config_new example_rustls bs) (\<lambda>_. Ok ())) KemX25519 AeadAes128Gcm
      example_hpke_lib example_draws 7 [97] 0 = Some (Ok g) \<and> ech_public_key g = replicate 32 3 \<and> ech_private_key g = replicate 32 0"
  using generate_ech_config_list_correct [OF example_suite example_hpke_lib_ok example_generate, of "[97]" 7 0
      "\<lambda>bs. rbind (ech_config_new example_rustls bs) (\<lambda>_. Ok ())"]
  by (auto simp: example_rustls_def)

lemma example_ech_build:
  "\<exists>cfg. cb_build example_rustls lib_no_certs example_root_lib False (example_ech_builder\<lparr> cb_ech_mode := Some (EchEnable conf) \<rparr>) = Ok cfg"
  by (simp add: cb_build_def example_ech_builder_def cb_with_webpki_roots_def cb_new_def cb_has_roots_def cb_use_adapter_def
      cb_root_store_def webpki_root_certs_def plain_client_auth_def example_rustls_def example_root_lib_def Let_def)

lemma example_sealer_setup:
  "setup_sealer KemX25519 AeadAes128Gcm example_hpke_lib example_draws [1] (replicate 32 3) = Some (Ok (replicate 32 3, example_sealer))"
  by (simp add: setup_sealer_def example_setup)

lemma example_delivered:
  "delivered [([1], [2])] (seal_all AeadAes128Gcm example_hpke_lib example_sealer [([1], [2])]) = [([1], [2], [2, 8])]"
  by (simp add: sealer_seal_def checked_inc_def example_sealer_def AeadAes128Gcm_def aes128_seal_def example_hpke_lib_def Let_def)

theorem ech_published_config_works_witness:
  "\<exists>(g :: generated_ech_config) F conf cfg d.
     decode_config_list (ech_config_list g) = Some F \<and> named_suite F = Some (KemX25519, AeadAes128Gcm) \<and>
     ef_public_key F = replicate 32 3 \<and> ech_private_key g = replicate 32 0 \<and>
     cb_with_ech_config_list example_rustls (ech_config_list g) example_ech_builder =
       Ok (example_ech_builder\<lparr> cb_ech_mode := Some (EchEnable conf) \<rparr>) \<and>
     cb_build example_rustls lib_no_certs example_root_lib False (example_ech_builder\<lparr> cb_ech_mode := Some (EchEnable conf) \<rparr>) = Ok cfg \<and>
     cc_ech cfg = Some (EchEnable conf) \<and> cc_versions cfg = [Tls13] \<and>
     setup_opener KemX25519 AeadAes128Gcm example_hpke_lib (replicate 32 3) [1] (ech_private_key g) = Ok d \<and>
     open_all AeadAes128Gcm example_hpke_lib d [([1], [2, 8])] = [Ok [2]]"
proof -
  let ?L = example_hpke_lib and ?b = example_ech_builder
  obtain g where g: "generate_ech_config_list (\<lambda>bs. rbind (ech_config_new example_rustls bs) (\<lambda>_. Ok ())) KemX25519 AeadAes128Gcm
      ?L example_draws 7 [97] 0 = Some (Ok g)" and key: "ech_public_key g = replicate 32 3" "ech_private_key g = replicate 32 0"
    using example_ech_generated by blast
  have plain: "\<not> cb_use_adapter ?b"
    by (simp add: cb_use_adapter_def example_ech_builder_def cb_with_webpki_roots_def cb_new_def)
  obtain F conf where F: "decode_config_list (ech_config_list g) = Some F" "named_suite F = Some (KemX25519, AeadAes128Gcm)"
      "ef_public_key F = ech_public_key g"
      "cb_with_ech_config_list example_rustls (ech_config_list g) ?b = Ok (?b\<lparr> cb_ech_mode := Some (EchEnable conf) \<rparr>)"
    and cfg: "\<forall>X R pq cfg. cb_build example_rustls X R pq (?b\<lparr> cb_ech_mode := Some (EchEnable conf) \<rparr>) = Ok cfg \<longrightarrow>
        (if cb_use_adapter ?b \<and> cb_server_rpk ?b = None \<and> \<not> cb_danger_certs ?b \<and> \<not> cb_danger_hostnames ?b
         then cc_ech cfg = None else cc_ech cfg = Some (EchEnable conf) \<and> cc_versions cfg = [Tls13])"
    and session: "\<forall>re info enc c. setup_sealer KemX25519 AeadAes128Gcm ?L re info (ef_public_key F) = Some (Ok (enc, c)) \<longrightarrow>
        (\<exists>d. setup_opener KemX25519 AeadAes128Gcm ?L enc info (ech_private_key g) = Ok d \<and>
          (\<forall>ms. open_all AeadAes128Gcm ?L d (map (\<lambda>(aad, pt, ct). (aad, ct)) (delivered ms (seal_all AeadAes128Gcm ?L c ms))) =
             map (\<lambda>(aad, pt, ct). Ok pt) (delivered ms (seal_all AeadAes128Gcm ?L c ms))))"
    using ech_published_config_works [OF example_suite example_hpke_lib_ok example_draws32 g, of ?b]
    by (elim exE conjE) (rule that; assumption)
  have sealed: "setup_sealer KemX25519 AeadAes128Gcm ?L example_draws [1] (ef_public_key F) = Some (Ok (replicate 32 3, example_sealer))"
    unfolding F(3) key by (rule example_sealer_setup)
  obtain d where "setup_opener KemX25519 AeadAes128Gcm ?L (replicate 32 3) [1] (ech_private_key g) = Ok d"
    and run: "\<forall>ms. open_all AeadAes128Gcm ?L d (map (\<lambda>(aad, pt, ct). (aad, ct)) (delivered ms (seal_all AeadAes128Gcm ?L example_sealer ms))) =
             map (\<lambda>(aad, pt, ct). Ok pt) (delivered ms (seal_all AeadAes128Gcm ?L example_sealer ms))"
    using session [rule_format, OF sealed] by (elim exE conjE) (rule that)
  moreover have "open_all AeadAes128Gcm ?L d [([1], [2, 8])] = [Ok [2]]"
    using run [rule_format, of "[([1], [2])]"] unfolding example_delivered by simp
  moreover obtain cfg where built: "cb_build example_rustls lib_no_certs example_root_lib False (?b\<lparr> cb_ech_mode := Some (EchEnable conf) \<rparr>) = Ok cfg"
    using example_ech_build by blast
  moreover have "cc_ech cfg = Some (EchEnable conf)" "cc_versions cfg = [Tls13]"
    using cfg [rule_format, OF built] plain by simp_all
  moreover have "ef_public_key F = replicate 32 3" using F(3) key(1) by (rule trans)
  ultimately show ?thesis using F(1,2,4) key(2)
    by (intro exI [of _ g] exI [of _ F] exI [of _ conf] exI [of _ cfg] exI [of _ d] conjI)
qed

end
